(* ===== verification/Prelude.thy ===== *)
theory Prelude
  imports Main "HOL-Library.Word" "HOL-Library.Multiset"
begin

text \<open>
  What the component theories share: the values the Go code computes with (errors and
  panics, 64-bit signed time stamps, coins, slices), the result type every fallible
  function returns, Go's \<^verbatim>\<open>sort.Search\<close>, and the collections of facts the proofs draw on.
\<close>

section \<open>Collections of facts\<close>

named_theorems go_simps \<open>unfolding rules for the Go idioms: slices, results, wrap-around\<close>
named_theorems coins_simps \<open>the pointwise reading of operations on coins\<close>

section \<open>Errors, panics and results\<close>

text \<open>
  One constructor per registered error the modelled code returns (\<open>ErrModule\<close> for those with
  a codespace and code of their own); \<^verbatim>\<open>errors.New\<close> and
  \<^verbatim>\<open>fmt.Errorf\<close> values are \<open>ErrText\<close> with the fixed part of their message, and a Go
  panic (explicit, a nil dereference, an index out of range, a division by zero) is
  \<open>Panic\<close>, so that both leave a function as values of the same sum.
\<close>

datatype error =
    ErrText string
  | Panic string
  | ErrUnauthorized
  | ErrInvalidRequest
  | ErrInvalidAddress
  | ErrInvalidCoins
  | ErrUnknownAddress
  | ErrInvalidSigner
  | ErrInvalidAccount
  | ErrNotSubjectToClawback
  | ErrNotSubjectToGovClawback
  | ErrVestingLockup
  | ErrUnknownRequest
  | ErrModule string nat
  | ErrExternal string

type_synonym 'a result = "error + 'a"

definition rbind :: "'a result \<Rightarrow> ('a \<Rightarrow> 'b result) \<Rightarrow> 'b result" where
  "rbind m f = (case m of Inl e \<Rightarrow> Inl e | Inr x \<Rightarrow> f x)"

lemma rbind_simps [simp, go_simps]:
  "rbind (Inl e) f = Inl e"
  "rbind (Inr x) f = f x"
  by (simp_all add: rbind_def)

lemma rbind_Inr_iff: "rbind m f = Inr y \<longleftrightarrow> (\<exists>x. m = Inr x \<and> f x = Inr y)"
  by (cases m) auto

lemma rbind_InrE [elim]:
  assumes "rbind m f = Inr y"
  obtains x where "m = Inr x" "f x = Inr y"
  using assms by (auto simp: rbind_Inr_iff)

lemma not_isl_Inr: "\<not> isl r \<Longrightarrow> \<exists>y. r = Inr y"
  by (cases r) auto

lemma rbind_assoc: "rbind (rbind m f) g = rbind m (\<lambda>x. rbind (f x) g)"
  by (cases m) auto

text \<open>Whether a result is a panic: the one error that no caller handles.\<close>

definition is_panic :: "'a result \<Rightarrow> bool" where
  "is_panic r = (case r of Inl (Panic _) \<Rightarrow> True | _ \<Rightarrow> False)"

section \<open>Slices\<close>

definition index_slice :: "'a list \<Rightarrow> int \<Rightarrow> 'a result" where
  "index_slice xs i =
     (if 0 \<le> i \<and> i < int (length xs) then Inr (xs ! nat i)
      else Inl (Panic ''index out of range''))"

lemma index_slice_Inr [go_simps]:
  "0 \<le> i \<Longrightarrow> i < int (length xs) \<Longrightarrow> index_slice xs i = Inr (xs ! nat i)"
  by (simp add: index_slice_def)

section \<open>Strings\<close>

text \<open>White space of an ASCII string: \<^verbatim>\<open>strings.TrimSpace(s) == ""\<close> is \<open>list_all isSpace s\<close>.\<close>

definition isSpace :: "char \<Rightarrow> bool" where
  "isSpace ch \<longleftrightarrow> ch \<in> {CHR '' '', CHR 0x09, CHR 0x0A, CHR 0x0B, CHR 0x0C, CHR 0x0D}"

section \<open>64-bit signed integers\<close>

text \<open>
  Go's \<^verbatim>\<open>int64\<close> is an \<open>int\<close> that every arithmetic operation wraps into
  \<open>[-2^63, 2^63)\<close>; \<open>i64\<close> is that wrap-around.
\<close>

definition i64 :: "int \<Rightarrow> int" where
  "i64 x = (x + 2 ^ 63) mod 2 ^ 64 - 2 ^ 63"

definition in_i64 :: "int \<Rightarrow> bool" where
  "in_i64 x \<longleftrightarrow> - (2 ^ 63) \<le> x \<and> x < 2 ^ 63"

lemma i64_id [go_simps]: "in_i64 x \<Longrightarrow> i64 x = x"
  unfolding i64_def in_i64_def by simp

lemma in_i64_i64: "in_i64 (i64 x)"
  unfolding i64_def in_i64_def by simp

lemma in_i64_between: "in_i64 a \<Longrightarrow> in_i64 b \<Longrightarrow> a \<le> x \<Longrightarrow> x \<le> b \<Longrightarrow> in_i64 x"
  unfolding in_i64_def by linarith

section \<open>Binary search: \<^verbatim>\<open>sort.Search\<close>\<close>

text \<open>
  The loop of Go's \<^verbatim>\<open>sort.Search(n, f)\<close>: halve \<open>[i, j)\<close> until it is empty.
  For a predicate that stays true once true it returns the first index where it holds,
  and \<open>n\<close> if there is none.
\<close>

function search_loop :: "(nat \<Rightarrow> bool) \<Rightarrow> nat \<Rightarrow> nat \<Rightarrow> nat" where
  "search_loop f i j =
     (if i < j
      then let h = (i + j) div 2
           in if \<not> f h then search_loop f (h + 1) j else search_loop f i h
      else i)"
  by pat_completeness auto
termination
  by (relation "measure (\<lambda>(f, i, j). j - i)") auto

declare search_loop.simps [simp del]

definition sort_Search :: "nat \<Rightarrow> (nat \<Rightarrow> bool) \<Rightarrow> nat" where
  "sort_Search n f = search_loop f 0 n"

definition stays_true :: "nat \<Rightarrow> (nat \<Rightarrow> bool) \<Rightarrow> bool" where
  "stays_true n f \<longleftrightarrow> (\<forall>a b. a \<le> b \<longrightarrow> b < n \<longrightarrow> f a \<longrightarrow> f b)"

definition first_true :: "nat \<Rightarrow> (nat \<Rightarrow> bool) \<Rightarrow> nat \<Rightarrow> bool" where
  "first_true n f r \<longleftrightarrow> r \<le> n \<and> (\<forall>k < r. \<not> f k) \<and> (\<forall>k. r \<le> k \<longrightarrow> k < n \<longrightarrow> f k)"

lemma search_loop_correct:
  assumes "stays_true n f" "i \<le> j" "j \<le> n" "\<forall>k < i. \<not> f k" "\<forall>k. j \<le> k \<longrightarrow> k < n \<longrightarrow> f k"
  shows "first_true n f (search_loop f i j)"
  using assms
proof (induction f i j rule: search_loop.induct)
  case (1 f i j)
  let ?h = "(i + j) div 2"
  show ?case
  proof (cases "i < j")
    case False
    then have "search_loop f i j = i" by (simp add: search_loop.simps [of f i j])
    with False "1.prems" show ?thesis by (simp add: first_true_def)
  next
    case True
    then have h: "i \<le> ?h" "?h < j" by auto
    show ?thesis
    proof (cases "f ?h")
      case f: True
      have "\<forall>k. ?h \<le> k \<longrightarrow> k < n \<longrightarrow> f k"
        using f "1.prems"(1) unfolding stays_true_def by blast
      then have "first_true n f (search_loop f i ?h)"
        using "1.IH"(2) [OF True refl] "1.prems"(1,3,4) f h by (metis less_imp_le order_trans)
      then show ?thesis
        using True f by (simp add: search_loop.simps [of f i j] Let_def)
    next
      case f: False
      have "\<forall>k < ?h + 1. \<not> f k"
      proof (intro allI impI)
        fix k assume "k < ?h + 1"
        then have "k \<le> ?h" "?h < n" using h "1.prems"(3) by auto
        then show "\<not> f k" using f "1.prems"(1) unfolding stays_true_def by blast
      qed
      then have "first_true n f (search_loop f (?h + 1) j)"
        using "1.IH"(1) [OF True refl f] "1.prems"(1,3,5) h by simp
      then show ?thesis
        using True f by (simp add: search_loop.simps [of f i j] Let_def)
    qed
  qed
qed

lemma sort_Search_correct: "stays_true n f \<Longrightarrow> first_true n f (sort_Search n f)"
  using search_loop_correct [of n f 0 n] by (simp add: sort_Search_def)

lemma first_true_unique: "first_true n f r \<Longrightarrow> first_true n f r' \<Longrightarrow> r = r'"
  unfolding first_true_def by (metis linorder_neqE_nat order_refl order_less_le_trans)

end
