(* ===== verification/AccessList.thy ===== *)
theory AccessList
  imports Prelude
begin

text \<open>
  The EIP-2929/2930 access list of \<^verbatim>\<open>x/evm/statedb/access_list.go\<close>: a map from addresses
  to an index into a slice of slot sets, with \<open>-1\<close> for an address that has no slot yet.
  The journal undoes additions in the reverse order, and the theory shows that on a
  well-formed list each deletion restores exactly the list before its addition.
\<close>

section \<open>The access list and its operations\<close>

text \<open>
  \<^verbatim>\<open>common.Address\<close> is 20 bytes and \<^verbatim>\<open>common.Hash\<close> 32; both are compared as big-endian
  byte strings, which is the unsigned order of the words.
\<close>

type_synonym addr = "160 word"
type_synonym hash = "256 word"

record accessList =
  addresses :: "addr \<rightharpoonup> int"
  slots :: "hash set list"

definition newAccessList :: accessList where
  "newAccessList = \<lparr>addresses = Map.empty, slots = []\<rparr>"

definition ContainsAddress :: "accessList \<Rightarrow> addr \<Rightarrow> bool" where
  "ContainsAddress al address = (addresses al address \<noteq> None)"

definition Contains :: "accessList \<Rightarrow> addr \<Rightarrow> hash \<Rightarrow> (bool \<times> bool) result" where
  "Contains al address slot =
     (case addresses al address of
        None \<Rightarrow> Inr (False, False)
      | Some idx \<Rightarrow>
          if idx = -1 then Inr (True, False)
          else rbind (index_slice (slots al) idx) (\<lambda>slotmap. Inr (True, slot \<in> slotmap)))"

definition AddAddress :: "accessList \<Rightarrow> addr \<Rightarrow> accessList \<times> bool" where
  "AddAddress al address =
     (case addresses al address of
        Some _ \<Rightarrow> (al, False)
      | None \<Rightarrow> (al\<lparr>addresses := (addresses al)(address \<mapsto> -1)\<rparr>, True))"

definition AddSlot :: "accessList \<Rightarrow> addr \<Rightarrow> hash \<Rightarrow> (accessList \<times> bool \<times> bool) result" where
  "AddSlot al address slot =
     (let addrPresent = (addresses al address \<noteq> None);
          idx = (case addresses al address of Some i \<Rightarrow> i | None \<Rightarrow> 0)
      in if \<not> addrPresent \<or> idx = -1
         then Inr (al\<lparr>addresses := (addresses al)(address \<mapsto> int (length (slots al))),
                      slots := slots al @ [{slot}]\<rparr>, \<not> addrPresent, True)
         else rbind (index_slice (slots al) idx) (\<lambda>slotmap.
                if slot \<notin> slotmap
                then Inr (al\<lparr>slots := (slots al)[nat idx := insert slot slotmap]\<rparr>, False, True)
                else Inr (al, False, False)))"

definition DeleteSlot :: "accessList \<Rightarrow> addr \<Rightarrow> hash \<Rightarrow> accessList result" where
  "DeleteSlot al address slot =
     (case addresses al address of
        None \<Rightarrow> Inl (Panic ''reverting slot change, address not present in list'')
      | Some idx \<Rightarrow>
          rbind (index_slice (slots al) idx) (\<lambda>slotmap.
            let slotmap' = slotmap - {slot} in
            if slotmap' = {}
            then Inr (al\<lparr>slots := take (nat idx) (slots al),
                         addresses := (addresses al)(address \<mapsto> -1)\<rparr>)
            else Inr (al\<lparr>slots := (slots al)[nat idx := slotmap']\<rparr>)))"

definition DeleteAddress :: "accessList \<Rightarrow> addr \<Rightarrow> accessList" where
  "DeleteAddress al address = al\<lparr>addresses := (addresses al)(address := None)\<rparr>"

lemmas access_list_defs = newAccessList_def ContainsAddress_def Contains_def AddAddress_def
  AddSlot_def DeleteSlot_def DeleteAddress_def

section \<open>Well-formed access lists\<close>

text \<open>
  Every index is \<open>-1\<close> or a position of the slice, no two addresses share a position,
  and no slot set of the slice is empty.
\<close>

definition al_wf :: "accessList \<Rightarrow> bool" where
  "al_wf al \<longleftrightarrow>
     (\<forall>a i. addresses al a = Some i \<longrightarrow> i = -1 \<or> (0 \<le> i \<and> i < int (length (slots al))))
   \<and> (\<forall>a b i. addresses al a = Some i \<longrightarrow> addresses al b = Some i \<longrightarrow> i \<noteq> -1 \<longrightarrow> a = b)
   \<and> (\<forall>S \<in> set (slots al). S \<noteq> {})"

lemma al_wfD:
  assumes "al_wf al"
  shows "addresses al a = Some i \<Longrightarrow> i \<noteq> -1 \<Longrightarrow> 0 \<le> i"
    and "addresses al a = Some i \<Longrightarrow> i < int (length (slots al))"
    and "addresses al a = Some i \<Longrightarrow> addresses al b = Some i \<Longrightarrow> i \<noteq> -1 \<Longrightarrow> a = b"
    and "S \<in> set (slots al) \<Longrightarrow> S \<noteq> {}"
  using assms unfolding al_wf_def by fastforce+

lemma al_wf_new [simp]: "al_wf newAccessList"
  by (simp add: al_wf_def newAccessList_def)

lemma AddAddress_wf: "al_wf al \<Longrightarrow> al_wf (fst (AddAddress al a))"
  by (fastforce simp: al_wf_def AddAddress_def split: option.splits if_splits)

lemma AddSlot_cases [consumes 1, case_names fresh known present]:
  assumes "al_wf al"
  obtains
    (fresh) "addresses al a = None \<or> addresses al a = Some (-1)"
      "AddSlot al a s = Inr (al\<lparr>addresses := (addresses al)(a \<mapsto> int (length (slots al))),
                                slots := slots al @ [{s}]\<rparr>, addresses al a = None, True)"
  | (known) i S where "addresses al a = Some i" "0 \<le> i" "i < int (length (slots al))"
      "S = slots al ! nat i" "S \<noteq> {}" "s \<notin> S"
      "AddSlot al a s = Inr (al\<lparr>slots := (slots al)[nat i := insert s S]\<rparr>, False, True)"
  | (present) i where "addresses al a = Some i" "0 \<le> i" "i < int (length (slots al))"
      "s \<in> slots al ! nat i" "AddSlot al a s = Inr (al, False, False)"
proof (cases "addresses al a = None \<or> addresses al a = Some (-1)")
  case True
  then show ?thesis by (intro fresh) (auto simp: AddSlot_def Let_def)
next
  case False
  then obtain i where i: "addresses al a = Some i" "i \<noteq> -1" by auto
  then have r: "0 \<le> i" "i < int (length (slots al))"
    using al_wfD(1,2) [OF assms] by blast+
  then have "slots al ! nat i \<in> set (slots al)" by (simp add: nat_less_iff)
  then have "slots al ! nat i \<noteq> {}" using al_wfD(4) [OF assms] by blast
  then show ?thesis
    using i r known [of i "slots al ! nat i"] present [of i]
    by (cases "s \<in> slots al ! nat i") (auto simp: AddSlot_def index_slice_def Let_def)
qed

lemma AddSlot_wf:
  assumes wf: "al_wf al" and add: "AddSlot al a s = Inr (al', ac, sc)"
  shows "al_wf al'"
  using wf
proof (cases rule: AddSlot_cases [where a = a and s = s])
  case fresh
  with add have al': "al' = al\<lparr>addresses := (addresses al)(a \<mapsto> int (length (slots al))),
                          slots := slots al @ [{s}]\<rparr>" by simp
  have lt: "i < int (length (slots al))" if "addresses al b = Some i" for b i
    using al_wfD(2) [OF wf that] .
  have "i = -1 \<or> 0 \<le> i \<and> i < int (length (slots al'))" if "addresses al' b = Some i" for b i
    using that al_wfD(1) [OF wf, of b i] lt [of b i] by (auto simp: al' split: if_splits)
  moreover have "b = b'"
    if "addresses al' b = Some i" "addresses al' b' = Some i" "i \<noteq> -1" for b b' i
    using that al_wfD(3) [OF wf, of b i b'] lt [of b i] lt [of b' i]
    by (auto simp: al' split: if_splits)
  moreover have "S \<noteq> {}" if "S \<in> set (slots al')" for S
    using that al_wfD(4) [OF wf] by (auto simp: al')
  ultimately show ?thesis unfolding al_wf_def by blast
next
  case (known i S)
  with add have "al' = al\<lparr>slots := (slots al)[nat i := insert s S]\<rparr>" by simp
  with wf show ?thesis
    unfolding al_wf_def by (auto dest!: set_update_subset_insert [THEN subsetD])
next
  case (present i)
  with add wf show ?thesis by simp
qed

lemma DeleteAddress_wf: "al_wf al \<Longrightarrow> al_wf (DeleteAddress al a)"
  unfolding al_wf_def DeleteAddress_def by auto

section \<open>Deletions undo additions\<close>

lemma DeleteAddress_AddAddress:
  "AddAddress al a = (al', True) \<Longrightarrow> DeleteAddress al' a = al"
  by (auto simp: AddAddress_def DeleteAddress_def fun_upd_idem split: option.splits)

text \<open>
  Undoing what \<^const>\<open>AddSlot\<close> reported: the slot first, then the address if the call
  added it, in the order the journal replays its two entries.
\<close>

definition undo_AddSlot :: "accessList \<Rightarrow> addr \<Rightarrow> hash \<Rightarrow> bool \<Rightarrow> bool \<Rightarrow> accessList result" where
  "undo_AddSlot al a s addrChange slotChange =
     rbind (if slotChange then DeleteSlot al a s else Inr al)
       (\<lambda>al'. Inr (if addrChange then DeleteAddress al' a else al'))"

lemma DeleteSlot_fresh:
  "DeleteSlot (al\<lparr>addresses := (addresses al)(a \<mapsto> int (length (slots al))),
                  slots := slots al @ [{s}]\<rparr>) a s
   = Inr (al\<lparr>addresses := (addresses al)(a \<mapsto> -1)\<rparr>)"
  by (simp add: DeleteSlot_def index_slice_def)

lemma DeleteSlot_known:
  assumes "addresses al a = Some i" "0 \<le> i" "i < int (length (slots al))"
    and "S = slots al ! nat i" "S \<noteq> {}" "s \<notin> S"
  shows "DeleteSlot (al\<lparr>slots := (slots al)[nat i := insert s S]\<rparr>) a s = Inr al"
  using assms by (auto simp: DeleteSlot_def index_slice_def nat_less_iff list_update_same_conv)

lemma undo_AddSlot_AddSlot:
  assumes wf: "al_wf al" and add: "AddSlot al a s = Inr (al', ac, sc)"
  shows "undo_AddSlot al' a s ac sc = Inr al"
  using wf
proof (cases rule: AddSlot_cases [where a = a and s = s])
  case fresh
  with add show ?thesis
    by (auto simp: undo_AddSlot_def DeleteSlot_fresh DeleteAddress_def fun_upd_idem)
next
  case (known i S)
  with add have "al' = al\<lparr>slots := (slots al)[nat i := insert s S]\<rparr>" "ac = False" "sc = True"
    by simp_all
  then show ?thesis
    using DeleteSlot_known [OF known(1-6)] by (simp add: undo_AddSlot_def)
next
  case (present i)
  with add show ?thesis by (simp add: undo_AddSlot_def)
qed

lemma AddSlot_total:
  assumes "al_wf al" shows "\<exists>r. AddSlot al a s = Inr r"
  using assms by (cases rule: AddSlot_cases [where a = a and s = s]) auto

section \<open>The list as a set of addresses and a set of pairs\<close>

text \<open>What the EVM can observe of the list: which addresses and which slots are warm.\<close>

definition al_pairs :: "accessList \<Rightarrow> (addr \<times> hash) set" where
  "al_pairs al = {(a, s). \<exists>i. addresses al a = Some i \<and> i \<noteq> -1 \<and> s \<in> slots al ! nat i}"

lemma al_pairs_iff:
  "(b, t) \<in> al_pairs al \<longleftrightarrow>
     (case addresses al b of None \<Rightarrow> False | Some j \<Rightarrow> j \<noteq> -1 \<and> t \<in> slots al ! nat j)"
  by (auto simp: al_pairs_def split: option.splits)

lemma Contains_iff:
  assumes "al_wf al"
  shows "Contains al a s = Inr (a \<in> dom (addresses al), (a, s) \<in> al_pairs al)"
  using al_wfD(1,2) [OF assms]
  by (auto simp: Contains_def al_pairs_def index_slice_def split: option.splits)

lemma al_pairs_AddAddress: "al_pairs (fst (AddAddress al a)) = al_pairs al"
  by (auto simp: al_pairs_def AddAddress_def split: option.splits if_splits)

lemma AddSlot_dom:
  assumes wf: "al_wf al" and add: "AddSlot al a s = Inr (al', ac, sc)"
  shows "dom (addresses al') = insert a (dom (addresses al))"
  using wf by (cases rule: AddSlot_cases [where a = a and s = s]) (use add in auto)

lemma AddSlot_pairs:
  assumes wf: "al_wf al" and add: "AddSlot al a s = Inr (al', ac, sc)"
  shows "al_pairs al' = insert (a, s) (al_pairs al)"
  using wf
proof (cases rule: AddSlot_cases [where a = a and s = s])
  case fresh
  then have al': "al' = al\<lparr>addresses := (addresses al)(a \<mapsto> int (length (slots al))),
                           slots := slots al @ [{s}]\<rparr>" using add by simp
  have "nat i < length (slots al)" if "addresses al b = Some i" "i \<noteq> -1" for b i
    using al_wfD(1,2) [OF wf] that by (simp add: nat_less_iff)
  then show ?thesis
    using fresh(1) by (auto simp: al' al_pairs_def nth_append split: if_splits)
next
  case (known i S)
  then have al': "al' = al\<lparr>slots := (slots al)[nat i := insert s S]\<rparr>" using add by simp
  have ne: "nat j \<noteq> nat i" if "b \<noteq> a" "addresses al b = Some j" "j \<noteq> -1" for b j
    using al_wfD(1) [OF wf that(2,3)] al_wfD(3) [OF wf that(2), of a] known(1,2) that by (auto simp: nat_eq_iff2)
  have "(b, t) \<in> al_pairs al' \<longleftrightarrow> (b, t) = (a, s) \<or> (b, t) \<in> al_pairs al" for b t
  proof (cases "b = a")
    case True
    with known(1-4) show ?thesis by (auto simp: al' al_pairs_iff nat_less_iff)
  next
    case False
    with ne [OF False] show ?thesis by (auto simp: al' al_pairs_iff split: option.splits)
  qed
  then show ?thesis by auto
next
  case (present i)
  with add show ?thesis by (auto simp: al_pairs_def)
qed

end
