(* ===== verification/StateDB.thy ===== *)
theory StateDB
  imports AccessList
begin

text \<open>
  The EVM's view of the chain state, \<^verbatim>\<open>x/evm/statedb\<close>: cached account objects
  (\<^verbatim>\<open>state_object.go\<close>), the undo journal (\<^verbatim>\<open>journal.go\<close>) and the \<^verbatim>\<open>StateDB\<close> itself
  (\<^verbatim>\<open>statedb.go\<close>). A pointer to a live object is the object stored under its address, so a
  method that writes through the pointer returns the database with that object replaced.
  The keeper behind the database is the interface \<^verbatim>\<open>statedb.Keeper\<close> of
  \<^verbatim>\<open>interfaces.go\<close>, a record of functions over the state \<open>'k\<close> of the store, and
  \<^verbatim>\<open>crypto.Keccak256\<close> of go-ethereum is the argument \<open>kec\<close>.
\<close>

section \<open>Accounts and state objects\<close>

type_synonym byte = "8 word"
type_synonym u64 = "64 word"

record Account =
  Nonce :: u64
  Balance :: int
  CodeHash :: hash

text \<open>
  \<^verbatim>\<open>Account\<close> values that reach \<^verbatim>\<open>newObject\<close> may still hold a nil balance or code hash;
  \<^verbatim>\<open>newObject\<close> fills them in, and after it neither is nil.
\<close>

record nilableAccount =
  rawNonce :: u64
  rawBalance :: "int option"
  rawCodeHash :: "hash option"

definition zeroAccount :: nilableAccount where
  "zeroAccount = \<lparr>rawNonce = 0, rawBalance = None, rawCodeHash = None\<rparr>"

type_synonym Storage = "hash \<rightharpoonup> hash"

record stateObject =
  account :: Account
  code :: "byte list option"
  originStorage :: Storage
  dirtyStorage :: Storage
  address :: addr
  dirtyCode :: bool
  suicided :: bool

definition emptyCodeHash :: "(byte list \<Rightarrow> hash) \<Rightarrow> hash" where
  "emptyCodeHash kec = kec []"

definition NewEmptyAccount :: "(byte list \<Rightarrow> hash) \<Rightarrow> Account" where
  "NewEmptyAccount kec = \<lparr>Nonce = 0, Balance = 0, CodeHash = emptyCodeHash kec\<rparr>"

definition IsContract :: "(byte list \<Rightarrow> hash) \<Rightarrow> Account \<Rightarrow> bool" where
  "IsContract kec acct = (CodeHash acct \<noteq> emptyCodeHash kec)"

definition SortedKeys :: "Storage \<Rightarrow> hash list" where
  "SortedKeys s = sorted_list_of_set (dom s)"

definition newObject :: "(byte list \<Rightarrow> hash) \<Rightarrow> addr \<Rightarrow> nilableAccount \<Rightarrow> stateObject" where
  "newObject kec a acct =
     \<lparr>account = \<lparr>Nonce = rawNonce acct,
                 Balance = (case rawBalance acct of None \<Rightarrow> 0 | Some b \<Rightarrow> b),
                 CodeHash = (case rawCodeHash acct of None \<Rightarrow> emptyCodeHash kec | Some h \<Rightarrow> h)\<rparr>,
      code = None, originStorage = Map.empty, dirtyStorage = Map.empty,
      address = a, dirtyCode = False, suicided = False\<rparr>"

definition so_empty :: "(byte list \<Rightarrow> hash) \<Rightarrow> stateObject \<Rightarrow> bool" where
  "so_empty kec so =
     (Nonce (account so) = 0 \<and> Balance (account so) = 0
      \<and> CodeHash (account so) = emptyCodeHash kec)"

definition markSuicided :: "stateObject \<Rightarrow> stateObject" where
  "markSuicided so = so\<lparr>suicided := True\<rparr>"

definition setBalance :: "stateObject \<Rightarrow> int \<Rightarrow> stateObject" where
  "setBalance so amount = so\<lparr>account := (account so)\<lparr>Balance := amount\<rparr>\<rparr>"

definition setNonce :: "stateObject \<Rightarrow> u64 \<Rightarrow> stateObject" where
  "setNonce so nonce = so\<lparr>account := (account so)\<lparr>Nonce := nonce\<rparr>\<rparr>"

definition setCode :: "stateObject \<Rightarrow> hash \<Rightarrow> byte list option \<Rightarrow> stateObject" where
  "setCode so codeHash c =
     so\<lparr>code := c, account := (account so)\<lparr>CodeHash := codeHash\<rparr>, dirtyCode := True\<rparr>"

definition setState :: "stateObject \<Rightarrow> hash \<Rightarrow> hash \<Rightarrow> stateObject" where
  "setState so key value = so\<lparr>dirtyStorage := (dirtyStorage so)(key \<mapsto> value)\<rparr>"

lemmas so_setter_defs = markSuicided_def setBalance_def setNonce_def setCode_def setState_def

section \<open>The journal\<close>

datatype JournalEntry =
    createObjectChange addr
  | resetObjectChange stateObject
  | suicideChange addr bool int
  | balanceChange addr int
  | nonceChange addr u64
  | storageChange addr hash hash
  | codeChange addr "byte list option" hash
  | refundChange u64
  | addLogChange
  | accessListAddAccountChange addr
  | accessListAddSlotChange addr hash

fun Dirtied :: "JournalEntry \<Rightarrow> addr option" where
  "Dirtied (createObjectChange a) = Some a"
| "Dirtied (resetObjectChange prev) = None"
| "Dirtied (suicideChange a p b) = Some a"
| "Dirtied (balanceChange a b) = Some a"
| "Dirtied (nonceChange a n) = Some a"
| "Dirtied (storageChange a k v) = Some a"
| "Dirtied (codeChange a c h) = Some a"
| "Dirtied (refundChange r) = None"
| "Dirtied addLogChange = None"
| "Dirtied (accessListAddAccountChange a) = None"
| "Dirtied (accessListAddSlotChange a s) = None"

record journal =
  entries :: "JournalEntry list"
  dirties :: "addr \<rightharpoonup> int"

definition newJournal :: journal where
  "newJournal = \<lparr>entries = [], dirties = Map.empty\<rparr>"

definition sortedDirties :: "journal \<Rightarrow> addr list" where
  "sortedDirties j = sorted_list_of_set (dom (dirties j))"

text \<open>\<^verbatim>\<open>j.dirties[*addr]++\<close> and \<^verbatim>\<open>--\<close> read a missing key as 0.\<close>

definition inc_dirty :: "JournalEntry \<Rightarrow> (addr \<rightharpoonup> int) \<Rightarrow> (addr \<rightharpoonup> int)" where
  "inc_dirty e d =
     (case Dirtied e of
        None \<Rightarrow> d
      | Some a \<Rightarrow> d(a \<mapsto> (case d a of None \<Rightarrow> 0 | Some n \<Rightarrow> n) + 1))"

definition dec_dirty :: "JournalEntry \<Rightarrow> (addr \<rightharpoonup> int) \<Rightarrow> (addr \<rightharpoonup> int)" where
  "dec_dirty e d =
     (case Dirtied e of
        None \<Rightarrow> d
      | Some a \<Rightarrow>
          let n = (case d a of None \<Rightarrow> 0 | Some n \<Rightarrow> n) - 1
          in if n = 0 then d(a := None) else d(a \<mapsto> n))"

definition journal_append :: "journal \<Rightarrow> JournalEntry \<Rightarrow> journal" where
  "journal_append j entry =
     \<lparr>entries = entries j @ [entry], dirties = inc_dirty entry (dirties j)\<rparr>"

definition journal_length :: "journal \<Rightarrow> nat" where
  "journal_length j = length (entries j)"

section \<open>The database\<close>

text \<open>\<^verbatim>\<open>statedb.Keeper\<close>; the value given to \<open>kSetState\<close> is \<open>None\<close> for an empty slice.\<close>

record 'k Keeper =
  kGetAccount :: "'k \<Rightarrow> addr \<Rightarrow> nilableAccount option"
  kGetState :: "'k \<Rightarrow> addr \<Rightarrow> hash \<Rightarrow> hash"
  kGetCode :: "'k \<Rightarrow> hash \<Rightarrow> byte list option"
  kStorage :: "'k \<Rightarrow> addr \<Rightarrow> (hash \<times> hash) list"
  kSetAccount :: "'k \<Rightarrow> addr \<Rightarrow> Account \<Rightarrow> 'k result"
  kSetState :: "'k \<Rightarrow> addr \<Rightarrow> hash \<Rightarrow> hash option \<Rightarrow> 'k"
  kSetCode :: "'k \<Rightarrow> hash \<Rightarrow> byte list \<Rightarrow> 'k"
  kDeleteAccount :: "'k \<Rightarrow> addr \<Rightarrow> 'k result"

record TxConfig =
  BlockHash :: hash
  TxHash :: hash
  TxIndex :: u64
  LogIndex :: u64

definition NewTxConfig :: "hash \<Rightarrow> hash \<Rightarrow> u64 \<Rightarrow> u64 \<Rightarrow> TxConfig" where
  "NewTxConfig bhash thash txIndex logIndex =
     \<lparr>BlockHash = bhash, TxHash = thash, TxIndex = txIndex, LogIndex = logIndex\<rparr>"

definition NewEmptyTxConfig :: "hash \<Rightarrow> TxConfig" where
  "NewEmptyTxConfig bhash = \<lparr>BlockHash = bhash, TxHash = 0, TxIndex = 0, LogIndex = 0\<rparr>"

text \<open>\<^verbatim>\<open>ethtypes.Log\<close>, the fields the database writes and the payload it leaves alone.\<close>

record Log =
  logAddress :: addr
  logTopics :: "hash list"
  logData :: "byte list"
  logTxHash :: hash
  logBlockHash :: hash
  logTxIndex :: u64
  logIndex :: u64

record revision =
  rev_id :: int
  journalIndex :: nat

record 'k StateDB =
  keeper :: "'k Keeper"
  ctx :: 'k
  sjournal :: journal
  validRevisions :: "revision list"
  nextRevisionID :: int
  stateObjects :: "addr \<rightharpoonup> stateObject"
  txConfig :: TxConfig
  refund :: u64
  logs :: "Log list"
  accessL :: accessList

definition NewStateDB :: "'k \<Rightarrow> 'k Keeper \<Rightarrow> TxConfig \<Rightarrow> 'k StateDB" where
  "NewStateDB c k cfg =
     \<lparr>keeper = k, ctx = c, sjournal = newJournal, validRevisions = [], nextRevisionID = 0,
      stateObjects = Map.empty, txConfig = cfg, refund = 0, logs = [],
      accessL = newAccessList\<rparr>"

definition setStateObject :: "'k StateDB \<Rightarrow> stateObject \<Rightarrow> 'k StateDB" where
  "setStateObject s object = s\<lparr>stateObjects := (stateObjects s)(address object \<mapsto> object)\<rparr>"

text \<open>\<^verbatim>\<open>s.journal.append(e)\<close>.\<close>

definition appendJ :: "'k StateDB \<Rightarrow> JournalEntry \<Rightarrow> 'k StateDB" where
  "appendJ s e = s\<lparr>sjournal := journal_append (sjournal s) e\<rparr>"

definition getStateObject ::
  "(byte list \<Rightarrow> hash) \<Rightarrow> 'k StateDB \<Rightarrow> addr \<Rightarrow> 'k StateDB \<times> stateObject option" where
  "getStateObject kec s a =
     (case stateObjects s a of
        Some obj \<Rightarrow> (s, Some obj)
      | None \<Rightarrow>
          (case kGetAccount (keeper s) (ctx s) a of
             None \<Rightarrow> (s, None)
           | Some acct \<Rightarrow>
               let obj = newObject kec a acct in (setStateObject s obj, Some obj)))"

definition createObject ::
  "(byte list \<Rightarrow> hash) \<Rightarrow> 'k StateDB \<Rightarrow> addr \<Rightarrow> 'k StateDB \<times> stateObject \<times> stateObject option" where
  "createObject kec s a =
     (let (s1, prev) = getStateObject kec s a;
          newobj = newObject kec a zeroAccount;
          s2 = (case prev of
                  None \<Rightarrow> appendJ s1 (createObjectChange a)
                | Some p \<Rightarrow> appendJ s1 (resetObjectChange p))
      in (setStateObject s2 newobj, newobj, prev))"

definition getOrNewStateObject ::
  "(byte list \<Rightarrow> hash) \<Rightarrow> 'k StateDB \<Rightarrow> addr \<Rightarrow> 'k StateDB \<times> stateObject" where
  "getOrNewStateObject kec s a =
     (case getStateObject kec s a of
        (s1, Some obj) \<Rightarrow> (s1, obj)
      | (s1, None) \<Rightarrow> (let (s2, newobj, _) = createObject kec s1 a in (s2, newobj)))"

section \<open>Methods of state objects\<close>

definition so_GetCommittedState ::
  "'k StateDB \<Rightarrow> stateObject \<Rightarrow> hash \<Rightarrow> stateObject \<times> hash" where
  "so_GetCommittedState db so key =
     (case originStorage so key of
        Some value \<Rightarrow> (so, value)
      | None \<Rightarrow>
          let value = kGetState (keeper db) (ctx db) (address so) key
          in (so\<lparr>originStorage := (originStorage so)(key \<mapsto> value)\<rparr>, value))"

definition so_GetState :: "'k StateDB \<Rightarrow> stateObject \<Rightarrow> hash \<Rightarrow> stateObject \<times> hash" where
  "so_GetState db so key =
     (case dirtyStorage so key of
        Some value \<Rightarrow> (so, value)
      | None \<Rightarrow> so_GetCommittedState db so key)"

definition so_SetState :: "'k StateDB \<Rightarrow> stateObject \<Rightarrow> hash \<Rightarrow> hash \<Rightarrow> 'k StateDB" where
  "so_SetState db so key value =
     (let (so1, prev) = so_GetState db so key
      in if prev = value then setStateObject db so1
         else setStateObject (appendJ db (storageChange (address so) key prev))
                (setState so1 key value))"

definition so_Code ::
  "(byte list \<Rightarrow> hash) \<Rightarrow> 'k StateDB \<Rightarrow> stateObject \<Rightarrow> stateObject \<times> byte list option" where
  "so_Code kec db so =
     (case code so of
        Some c \<Rightarrow> (so, Some c)
      | None \<Rightarrow>
          if CodeHash (account so) = emptyCodeHash kec then (so, None)
          else let c = kGetCode (keeper db) (ctx db) (CodeHash (account so))
               in (so\<lparr>code := c\<rparr>, c))"

definition so_CodeSize ::
  "(byte list \<Rightarrow> hash) \<Rightarrow> 'k StateDB \<Rightarrow> stateObject \<Rightarrow> stateObject \<times> nat" where
  "so_CodeSize kec db so =
     (let (so1, c) = so_Code kec db so
      in (so1, case c of None \<Rightarrow> 0 | Some bs \<Rightarrow> length bs))"

definition so_SetCode ::
  "(byte list \<Rightarrow> hash) \<Rightarrow> 'k StateDB \<Rightarrow> stateObject \<Rightarrow> hash \<Rightarrow> byte list option \<Rightarrow> 'k StateDB" where
  "so_SetCode kec db so codeHash c =
     (let (so1, prevcode) = so_Code kec db so
      in setStateObject
           (appendJ db (codeChange (address so) prevcode (CodeHash (account so1))))
           (setCode so1 codeHash c))"

definition so_SetBalance :: "'k StateDB \<Rightarrow> stateObject \<Rightarrow> int \<Rightarrow> 'k StateDB" where
  "so_SetBalance db so amount =
     setStateObject (appendJ db (balanceChange (address so) (Balance (account so))))
       (setBalance so amount)"

definition so_AddBalance :: "'k StateDB \<Rightarrow> stateObject \<Rightarrow> int \<Rightarrow> 'k StateDB" where
  "so_AddBalance db so amount =
     (if amount = 0 then db else so_SetBalance db so (Balance (account so) + amount))"

definition so_SubBalance :: "'k StateDB \<Rightarrow> stateObject \<Rightarrow> int \<Rightarrow> 'k StateDB" where
  "so_SubBalance db so amount =
     (if amount = 0 then db else so_SetBalance db so (Balance (account so) - amount))"

definition so_SetNonce :: "'k StateDB \<Rightarrow> stateObject \<Rightarrow> u64 \<Rightarrow> 'k StateDB" where
  "so_SetNonce db so nonce =
     setStateObject (appendJ db (nonceChange (address so) (Nonce (account so))))
       (setNonce so nonce)"

section \<open>Queries of the database\<close>

text \<open>Every query may pull an account into the live set, so it returns the database too.\<close>

definition Exist :: "(byte list \<Rightarrow> hash) \<Rightarrow> 'k StateDB \<Rightarrow> addr \<Rightarrow> 'k StateDB \<times> bool" where
  "Exist kec s a = (let (s1, so) = getStateObject kec s a in (s1, so \<noteq> None))"

definition Empty :: "(byte list \<Rightarrow> hash) \<Rightarrow> 'k StateDB \<Rightarrow> addr \<Rightarrow> 'k StateDB \<times> bool" where
  "Empty kec s a =
     (let (s1, so) = getStateObject kec s a
      in (s1, case so of None \<Rightarrow> True | Some obj \<Rightarrow> so_empty kec obj))"

definition GetBalance :: "(byte list \<Rightarrow> hash) \<Rightarrow> 'k StateDB \<Rightarrow> addr \<Rightarrow> 'k StateDB \<times> int" where
  "GetBalance kec s a =
     (let (s1, so) = getStateObject kec s a
      in (s1, case so of None \<Rightarrow> 0 | Some obj \<Rightarrow> Balance (account obj)))"

definition GetNonce :: "(byte list \<Rightarrow> hash) \<Rightarrow> 'k StateDB \<Rightarrow> addr \<Rightarrow> 'k StateDB \<times> u64" where
  "GetNonce kec s a =
     (let (s1, so) = getStateObject kec s a
      in (s1, case so of None \<Rightarrow> 0 | Some obj \<Rightarrow> Nonce (account obj)))"

definition GetCode ::
  "(byte list \<Rightarrow> hash) \<Rightarrow> 'k StateDB \<Rightarrow> addr \<Rightarrow> 'k StateDB \<times> byte list option" where
  "GetCode kec s a =
     (case getStateObject kec s a of
        (s1, None) \<Rightarrow> (s1, None)
      | (s1, Some obj) \<Rightarrow> (let (obj1, c) = so_Code kec s1 obj in (setStateObject s1 obj1, c)))"

definition GetCodeSize :: "(byte list \<Rightarrow> hash) \<Rightarrow> 'k StateDB \<Rightarrow> addr \<Rightarrow> 'k StateDB \<times> nat" where
  "GetCodeSize kec s a =
     (case getStateObject kec s a of
        (s1, None) \<Rightarrow> (s1, 0)
      | (s1, Some obj) \<Rightarrow> (let (obj1, n) = so_CodeSize kec s1 obj in (setStateObject s1 obj1, n)))"

definition GetCodeHash :: "(byte list \<Rightarrow> hash) \<Rightarrow> 'k StateDB \<Rightarrow> addr \<Rightarrow> 'k StateDB \<times> hash" where
  "GetCodeHash kec s a =
     (let (s1, so) = getStateObject kec s a
      in (s1, case so of None \<Rightarrow> 0 | Some obj \<Rightarrow> CodeHash (account obj)))"

definition GetState ::
  "(byte list \<Rightarrow> hash) \<Rightarrow> 'k StateDB \<Rightarrow> addr \<Rightarrow> hash \<Rightarrow> 'k StateDB \<times> hash" where
  "GetState kec s a key =
     (case getStateObject kec s a of
        (s1, None) \<Rightarrow> (s1, 0)
      | (s1, Some obj) \<Rightarrow> (let (obj1, v) = so_GetState s1 obj key in (setStateObject s1 obj1, v)))"

definition GetCommittedState ::
  "(byte list \<Rightarrow> hash) \<Rightarrow> 'k StateDB \<Rightarrow> addr \<Rightarrow> hash \<Rightarrow> 'k StateDB \<times> hash" where
  "GetCommittedState kec s a key =
     (case getStateObject kec s a of
        (s1, None) \<Rightarrow> (s1, 0)
      | (s1, Some obj) \<Rightarrow>
          (let (obj1, v) = so_GetCommittedState s1 obj key in (setStateObject s1 obj1, v)))"

definition GetRefund :: "'k StateDB \<Rightarrow> u64" where
  "GetRefund s = refund s"

definition HasSuicided :: "(byte list \<Rightarrow> hash) \<Rightarrow> 'k StateDB \<Rightarrow> addr \<Rightarrow> 'k StateDB \<times> bool" where
  "HasSuicided kec s a =
     (let (s1, so) = getStateObject kec s a
      in (s1, case so of None \<Rightarrow> False | Some obj \<Rightarrow> suicided obj))"

text \<open>
  \<^verbatim>\<open>ForEachStorage\<close> as the calls it makes: the pairs handed to \<open>cb\<close>, up to and
  including the first for which \<open>cb\<close> returns false. A 32-byte value is never empty, so
  the branch that skips a value is never taken.
\<close>

fun each_storage :: "Storage \<Rightarrow> (hash \<Rightarrow> hash \<Rightarrow> bool) \<Rightarrow> (hash \<times> hash) list \<Rightarrow> (hash \<times> hash) list" where
  "each_storage dirty cb [] = []"
| "each_storage dirty cb ((key, value) # kvs) =
     (let v = (case dirty key of Some d \<Rightarrow> d | None \<Rightarrow> value)
      in (key, v) # (if cb key v then each_storage dirty cb kvs else []))"

definition ForEachStorage ::
  "(byte list \<Rightarrow> hash) \<Rightarrow> 'k StateDB \<Rightarrow> addr \<Rightarrow> (hash \<Rightarrow> hash \<Rightarrow> bool)
   \<Rightarrow> 'k StateDB \<times> (hash \<times> hash) list" where
  "ForEachStorage kec s a cb =
     (case getStateObject kec s a of
        (s1, None) \<Rightarrow> (s1, [])
      | (s1, Some so) \<Rightarrow> (s1, each_storage (dirtyStorage so) cb (kStorage (keeper s1) (ctx s1) a)))"

section \<open>Updates of the database\<close>

definition AddLog :: "'k StateDB \<Rightarrow> Log \<Rightarrow> 'k StateDB" where
  "AddLog s log =
     (let s1 = appendJ s addLogChange;
          log1 = log\<lparr>logTxHash := TxHash (txConfig s1), logBlockHash := BlockHash (txConfig s1),
                     logTxIndex := TxIndex (txConfig s1),
                     logIndex := LogIndex (txConfig s1) + of_nat (length (logs s1))\<rparr>
      in s1\<lparr>logs := logs s1 @ [log1]\<rparr>)"

definition AddRefund :: "'k StateDB \<Rightarrow> u64 \<Rightarrow> 'k StateDB" where
  "AddRefund s gas = (appendJ s (refundChange (refund s)))\<lparr>refund := refund s + gas\<rparr>"

definition SubRefund :: "'k StateDB \<Rightarrow> u64 \<Rightarrow> 'k StateDB result" where
  "SubRefund s gas =
     (let s1 = appendJ s (refundChange (refund s))
      in if gas > refund s then Inl (Panic ''Refund counter below zero'')
         else Inr (s1\<lparr>refund := refund s1 - gas\<rparr>))"

definition CreateAccount :: "(byte list \<Rightarrow> hash) \<Rightarrow> 'k StateDB \<Rightarrow> addr \<Rightarrow> 'k StateDB" where
  "CreateAccount kec s a =
     (let (s1, newObj, prev) = createObject kec s a
      in case prev of
           None \<Rightarrow> s1
         | Some p \<Rightarrow> setStateObject s1 (setBalance newObj (Balance (account p))))"

definition AddBalance :: "(byte list \<Rightarrow> hash) \<Rightarrow> 'k StateDB \<Rightarrow> addr \<Rightarrow> int \<Rightarrow> 'k StateDB" where
  "AddBalance kec s a amount =
     (let (s1, so) = getOrNewStateObject kec s a in so_AddBalance s1 so amount)"

definition SubBalance :: "(byte list \<Rightarrow> hash) \<Rightarrow> 'k StateDB \<Rightarrow> addr \<Rightarrow> int \<Rightarrow> 'k StateDB" where
  "SubBalance kec s a amount =
     (let (s1, so) = getOrNewStateObject kec s a in so_SubBalance s1 so amount)"

definition SetNonce :: "(byte list \<Rightarrow> hash) \<Rightarrow> 'k StateDB \<Rightarrow> addr \<Rightarrow> u64 \<Rightarrow> 'k StateDB" where
  "SetNonce kec s a nonce =
     (let (s1, so) = getOrNewStateObject kec s a in so_SetNonce s1 so nonce)"

definition SetCode ::
  "(byte list \<Rightarrow> hash) \<Rightarrow> 'k StateDB \<Rightarrow> addr \<Rightarrow> byte list option \<Rightarrow> 'k StateDB" where
  "SetCode kec s a c =
     (let (s1, so) = getOrNewStateObject kec s a
      in so_SetCode kec s1 so (kec (case c of None \<Rightarrow> [] | Some bs \<Rightarrow> bs)) c)"

definition SetState ::
  "(byte list \<Rightarrow> hash) \<Rightarrow> 'k StateDB \<Rightarrow> addr \<Rightarrow> hash \<Rightarrow> hash \<Rightarrow> 'k StateDB" where
  "SetState kec s a key value =
     (let (s1, so) = getOrNewStateObject kec s a in so_SetState s1 so key value)"

definition Suicide :: "(byte list \<Rightarrow> hash) \<Rightarrow> 'k StateDB \<Rightarrow> addr \<Rightarrow> 'k StateDB \<times> bool" where
  "Suicide kec s a =
     (case getStateObject kec s a of
        (s1, None) \<Rightarrow> (s1, False)
      | (s1, Some so) \<Rightarrow>
          (let s2 = appendJ s1 (suicideChange a (suicided so) (Balance (account so)))
           in (setStateObject s2 (setBalance (markSuicided so) 0), True)))"

definition AddAddressToAccessList :: "'k StateDB \<Rightarrow> addr \<Rightarrow> 'k StateDB" where
  "AddAddressToAccessList s a =
     (let (al, changed) = AddAddress (accessL s) a; s1 = s\<lparr>accessL := al\<rparr>
      in if changed then appendJ s1 (accessListAddAccountChange a) else s1)"

definition AddSlotToAccessList :: "'k StateDB \<Rightarrow> addr \<Rightarrow> hash \<Rightarrow> 'k StateDB result" where
  "AddSlotToAccessList s a slot =
     rbind (AddSlot (accessL s) a slot) (\<lambda>(al, addrMod, slotMod).
       let s1 = s\<lparr>accessL := al\<rparr>;
           s2 = (if addrMod then appendJ s1 (accessListAddAccountChange a) else s1);
           s3 = (if slotMod then appendJ s2 (accessListAddSlotChange a slot) else s2)
       in Inr s3)"

fun addSlots :: "'k StateDB \<Rightarrow> addr \<Rightarrow> hash list \<Rightarrow> 'k StateDB result" where
  "addSlots s a [] = Inr s"
| "addSlots s a (key # keys) = rbind (AddSlotToAccessList s a key) (\<lambda>s1. addSlots s1 a keys)"

fun addTuples :: "'k StateDB \<Rightarrow> (addr \<times> hash list) list \<Rightarrow> 'k StateDB result" where
  "addTuples s [] = Inr s"
| "addTuples s ((a, keys) # els) =
     rbind (addSlots (AddAddressToAccessList s a) a keys) (\<lambda>s1. addTuples s1 els)"

definition PrepareAccessList ::
  "'k StateDB \<Rightarrow> addr \<Rightarrow> addr option \<Rightarrow> addr list \<Rightarrow> (addr \<times> hash list) list
   \<Rightarrow> 'k StateDB result" where
  "PrepareAccessList s sender dst precompiles list =
     (let s1 = AddAddressToAccessList s sender;
          s2 = (case dst of None \<Rightarrow> s1 | Some d \<Rightarrow> AddAddressToAccessList s1 d);
          s3 = fold (\<lambda>a t. AddAddressToAccessList t a) precompiles s2
      in addTuples s3 list)"

definition AddressInAccessList :: "'k StateDB \<Rightarrow> addr \<Rightarrow> bool" where
  "AddressInAccessList s a = ContainsAddress (accessL s) a"

definition SlotInAccessList :: "'k StateDB \<Rightarrow> addr \<Rightarrow> hash \<Rightarrow> (bool \<times> bool) result" where
  "SlotInAccessList s a slot = Contains (accessL s) a slot"

section \<open>Undoing journal entries\<close>

text \<open>\<^verbatim>\<open>s.getStateObject(a).f()\<close>: a nil dereference when there is no such account.\<close>

definition on_object ::
  "(byte list \<Rightarrow> hash) \<Rightarrow> 'k StateDB \<Rightarrow> addr \<Rightarrow> (stateObject \<Rightarrow> stateObject) \<Rightarrow> 'k StateDB result" where
  "on_object kec s a f =
     (case getStateObject kec s a of
        (s1, None) \<Rightarrow> Inl (Panic ''nil pointer dereference'')
      | (s1, Some obj) \<Rightarrow> Inr (setStateObject s1 (f obj)))"

fun entry_Revert ::
  "(byte list \<Rightarrow> hash) \<Rightarrow> JournalEntry \<Rightarrow> 'k StateDB \<Rightarrow> 'k StateDB result" where
  "entry_Revert kec (createObjectChange a) s =
     Inr (s\<lparr>stateObjects := (stateObjects s)(a := None)\<rparr>)"
| "entry_Revert kec (resetObjectChange prev) s = Inr (setStateObject s prev)"
| "entry_Revert kec (suicideChange a p prevbalance) s =
     (case getStateObject kec s a of
        (s1, None) \<Rightarrow> Inr s1
      | (s1, Some obj) \<Rightarrow> Inr (setStateObject s1 (setBalance (obj\<lparr>suicided := p\<rparr>) prevbalance)))"
| "entry_Revert kec (balanceChange a p) s = on_object kec s a (\<lambda>obj. setBalance obj p)"
| "entry_Revert kec (nonceChange a p) s = on_object kec s a (\<lambda>obj. setNonce obj p)"
| "entry_Revert kec (codeChange a prevcode prevhash) s =
     on_object kec s a (\<lambda>obj. setCode obj prevhash prevcode)"
| "entry_Revert kec (storageChange a key prevalue) s =
     on_object kec s a (\<lambda>obj. setState obj key prevalue)"
| "entry_Revert kec (refundChange p) s = Inr (s\<lparr>refund := p\<rparr>)"
| "entry_Revert kec addLogChange s =
     (if logs s = [] then Inl (Panic ''slice bounds out of range'')
      else Inr (s\<lparr>logs := butlast (logs s)\<rparr>))"
| "entry_Revert kec (accessListAddAccountChange a) s =
     Inr (s\<lparr>accessL := DeleteAddress (accessL s) a\<rparr>)"
| "entry_Revert kec (accessListAddSlotChange a slot) s =
     rbind (DeleteSlot (accessL s) a slot) (\<lambda>al. Inr (s\<lparr>accessL := al\<rparr>))"

fun revert_loop ::
  "(byte list \<Rightarrow> hash) \<Rightarrow> JournalEntry list \<Rightarrow> 'k StateDB \<Rightarrow> 'k StateDB result" where
  "revert_loop kec [] s = Inr s"
| "revert_loop kec (e # es) s =
     rbind (entry_Revert kec e s) (\<lambda>s1.
       revert_loop kec es
         (s1\<lparr>sjournal := (sjournal s1)\<lparr>dirties := dec_dirty e (dirties (sjournal s1))\<rparr>\<rparr>))"

definition journal_Revert :: "(byte list \<Rightarrow> hash) \<Rightarrow> 'k StateDB \<Rightarrow> nat \<Rightarrow> 'k StateDB result" where
  "journal_Revert kec s snapshot =
     rbind (revert_loop kec (rev (drop snapshot (entries (sjournal s)))) s) (\<lambda>s1.
       if snapshot \<le> length (entries (sjournal s1))
       then Inr (s1\<lparr>sjournal := (sjournal s1)\<lparr>entries := take snapshot (entries (sjournal s1))\<rparr>\<rparr>)
       else Inl (Panic ''slice bounds out of range''))"

section \<open>Snapshots\<close>

definition Snapshot :: "'k StateDB \<Rightarrow> 'k StateDB \<times> int" where
  "Snapshot s =
     (let i = nextRevisionID s
      in (s\<lparr>nextRevisionID := i + 1,
            validRevisions := validRevisions s
              @ [\<lparr>rev_id = i, journalIndex = journal_length (sjournal s)\<rparr>]\<rparr>, i))"

definition RevertToSnapshot :: "(byte list \<Rightarrow> hash) \<Rightarrow> 'k StateDB \<Rightarrow> int \<Rightarrow> 'k StateDB result" where
  "RevertToSnapshot kec s revid =
     (let revs = validRevisions s;
          idx = sort_Search (length revs) (\<lambda>i. rev_id (revs ! i) \<ge> revid)
      in if idx = length revs \<or> rev_id (revs ! idx) \<noteq> revid
         then Inl (Panic ''revision id cannot be reverted'')
         else rbind (journal_Revert kec s (journalIndex (revs ! idx)))
                (\<lambda>s1. Inr (s1\<lparr>validRevisions := take idx (validRevisions s1)\<rparr>)))"

section \<open>Commit\<close>

fun commit_storage :: "'k Keeper \<Rightarrow> 'k \<Rightarrow> stateObject \<Rightarrow> hash list \<Rightarrow> 'k" where
  "commit_storage k c obj [] = c"
| "commit_storage k c obj (key # keys) =
     (let value = (case dirtyStorage obj key of Some v \<Rightarrow> v | None \<Rightarrow> 0);
          origin = (case originStorage obj key of Some v \<Rightarrow> v | None \<Rightarrow> 0)
      in commit_storage k
           (if value = origin then c else kSetState k c (address obj) key (Some value)) obj keys)"

definition commit_object :: "'k Keeper \<Rightarrow> 'k \<Rightarrow> stateObject \<Rightarrow> 'k result" where
  "commit_object k c obj =
     (if suicided obj then kDeleteAccount k c (address obj)
      else
        let c1 = (case code obj of
                    Some bs \<Rightarrow> if dirtyCode obj then kSetCode k c (CodeHash (account obj)) bs else c
                  | None \<Rightarrow> c)
        in rbind (kSetAccount k c1 (address obj) (account obj))
             (\<lambda>c2. Inr (commit_storage k c2 obj (SortedKeys (dirtyStorage obj)))))"

fun commit_loop :: "'k Keeper \<Rightarrow> (addr \<rightharpoonup> stateObject) \<Rightarrow> addr list \<Rightarrow> 'k \<Rightarrow> 'k result" where
  "commit_loop k objs [] c = Inr c"
| "commit_loop k objs (a # as) c =
     (case objs a of
        None \<Rightarrow> Inl (Panic ''nil pointer dereference'')
      | Some obj \<Rightarrow> rbind (commit_object k c obj) (commit_loop k objs as))"

definition Commit :: "'k StateDB \<Rightarrow> 'k StateDB result" where
  "Commit s =
     rbind (commit_loop (keeper s) (stateObjects s) (sortedDirties (sjournal s)) (ctx s))
       (\<lambda>c. Inr (s\<lparr>ctx := c\<rparr>))"

end
