(* ===== verification/StateDB_View.thy ===== *)
theory StateDB_View
  imports StateDB
begin

text \<open>
  What a caller can observe of the database, as a value: the \<^emph>\<open>view\<close>. The caches of the
  database (live objects, cached code, cached committed slots) are not part of it. Each
  journal entry has an undo on views, and the concrete \<^const>\<open>entry_Revert\<close> implements it.
  The theory also states the invariant that ties the journal to the live objects.
\<close>

section \<open>The view\<close>

record objView =
  vAcct :: Account
  vCode :: "byte list option"
  vState :: "hash \<Rightarrow> hash"
  vCommitted :: "hash \<Rightarrow> hash"
  vSuicided :: bool

record view =
  vObjs :: "addr \<Rightarrow> objView option"
  vRefund :: u64
  vLogs :: "Log list"
  vAccess :: accessList

definition code_view :: "(byte list \<Rightarrow> hash) \<Rightarrow> 'k Keeper \<Rightarrow> 'k \<Rightarrow> hash \<Rightarrow> byte list option \<Rightarrow> byte list option" where
  "code_view kec k c h cached =
     (case cached of
        Some bs \<Rightarrow> Some bs
      | None \<Rightarrow> if h = emptyCodeHash kec then None else kGetCode k c h)"

definition committed_view :: "'k Keeper \<Rightarrow> 'k \<Rightarrow> stateObject \<Rightarrow> hash \<Rightarrow> hash" where
  "committed_view k c so key =
     (case originStorage so key of Some v \<Rightarrow> v | None \<Rightarrow> kGetState k c (address so) key)"

definition obj_view :: "(byte list \<Rightarrow> hash) \<Rightarrow> 'k Keeper \<Rightarrow> 'k \<Rightarrow> stateObject \<Rightarrow> objView" where
  "obj_view kec k c so =
     \<lparr>vAcct = account so,
      vCode = code_view kec k c (CodeHash (account so)) (code so),
      vState = (\<lambda>key. case dirtyStorage so key of Some v \<Rightarrow> v | None \<Rightarrow> committed_view k c so key),
      vCommitted = committed_view k c so,
      vSuicided = suicided so\<rparr>"

definition kept_view :: "(byte list \<Rightarrow> hash) \<Rightarrow> 'k Keeper \<Rightarrow> 'k \<Rightarrow> addr \<Rightarrow> objView option" where
  "kept_view kec k c a = map_option (\<lambda>acct. obj_view kec k c (newObject kec a acct)) (kGetAccount k c a)"

definition objs_view ::
  "(byte list \<Rightarrow> hash) \<Rightarrow> 'k Keeper \<Rightarrow> 'k \<Rightarrow> (addr \<rightharpoonup> stateObject) \<Rightarrow> addr \<Rightarrow> objView option" where
  "objs_view kec k c m a =
     (case m a of Some so \<Rightarrow> Some (obj_view kec k c so) | None \<Rightarrow> kept_view kec k c a)"

definition db_view :: "(byte list \<Rightarrow> hash) \<Rightarrow> 'k StateDB \<Rightarrow> view" where
  "db_view kec s =
     \<lparr>vObjs = objs_view kec (keeper s) (ctx s) (stateObjects s),
      vRefund = refund s, vLogs = logs s, vAccess = accessL s\<rparr>"

lemma objs_view_upd:
  "objs_view kec k c (m(a \<mapsto> so)) = (objs_view kec k c m)(a := Some (obj_view kec k c so))"
  by (rule ext) (simp add: objs_view_def)

lemma objs_view_del:
  "objs_view kec k c (m(a := None)) = (objs_view kec k c m)(a := kept_view kec k c a)"
  by (rule ext) (simp add: objs_view_def)

text \<open>Reading a code or a slot into the caches of an object leaves its view alone.\<close>

lemma obj_view_so_Code:
  "so_Code kec db so = (so1, c) \<Longrightarrow>
     obj_view kec (keeper db) (ctx db) so1 = obj_view kec (keeper db) (ctx db) so
   \<and> c = vCode (obj_view kec (keeper db) (ctx db) so)
   \<and> so1 = so\<lparr>code := code so1\<rparr> \<and> code_view kec (keeper db) (ctx db) (CodeHash (account so)) c = c"
  by (auto simp: so_Code_def obj_view_def code_view_def committed_view_def Let_def fun_eq_iff
      split: option.splits if_splits)

lemma obj_view_so_GetCommittedState:
  "so_GetCommittedState db so key = (so1, v) \<Longrightarrow>
     obj_view kec (keeper db) (ctx db) so1 = obj_view kec (keeper db) (ctx db) so
   \<and> v = committed_view (keeper db) (ctx db) so key
   \<and> so1 = so\<lparr>originStorage := (originStorage so)(key \<mapsto> v)\<rparr>"
  by (auto simp: so_GetCommittedState_def obj_view_def committed_view_def Let_def fun_eq_iff fun_upd_idem
      split: option.splits if_splits)

lemma obj_view_so_GetState:
  "so_GetState db so key = (so1, v) \<Longrightarrow>
     obj_view kec (keeper db) (ctx db) so1 = obj_view kec (keeper db) (ctx db) so
   \<and> v = vState (obj_view kec (keeper db) (ctx db) so) key
   \<and> so1 = so\<lparr>originStorage := originStorage so1\<rparr>
   \<and> (dirtyStorage so key = None \<longrightarrow> originStorage so1 = (originStorage so)(key \<mapsto> v))
   \<and> (dirtyStorage so key \<noteq> None \<longrightarrow> so1 = so)"
  using obj_view_so_GetCommittedState [of db so key so1 v kec]
  by (auto simp: so_GetState_def obj_view_def split: option.splits)

section \<open>Undoing an entry on views\<close>

definition upd_obj :: "view \<Rightarrow> addr \<Rightarrow> (objView \<Rightarrow> objView) \<Rightarrow> view option" where
  "upd_obj v a f =
     (case vObjs v a of
        None \<Rightarrow> None
      | Some ob \<Rightarrow> Some (v\<lparr>vObjs := (vObjs v)(a \<mapsto> f ob)\<rparr>))"

fun undo_view :: "(byte list \<Rightarrow> hash) \<Rightarrow> 'k Keeper \<Rightarrow> 'k \<Rightarrow> JournalEntry \<Rightarrow> view \<Rightarrow> view option" where
  "undo_view kec k c (createObjectChange a) v =
     Some (v\<lparr>vObjs := (vObjs v)(a := kept_view kec k c a)\<rparr>)"
| "undo_view kec k c (resetObjectChange prev) v =
     Some (v\<lparr>vObjs := (vObjs v)(address prev \<mapsto> obj_view kec k c prev)\<rparr>)"
| "undo_view kec k c (suicideChange a p b) v =
     (case vObjs v a of
        None \<Rightarrow> Some v
      | Some ob \<Rightarrow> upd_obj v a (\<lambda>ob. ob\<lparr>vSuicided := p, vAcct := (vAcct ob)\<lparr>Balance := b\<rparr>\<rparr>))"
| "undo_view kec k c (balanceChange a b) v =
     upd_obj v a (\<lambda>ob. ob\<lparr>vAcct := (vAcct ob)\<lparr>Balance := b\<rparr>\<rparr>)"
| "undo_view kec k c (nonceChange a n) v =
     upd_obj v a (\<lambda>ob. ob\<lparr>vAcct := (vAcct ob)\<lparr>Nonce := n\<rparr>\<rparr>)"
| "undo_view kec k c (codeChange a bs h) v =
     upd_obj v a (\<lambda>ob. ob\<lparr>vAcct := (vAcct ob)\<lparr>CodeHash := h\<rparr>, vCode := code_view kec k c h bs\<rparr>)"
| "undo_view kec k c (storageChange a key p) v =
     upd_obj v a (\<lambda>ob. ob\<lparr>vState := (vState ob)(key := p)\<rparr>)"
| "undo_view kec k c (refundChange r) v = Some (v\<lparr>vRefund := r\<rparr>)"
| "undo_view kec k c addLogChange v =
     (if vLogs v = [] then None else Some (v\<lparr>vLogs := butlast (vLogs v)\<rparr>))"
| "undo_view kec k c (accessListAddAccountChange a) v =
     Some (v\<lparr>vAccess := DeleteAddress (vAccess v) a\<rparr>)"
| "undo_view kec k c (accessListAddSlotChange a slot) v =
     (case DeleteSlot (vAccess v) a slot of
        Inl _ \<Rightarrow> None
      | Inr al \<Rightarrow> Some (v\<lparr>vAccess := al\<rparr>))"

text \<open>Entries are undone from the newest to the oldest: the list is in that order.\<close>

fun undo_all :: "(byte list \<Rightarrow> hash) \<Rightarrow> 'k Keeper \<Rightarrow> 'k \<Rightarrow> JournalEntry list \<Rightarrow> view \<Rightarrow> view option" where
  "undo_all kec k c [] v = Some v"
| "undo_all kec k c (e # es) v = Option.bind (undo_view kec k c e v) (undo_all kec k c es)"

lemma undo_all_append:
  "undo_all kec k c (xs @ ys) v = Option.bind (undo_all kec k c xs v) (undo_all kec k c ys)"
  by (induction xs arbitrary: v) (auto split: Option.bind_splits)

section \<open>The invariant\<close>

text \<open>
  A well-formed object is stored under its own address, has read every slot it has
  written, and caches the committed value of each slot it has read.
\<close>

definition so_wf :: "'k Keeper \<Rightarrow> 'k \<Rightarrow> stateObject \<Rightarrow> bool" where
  "so_wf k c so \<longleftrightarrow>
     dom (dirtyStorage so) \<subseteq> dom (originStorage so) \<and> finite (dom (dirtyStorage so))
   \<and> (\<forall>key v. originStorage so key = Some v \<longrightarrow> v = kGetState k c (address so) key)"

definition objs_wf :: "'k Keeper \<Rightarrow> 'k \<Rightarrow> (addr \<rightharpoonup> stateObject) \<Rightarrow> bool" where
  "objs_wf k c m \<longleftrightarrow> (\<forall>a so. m a = Some so \<longrightarrow> address so = a \<and> so_wf k c so)"

text \<open>
  A journal (newest entry first) fits the live objects if every entry finds the object it
  is going to change when the entries above it have been undone.
\<close>

fun jok :: "'k Keeper \<Rightarrow> 'k \<Rightarrow> (addr \<rightharpoonup> stateObject) \<Rightarrow> JournalEntry list \<Rightarrow> bool" where
  "jok k c m [] = True"
| "jok k c m (createObjectChange a # es) = (m a \<noteq> None \<and> jok k c (m(a := None)) es)"
| "jok k c m (resetObjectChange p # es) =
     (m (address p) \<noteq> None \<and> so_wf k c p \<and> jok k c (m(address p \<mapsto> p)) es)"
| "jok k c m (storageChange a key v # es) =
     ((\<exists>so. m a = Some so \<and> key \<in> dom (originStorage so)) \<and> jok k c m es)"
| "jok k c m (suicideChange a p b # es) = (m a \<noteq> None \<and> jok k c m es)"
| "jok k c m (balanceChange a b # es) = (m a \<noteq> None \<and> jok k c m es)"
| "jok k c m (nonceChange a n # es) = (m a \<noteq> None \<and> jok k c m es)"
| "jok k c m (codeChange a bs h # es) = (m a \<noteq> None \<and> jok k c m es)"
| "jok k c m (refundChange r # es) = jok k c m es"
| "jok k c m (addLogChange # es) = jok k c m es"
| "jok k c m (accessListAddAccountChange a # es) = jok k c m es"
| "jok k c m (accessListAddSlotChange a s # es) = jok k c m es"

text \<open>Loading accounts and slots only adds to the live objects.\<close>

definition live_le :: "(addr \<rightharpoonup> stateObject) \<Rightarrow> (addr \<rightharpoonup> stateObject) \<Rightarrow> bool" where
  "live_le m m' \<longleftrightarrow>
     (\<forall>a so. m a = Some so \<longrightarrow>
        (\<exists>so'. m' a = Some so' \<and> dom (originStorage so) \<subseteq> dom (originStorage so')))"

lemma live_leD:
  "live_le m m' \<Longrightarrow> m a = Some so \<Longrightarrow>
     \<exists>so'. m' a = Some so' \<and> dom (originStorage so) \<subseteq> dom (originStorage so')"
  by (auto simp: live_le_def)

lemma live_le_refl [simp]: "live_le m m"
  by (auto simp: live_le_def)

lemma live_le_upd:
  "live_le m m' \<Longrightarrow> live_le (m(a := x)) (m'(a := x))"
  unfolding live_le_def by auto

lemma live_le_new:
  "(\<And>so. m a = Some so \<Longrightarrow> dom (originStorage so) \<subseteq> dom (originStorage so')) \<Longrightarrow>
   live_le m (m(a \<mapsto> so'))"
  unfolding live_le_def by auto

lemma live_le_replace:
  "m a = Some so \<Longrightarrow> dom (originStorage so) \<subseteq> dom (originStorage so') \<Longrightarrow> live_le m (m(a \<mapsto> so'))"
  unfolding live_le_def by auto

lemma jok_mono: "jok k c m es \<Longrightarrow> live_le m m' \<Longrightarrow> jok k c m' es"
proof (induction k c m es arbitrary: m' rule: jok.induct)
  case (2 k c m a es)
  then show ?case using live_le_upd [of m m' a None] by (auto dest: live_leD simp: fun_upd_def)
next
  case (3 k c m p es)
  then show ?case
    using live_le_upd [of m m' "address p" "Some p"] by (auto dest: live_leD simp: fun_upd_def)
qed (fastforce dest: live_leD)+

lemma jok_dirty_live:
  "jok k c m es \<Longrightarrow> e \<in> set es \<Longrightarrow> Dirtied e = Some a \<Longrightarrow> m a \<noteq> None"
proof (induction k c m es rule: jok.induct)
  case (2 k c m b es)
  then show ?case by (auto simp: fun_upd_def split: if_splits)
next
  case (3 k c m p es)
  then show ?case by (cases "a = address p") (auto simp: fun_upd_def)
qed auto

definition dirties_ok :: "journal \<Rightarrow> bool" where
  "dirties_ok j \<longleftrightarrow>
     (\<forall>a. let n = length (filter (\<lambda>e. Dirtied e = Some a) (entries j))
          in dirties j a = (if n = 0 then None else Some (int n)))"

lemma dirties_ok_append: "dirties_ok j \<Longrightarrow> dirties_ok (journal_append j e)"
  by (auto simp: dirties_ok_def journal_append_def inc_dirty_def Let_def split: option.splits)

lemma dirties_ok_dec:
  assumes "dirties_ok \<lparr>entries = es @ [e], dirties = d\<rparr>"
  shows "dirties_ok \<lparr>entries = es, dirties = dec_dirty e d\<rparr>"
  using assms
  by (auto simp: dirties_ok_def dec_dirty_def Let_def split: option.splits if_splits)

lemma dirties_ok_iff:
  "dirties_ok j \<Longrightarrow> a \<in> dom (dirties j) \<longleftrightarrow> (\<exists>e \<in> set (entries j). Dirtied e = Some a)"
  by (auto simp: dirties_ok_def Let_def filter_empty_conv split: if_splits)

definition db_inv :: "'k StateDB \<Rightarrow> bool" where
  "db_inv s \<longleftrightarrow>
     objs_wf (keeper s) (ctx s) (stateObjects s)
   \<and> jok (keeper s) (ctx s) (stateObjects s) (rev (entries (sjournal s)))
   \<and> dirties_ok (sjournal s) \<and> al_wf (accessL s)"

lemma db_inv_New [simp]: "db_inv (NewStateDB c k cfg)"
  by (simp add: db_inv_def NewStateDB_def newJournal_def objs_wf_def dirties_ok_def)

end
