(* ===== verification/StateDB_Undo.thy ===== *)
theory StateDB_Undo
  imports StateDB_View
begin

text \<open>
  Every update of the database extends the journal by entries whose undo gives the view
  back (\<open>jext\<close>), and the concrete undo of the journal implements the undo on views.
\<close>

section \<open>Loading an object\<close>

definition same_frame :: "'k StateDB \<Rightarrow> 'k StateDB \<Rightarrow> bool" where
  "same_frame s s' \<longleftrightarrow>
     keeper s' = keeper s \<and> ctx s' = ctx s \<and> txConfig s' = txConfig s
   \<and> validRevisions s' = validRevisions s \<and> nextRevisionID s' = nextRevisionID s"

lemma same_frame_refl [simp]: "same_frame s s"
  by (simp add: same_frame_def)

lemma same_frame_setStateObject [simp]:
  "same_frame s (setStateObject t so) = same_frame s t"
  "same_frame s (appendJ t e) = same_frame s t"
  by (simp_all add: same_frame_def setStateObject_def appendJ_def)

lemma setStateObject_sel [simp]:
  "keeper (setStateObject s so) = keeper s" "ctx (setStateObject s so) = ctx s"
  "sjournal (setStateObject s so) = sjournal s" "refund (setStateObject s so) = refund s"
  "logs (setStateObject s so) = logs s" "accessL (setStateObject s so) = accessL s"
  "txConfig (setStateObject s so) = txConfig s"
  "validRevisions (setStateObject s so) = validRevisions s"
  "nextRevisionID (setStateObject s so) = nextRevisionID s"
  "stateObjects (setStateObject s so) = (stateObjects s)(address so \<mapsto> so)"
  by (simp_all add: setStateObject_def)

lemma appendJ_sel [simp]:
  "keeper (appendJ s e) = keeper s" "ctx (appendJ s e) = ctx s"
  "sjournal (appendJ s e) = journal_append (sjournal s) e" "refund (appendJ s e) = refund s"
  "logs (appendJ s e) = logs s" "accessL (appendJ s e) = accessL s"
  "txConfig (appendJ s e) = txConfig s" "validRevisions (appendJ s e) = validRevisions s"
  "nextRevisionID (appendJ s e) = nextRevisionID s" "stateObjects (appendJ s e) = stateObjects s"
  by (simp_all add: appendJ_def)

lemma entries_journal_append [simp]: "entries (journal_append j e) = entries j @ [e]"
  by (simp add: journal_append_def)

lemma newObject_sel [simp]:
  "address (newObject kec a acct) = a" "code (newObject kec a acct) = None"
  "originStorage (newObject kec a acct) = Map.empty" "dirtyStorage (newObject kec a acct) = Map.empty"
  "suicided (newObject kec a acct) = False" "dirtyCode (newObject kec a acct) = False"
  by (simp_all add: newObject_def)

lemma so_wf_new [simp]: "so_wf k c (newObject kec a acct)"
  by (simp add: so_wf_def)

lemma so_setter_sel [simp]:
  "address (setBalance so b) = address so" "address (setNonce so n) = address so"
  "address (setCode so h bs) = address so" "address (setState so key v) = address so"
  "address (markSuicided so) = address so"
  "originStorage (setBalance so b) = originStorage so" "originStorage (setNonce so n) = originStorage so"
  "originStorage (setCode so h bs) = originStorage so" "originStorage (setState so key v) = originStorage so"
  "originStorage (markSuicided so) = originStorage so"
  "dirtyStorage (setBalance so b) = dirtyStorage so" "dirtyStorage (setNonce so n) = dirtyStorage so"
  "dirtyStorage (setCode so h bs) = dirtyStorage so" "dirtyStorage (markSuicided so) = dirtyStorage so"
  "dirtyStorage (setState so key v) = (dirtyStorage so)(key \<mapsto> v)"
  by (simp_all add: so_setter_defs)

lemma so_wf_setters [simp]:
  "so_wf k c (setBalance so b) = so_wf k c so" "so_wf k c (setNonce so n) = so_wf k c so"
  "so_wf k c (setCode so h bs) = so_wf k c so" "so_wf k c (markSuicided so) = so_wf k c so"
  by (simp_all add: so_wf_def)

lemma so_wf_setState: "so_wf k c so \<Longrightarrow> key \<in> dom (originStorage so) \<Longrightarrow> so_wf k c (setState so key v)"
  by (auto simp: so_wf_def)

lemma objs_wf_upd: "objs_wf k c m \<Longrightarrow> so_wf k c so \<Longrightarrow> objs_wf k c (m(address so \<mapsto> so))"
  by (auto simp: objs_wf_def)

lemma objs_wf_del: "objs_wf k c m \<Longrightarrow> objs_wf k c (m(a := None))"
  by (auto simp: objs_wf_def)

text \<open>The object map of \<open>s1\<close> is that of \<open>s\<close> with at most the account at \<open>a\<close> loaded.\<close>

lemma getStateObject_spec:
  assumes "getStateObject kec s a = (s1, r)"
  shows "s1 = s\<lparr>stateObjects := stateObjects s1\<rparr>"
    and "db_view kec s1 = db_view kec s"
    and "live_le (stateObjects s) (stateObjects s1)"
    and "objs_wf (keeper s) (ctx s) (stateObjects s) \<Longrightarrow> objs_wf (keeper s) (ctx s) (stateObjects s1)"
    and "stateObjects s1 a = r"
    and "vObjs (db_view kec s) a = map_option (obj_view kec (keeper s) (ctx s)) r"
    and "objs_wf (keeper s) (ctx s) (stateObjects s) \<Longrightarrow> r = Some so \<Longrightarrow> address so = a"
    and "objs_wf (keeper s) (ctx s) (stateObjects s) \<Longrightarrow> r = Some so \<Longrightarrow> so_wf (keeper s) (ctx s) so"
    and "r = None \<Longrightarrow> s1 = s \<and> kept_view kec (keeper s) (ctx s) a = None"
  using assms
  by (auto simp: getStateObject_def setStateObject_def db_view_def objs_view_def kept_view_def
        objs_wf_def live_le_def Let_def fun_eq_iff
      split: option.splits if_splits)

lemmas db_view_setStateObject =
  db_view_def setStateObject_sel objs_view_upd

section \<open>The concrete undo implements the undo on views\<close>

lemma on_object_undo:
  assumes "objs_wf (keeper s) (ctx s) (stateObjects s)"
    and "\<And>so. obj_view kec (keeper s) (ctx s) (f so) = g (obj_view kec (keeper s) (ctx s) so)"
    and "\<And>so. address (f so) = address so"
  shows "(case on_object kec s a f of
            Inl _ \<Rightarrow> upd_obj (db_view kec s) a g = None
          | Inr s' \<Rightarrow> upd_obj (db_view kec s) a g = Some (db_view kec s'))"
proof (cases "getStateObject kec s a")
  case (Pair s1 r)
  note spec = getStateObject_spec [OF Pair]
  show ?thesis
  proof (cases r)
    case None
    then show ?thesis using spec(6) Pair by (simp add: on_object_def upd_obj_def)
  next
    case (Some so)
    then have "address so = a" using spec(7) assms(1) by blast
    moreover have "keeper s1 = keeper s" "ctx s1 = ctx s"
      by (subst spec(1), simp)+
    ultimately show ?thesis
      using Some Pair spec(2,6) assms(2,3)
      by (simp add: on_object_def upd_obj_def db_view_def objs_view_upd)
  qed
qed

lemma obj_view_setters:
  "obj_view kec k c (setBalance so b) = (obj_view kec k c so)\<lparr>vAcct := (account so)\<lparr>Balance := b\<rparr>\<rparr>"
  "obj_view kec k c (setNonce so n) = (obj_view kec k c so)\<lparr>vAcct := (account so)\<lparr>Nonce := n\<rparr>\<rparr>"
  "obj_view kec k c (setCode so h bs) = (obj_view kec k c so)\<lparr>vAcct := (account so)\<lparr>CodeHash := h\<rparr>,
      vCode := code_view kec k c h bs\<rparr>"
  "obj_view kec k c (setState so key v) = (obj_view kec k c so)
      \<lparr>vState := (vState (obj_view kec k c so))(key := v)\<rparr>"
  "obj_view kec k c (so\<lparr>suicided := p\<rparr>) = (obj_view kec k c so)\<lparr>vSuicided := p\<rparr>"
  by (auto simp: obj_view_def so_setter_defs committed_view_def fun_eq_iff split: option.splits)

lemma vAcct_obj_view [simp]: "vAcct (obj_view kec k c so) = account so"
  by (simp add: obj_view_def)

lemma entry_Revert_undo:
  assumes wf: "objs_wf (keeper s) (ctx s) (stateObjects s)"
  shows "case entry_Revert kec e s of
           Inl _ \<Rightarrow> undo_view kec (keeper s) (ctx s) e (db_view kec s) = None
         | Inr s' \<Rightarrow> undo_view kec (keeper s) (ctx s) e (db_view kec s) = Some (db_view kec s')"
proof (cases e)
  case (suicideChange a p b)
  show ?thesis
  proof (cases "getStateObject kec s a")
    case (Pair s1 r)
    note spec = getStateObject_spec [OF Pair]
    have "keeper s1 = keeper s" "ctx s1 = ctx s" by (subst spec(1), simp)+
    then show ?thesis
      using suicideChange Pair spec(2,6,7) wf
      by (cases r) (auto simp: upd_obj_def db_view_def objs_view_upd obj_view_setters)
  qed
next
  case (codeChange a bs h)
  then show ?thesis
    using on_object_undo [OF wf, of kec "\<lambda>obj. setCode obj h bs"
        "\<lambda>ob. ob\<lparr>vAcct := (vAcct ob)\<lparr>CodeHash := h\<rparr>, vCode := code_view kec (keeper s) (ctx s) h bs\<rparr>" a]
    by (simp add: obj_view_setters split: sum.splits)
next
  case (balanceChange a b)
  then show ?thesis
    using on_object_undo [OF wf, of kec "\<lambda>obj. setBalance obj b"
        "\<lambda>ob. ob\<lparr>vAcct := (vAcct ob)\<lparr>Balance := b\<rparr>\<rparr>" a]
    by (simp add: obj_view_setters split: sum.splits)
next
  case (nonceChange a n)
  then show ?thesis
    using on_object_undo [OF wf, of kec "\<lambda>obj. setNonce obj n"
        "\<lambda>ob. ob\<lparr>vAcct := (vAcct ob)\<lparr>Nonce := n\<rparr>\<rparr>" a]
    by (simp add: obj_view_setters split: sum.splits)
next
  case (storageChange a key p)
  then show ?thesis
    using on_object_undo [OF wf, of kec "\<lambda>obj. setState obj key p"
        "\<lambda>ob. ob\<lparr>vState := (vState ob)(key := p)\<rparr>" a]
    by (simp add: obj_view_setters split: sum.splits)
next
  case (accessListAddSlotChange a slot)
  then show ?thesis by (cases "DeleteSlot (accessL s) a slot") (simp_all add: db_view_def)
qed (auto simp: db_view_def objs_view_upd objs_view_del)

text \<open>The undo touches neither the journal nor the revisions, and keeps objects well-formed.\<close>

lemma on_object_frame:
  assumes "on_object kec s a f = Inr s'"
    and wf: "objs_wf (keeper s) (ctx s) (stateObjects s)"
    and f: "\<And>so. address (f so) = address so" "\<And>so. originStorage (f so) = originStorage so"
    and live: "stateObjects s a = Some so0"
    and fwf: "so_wf (keeper s) (ctx s) so0 \<Longrightarrow> so_wf (keeper s) (ctx s) (f so0)"
  shows "same_frame s s' \<and> sjournal s' = sjournal s \<and> accessL s' = accessL s
    \<and> objs_wf (keeper s) (ctx s) (stateObjects s') \<and> live_le (stateObjects s) (stateObjects s')"
proof -
  have s': "s' = setStateObject s (f so0)"
    using assms(1) live by (simp add: on_object_def getStateObject_def)
  moreover have "address so0 = a" "so_wf (keeper s) (ctx s) so0"
    using wf live by (auto simp: objs_wf_def)
  ultimately show ?thesis
    using objs_wf_upd [OF wf fwf] live f by (auto simp: same_frame_def intro!: live_le_new)
qed

lemma entry_Revert_frame:
  assumes "entry_Revert kec e s = Inr s'"
    and wf: "objs_wf (keeper s) (ctx s) (stateObjects s)"
    and jok: "jok (keeper s) (ctx s) (stateObjects s) (e # es)"
  shows "same_frame s s' \<and> sjournal s' = sjournal s
    \<and> objs_wf (keeper s) (ctx s) (stateObjects s') \<and> jok (keeper s) (ctx s) (stateObjects s') es"
proof -
  have obj: ?thesis
    if "on_object kec s a f = Inr s'" "\<And>so. address (f so) = address so"
      "\<And>so. originStorage (f so) = originStorage so" "stateObjects s a = Some so0"
      "so_wf (keeper s) (ctx s) so0 \<Longrightarrow> so_wf (keeper s) (ctx s) (f so0)"
      "jok (keeper s) (ctx s) (stateObjects s) es" for a f so0
    using on_object_frame [OF that(1) wf that(2-5)] jok_mono [OF that(6)] by auto
  show ?thesis
  proof (cases e)
    case (suicideChange a p b)
    with jok obtain so0 where so0: "stateObjects s a = Some so0" by auto
    with suicideChange assms(1)
    have "on_object kec s a (\<lambda>so. setBalance (so\<lparr>suicided := p\<rparr>) b) = Inr s'"
      by (simp add: getStateObject_def on_object_def)
    then show ?thesis
      using suicideChange jok so0 
      by (intro obj [of a "\<lambda>so. setBalance (so\<lparr>suicided := p\<rparr>) b" so0]) (auto simp: so_wf_def)
  next
    case (storageChange a key v)
    with jok obtain so0 where "stateObjects s a = Some so0" "key \<in> dom (originStorage so0)" by auto
    then show ?thesis
      using storageChange assms(1) jok
      by (intro obj [of a "\<lambda>obj. setState obj key v" so0]) (auto intro: so_wf_setState)
  next
    case (balanceChange a b)
    with jok obtain so0 where "stateObjects s a = Some so0" by auto
    then show ?thesis
      using balanceChange assms(1) jok by (intro obj [of a "\<lambda>obj. setBalance obj b" so0]) auto
  next
    case (nonceChange a n)
    with jok obtain so0 where "stateObjects s a = Some so0" by auto
    then show ?thesis
      using nonceChange assms(1) jok by (intro obj [of a "\<lambda>obj. setNonce obj n" so0]) auto
  next
    case (codeChange a bs h)
    with jok obtain so0 where "stateObjects s a = Some so0" by auto
    then show ?thesis
      using codeChange assms(1) jok by (intro obj [of a "\<lambda>obj. setCode obj h bs" so0]) auto
  qed (use assms in \<open>auto simp: same_frame_def objs_wf_upd objs_wf_del split: if_splits\<close>)
qed

end
