(* ===== verification/StateDB_Ops.thy ===== *)
theory StateDB_Ops
  imports StateDB_Undo
begin

text \<open>
  The updates of the database, one by one: each keeps the invariant and extends the journal
  by entries whose undo gives the view back. The lemmas for single object writes are
  shared; an operation is a composition of them.
\<close>

section \<open>Journalled extension\<close>

definition jext :: "(byte list \<Rightarrow> hash) \<Rightarrow> 'k StateDB \<Rightarrow> 'k StateDB \<Rightarrow> bool" where
  "jext kec s s' \<longleftrightarrow>
     same_frame s s' \<and> db_inv s'
   \<and> (\<exists>es. entries (sjournal s') = entries (sjournal s) @ es
          \<and> undo_all kec (keeper s) (ctx s) (rev es) (db_view kec s') = Some (db_view kec s))"

lemma jext_inv: "jext kec s s' \<Longrightarrow> db_inv s'"
  by (simp add: jext_def)

lemma jext_refl: "db_inv s \<Longrightarrow> jext kec s s"
  by (auto simp: jext_def intro!: exI [of _ "[]"])

lemma jext_trans:
  assumes "jext kec s t" "jext kec t u"
  shows "jext kec s u"
proof -
  obtain es where es: "entries (sjournal t) = entries (sjournal s) @ es"
      "undo_all kec (keeper s) (ctx s) (rev es) (db_view kec t) = Some (db_view kec s)"
    using assms(1) by (auto simp: jext_def)
  obtain fs where fs: "entries (sjournal u) = entries (sjournal t) @ fs"
      "undo_all kec (keeper t) (ctx t) (rev fs) (db_view kec u) = Some (db_view kec t)"
    using assms(2) by (auto simp: jext_def)
  have "keeper t = keeper s" "ctx t = ctx s" using assms(1) by (auto simp: jext_def same_frame_def)
  then show ?thesis
    using assms es fs
    by (auto simp: jext_def same_frame_def undo_all_append intro!: exI [of _ "es @ fs"])
qed

text \<open>A change that appends one entry, as the invariant and the view see it.\<close>

lemma jext_single:
  assumes "same_frame s s'" "db_inv s" "sjournal s' = journal_append (sjournal s) e"
    and "objs_wf (keeper s) (ctx s) (stateObjects s')"
    and "jok (keeper s) (ctx s) (stateObjects s') (e # rev (entries (sjournal s)))"
    and "al_wf (accessL s')"
    and "undo_view kec (keeper s) (ctx s) e (db_view kec s') = Some (db_view kec s)"
  shows "jext kec s s'"
  using assms
  by (auto simp: jext_def db_inv_def same_frame_def dirties_ok_append intro!: exI [of _ "[e]"])

section \<open>Object writes\<close>

lemma db_invD:
  assumes "db_inv s"
  shows "objs_wf (keeper s) (ctx s) (stateObjects s)"
    and "jok (keeper s) (ctx s) (stateObjects s) (rev (entries (sjournal s)))"
    and "dirties_ok (sjournal s)" and "al_wf (accessL s)"
  using assms by (auto simp: db_inv_def)

lemma jext_load:
  assumes inv: "db_inv s" and get: "getStateObject kec s a = (s1, r)"
  shows "jext kec s s1"
proof -
  note spec = getStateObject_spec [OF get]
  have sel: "keeper s1 = keeper s" "ctx s1 = ctx s" "sjournal s1 = sjournal s" "accessL s1 = accessL s"
    "same_frame s s1"
    by (subst spec(1), simp add: same_frame_def)+
  have "jok (keeper s) (ctx s) (stateObjects s1) (rev (entries (sjournal s)))"
    using jok_mono [OF db_invD(2) [OF inv] spec(3)] .
  then have "db_inv s1"
    using inv spec(4) by (simp add: db_inv_def sel)
  then show ?thesis
    using sel spec(2) by (auto simp: jext_def intro!: exI [of _ "[]"])
qed

lemma jext_cache:
  assumes inv: "db_inv s" and live: "stateObjects s a = Some so"
    and "address so' = a" "so_wf (keeper s) (ctx s) so'"
      "dom (originStorage so) \<subseteq> dom (originStorage so')"
      "obj_view kec (keeper s) (ctx s) so' = obj_view kec (keeper s) (ctx s) so"
  shows "jext kec s (setStateObject s so')"
proof -
  let ?s' = "setStateObject s so'"
  have "live_le (stateObjects s) (stateObjects ?s')"
    using live_le_replace [of "stateObjects s" a so, OF live assms(5)] assms(3) by simp
  then have "db_inv ?s'"
    using assms(4) inv by (auto simp: db_inv_def objs_wf_upd intro: jok_mono)
  moreover have "db_view kec ?s' = db_view kec s"
    using assms by (auto simp: db_view_def objs_view_def fun_eq_iff)
  ultimately show ?thesis
    by (auto simp: jext_def intro!: exI [of _ "[]"])
qed

lemma jext_write:
  assumes inv: "db_inv s" and live: "stateObjects s a = Some so"
    and so': "address so' = a" "so_wf (keeper s) (ctx s) so'"
      "dom (originStorage so) \<subseteq> dom (originStorage so')"
    and e: "\<And>es. jok (keeper s) (ctx s) ((stateObjects s)(a \<mapsto> so')) es \<Longrightarrow>
        jok (keeper s) (ctx s) ((stateObjects s)(a \<mapsto> so')) (e # es)"
    and undo: "undo_view kec (keeper s) (ctx s) e
        ((db_view kec s)\<lparr>vObjs := (vObjs (db_view kec s))(a \<mapsto> obj_view kec (keeper s) (ctx s) so')\<rparr>)
        = Some (db_view kec s)"
  shows "jext kec s (setStateObject (appendJ s e) so')"
proof -
  let ?s' = "setStateObject (appendJ s e) so'"
  have "live_le (stateObjects s) (stateObjects ?s')"
    using live_le_replace [of "stateObjects s" a so, OF live so'(3)] so'(1) by simp
  then have "jok (keeper s) (ctx s) (stateObjects ?s') (rev (entries (sjournal s)))"
    by (rule jok_mono [OF db_invD(2) [OF inv]])
  moreover have "objs_wf (keeper s) (ctx s) (stateObjects ?s')"
    using objs_wf_upd [OF db_invD(1) [OF inv] so'(2)] by simp
  moreover have "db_view kec ?s'
    = (db_view kec s)\<lparr>vObjs := (vObjs (db_view kec s))(a \<mapsto> obj_view kec (keeper s) (ctx s) so')\<rparr>"
    using so'(1) by (simp add: db_view_def objs_view_upd)
  ultimately show ?thesis
    using e inv undo so'(1) by (intro jext_single) (auto dest: db_invD)
qed

lemma jext_create:
  assumes inv: "db_inv s" and absent: "stateObjects s a = None" "kept_view kec (keeper s) (ctx s) a = None"
    and so': "address so' = a" "so_wf (keeper s) (ctx s) so'"
  shows "jext kec s (setStateObject (appendJ s (createObjectChange a)) so')"
proof -
  have "(stateObjects s)(a := None) = stateObjects s" using absent(1) by (simp add: fun_upd_idem)
  moreover have "(vObjs (db_view kec s))(a := None) = vObjs (db_view kec s)"
    using absent by (simp add: db_view_def objs_view_def fun_upd_idem)
  ultimately show ?thesis
    using inv so' absent db_invD [OF inv]
    by (intro jext_single [where e = "createObjectChange a"])
       (auto simp: objs_wf_upd db_view_def objs_view_upd)
qed

lemma jext_reset:
  assumes inv: "db_inv s" and live: "stateObjects s a = Some p"
    and so': "address so' = a" "so_wf (keeper s) (ctx s) so'"
  shows "jext kec s (setStateObject (appendJ s (resetObjectChange p)) so')"
proof -
  have p: "address p = a" "so_wf (keeper s) (ctx s) p"
    using db_invD(1) [OF inv] live by (auto simp: objs_wf_def)
  have "(stateObjects s)(a \<mapsto> p) = stateObjects s" using live by (simp add: fun_upd_idem)
  moreover have "(vObjs (db_view kec s))(a \<mapsto> obj_view kec (keeper s) (ctx s) p) = vObjs (db_view kec s)"
    using live by (simp add: db_view_def objs_view_def fun_upd_idem)
  ultimately show ?thesis
    using inv so' p db_invD [OF inv]
    by (intro jext_single [where e = "resetObjectChange p"])
       (auto simp: objs_wf_upd db_view_def objs_view_upd)
qed

section \<open>The operations\<close>

lemma jext_getOrNew:
  assumes inv: "db_inv s" and get: "getOrNewStateObject kec s a = (s1, so)"
  shows "jext kec s s1 \<and> stateObjects s1 a = Some so \<and> address so = a
    \<and> so_wf (keeper s1) (ctx s1) so"
proof (cases "getStateObject kec s a")
  case (Pair t r)
  note spec = getStateObject_spec [OF Pair]
  have sel: "keeper t = keeper s" "ctx t = ctx s" by (subst spec(1), simp)+
  show ?thesis
  proof (cases r)
    case (Some p)
    with get Pair have "s1 = t" "so = p" by (simp_all add: getOrNewStateObject_def)
    then show ?thesis
      using jext_load [OF inv Pair] spec(5,7,8) Some db_invD(1) [OF inv] sel by auto
  next
    case None
    then have "t = s" "stateObjects s a = None" "kept_view kec (keeper s) (ctx s) a = None"
      using spec(5,9) by auto
    moreover from this None Pair get
    have "s1 = setStateObject (appendJ s (createObjectChange a)) (newObject kec a zeroAccount)"
      "so = newObject kec a zeroAccount"
      by (auto simp: getOrNewStateObject_def createObject_def Let_def)
    ultimately show ?thesis
      using jext_create [OF inv] by auto
  qed
qed

lemma createObject_jext:
  assumes inv: "db_inv s" and new: "createObject kec s a = (s1, newobj, prev)"
    and "address so' = a" "so_wf (keeper s) (ctx s) so'"
  shows "jext kec s (setStateObject s1 so')"
proof (cases "getStateObject kec s a")
  case (Pair t r)
  note spec = getStateObject_spec [OF Pair]
  have t: "db_inv t" "keeper t = keeper s" "ctx t = ctx s"
    using jext_load [OF inv Pair] by (auto simp: jext_def same_frame_def)
  have "setStateObject s1 so' = setStateObject (appendJ t
      (case r of None \<Rightarrow> createObjectChange a | Some p \<Rightarrow> resetObjectChange p)) so'"
    using new Pair assms(3)
    by (auto simp: createObject_def Let_def setStateObject_def split: option.splits)
  moreover have "jext kec t (setStateObject (appendJ t
      (case r of None \<Rightarrow> createObjectChange a | Some p \<Rightarrow> resetObjectChange p)) so')"
    using t assms(3,4) spec(5,9)
    by (cases r) (auto intro!: jext_create jext_reset)
  ultimately show ?thesis
    using jext_trans [OF jext_load [OF inv Pair]] by simp
qed

lemma jext_CreateAccount: "db_inv s \<Longrightarrow> jext kec s (CreateAccount kec s a)"
proof (cases "createObject kec s a")
  case (fields s1 newobj prev)
  assume inv: "db_inv s"
  have n: "newobj = newObject kec a zeroAccount" "setStateObject s1 newobj = s1"
    using fields by (auto simp: createObject_def Let_def setStateObject_def split: prod.splits)
  show ?thesis
    using createObject_jext [OF inv fields, of newobj] n
      createObject_jext [OF inv fields, of "setBalance newobj (Balance (account (the prev)))"] fields
    by (cases prev) (auto simp: CreateAccount_def)
qed

lemma jext_so_SetBalance:
  "db_inv s \<Longrightarrow> stateObjects s a = Some so \<Longrightarrow> address so = a \<Longrightarrow> so_wf (keeper s) (ctx s) so \<Longrightarrow>
   jext kec s (so_SetBalance s so b)"
  unfolding so_SetBalance_def
  by (rule jext_write [where a = a and so = so])
     (auto simp: upd_obj_def db_view_def objs_view_def obj_view_setters fun_upd_idem)

lemma jext_so_SetNonce:
  "db_inv s \<Longrightarrow> stateObjects s a = Some so \<Longrightarrow> address so = a \<Longrightarrow> so_wf (keeper s) (ctx s) so \<Longrightarrow>
   jext kec s (so_SetNonce s so n)"
  unfolding so_SetNonce_def
  by (rule jext_write [where a = a and so = so])
     (auto simp: upd_obj_def db_view_def objs_view_def obj_view_setters fun_upd_idem)

lemma so_wf_code [simp]: "so_wf k c (so\<lparr>code := x\<rparr>) = so_wf k c so"
  by (simp add: so_wf_def)

lemma obj_view_code [simp]:
  "account (so\<lparr>code := x\<rparr>) = account so" "originStorage (so\<lparr>code := x\<rparr>) = originStorage so"
  "dirtyStorage (so\<lparr>code := x\<rparr>) = dirtyStorage so" "address (so\<lparr>code := x\<rparr>) = address so"
  "suicided (so\<lparr>code := x\<rparr>) = suicided so"
  by simp_all

lemma jext_so_SetCode:
  assumes "db_inv s" "stateObjects s a = Some so" "address so = a" "so_wf (keeper s) (ctx s) so"
  shows "jext kec s (so_SetCode kec s so h bs)"
proof (cases "so_Code kec s so")
  case (Pair so1 prevcode)
  note cv = obj_view_so_Code [OF Pair]
  obtain x where so1: "so1 = so\<lparr>code := x\<rparr>" using cv by blast
  have view: "obj_view kec (keeper s) (ctx s) so
    = (obj_view kec (keeper s) (ctx s) so1)\<lparr>vAcct := (account so1)\<lparr>CodeHash := CodeHash (account so)\<rparr>,
        vCode := code_view kec (keeper s) (ctx s) (CodeHash (account so)) prevcode\<rparr>"
  proof -
    have "code_view kec (keeper s) (ctx s) (CodeHash (account so)) prevcode
        = vCode (obj_view kec (keeper s) (ctx s) so)" using cv by argo
    moreover have "obj_view kec (keeper s) (ctx s) so1 = obj_view kec (keeper s) (ctx s) so"
      using cv by argo
    ultimately show ?thesis using so1 by (simp add: obj_view_def)
  qed
  have "so_SetCode kec s so h bs = setStateObject
      (appendJ s (codeChange a prevcode (CodeHash (account so)))) (setCode so1 h bs)"
    using Pair assms(3) so1 by (simp add: so_SetCode_def)
  then show ?thesis
    using assms so1 view
    by (auto intro!: jext_write [where a = a and so = so]
        simp: upd_obj_def db_view_def objs_view_def obj_view_setters fun_upd_idem)
qed

lemma so_wf_GetCommittedState:
  assumes "so_wf (keeper db) (ctx db) so" "so_GetCommittedState db so key = (so1, v)"
  shows "so_wf (keeper db) (ctx db) so1 \<and> key \<in> dom (originStorage so1)
    \<and> dom (originStorage so) \<subseteq> dom (originStorage so1) \<and> address so1 = address so
    \<and> dirtyStorage so1 = dirtyStorage so"
  using assms
  by (auto simp: so_GetCommittedState_def so_wf_def Let_def split: option.splits if_splits)
     (meson domD domI subsetD)

lemma so_wf_GetState:
  assumes "so_wf (keeper db) (ctx db) so" "so_GetState db so key = (so1, v)"
  shows "so_wf (keeper db) (ctx db) so1 \<and> key \<in> dom (originStorage so1)
    \<and> dom (originStorage so) \<subseteq> dom (originStorage so1) \<and> address so1 = address so
    \<and> dirtyStorage so1 = dirtyStorage so"
proof (cases "dirtyStorage so key")
  case None
  then show ?thesis using assms so_wf_GetCommittedState by (simp add: so_GetState_def)
next
  case (Some d)
  then have "key \<in> dom (originStorage so)" using assms(1) by (auto simp: so_wf_def)
  with Some assms show ?thesis by (simp add: so_GetState_def)
qed

lemma jext_so_SetState:
  assumes "db_inv s" "stateObjects s a = Some so" "address so = a" "so_wf (keeper s) (ctx s) so"
  shows "jext kec s (so_SetState s so key value)"
proof (cases "so_GetState s so key")
  case (Pair so1 prev)
  note sv = obj_view_so_GetState [OF Pair, of kec] and wf = so_wf_GetState [OF assms(4) Pair]
  show ?thesis
  proof (cases "prev = value")
    case True
    then have "so_SetState s so key value = setStateObject s so1"
      using Pair by (simp add: so_SetState_def)
    then show ?thesis
      using assms sv wf by (simp add: jext_cache [where a = a and so = so])
  next
    case False
    then have eq: "so_SetState s so key value
        = setStateObject (appendJ s (storageChange a key prev)) (setState so1 key value)"
      using Pair assms(3) by (simp add: so_SetState_def)
    have "(vState (obj_view kec (keeper s) (ctx s) so1))(key := prev)
        = vState (obj_view kec (keeper s) (ctx s) so)"
      using sv by (simp add: fun_upd_idem)
    then have "undo_view kec (keeper s) (ctx s) (storageChange a key prev)
        ((db_view kec s)\<lparr>vObjs := (vObjs (db_view kec s))
           (a \<mapsto> obj_view kec (keeper s) (ctx s) (setState so1 key value))\<rparr>) = Some (db_view kec s)"
      using assms(2) sv
      by (simp add: upd_obj_def db_view_def objs_view_def obj_view_setters fun_upd_idem)
    then show ?thesis
      unfolding eq using assms(1,2,3) wf
      by (intro jext_write [where a = a and so = so]) (auto simp: so_wf_setState)
  qed
qed

lemma obj_view_unsuicide:
  "(obj_view kec k c (setBalance (markSuicided so) 0))
     \<lparr>vSuicided := suicided so, vAcct := (account (setBalance (markSuicided so) 0))\<lparr>Balance := Balance (account so)\<rparr>\<rparr>
   = obj_view kec k c so"
  by (simp add: obj_view_def setBalance_def markSuicided_def committed_view_def fun_eq_iff
      cong: option.case_cong)

lemma jext_Suicide:
  assumes inv: "db_inv s"
  shows "jext kec s (fst (Suicide kec s a))"
proof (cases "getStateObject kec s a")
  case (Pair t r)
  note spec = getStateObject_spec [OF Pair] and load = jext_load [OF inv Pair]
  have sel: "keeper t = keeper s" "ctx t = ctx s" by (subst spec(1), simp)+
  show ?thesis
  proof (cases r)
    case None
    with Pair load show ?thesis by (simp add: Suicide_def)
  next
    case (Some so)
    have so: "stateObjects t a = Some so" "address so = a" "so_wf (keeper t) (ctx t) so"
      using spec(5,7,8) db_invD(1) [OF inv] Some sel by auto
    have "jext kec t (setStateObject (appendJ t (suicideChange a (suicided so) (Balance (account so))))
        (setBalance (markSuicided so) 0))"
      using so jext_inv [OF load]
      by (intro jext_write [where a = a and so = so])
         (auto simp: upd_obj_def db_view_def obj_view_unsuicide objs_view_def fun_upd_idem)
    with Pair Some load show ?thesis by (simp add: Suicide_def jext_trans)
  qed
qed

text \<open>Operations that go through \<^const>\<open>getOrNewStateObject\<close>.\<close>

lemma jext_via_getOrNew:
  assumes inv: "db_inv s" and get: "getOrNewStateObject kec s a = (s1, so)"
    and step: "db_inv s1 \<Longrightarrow> stateObjects s1 a = Some so \<Longrightarrow> address so = a \<Longrightarrow>
      so_wf (keeper s1) (ctx s1) so \<Longrightarrow> jext kec s1 s2"
  shows "jext kec s s2"
  using jext_getOrNew [OF inv get] step jext_inv jext_trans by blast

lemma jext_setters:
  assumes inv: "db_inv s"
  shows "jext kec s (AddBalance kec s a n)" and "jext kec s (SubBalance kec s a n)"
    and "jext kec s (SetNonce kec s a u)" and "jext kec s (SetCode kec s a bs)"
    and "jext kec s (SetState kec s a key value)"
proof -
  obtain s1 so where get: "getOrNewStateObject kec s a = (s1, so)" by fastforce
  note via = jext_via_getOrNew [OF inv get]
  show "jext kec s (AddBalance kec s a n)" "jext kec s (SubBalance kec s a n)"
    by (auto intro!: via jext_so_SetBalance jext_refl
        simp: AddBalance_def SubBalance_def get so_AddBalance_def so_SubBalance_def)
  show "jext kec s (SetNonce kec s a u)"
    by (auto intro!: via jext_so_SetNonce simp: SetNonce_def get)
  show "jext kec s (SetCode kec s a bs)"
    by (auto intro!: via jext_so_SetCode simp: SetCode_def get)
  show "jext kec s (SetState kec s a key value)"
    by (auto intro!: via jext_so_SetState simp: SetState_def get)
qed

section \<open>Refunds, logs and the access list\<close>

lemma jext_AddRefund: "db_inv s \<Longrightarrow> jext kec s (AddRefund s g)"
  by (rule jext_single [where e = "refundChange (refund s)"])
     (auto simp: AddRefund_def same_frame_def db_view_def dest: db_invD)

lemma jext_SubRefund: "db_inv s \<Longrightarrow> SubRefund s g = Inr s' \<Longrightarrow> jext kec s s'"
  by (rule jext_single [where e = "refundChange (refund s)"])
     (auto simp: SubRefund_def same_frame_def db_view_def Let_def split: if_splits dest: db_invD)

lemma jext_AddLog: "db_inv s \<Longrightarrow> jext kec s (AddLog s l)"
  by (rule jext_single [where e = addLogChange])
     (auto simp: AddLog_def same_frame_def db_view_def Let_def dest: db_invD)

lemma jext_AddAddressToAccessList:
  assumes inv: "db_inv s" shows "jext kec s (AddAddressToAccessList s a)"
proof (cases "addresses (accessL s) a")
  case (Some i)
  then have "AddAddressToAccessList s a = s"
    by (simp add: AddAddressToAccessList_def AddAddress_def)
  then show ?thesis using inv by (simp add: jext_refl)
next
  case None
  then obtain al where al: "AddAddress (accessL s) a = (al, True)"
    by (simp add: AddAddress_def)
  have "DeleteAddress al a = accessL s" "al_wf al"
    using DeleteAddress_AddAddress [OF al] AddAddress_wf [OF db_invD(4) [OF inv], of a] al by auto
  then show ?thesis
    using inv al
    by (intro jext_single [where e = "accessListAddAccountChange a"])
       (auto simp: AddAddressToAccessList_def same_frame_def db_view_def appendJ_def dest: db_invD)
qed

lemma jext_AddSlotToAccessList:
  assumes inv: "db_inv s" and step: "AddSlotToAccessList s a slot = Inr s'"
  shows "jext kec s s'"
proof -
  obtain al ac sc where add: "AddSlot (accessL s) a slot = Inr (al, ac, sc)"
    using step by (auto simp: AddSlotToAccessList_def)
  note wf = AddSlot_wf [OF db_invD(4) [OF inv] add]
    and undo = undo_AddSlot_AddSlot [OF db_invD(4) [OF inv] add]
  let ?es = "(if ac then [accessListAddAccountChange a] else [])
    @ (if sc then [accessListAddSlotChange a slot] else [])"
  have s': "s' = fold (\<lambda>e t. appendJ t e) ?es (s\<lparr>accessL := al\<rparr>)"
    using step add by (auto simp: AddSlotToAccessList_def)
  have "db_inv s'" "same_frame s s'" "entries (sjournal s') = entries (sjournal s) @ ?es"
    using inv wf by (auto simp: s' db_inv_def same_frame_def dirties_ok_append)
  moreover have "undo_all kec (keeper s) (ctx s) (rev ?es) (db_view kec s') = Some (db_view kec s)"
    using undo by (auto simp: s' undo_AddSlot_def db_view_def split: if_splits elim!: rbind_InrE)
  ultimately show ?thesis unfolding jext_def by blast
qed

lemma jext_addSlots: "db_inv s \<Longrightarrow> addSlots s a keys = Inr s' \<Longrightarrow> jext kec s s'"
proof (induction keys arbitrary: s)
  case (Cons key keys)
  then obtain t where "AddSlotToAccessList s a key = Inr t" "addSlots t a keys = Inr s'" by auto
  then show ?case
    using Cons jext_AddSlotToAccessList jext_inv jext_trans by metis
qed (simp add: jext_refl)

lemma jext_addTuples: "db_inv s \<Longrightarrow> addTuples s els = Inr s' \<Longrightarrow> jext kec s s'"
proof (induction s els arbitrary: s' rule: addTuples.induct)
  case (2 s a keys els)
  then obtain t where t: "addSlots (AddAddressToAccessList s a) a keys = Inr t" "addTuples t els = Inr s'"
    by auto
  have "jext kec s t"
    using jext_AddAddressToAccessList [OF 2(2)] jext_addSlots [OF _ t(1)] jext_inv jext_trans by metis
  then show ?case using 2(1) [OF jext_inv t(2)] jext_trans by metis
qed (simp add: jext_refl)

lemma jext_fold_addresses: "db_inv s \<Longrightarrow> jext kec s (fold (\<lambda>a t. AddAddressToAccessList t a) as s)"
proof (induction as arbitrary: s)
  case (Cons a as)
  then show ?case using jext_AddAddressToAccessList jext_inv jext_trans by (metis fold_simps(2))
qed (simp add: jext_refl)

lemma jext_PrepareAccessList:
  assumes inv: "db_inv s" and step: "PrepareAccessList s sender dst pre list = Inr s'"
  shows "jext kec s s'"
proof -
  let ?s1 = "AddAddressToAccessList s sender"
  let ?s2 = "case dst of None \<Rightarrow> ?s1 | Some d \<Rightarrow> AddAddressToAccessList ?s1 d"
  have 1: "jext kec s ?s1" by (rule jext_AddAddressToAccessList [OF inv])
  then have 2: "jext kec s ?s2"
    using jext_AddAddressToAccessList [OF jext_inv [OF 1]] jext_trans [OF 1] by (cases dst) auto
  then have 3: "jext kec s (fold (\<lambda>a t. AddAddressToAccessList t a) pre ?s2)"
    using jext_fold_addresses [OF jext_inv [OF 2]] jext_trans [OF 2] by auto
  then show ?thesis
    using step jext_addTuples [OF jext_inv [OF 3]] jext_trans [OF 3] by (simp add: PrepareAccessList_def Let_def)
qed

end
