(* ===== verification/Undo_Log.thy ===== *)
theory Undo_Log
  imports Main
begin

text \<open>
  The contract of a store that undoes changes from a log, stated once for any such store:
  updates append log entries whose undo restores what can be observed, a snapshot records
  the length of the log under a fresh identifier, and reverting to a snapshot replays the
  log down to that length. From this contract alone: whatever happens after a snapshot,
  reverting to it restores the observable state, the log and the older snapshots.
\<close>

primrec undo_list :: "('e \<Rightarrow> 'v \<Rightarrow> 'v option) \<Rightarrow> 'e list \<Rightarrow> 'v \<Rightarrow> 'v option" where
  "undo_list undo [] v = Some v"
| "undo_list undo (e # es) v = Option.bind (undo e v) (undo_list undo es)"

lemma undo_list_append:
  "undo_list undo (xs @ ys) v = Option.bind (undo_list undo xs v) (undo_list undo ys)"
  by (induction xs arbitrary: v) (auto split: Option.bind_splits)

locale undo_log =
  fixes view :: "'s \<Rightarrow> 'v"
    and elog :: "'s \<Rightarrow> 'e list"
    and revs :: "'s \<Rightarrow> (int \<times> nat) list"
    and nextid :: "'s \<Rightarrow> int"
    and undo :: "'e \<Rightarrow> 'v \<Rightarrow> 'v option"
    and good :: "'v \<Rightarrow> bool"
    and invar :: "'s \<Rightarrow> bool"
    and update :: "'s \<Rightarrow> 's \<Rightarrow> bool"
    and snapshot :: "'s \<Rightarrow> 's \<times> int"
    and revert :: "'s \<Rightarrow> int \<Rightarrow> 's option"
  assumes invar_good: "invar s \<Longrightarrow> good (view s)"
    and update_invar: "invar s \<Longrightarrow> update s s' \<Longrightarrow> invar s'"
    and update_revs: "invar s \<Longrightarrow> update s s' \<Longrightarrow> revs s' = revs s \<and> nextid s' = nextid s"
    and update_undo: "invar s \<Longrightarrow> update s s' \<Longrightarrow>
      \<exists>es. elog s' = elog s @ es \<and> undo_list undo (rev es) (view s') = Some (view s)"
    and snapshot_id: "invar s \<Longrightarrow> snapshot s = (s', i) \<Longrightarrow> i = nextid s \<and> nextid s' = i + 1"
    and snapshot_revs: "invar s \<Longrightarrow> snapshot s = (s', i) \<Longrightarrow>
      revs s' = revs s @ [(i, length (elog s))] \<and> elog s' = elog s \<and> view s' = view s"
    and snapshot_invar: "invar s \<Longrightarrow> snapshot s = (s', i) \<Longrightarrow> invar s'"
    and revert_unknown: "invar s \<Longrightarrow> sorted_wrt (<) (map fst (revs s)) \<Longrightarrow>
      i \<notin> fst ` set (revs s) \<Longrightarrow> revert s i = None"
    and revert_known: "invar s \<Longrightarrow> sorted_wrt (<) (map fst (revs s)) \<Longrightarrow>
      revs s = pre @ (i, n) # post \<Longrightarrow> n \<le> length (elog s) \<Longrightarrow>
      undo_list undo (rev (drop n (elog s))) (view s) = Some v \<Longrightarrow> good v \<Longrightarrow>
      \<exists>s'. revert s i = Some s' \<and> invar s' \<and> view s' = v \<and> elog s' = take n (elog s)
         \<and> revs s' = pre \<and> nextid s' = nextid s"
begin

text \<open>Every recorded snapshot can be restored from here, and the records are in order.\<close>

definition restorable :: "'s \<Rightarrow> int \<times> nat \<Rightarrow> bool" where
  "restorable s r \<longleftrightarrow> fst r < nextid s \<and> snd r \<le> length (elog s)
     \<and> (\<exists>v. undo_list undo (rev (drop (snd r) (elog s))) (view s) = Some v \<and> good v)"

definition snap_inv :: "'s \<Rightarrow> bool" where
  "snap_inv s \<longleftrightarrow> invar s \<and> sorted_wrt (<) (map fst (revs s)) \<and> sorted (map snd (revs s))
     \<and> (\<forall>r \<in> set (revs s). restorable s r)"

text \<open>One move: an update, a snapshot, or reverting to a snapshot newer than \<open>i\<close>.\<close>

inductive move :: "int \<Rightarrow> 's \<Rightarrow> 's \<Rightarrow> bool" for i where
  move_update: "update s s' \<Longrightarrow> move i s s'"
| move_snapshot: "snapshot s = (s', j) \<Longrightarrow> move i s s'"
| move_revert: "i < j \<Longrightarrow> revert s j = Some s' \<Longrightarrow> move i s s'"

lemma restorable_update:
  assumes "invar s" "update s s'" "restorable s r"
  shows "restorable s' r"
proof -
  obtain es where es: "elog s' = elog s @ es" "undo_list undo (rev es) (view s') = Some (view s)"
    using update_undo [OF assms(1,2)] by blast
  with assms(3) update_revs [OF assms(1,2)] show ?thesis
    by (auto simp: restorable_def undo_list_append)
qed

lemma snap_inv_update: "snap_inv s \<Longrightarrow> update s s' \<Longrightarrow> snap_inv s'"
  using restorable_update update_invar update_revs by (auto simp: snap_inv_def)

lemma snap_inv_snapshot:
  assumes "snap_inv s" "snapshot s = (s', i)"
  shows "snap_inv s'"
proof -
  have inv: "invar s" using assms(1) by (simp add: snap_inv_def)
  note f = snapshot_id [OF inv assms(2)] snapshot_revs [OF inv assms(2)] snapshot_invar [OF inv assms(2)]
  have "restorable s' r" if "r \<in> set (revs s)" for r
    using assms(1) that f by (force simp: snap_inv_def restorable_def)
  moreover have "restorable s' (i, length (elog s))"
    using f invar_good [OF inv] by (simp add: restorable_def)
  moreover have "\<forall>r \<in> set (revs s). fst r < i \<and> snd r \<le> length (elog s)"
    using assms(1) f by (auto simp: snap_inv_def restorable_def)
  ultimately show ?thesis
    using assms(1) f by (auto simp: snap_inv_def sorted_wrt_append sorted_append)
qed

lemma snap_inv_revert:
  assumes snap: "snap_inv s" and known: "revs s = pre @ (j, n) # post"
  obtains s' where "revert s j = Some s'" "snap_inv s'" "revs s' = pre" "elog s' = take n (elog s)"
    "undo_list undo (rev (drop n (elog s))) (view s) = Some (view s')" "nextid s' = nextid s"
proof -
  have inv: "invar s" and srt: "sorted_wrt (<) (map fst (revs s))" "sorted (map snd (revs s))"
    using snap by (auto simp: snap_inv_def)
  have "restorable s (j, n)" using snap known by (simp add: snap_inv_def)
  then obtain v where v: "n \<le> length (elog s)"
      "undo_list undo (rev (drop n (elog s))) (view s) = Some v" "good v"
    by (auto simp: restorable_def)
  from revert_known [OF inv srt(1) known v] obtain s' where s': "revert s j = Some s'" "invar s'"
      "view s' = v" "elog s' = take n (elog s)" "revs s' = pre" "nextid s' = nextid s" by blast
  have "restorable s' r" if r: "r \<in> set pre" for r
  proof -
    have "snd r \<le> n" using srt(2) known r by (auto simp: sorted_append)
    then have split: "drop (snd r) (elog s) = drop (snd r) (take n (elog s)) @ drop n (elog s)"
      using v(1) by (metis append_take_drop_id drop_append drop_take length_take
          min.absorb2 diff_is_0_eq drop0)
    have "restorable s r" using snap known r by (simp add: snap_inv_def)
    then obtain w where "fst r < nextid s" "good w"
        "undo_list undo (rev (drop (snd r) (elog s))) (view s) = Some w"
      by (auto simp: restorable_def)
    then have "undo_list undo (rev (drop (snd r) (elog s'))) (view s') = Some w"
      unfolding split using v s' by (simp add: undo_list_append)
    then show ?thesis
      using \<open>fst r < nextid s\<close> \<open>good w\<close> \<open>snd r \<le> n\<close> v(1) s' by (simp add: restorable_def)
  qed
  then have "snap_inv s'"
    using s' srt known by (auto simp: snap_inv_def sorted_wrt_append sorted_append)
  then show ?thesis using that [OF s'(1)] s' v by simp
qed

text \<open>What stays true of a snapshot \<open>i\<close> taken in \<open>s\<close> while later states revert only above it.\<close>

definition above :: "'s \<Rightarrow> int \<Rightarrow> 's \<Rightarrow> bool" where
  "above s i t \<longleftrightarrow> snap_inv t
     \<and> (\<exists>post es. revs t = revs s @ (i, length (elog s)) # post \<and> elog t = elog s @ es
          \<and> undo_list undo (rev es) (view t) = Some (view s))"

lemma above_start:
  assumes "snap_inv s" "snapshot s = (s', i)"
  shows "above s i s'"
proof -
  have "invar s" using assms(1) by (simp add: snap_inv_def)
  from snapshot_revs [OF this assms(2)] snap_inv_snapshot [OF assms] show ?thesis
    by (simp add: above_def)
qed

lemma above_revert:
  assumes ab: "above s i t" and "i < j" and rev: "revert t j = Some t'"
  shows "above s i t'"
proof -
  obtain post es where t: "revs t = revs s @ (i, length (elog s)) # post" "elog t = elog s @ es"
      "undo_list undo (rev es) (view t) = Some (view s)" and snap: "snap_inv t"
    using ab by (auto simp: above_def)
  have srt: "sorted_wrt (<) (map fst (revs t))" "sorted (map snd (revs t))" and inv: "invar t"
    using snap by (auto simp: snap_inv_def)
  have "j \<in> fst ` set (revs t)" using revert_unknown [OF inv srt(1)] rev by force
  then have "j \<in> fst ` set post"
    using t(1) srt(1) \<open>i < j\<close> by (auto simp: sorted_wrt_append)
  then obtain post1 n post2 where post: "post = post1 @ (j, n) # post2"
    by (auto dest!: split_list)
  then have known: "revs t = (revs s @ (i, length (elog s)) # post1) @ (j, n) # post2"
    using t(1) by simp
  have n: "length (elog s) \<le> n" using srt(2) known by (auto simp: sorted_append)
  from snap_inv_revert [OF snap known] obtain u where u: "revert t j = Some u" "snap_inv u"
      "revs u = revs s @ (i, length (elog s)) # post1" "elog u = take n (elog t)"
      "undo_list undo (rev (drop n (elog t))) (view t) = Some (view u)" by metis
  define m where "m = n - length (elog s)"
  have "undo_list undo (rev (drop m es) @ rev (take m es)) (view t) = Some (view s)"
    using t(3) by (simp flip: rev_append)
  then have "undo_list undo (rev (take m es)) (view u) = Some (view s)"
    using u(5) n t(2) by (simp add: undo_list_append m_def)
  moreover have "elog u = elog s @ take m es" using u(4) n t(2) by (simp add: m_def)
  ultimately show ?thesis using u rev by (auto simp: above_def)
qed

lemma above_update:
  assumes ab: "above s i t" and up: "update t t'"
  shows "above s i t'"
proof -
  obtain post es where t: "revs t = revs s @ (i, length (elog s)) # post" "elog t = elog s @ es"
      "undo_list undo (rev es) (view t) = Some (view s)" and snap: "snap_inv t"
    using ab by (auto simp: above_def)
  then have inv: "invar t" by (simp add: snap_inv_def)
  obtain fs where "elog t' = elog t @ fs" "undo_list undo (rev fs) (view t') = Some (view t)"
    using update_undo [OF inv up] by blast
  then show ?thesis
    using t update_revs [OF inv up] snap_inv_update [OF snap up]
    by (simp add: above_def undo_list_append)
qed

lemma above_snapshot:
  assumes ab: "above s i t" and sn: "snapshot t = (t', j)"
  shows "above s i t'"
proof -
  have snap: "snap_inv t" and inv: "invar t" using ab by (auto simp: above_def snap_inv_def)
  from snapshot_revs [OF inv sn] snap_inv_snapshot [OF snap sn] ab show ?thesis
    by (auto simp: above_def)
qed

lemma above_move: "above s i t \<Longrightarrow> move i t t' \<Longrightarrow> above s i t'"
  by (erule move.cases) (blast intro: above_update above_snapshot above_revert)+

lemma above_moves:
  assumes "(move i)\<^sup>*\<^sup>* t t'" "above s i t"
  shows "above s i t'"
  using assms by (induction rule: rtranclp_induct) (blast intro: above_move)+

theorem revert_restores:
  assumes "snap_inv s" "snapshot s = (s1, i)" "(move i)\<^sup>*\<^sup>* s1 s2"
  shows "\<exists>s3. revert s2 i = Some s3 \<and> snap_inv s3 \<and> view s3 = view s
      \<and> elog s3 = elog s \<and> revs s3 = revs s"
proof -
  have "above s i s2" using above_moves [OF assms(3) above_start [OF assms(1,2)]] .
  then obtain post es where t: "revs s2 = revs s @ (i, length (elog s)) # post" "elog s2 = elog s @ es"
      "undo_list undo (rev es) (view s2) = Some (view s)" and snap: "snap_inv s2"
    by (auto simp: above_def)
  from snap_inv_revert [OF snap t(1)] obtain s3 where "revert s2 i = Some s3" "snap_inv s3"
      "revs s3 = revs s" "elog s3 = take (length (elog s)) (elog s2)"
      "undo_list undo (rev (drop (length (elog s)) (elog s2))) (view s2) = Some (view s3)" by metis
  then show ?thesis using t by simp
qed

end

end
