(* ===== verification/StateDB_Machine.thy ===== *)
theory StateDB_Machine
  imports StateDB_Ops Undo_Log
begin

text \<open>
  The database as a machine: the operations a caller may invoke as a datatype, one run of
  them as a fold, and the reverting of a journal as a refinement of the undo on views. The
  undo-log contract is interpreted on these definitions, which gives what
  \<^verbatim>\<open>RevertToSnapshot\<close> restores.
\<close>

datatype dbop =
    OpExist addr | OpEmpty addr | OpGetBalance addr | OpGetNonce addr | OpGetCode addr
  | OpGetCodeSize addr | OpGetCodeHash addr | OpGetState addr hash | OpGetCommittedState addr hash
  | OpHasSuicided addr | OpForEachStorage addr
  | OpAddLog Log | OpAddRefund u64 | OpSubRefund u64 | OpCreateAccount addr
  | OpAddBalance addr int | OpSubBalance addr int | OpSetNonce addr u64
  | OpSetCode addr "byte list option" | OpSetState addr hash hash | OpSuicide addr
  | OpAddAddressToAccessList addr | OpAddSlotToAccessList addr hash
  | OpPrepareAccessList addr "addr option" "addr list" "(addr \<times> hash list) list"
  | OpSnapshot | OpRevertToSnapshot int

fun apply_op :: "(byte list \<Rightarrow> hash) \<Rightarrow> dbop \<Rightarrow> 'k StateDB \<Rightarrow> 'k StateDB result" where
  "apply_op kec (OpExist a) s = Inr (fst (Exist kec s a))"
| "apply_op kec (OpEmpty a) s = Inr (fst (Empty kec s a))"
| "apply_op kec (OpGetBalance a) s = Inr (fst (GetBalance kec s a))"
| "apply_op kec (OpGetNonce a) s = Inr (fst (GetNonce kec s a))"
| "apply_op kec (OpGetCode a) s = Inr (fst (GetCode kec s a))"
| "apply_op kec (OpGetCodeSize a) s = Inr (fst (GetCodeSize kec s a))"
| "apply_op kec (OpGetCodeHash a) s = Inr (fst (GetCodeHash kec s a))"
| "apply_op kec (OpGetState a key) s = Inr (fst (GetState kec s a key))"
| "apply_op kec (OpGetCommittedState a key) s = Inr (fst (GetCommittedState kec s a key))"
| "apply_op kec (OpHasSuicided a) s = Inr (fst (HasSuicided kec s a))"
| "apply_op kec (OpForEachStorage a) s = Inr (fst (ForEachStorage kec s a (\<lambda>_ _. True)))"
| "apply_op kec (OpAddLog l) s = Inr (AddLog s l)"
| "apply_op kec (OpAddRefund g) s = Inr (AddRefund s g)"
| "apply_op kec (OpSubRefund g) s = SubRefund s g"
| "apply_op kec (OpCreateAccount a) s = Inr (CreateAccount kec s a)"
| "apply_op kec (OpAddBalance a n) s = Inr (AddBalance kec s a n)"
| "apply_op kec (OpSubBalance a n) s = Inr (SubBalance kec s a n)"
| "apply_op kec (OpSetNonce a n) s = Inr (SetNonce kec s a n)"
| "apply_op kec (OpSetCode a bs) s = Inr (SetCode kec s a bs)"
| "apply_op kec (OpSetState a key v) s = Inr (SetState kec s a key v)"
| "apply_op kec (OpSuicide a) s = Inr (fst (Suicide kec s a))"
| "apply_op kec (OpAddAddressToAccessList a) s = Inr (AddAddressToAccessList s a)"
| "apply_op kec (OpAddSlotToAccessList a slot) s = AddSlotToAccessList s a slot"
| "apply_op kec (OpPrepareAccessList sender dst pre al) s = PrepareAccessList s sender dst pre al"
| "apply_op kec OpSnapshot s = Inr (fst (Snapshot s))"
| "apply_op kec (OpRevertToSnapshot i) s = RevertToSnapshot kec s i"

primrec run_ops :: "(byte list \<Rightarrow> hash) \<Rightarrow> dbop list \<Rightarrow> 'k StateDB \<Rightarrow> 'k StateDB result" where
  "run_ops kec [] s = Inr s"
| "run_ops kec (op # ops) s = rbind (apply_op kec op s) (run_ops kec ops)"

definition is_update :: "dbop \<Rightarrow> bool" where
  "is_update op \<longleftrightarrow> (case op of OpSnapshot \<Rightarrow> False | OpRevertToSnapshot _ \<Rightarrow> False | _ \<Rightarrow> True)"

text \<open>The reverts in \<open>ops\<close> go to snapshots newer than \<open>i\<close>.\<close>

definition reverts_above :: "int \<Rightarrow> dbop list \<Rightarrow> bool" where
  "reverts_above i ops = list_all (\<lambda>op. case op of OpRevertToSnapshot j \<Rightarrow> i < j | _ \<Rightarrow> True) ops"

text \<open>The states of a database from its creation on.\<close>

inductive reachable :: "(byte list \<Rightarrow> hash) \<Rightarrow> 'k StateDB \<Rightarrow> bool" for kec where
  reach_New: "reachable kec (NewStateDB c k cfg)"
| reach_op: "reachable kec s \<Longrightarrow> apply_op kec op s = Inr s' \<Longrightarrow> reachable kec s'"

section \<open>Queries\<close>

lemma jext_get:
  assumes inv: "db_inv s"
  shows "jext kec s (fst (getStateObject kec s a))"
    and "db_view kec (fst (getStateObject kec s a)) = db_view kec s"
  using jext_load [OF inv, of kec a] getStateObject_spec(2) [of kec s a]
  by (metis prod.collapse)+

lemma sel_load:
  assumes "getStateObject kec s a = (s1, r)"
  shows "keeper s1 = keeper s" "ctx s1 = ctx s"
  by (subst getStateObject_spec(1) [OF assms], simp)+

text \<open>A query that caches what it reads in the object, after loading the object.\<close>

lemma query_cached:
  assumes inv: "db_inv s" and get: "getStateObject kec s a = (s1, Some so)"
    and "address so' = address so" "so_wf (keeper s) (ctx s) so \<Longrightarrow> so_wf (keeper s) (ctx s) so'"
      "dom (originStorage so) \<subseteq> dom (originStorage so')"
      "obj_view kec (keeper s) (ctx s) so' = obj_view kec (keeper s) (ctx s) so"
  shows "jext kec s (setStateObject s1 so')" and "db_view kec (setStateObject s1 so') = db_view kec s"
proof -
  note spec = getStateObject_spec [OF get] and sel = sel_load [OF get]
  have so: "address so = a" "so_wf (keeper s) (ctx s) so" "stateObjects s1 a = Some so"
    using spec(5,7,8) db_invD(1) [OF inv] by auto
  have "jext kec s s1" by (rule jext_load [OF inv get])
  moreover have "jext kec s1 (setStateObject s1 so')"
    using jext_cache [OF jext_inv [OF \<open>jext kec s s1\<close>] so(3)] assms(3-6) so sel by simp
  ultimately show "jext kec s (setStateObject s1 so')" by (rule jext_trans)
  have "db_view kec (setStateObject s1 so') = db_view kec s1"
    using so assms(3,6) sel by (auto simp: db_view_def objs_view_upd objs_view_def fun_eq_iff)
  then show "db_view kec (setStateObject s1 so') = db_view kec s" using spec(2) by simp
qed

lemma jext_GetState:
  assumes inv: "db_inv s"
  shows "jext kec s (fst (GetState kec s a key)) \<and> db_view kec (fst (GetState kec s a key)) = db_view kec s"
proof (cases "getStateObject kec s a")
  case (Pair s1 r)
  show ?thesis
  proof (cases r)
    case None
    then show ?thesis using Pair jext_get [OF inv, of kec a] by (simp add: GetState_def)
  next
    case (Some so)
    obtain so1 v where g: "so_GetState s1 so key = (so1, v)" by fastforce
    note sel = sel_load [OF Pair]
    have "so_wf (keeper s) (ctx s) so" using getStateObject_spec(8) [OF Pair] db_invD(1) [OF inv] Some by simp
    then show ?thesis
      using query_cached [OF inv Pair [unfolded Some], of so1] Pair Some g
        so_wf_GetState [OF _ g] obj_view_so_GetState [OF g, of kec] sel
      by (simp add: GetState_def)
  qed
qed

lemma jext_GetCommittedState:
  assumes inv: "db_inv s"
  shows "jext kec s (fst (GetCommittedState kec s a key))
    \<and> db_view kec (fst (GetCommittedState kec s a key)) = db_view kec s"
proof (cases "getStateObject kec s a")
  case (Pair s1 r)
  show ?thesis
  proof (cases r)
    case None
    then show ?thesis using Pair jext_get [OF inv, of kec a] by (simp add: GetCommittedState_def)
  next
    case (Some so)
    obtain so1 v where g: "so_GetCommittedState s1 so key = (so1, v)" by fastforce
    note sel = sel_load [OF Pair]
    have "so_wf (keeper s) (ctx s) so" using getStateObject_spec(8) [OF Pair] db_invD(1) [OF inv] Some by simp
    then show ?thesis
      using query_cached [OF inv Pair [unfolded Some], of so1] Pair Some g
        so_wf_GetCommittedState [OF _ g] conjunct1 [OF obj_view_so_GetCommittedState [OF g, of kec]] sel
      by (simp add: GetCommittedState_def)
  qed
qed

lemma so_Code_frame:
  "so_Code kec db so = (so1, c) \<Longrightarrow>
     address so1 = address so \<and> originStorage so1 = originStorage so \<and> dirtyStorage so1 = dirtyStorage so"
  by (auto simp: so_Code_def Let_def split: option.splits if_splits)

lemma jext_GetCode:
  assumes inv: "db_inv s"
  shows "jext kec s (fst (GetCode kec s a)) \<and> db_view kec (fst (GetCode kec s a)) = db_view kec s"
    and "jext kec s (fst (GetCodeSize kec s a)) \<and> db_view kec (fst (GetCodeSize kec s a)) = db_view kec s"
proof -
  obtain s1 r where get: "getStateObject kec s a = (s1, r)" by fastforce
  note sel = sel_load [OF get]
  have cached: "jext kec s (setStateObject s1 so1) \<and> db_view kec (setStateObject s1 so1) = db_view kec s"
    if "r = Some so" "so_Code kec s1 so = (so1, c)" for so so1 c
    using query_cached [OF inv get [unfolded that(1)], of so1] so_Code_frame [OF that(2)]
      obj_view_so_Code [OF that(2)] sel by (simp add: so_wf_def)
  show "jext kec s (fst (GetCode kec s a)) \<and> db_view kec (fst (GetCode kec s a)) = db_view kec s"
    using cached get jext_get [OF inv, of kec a]
    by (auto simp: GetCode_def split: option.splits prod.splits)
  show "jext kec s (fst (GetCodeSize kec s a)) \<and> db_view kec (fst (GetCodeSize kec s a)) = db_view kec s"
    using cached get jext_get [OF inv, of kec a] sel
    by (auto simp: GetCodeSize_def so_CodeSize_def Let_def
          intro: query_cached [OF inv] split: option.splits prod.splits if_splits)
qed

lemma jext_plain_queries:
  assumes inv: "db_inv s" and "op \<in> {OpExist a, OpEmpty a, OpGetBalance a, OpGetNonce a, OpGetCodeHash a,
    OpHasSuicided a, OpForEachStorage a}"
  shows "\<exists>s'. apply_op kec op s = Inr s' \<and> jext kec s s' \<and> db_view kec s' = db_view kec s"
  using assms(2) jext_get [OF inv, of kec a]
  by (cases "getStateObject kec s a")
     (auto simp: Exist_def Empty_def GetBalance_def GetNonce_def GetCodeHash_def HasSuicided_def
        ForEachStorage_def split: option.splits)

section \<open>Updates\<close>

lemma apply_update_jext:
  assumes inv: "db_inv s" and "is_update op" and step: "apply_op kec op s = Inr s'"
  shows "jext kec s s'"
proof (cases "\<exists>a. op \<in> {OpExist a, OpEmpty a, OpGetBalance a, OpGetNonce a, OpGetCodeHash a,
    OpHasSuicided a, OpForEachStorage a}")
  case True
  then obtain a where "op \<in> {OpExist a, OpEmpty a, OpGetBalance a, OpGetNonce a, OpGetCodeHash a,
    OpHasSuicided a, OpForEachStorage a}" by blast
  from jext_plain_queries [OF inv this, of kec] step show ?thesis by auto
next
  case False
  with assms(2) step show ?thesis
    by (cases op)
       (auto simp: is_update_def jext_GetState [OF inv] jext_GetCommittedState [OF inv] jext_GetCode [OF inv]
          jext_setters [OF inv] jext_AddLog [OF inv] jext_AddRefund [OF inv] jext_CreateAccount [OF inv]
          jext_Suicide [OF inv] jext_AddAddressToAccessList [OF inv]
        intro: jext_SubRefund [OF inv] jext_AddSlotToAccessList [OF inv] jext_PrepareAccessList [OF inv])
qed

section \<open>Reverting the journal\<close>

lemma undo_all_list: "undo_all kec k c es v = undo_list (undo_view kec k c) es v"
  by (induction es arbitrary: v) (auto split: Option.bind_splits)

definition set_dirties :: "'k StateDB \<Rightarrow> (addr \<rightharpoonup> int) \<Rightarrow> 'k StateDB" where
  "set_dirties s d = s\<lparr>sjournal := (sjournal s)\<lparr>dirties := d\<rparr>\<rparr>"

lemma set_dirties_sel [simp]:
  "db_view kec (set_dirties s d) = db_view kec s" "same_frame s (set_dirties t d) = same_frame s t"
  "same_frame (set_dirties s d) t = same_frame s t"
  "keeper (set_dirties s d) = keeper s" "ctx (set_dirties s d) = ctx s"
  "stateObjects (set_dirties s d) = stateObjects s" "dirties (sjournal (set_dirties s d)) = d"
  "entries (sjournal (set_dirties s d)) = entries (sjournal s)"
  by (simp_all add: set_dirties_def db_view_def same_frame_def)

lemma same_frame_trans: "same_frame s t \<Longrightarrow> same_frame t u \<Longrightarrow> same_frame s u"
  by (simp add: same_frame_def)

text \<open>Reverting a suffix of the journal gives the state that the undo on views gives.\<close>

lemma revert_loop_undo:
  assumes "objs_wf (keeper s) (ctx s) (stateObjects s)"
    and "jok (keeper s) (ctx s) (stateObjects s) (es @ rest)"
    and "undo_all kec (keeper s) (ctx s) es (db_view kec s) = Some v"
  shows "\<exists>s'. revert_loop kec es s = Inr s' \<and> same_frame s s' \<and> db_view kec s' = v
    \<and> objs_wf (keeper s) (ctx s) (stateObjects s') \<and> jok (keeper s) (ctx s) (stateObjects s') rest
    \<and> entries (sjournal s') = entries (sjournal s)
    \<and> dirties (sjournal s') = fold dec_dirty es (dirties (sjournal s))"
  using assms
proof (induction es arbitrary: s)
  case (Cons e es)
  obtain v1 where v1: "undo_view kec (keeper s) (ctx s) e (db_view kec s) = Some v1"
      "undo_all kec (keeper s) (ctx s) es v1 = Some v"
    using Cons.prems(3) by (auto split: Option.bind_splits)
  then obtain s1 where s1: "entry_Revert kec e s = Inr s1" "db_view kec s1 = v1"
    using entry_Revert_undo [OF Cons.prems(1), of kec e] by (auto split: sum.splits)
  from entry_Revert_frame [OF s1(1) Cons.prems(1)] Cons.prems(2)
  have fr: "same_frame s s1" "sjournal s1 = sjournal s" "objs_wf (keeper s) (ctx s) (stateObjects s1)"
    "jok (keeper s) (ctx s) (stateObjects s1) (es @ rest)" by simp_all
  have kc: "keeper s1 = keeper s" "ctx s1 = ctx s" using fr(1) by (simp_all add: same_frame_def)
  let ?s2 = "set_dirties s1 (dec_dirty e (dirties (sjournal s1)))"
  have "revert_loop kec (e # es) s = revert_loop kec es ?s2"
    using s1(1) by (simp add: set_dirties_def rbind_simps)
  moreover have "same_frame s ?s2" using fr(1) by simp
  ultimately show ?case
    using Cons.IH [of ?s2] fr(2-4) kc v1(2) s1(2) by (auto intro: same_frame_trans)
qed (simp add: same_frame_def)

lemma dirties_ok_fold:
  "dirties_ok \<lparr>entries = xs @ ys, dirties = d\<rparr> \<Longrightarrow> dirties_ok \<lparr>entries = xs, dirties = fold dec_dirty (rev ys) d\<rparr>"
proof (induction ys arbitrary: d rule: rev_induct)
  case (snoc y ys)
  then show ?case using dirties_ok_dec [of "xs @ ys" y d] by simp
qed simp

lemma dirties_ok_unique: "dirties_ok j \<Longrightarrow> dirties_ok j' \<Longrightarrow> entries j = entries j' \<Longrightarrow> j = j'"
  by (auto simp: dirties_ok_def fun_eq_iff intro!: journal.equality)

lemma journal_Revert_undo:
  assumes inv: "db_inv s" and n: "n \<le> length (entries (sjournal s))"
    and undo: "undo_all kec (keeper s) (ctx s) (rev (drop n (entries (sjournal s)))) (db_view kec s) = Some v"
    and good: "al_wf (vAccess v)"
  shows "\<exists>s'. journal_Revert kec s n = Inr s' \<and> same_frame s s' \<and> db_inv s' \<and> db_view kec s' = v
    \<and> entries (sjournal s') = take n (entries (sjournal s))"
proof -
  let ?es = "entries (sjournal s)"
  have split: "rev ?es = rev (drop n ?es) @ rev (take n ?es)" by (simp flip: rev_append)
  have "jok (keeper s) (ctx s) (stateObjects s) (rev (drop n ?es) @ rev (take n ?es))"
    using db_invD(2) [OF inv] unfolding split .
  from revert_loop_undo [OF db_invD(1) [OF inv] this undo] obtain s1 where
    s1: "revert_loop kec (rev (drop n ?es)) s = Inr s1" "same_frame s s1" "db_view kec s1 = v"
      "objs_wf (keeper s) (ctx s) (stateObjects s1)"
      "jok (keeper s) (ctx s) (stateObjects s1) (rev (take n ?es))"
      "entries (sjournal s1) = ?es"
      "dirties (sjournal s1) = fold dec_dirty (rev (drop n ?es)) (dirties (sjournal s))" by blast
  let ?s2 = "s1\<lparr>sjournal := (sjournal s1)\<lparr>entries := take n ?es\<rparr>\<rparr>"
  have "dirties_ok \<lparr>entries = take n ?es @ drop n ?es, dirties = dirties (sjournal s)\<rparr>"
    using db_invD(3) [OF inv] by (simp add: dirties_ok_def)
  from dirties_ok_fold [OF this] have "dirties_ok (sjournal ?s2)"
    using s1(7) by (simp add: dirties_ok_def)
  moreover have "al_wf (accessL s1)" using s1(3) good by (auto simp: db_view_def)
  ultimately have "db_inv ?s2"
    using s1(2,4,5) by (simp add: db_inv_def same_frame_def)
  moreover have "journal_Revert kec s n = Inr ?s2"
    using s1(1,6) n by (simp add: journal_Revert_def rbind_simps)
  ultimately show ?thesis
    using s1(2,3) by (auto simp: same_frame_def db_view_def)
qed

section \<open>Snapshots\<close>

definition rev_pairs :: "'k StateDB \<Rightarrow> (int \<times> nat) list" where
  "rev_pairs s = map (\<lambda>r. (rev_id r, journalIndex r)) (validRevisions s)"

definition RevertToSnapshot_opt :: "(byte list \<Rightarrow> hash) \<Rightarrow> 'k StateDB \<Rightarrow> int \<Rightarrow> 'k StateDB option" where
  "RevertToSnapshot_opt kec s i = (case RevertToSnapshot kec s i of Inl _ \<Rightarrow> None | Inr s' \<Rightarrow> Some s')"

definition db_invar :: "'k Keeper \<Rightarrow> 'k \<Rightarrow> 'k StateDB \<Rightarrow> bool" where
  "db_invar k c s \<longleftrightarrow> db_inv s \<and> keeper s = k \<and> ctx s = c"

definition db_update :: "(byte list \<Rightarrow> hash) \<Rightarrow> 'k StateDB \<Rightarrow> 'k StateDB \<Rightarrow> bool" where
  "db_update kec s s' \<longleftrightarrow> (\<exists>op. is_update op \<and> apply_op kec op s = Inr s')"

text \<open>The binary search over the identifiers finds the first one that is not smaller.\<close>

lemma search_revision:
  assumes srt: "sorted_wrt (<) (map rev_id revs)"
  shows "first_true (length revs) (\<lambda>n. rev_id (revs ! n) \<ge> i)
    (sort_Search (length revs) (\<lambda>n. rev_id (revs ! n) \<ge> i))"
proof (rule sort_Search_correct)
  have "rev_id (revs ! a) \<le> rev_id (revs ! b)" if "a \<le> b" "b < length revs" for a b
  proof (cases "a = b")
    case False
    with that show ?thesis using sorted_wrt_nth_less [OF srt, of a b] by simp
  qed simp
  then show "stays_true (length revs) (\<lambda>n. rev_id (revs ! n) \<ge> i)"
    unfolding stays_true_def by (meson order_trans)
qed

lemma search_revision_known:
  assumes srt: "sorted_wrt (<) (map rev_id (pre @ r # post))"
  shows "sort_Search (length (pre @ r # post)) (\<lambda>n. rev_id ((pre @ r # post) ! n) \<ge> rev_id r) = length pre"
proof (rule first_true_unique [OF search_revision [OF srt]])
  have pre: "rev_id (pre ! m) < rev_id r" if "m < length pre" for m
    using srt that by (simp add: sorted_wrt_append)
  have post: "rev_id r < rev_id (post ! m)" if "m < length post" for m
    using srt that by (simp add: sorted_wrt_append)
  have "rev_id r \<le> rev_id ((r # post) ! m)" if "m < length (r # post)" for m
    using post [of "m - 1"] that by (cases m) simp_all
  then show "first_true (length (pre @ r # post)) (\<lambda>n. rev_id r \<le> rev_id ((pre @ r # post) ! n)) (length pre)"
    using pre by (simp add: first_true_def nth_append not_le)
qed

lemma RevertToSnapshot_unknown:
  assumes srt: "sorted_wrt (<) (map rev_id (validRevisions s))" and "i \<notin> rev_id ` set (validRevisions s)"
  shows "RevertToSnapshot kec s i = Inl (Panic ''revision id cannot be reverted'')"
proof -
  define idx where "idx = sort_Search (length (validRevisions s)) (\<lambda>n. rev_id (validRevisions s ! n) \<ge> i)"
  have "idx \<le> length (validRevisions s)"
    using search_revision [OF srt, of i] unfolding first_true_def idx_def by (rule conjunct1)
  moreover have "idx < length (validRevisions s) \<Longrightarrow> rev_id (validRevisions s ! idx) \<noteq> i"
    using assms(2) nth_mem [of idx "validRevisions s"] by auto
  ultimately have "idx = length (validRevisions s) \<or> rev_id (validRevisions s ! idx) \<noteq> i"
    by linarith
  then show ?thesis by (simp add: RevertToSnapshot_def Let_def flip: idx_def)
qed

lemma RevertToSnapshot_known:
  assumes inv: "db_inv s" and srt: "sorted_wrt (<) (map rev_id (validRevisions s))"
    and known: "validRevisions s = pre @ r # post"
    and n: "journalIndex r \<le> length (entries (sjournal s))"
    and undo: "undo_all kec (keeper s) (ctx s) (rev (drop (journalIndex r) (entries (sjournal s))))
                 (db_view kec s) = Some v"
    and good: "al_wf (vAccess v)"
  shows "\<exists>s'. RevertToSnapshot kec s (rev_id r) = Inr s' \<and> db_inv s' \<and> keeper s' = keeper s
    \<and> ctx s' = ctx s \<and> db_view kec s' = v \<and> entries (sjournal s') = take (journalIndex r) (entries (sjournal s))
    \<and> validRevisions s' = pre \<and> nextRevisionID s' = nextRevisionID s"
proof -
  from journal_Revert_undo [OF inv n undo good] obtain s1 where s1:
    "journal_Revert kec s (journalIndex r) = Inr s1" "same_frame s s1" "db_inv s1" "db_view kec s1 = v"
    "entries (sjournal s1) = take (journalIndex r) (entries (sjournal s))" by blast
  have "RevertToSnapshot kec s (rev_id r) = Inr (s1\<lparr>validRevisions := pre\<rparr>)"
    using search_revision_known [OF srt [unfolded known]] s1(1,2) known
    by (simp add: RevertToSnapshot_def Let_def rbind_simps same_frame_def)
  then show ?thesis
    using s1(2-5) by (auto simp: same_frame_def db_inv_def db_view_def)
qed

interpretation sdb: undo_log "db_view kec" "\<lambda>s. entries (sjournal s)" rev_pairs nextRevisionID
  "undo_view kec k c" "\<lambda>v. al_wf (vAccess v)" "db_invar k c" "db_update kec" Snapshot
  "RevertToSnapshot_opt kec" for kec k c
proof unfold_locales
  fix s s' :: "'a StateDB" and i :: int
  assume inv: "db_invar k c s"
  then have inv': "db_inv s" and kc: "keeper s = k" "ctx s = c" by (simp_all add: db_invar_def)
  show "al_wf (vAccess (db_view kec s))"
    using inv' by (simp add: db_view_def db_inv_def)
  {
    assume "db_update kec s s'"
    then have jx: "jext kec s s'" using apply_update_jext [OF inv'] by (auto simp: db_update_def)
    then show "db_invar k c s'" "rev_pairs s' = rev_pairs s \<and> nextRevisionID s' = nextRevisionID s"
      using kc by (auto simp: jext_def db_invar_def same_frame_def rev_pairs_def)
    show "\<exists>es. entries (sjournal s') = entries (sjournal s) @ es
            \<and> undo_list (undo_view kec k c) (rev es) (db_view kec s') = Some (db_view kec s)"
      using jx kc by (auto simp: jext_def undo_all_list)
  next
    assume "Snapshot s = (s', i)"
    then have s': "s' = s\<lparr>nextRevisionID := nextRevisionID s + 1, validRevisions := validRevisions s
              @ [\<lparr>rev_id = nextRevisionID s, journalIndex = journal_length (sjournal s)\<rparr>]\<rparr>"
        "i = nextRevisionID s"
      by (auto simp: Snapshot_def Let_def)
    then show "i = nextRevisionID s \<and> nextRevisionID s' = i + 1" "db_invar k c s'"
      "rev_pairs s' = rev_pairs s @ [(i, length (entries (sjournal s)))]
        \<and> entries (sjournal s') = entries (sjournal s) \<and> db_view kec s' = db_view kec s"
      using inv by (auto simp: db_invar_def db_inv_def rev_pairs_def db_view_def journal_length_def)
  next
    assume srt: "sorted_wrt (<) (map fst (rev_pairs s))"
    then have srt': "sorted_wrt (<) (map rev_id (validRevisions s))"
      by (simp add: rev_pairs_def comp_def)
    {
      assume "i \<notin> fst ` set (rev_pairs s)"
      then show "RevertToSnapshot_opt kec s i = None"
        using RevertToSnapshot_unknown [OF srt', of i kec]
        by (auto simp: RevertToSnapshot_opt_def rev_pairs_def image_image)
    next
      fix pre post n v
      assume known: "rev_pairs s = pre @ (i, n) # post" and n: "n \<le> length (entries (sjournal s))"
        and undo: "undo_list (undo_view kec k c) (rev (drop n (entries (sjournal s)))) (db_view kec s) = Some v"
        and good: "al_wf (vAccess v)"
      from known obtain pre' r post' where r: "validRevisions s = pre' @ r # post'" "rev_id r = i"
          "journalIndex r = n" "pre = map (\<lambda>r. (rev_id r, journalIndex r)) pre'"
        by (auto simp: rev_pairs_def map_eq_append_conv Cons_eq_map_conv)
      from RevertToSnapshot_known [OF inv' srt' r(1), of kec v] n undo good kc r(2,3)
      obtain t where "RevertToSnapshot kec s i = Inr t" "db_invar k c t" "db_view kec t = v"
          "entries (sjournal t) = take n (entries (sjournal s))" "validRevisions t = pre'"
          "nextRevisionID t = nextRevisionID s"
        by (auto simp: undo_all_list db_invar_def)
      then show "\<exists>s'. RevertToSnapshot_opt kec s i = Some s' \<and> db_invar k c s' \<and> db_view kec s' = v
          \<and> entries (sjournal s') = take n (entries (sjournal s)) \<and> rev_pairs s' = pre
          \<and> nextRevisionID s' = nextRevisionID s"
        using r(4) by (simp add: RevertToSnapshot_opt_def rev_pairs_def)
    }
  }
qed

section \<open>Runs of the machine\<close>

lemma apply_op_cases:
  assumes "apply_op kec op s = Inr s'"
  obtains (upd) "db_update kec s s'"
    | (snap) i where "Snapshot s = (s', i)"
    | (revt) j where "op = OpRevertToSnapshot j" "RevertToSnapshot_opt kec s j = Some s'"
proof (cases "is_update op")
  case True
  then show ?thesis using assms upd by (auto simp: db_update_def)
next
  case False
  then consider "op = OpSnapshot" | j where "op = OpRevertToSnapshot j"
    by (auto simp: is_update_def split: dbop.splits)
  then show ?thesis
  proof cases
    case 1
    then show ?thesis using assms snap by (cases "Snapshot s") auto
  next
    case (2 j)
    then show ?thesis using assms revt [of j] by (simp add: RevertToSnapshot_opt_def)
  qed
qed

lemma run_ops_moves:
  "run_ops kec ops s = Inr s' \<Longrightarrow> reverts_above i ops \<Longrightarrow> (sdb.move kec i)\<^sup>*\<^sup>* s s'"
proof (induction ops arbitrary: s)
  case (Cons op ops)
  then obtain t where t: "apply_op kec op s = Inr t" "run_ops kec ops t = Inr s'"
    by (auto simp: rbind_Inr_iff)
  from t(1) have "sdb.move kec i s t"
  proof (cases rule: apply_op_cases)
    case (revt j)
    then show ?thesis using Cons.prems(2) by (auto simp: reverts_above_def intro: sdb.move_revert)
  qed (auto intro: sdb.move_update sdb.move_snapshot)
  moreover have "(sdb.move kec i)\<^sup>*\<^sup>* t s'" using Cons t by (simp add: reverts_above_def)
  ultimately show ?case by (rule converse_rtranclp_into_rtranclp)
qed simp

lemma snap_inv_New: "sdb.snap_inv kec k c (NewStateDB c k cfg)"
proof -
  have "db_invar k c (NewStateDB c k cfg)" by (simp add: db_invar_def NewStateDB_def [symmetric]) (simp add: NewStateDB_def)
  then show ?thesis by (simp add: sdb.snap_inv_def rev_pairs_def NewStateDB_def)
qed

lemma snap_inv_op:
  assumes snap: "sdb.snap_inv kec k c s" and step: "apply_op kec op s = Inr s'"
  shows "sdb.snap_inv kec k c s'"
  using step
proof (cases rule: apply_op_cases)
  case upd
  then show ?thesis by (rule sdb.snap_inv_update [OF snap])
next
  case (snap i)
  then show ?thesis by (rule sdb.snap_inv_snapshot [OF assms(1)])
next
  case (revt j)
  have inv: "db_invar k c s" "sorted_wrt (<) (map fst (rev_pairs s))" using snap by (auto simp: sdb.snap_inv_def)
  then have "j \<in> fst ` set (rev_pairs s)" using sdb.revert_unknown [OF inv, of j kec] revt(2) by force
  then obtain n where "(j, n) \<in> set (rev_pairs s)" by auto
  then obtain pre post where "rev_pairs s = pre @ (j, n) # post" by (meson split_list)
  from sdb.snap_inv_revert [OF snap this] revt(2) show ?thesis by auto
qed

lemma snap_invD: "sdb.snap_inv kec k c s \<Longrightarrow> db_inv s \<and> keeper s = k \<and> ctx s = c"
  by (simp add: sdb.snap_inv_def db_invar_def)

lemma reachable_snap_inv: "reachable kec s \<Longrightarrow> sdb.snap_inv kec (keeper s) (ctx s) s"
proof (induction rule: reachable.induct)
  case (reach_New c k cfg)
  then show ?case using snap_inv_New [of kec k c cfg] by (simp add: NewStateDB_def)
next
  case (reach_op s op s')
  from snap_inv_op [OF reach_op.IH reach_op.hyps(2)] have "sdb.snap_inv kec (keeper s) (ctx s) s'" .
  with snap_invD [OF this] show ?case by simp
qed

lemma reachable_inv: "reachable kec s \<Longrightarrow> db_inv s"
  by (rule conjunct1 [OF snap_invD [OF reachable_snap_inv]])

lemma rev_pairs_inj: "rev_pairs s = rev_pairs t \<Longrightarrow> validRevisions s = validRevisions t"
  unfolding rev_pairs_def by (rule map_injective) (auto intro!: injI revision.equality)

section \<open>What the machine guarantees\<close>

text \<open>
  C1. Reverting to a snapshot restores the database: from any reachable state, take a
  snapshot, run any operations (updates, queries, further snapshots, reverts to later
  snapshots) and revert to the snapshot. The revert does not panic, and every observation
  of accounts, code, storage, refund, logs and access list is as it was at the snapshot,
  as are the journal with its dirty counts and the list of valid revisions.
\<close>

theorem RevertToSnapshot_restores:
  assumes "reachable kec s" "Snapshot s = (s1, i)" "run_ops kec ops s1 = Inr s2" "reverts_above i ops"
  shows "\<exists>s3. RevertToSnapshot kec s2 i = Inr s3 \<and> db_view kec s3 = db_view kec s
      \<and> sjournal s3 = sjournal s \<and> validRevisions s3 = validRevisions s"
proof -
  note snap = reachable_snap_inv [OF assms(1)]
  from sdb.revert_restores [OF snap assms(2) run_ops_moves [OF assms(3,4)]]
  obtain s3 where s3: "RevertToSnapshot_opt kec s2 i = Some s3" "sdb.snap_inv kec (keeper s) (ctx s) s3"
      "db_view kec s3 = db_view kec s" "entries (sjournal s3) = entries (sjournal s)"
      "rev_pairs s3 = rev_pairs s" by blast
  have "dirties_ok (sjournal s)" "dirties_ok (sjournal s3)"
    using snap_invD [OF s3(2)] snap_invD [OF snap] by (simp_all add: db_inv_def)
  then have "sjournal s3 = sjournal s" using s3(4) by (simp add: dirties_ok_unique)
  then show ?thesis
    using s3 rev_pairs_inj [OF s3(5)]
    by (auto simp: RevertToSnapshot_opt_def split: sum.splits)
qed

text \<open>A database over an empty store, and a run with a nested snapshot and its revert.\<close>

definition empty_Keeper :: "unit Keeper" where
  "empty_Keeper = \<lparr>kGetAccount = (\<lambda>_ _. None), kGetState = (\<lambda>_ _ _. 0), kGetCode = (\<lambda>_ _. None),
     kStorage = (\<lambda>_ _. []), kSetAccount = (\<lambda>c _ _. Inr c), kSetState = (\<lambda>c _ _ _. c),
     kSetCode = (\<lambda>c _ _. c), kDeleteAccount = (\<lambda>c _. Inr c)\<rparr>"

definition ex_db :: "unit StateDB" where
  "ex_db = NewStateDB () empty_Keeper (NewEmptyTxConfig 0)"

definition ex_ops :: "dbop list" where
  "ex_ops = [OpAddBalance 1 5, OpSetState 1 2 3, OpSnapshot, OpSetNonce 1 7, OpAddSlotToAccessList 1 9,
     OpRevertToSnapshot 1, OpSuicide 1]"

lemma ex_run: "\<not> isl (run_ops (\<lambda>_. 0) ex_ops (fst (Snapshot ex_db)))"
  by code_simp

theorem RevertToSnapshot_restores_witness:
  "\<exists>s2 s3. run_ops (\<lambda>_. 0) ex_ops (fst (Snapshot ex_db)) = Inr s2
     \<and> RevertToSnapshot (\<lambda>_. 0) s2 (snd (Snapshot ex_db)) = Inr s3
     \<and> db_view (\<lambda>_. 0) s3 = db_view (\<lambda>_. 0) ex_db"
proof -
  obtain s2 where s2: "run_ops (\<lambda>_. 0) ex_ops (fst (Snapshot ex_db)) = Inr s2"
    using not_isl_Inr [OF ex_run] ..
  have snap: "Snapshot ex_db = (fst (Snapshot ex_db), snd (Snapshot ex_db))" by simp
  have above: "reverts_above (snd (Snapshot ex_db)) ex_ops" by code_simp
  have reach: "reachable (\<lambda>_. 0) ex_db" by (simp add: ex_db_def reach_New)
  show ?thesis using s2 RevertToSnapshot_restores [OF reach snap s2 above] by blast
qed

end
