(* ===== verification/StateDB_Spec.thy ===== *)
theory StateDB_Spec
  imports StateDB_Machine
begin

text \<open>
  An abstract specification of the state database: a value with no caches and no journal,
  on which each operation is one update. The operations of the database implement it: the
  view of the result is the specified update of the view, and an operation panics exactly
  when the specified one does. Queries answer from the view and leave it unchanged.
\<close>

section \<open>The specification\<close>

definition fresh_view :: "(byte list \<Rightarrow> hash) \<Rightarrow> 'k Keeper \<Rightarrow> 'k \<Rightarrow> addr \<Rightarrow> objView" where
  "fresh_view kec k c a =
     \<lparr>vAcct = \<lparr>Nonce = 0, Balance = 0, CodeHash = emptyCodeHash kec\<rparr>, vCode = None,
      vState = kGetState k c a, vCommitted = kGetState k c a, vSuicided = False\<rparr>"

definition vput :: "addr \<Rightarrow> objView \<Rightarrow> view \<Rightarrow> view" where
  "vput a ov v = v\<lparr>vObjs := (vObjs v)(a := Some ov)\<rparr>"

definition vmod ::
  "(byte list \<Rightarrow> hash) \<Rightarrow> 'k Keeper \<Rightarrow> 'k \<Rightarrow> addr \<Rightarrow> (objView \<Rightarrow> objView) \<Rightarrow> view \<Rightarrow> view" where
  "vmod kec k c a f v =
     vput a (f (case vObjs v a of Some ov \<Rightarrow> ov | None \<Rightarrow> fresh_view kec k c a)) v"

definition vbalance :: "(int \<Rightarrow> int) \<Rightarrow> objView \<Rightarrow> objView" where
  "vbalance g ov = ov\<lparr>vAcct := (vAcct ov)\<lparr>Balance := g (Balance (vAcct ov))\<rparr>\<rparr>"

definition vcode :: "(byte list \<Rightarrow> hash) \<Rightarrow> byte list option \<Rightarrow> objView \<Rightarrow> objView" where
  "vcode kec bs ov =
     ov\<lparr>vAcct := (vAcct ov)\<lparr>CodeHash := kec (case bs of None \<Rightarrow> [] | Some b \<Rightarrow> b)\<rparr>, vCode := bs\<rparr>"

definition vaccess :: "(accessList \<Rightarrow> accessList result) \<Rightarrow> view \<Rightarrow> view result" where
  "vaccess f v = rbind (f (vAccess v)) (\<lambda>al. Inr (v\<lparr>vAccess := al\<rparr>))"

definition al_add :: "addr \<Rightarrow> accessList \<Rightarrow> accessList" where
  "al_add a al = fst (AddAddress al a)"

primrec al_slots :: "addr \<Rightarrow> hash list \<Rightarrow> accessList \<Rightarrow> accessList result" where
  "al_slots a [] al = Inr al"
| "al_slots a (key # keys) al = rbind (AddSlot al a key) (\<lambda>(al1, _). al_slots a keys al1)"

primrec al_tuples :: "(addr \<times> hash list) list \<Rightarrow> accessList \<Rightarrow> accessList result" where
  "al_tuples [] al = Inr al"
| "al_tuples (e # els) al = rbind (al_slots (fst e) (snd e) (al_add (fst e) al)) (al_tuples els)"

fun spec_op ::
  "(byte list \<Rightarrow> hash) \<Rightarrow> 'k Keeper \<Rightarrow> 'k \<Rightarrow> TxConfig \<Rightarrow> dbop \<Rightarrow> view \<Rightarrow> view result" where
  "spec_op kec k c cfg (OpAddBalance a n) v = Inr (vmod kec k c a (vbalance (\<lambda>b. b + n)) v)"
| "spec_op kec k c cfg (OpSubBalance a n) v = Inr (vmod kec k c a (vbalance (\<lambda>b. b - n)) v)"
| "spec_op kec k c cfg (OpSetNonce a n) v =
     Inr (vmod kec k c a (\<lambda>ov. ov\<lparr>vAcct := (vAcct ov)\<lparr>Nonce := n\<rparr>\<rparr>) v)"
| "spec_op kec k c cfg (OpSetCode a bs) v = Inr (vmod kec k c a (vcode kec bs) v)"
| "spec_op kec k c cfg (OpSetState a key x) v =
     Inr (vmod kec k c a (\<lambda>ov. ov\<lparr>vState := (vState ov)(key := x)\<rparr>) v)"
| "spec_op kec k c cfg (OpSuicide a) v =
     Inr (case vObjs v a of
            None \<Rightarrow> v
          | Some ov \<Rightarrow> vput a (vbalance (\<lambda>_. 0) (ov\<lparr>vSuicided := True\<rparr>)) v)"
| "spec_op kec k c cfg (OpCreateAccount a) v =
     Inr (vput a (vbalance (\<lambda>_. case vObjs v a of None \<Rightarrow> 0 | Some ov \<Rightarrow> Balance (vAcct ov))
                    (fresh_view kec k c a)) v)"
| "spec_op kec k c cfg (OpAddLog l) v =
     Inr (v\<lparr>vLogs := vLogs v @ [l\<lparr>logTxHash := TxHash cfg, logBlockHash := BlockHash cfg,
        logTxIndex := TxIndex cfg, logIndex := LogIndex cfg + of_nat (length (vLogs v))\<rparr>]\<rparr>)"
| "spec_op kec k c cfg (OpAddRefund g) v = Inr (v\<lparr>vRefund := vRefund v + g\<rparr>)"
| "spec_op kec k c cfg (OpSubRefund g) v =
     (if g > vRefund v then Inl (Panic ''Refund counter below zero'')
      else Inr (v\<lparr>vRefund := vRefund v - g\<rparr>))"
| "spec_op kec k c cfg (OpAddAddressToAccessList a) v = vaccess (Inr \<circ> al_add a) v"
| "spec_op kec k c cfg (OpAddSlotToAccessList a slot) v = vaccess (al_slots a [slot]) v"
| "spec_op kec k c cfg (OpPrepareAccessList sender dst pre els) v =
     vaccess (al_tuples els \<circ> fold al_add (sender # (case dst of None \<Rightarrow> [] | Some d \<Rightarrow> [d]) @ pre)) v"
| "spec_op kec k c cfg _ v = Inr v"

section \<open>Writes to one object\<close>

lemma obj_view_fresh: "obj_view kec k c (newObject kec a zeroAccount) = fresh_view kec k c a"
  by (simp add: obj_view_def newObject_def zeroAccount_def fresh_view_def code_view_def committed_view_def
      emptyCodeHash_def fun_eq_iff)

lemma view_setStateObject:
  "db_view kec (setStateObject s so) = vput (address so) (obj_view kec (keeper s) (ctx s) so) (db_view kec s)"
  by (simp add: db_view_def vput_def objs_view_upd)

lemma view_appendJ [simp]: "db_view kec (appendJ s e) = db_view kec s"
  by (simp add: db_view_def)

lemma vput_vput [simp]: "vput a x (vput a y v) = vput a x v"
  by (simp add: vput_def)

lemma getOrNew_view:
  assumes inv: "db_inv s" and get: "getOrNewStateObject kec s a = (s1, so)"
  shows "obj_view kec (keeper s) (ctx s) so
      = (case vObjs (db_view kec s) a of Some ov \<Rightarrow> ov | None \<Rightarrow> fresh_view kec (keeper s) (ctx s) a)"
    and "db_view kec s1 = vput a (obj_view kec (keeper s) (ctx s) so) (db_view kec s)"
proof -
  obtain t r where g: "getStateObject kec s a = (t, r)" by fastforce
  note spec = getStateObject_spec [OF g]
  have "obj_view kec (keeper s) (ctx s) so
      = (case vObjs (db_view kec s) a of Some ov \<Rightarrow> ov | None \<Rightarrow> fresh_view kec (keeper s) (ctx s) a)
    \<and> db_view kec s1 = vput a (obj_view kec (keeper s) (ctx s) so) (db_view kec s)"
  proof (cases r)
    case None
    then have t: "t = s" using spec(9) by simp
    with None g get have "so = newObject kec a zeroAccount"
      "s1 = setStateObject (appendJ s (createObjectChange a)) (newObject kec a zeroAccount)"
      by (auto simp: getOrNewStateObject_def createObject_def Let_def)
    then show ?thesis
      using None spec(6) by (simp add: view_setStateObject obj_view_fresh)
  next
    case (Some p)
    then have "so = p" "s1 = t" using g get by (simp_all add: getOrNewStateObject_def)
    then show ?thesis
      using Some spec(2,6) by (simp add: vput_def fun_upd_idem)
  qed
  then show "obj_view kec (keeper s) (ctx s) so
      = (case vObjs (db_view kec s) a of Some ov \<Rightarrow> ov | None \<Rightarrow> fresh_view kec (keeper s) (ctx s) a)"
    and "db_view kec s1 = vput a (obj_view kec (keeper s) (ctx s) so) (db_view kec s)" by simp_all
qed

lemma view_so_SetBalance:
  "db_view kec (so_SetBalance s so b)
     = vput (address so) (vbalance (\<lambda>_. b) (obj_view kec (keeper s) (ctx s) so)) (db_view kec s)"
  by (simp add: so_SetBalance_def view_setStateObject obj_view_setters vbalance_def)

lemma obj_view_acct_id [simp]: "(obj_view kec k c so)\<lparr>vAcct := account so\<rparr> = obj_view kec k c so"
  by (simp add: obj_view_def)

lemma view_so_SetNonce:
  "db_view kec (so_SetNonce s so n)
     = vput (address so) ((obj_view kec (keeper s) (ctx s) so)\<lparr>vAcct := (account so)\<lparr>Nonce := n\<rparr>\<rparr>) (db_view kec s)"
  by (simp add: so_SetNonce_def view_setStateObject obj_view_setters)

lemma code_view_own:
  "code_view kec k c (kec (case bs of None \<Rightarrow> [] | Some b \<Rightarrow> b)) bs = bs"
  by (simp add: code_view_def emptyCodeHash_def split: option.splits)

lemma view_so_SetCode:
  "db_view kec (so_SetCode kec s so (kec (case bs of None \<Rightarrow> [] | Some b \<Rightarrow> b)) bs)
     = vput (address so) (vcode kec bs (obj_view kec (keeper s) (ctx s) so)) (db_view kec s)"
proof (cases "so_Code kec s so")
  case (Pair so1 prev)
  note cv = obj_view_so_Code [OF Pair] and fr = so_Code_frame [OF Pair]
  have "account so1 = account so" using conjunct1 [OF cv] by (metis vAcct_obj_view)
  then show ?thesis
    using Pair conjunct1 [OF cv] fr
    by (simp add: so_SetCode_def view_setStateObject obj_view_setters vcode_def code_view_own)
qed

lemma view_so_SetState:
  assumes "stateObjects s (address so) = Some so"
  shows "db_view kec (so_SetState s so key x)
     = vput (address so) ((obj_view kec (keeper s) (ctx s) so)
         \<lparr>vState := (vState (obj_view kec (keeper s) (ctx s) so))(key := x)\<rparr>) (db_view kec s)"
proof (cases "so_GetState s so key")
  case (Pair so1 prev)
  note sv = obj_view_so_GetState [OF Pair, of kec]
  have ov: "obj_view kec (keeper s) (ctx s) so1 = obj_view kec (keeper s) (ctx s) so"
    and pv: "prev = vState (obj_view kec (keeper s) (ctx s) so) key"
    and ad: "address so1 = address so"
    using sv Pair by (auto simp: so_GetState_def so_GetCommittedState_def Let_def split: option.splits)
  show ?thesis
    using Pair ov pv ad
    by (cases "prev = x")
       (simp_all add: so_SetState_def view_setStateObject obj_view_setters fun_upd_idem)
qed

section \<open>The operations implement the specification\<close>

lemma setters_refine:
  assumes inv: "db_inv s"
  shows "db_view kec (AddBalance kec s a n) = vmod kec (keeper s) (ctx s) a (vbalance (\<lambda>b. b + n)) (db_view kec s)"
    and "db_view kec (SubBalance kec s a n) = vmod kec (keeper s) (ctx s) a (vbalance (\<lambda>b. b - n)) (db_view kec s)"
    and "db_view kec (SetNonce kec s a u)
      = vmod kec (keeper s) (ctx s) a (\<lambda>ov. ov\<lparr>vAcct := (vAcct ov)\<lparr>Nonce := u\<rparr>\<rparr>) (db_view kec s)"
    and "db_view kec (SetCode kec s a bs) = vmod kec (keeper s) (ctx s) a (vcode kec bs) (db_view kec s)"
    and "db_view kec (SetState kec s a key x)
      = vmod kec (keeper s) (ctx s) a (\<lambda>ov. ov\<lparr>vState := (vState ov)(key := x)\<rparr>) (db_view kec s)"
proof -
  obtain s1 so where get: "getOrNewStateObject kec s a = (s1, so)" by fastforce
  note view = getOrNew_view [OF inv get] and jx = jext_getOrNew [OF inv get]
  have kc: "keeper s1 = keeper s" "ctx s1 = ctx s" and so: "address so = a" "stateObjects s1 a = Some so"
    using jx by (auto simp: jext_def same_frame_def)
  note simps = vmod_def view(1) [symmetric] view(2) so kc get
  show "db_view kec (AddBalance kec s a n) = vmod kec (keeper s) (ctx s) a (vbalance (\<lambda>b. b + n)) (db_view kec s)"
    by (simp add: AddBalance_def so_AddBalance_def view_so_SetBalance simps vbalance_def)
  show "db_view kec (SubBalance kec s a n) = vmod kec (keeper s) (ctx s) a (vbalance (\<lambda>b. b - n)) (db_view kec s)"
    by (simp add: SubBalance_def so_SubBalance_def view_so_SetBalance simps vbalance_def)
  show "db_view kec (SetNonce kec s a u)
      = vmod kec (keeper s) (ctx s) a (\<lambda>ov. ov\<lparr>vAcct := (vAcct ov)\<lparr>Nonce := u\<rparr>\<rparr>) (db_view kec s)"
    by (simp add: SetNonce_def view_so_SetNonce simps)
  show "db_view kec (SetCode kec s a bs) = vmod kec (keeper s) (ctx s) a (vcode kec bs) (db_view kec s)"
    by (simp add: SetCode_def view_so_SetCode simps)
  show "db_view kec (SetState kec s a key x)
      = vmod kec (keeper s) (ctx s) a (\<lambda>ov. ov\<lparr>vState := (vState ov)(key := x)\<rparr>) (db_view kec s)"
    by (simp add: SetState_def view_so_SetState simps)
qed

lemma objects_refine:
  assumes inv: "db_inv s"
  shows "Inr (db_view kec (fst (Suicide kec s a)))
      = spec_op kec (keeper s) (ctx s) cfg (OpSuicide a) (db_view kec s)"
    and "Inr (db_view kec (CreateAccount kec s a))
      = spec_op kec (keeper s) (ctx s) cfg (OpCreateAccount a) (db_view kec s)"
proof -
  obtain t r where g: "getStateObject kec s a = (t, r)" by fastforce
  note spec = getStateObject_spec [OF g] and sel = sel_load [OF g]
  have ad: "address so = a" if "r = Some so" for so using spec(7) db_invD(1) [OF inv] that by blast
  show "Inr (db_view kec (fst (Suicide kec s a)))
      = spec_op kec (keeper s) (ctx s) cfg (OpSuicide a) (db_view kec s)"
    using g spec(2,6) sel ad
    by (cases r) (simp_all add: Suicide_def view_setStateObject obj_view_setters markSuicided_def vbalance_def Let_def)
  show "Inr (db_view kec (CreateAccount kec s a))
      = spec_op kec (keeper s) (ctx s) cfg (OpCreateAccount a) (db_view kec s)"
    using g spec(2,6) sel ad
    by (cases r) (simp_all add: CreateAccount_def createObject_def view_setStateObject obj_view_setters
          obj_view_fresh vbalance_def Let_def, simp_all add: fresh_view_def newObject_def zeroAccount_def emptyCodeHash_def)
qed

lemma AddAddress_refine: "accessL (AddAddressToAccessList s a) = al_add a (accessL s)
    \<and> db_view kec (AddAddressToAccessList s a) = (db_view kec s)\<lparr>vAccess := al_add a (accessL s)\<rparr>"
  by (auto simp: AddAddressToAccessList_def al_add_def db_view_def Let_def split: prod.splits)

lemma AddSlot_refine:
  "map_sum id (db_view kec) (AddSlotToAccessList s a slot)
     = rbind (AddSlot (accessL s) a slot) (\<lambda>(al, _). Inr ((db_view kec s)\<lparr>vAccess := al\<rparr>))"
  by (auto simp: AddSlotToAccessList_def db_view_def Let_def rbind_def split: sum.splits)

lemma vaccess_upd: "vaccess f (v\<lparr>vAccess := al\<rparr>) = rbind (f al) (\<lambda>al'. Inr (v\<lparr>vAccess := al'\<rparr>))"
  by (simp add: vaccess_def)

lemma vAccess_db_view [simp]: "vAccess (db_view kec s) = accessL s"
  by (simp add: db_view_def)

lemma AddSlot_step:
  assumes "AddSlot (accessL s) a slot = Inr (al, x, y)"
  obtains s' where "AddSlotToAccessList s a slot = Inr s'" "db_view kec s' = (db_view kec s)\<lparr>vAccess := al\<rparr>"
  using assms AddSlot_refine [of kec s a slot]
  by (cases "AddSlotToAccessList s a slot") (auto simp: rbind_simps)

lemma addSlots_refine:
  "map_sum id (db_view kec) (addSlots s a keys) = vaccess (al_slots a keys) (db_view kec s)"
proof (induction keys arbitrary: s)
  case Nil
  then show ?case by (simp add: vaccess_def rbind_simps db_view_def)
next
  case (Cons key keys)
  show ?case
  proof (cases "AddSlot (accessL s) a key")
    case (Inl e)
    then have "AddSlotToAccessList s a key = Inl e"
      by (simp add: AddSlotToAccessList_def rbind_simps)
    then show ?thesis using Inl by (simp add: vaccess_def rbind_simps)
  next
    case (Inr r)
    obtain al x y where r: "r = (al, x, y)" by (cases r)
    obtain s' where "AddSlotToAccessList s a key = Inr s'" "db_view kec s' = (db_view kec s)\<lparr>vAccess := al\<rparr>"
      using AddSlot_step Inr r by metis
    then show ?thesis
      using Cons.IH [of s'] Inr r by (simp add: rbind_simps vaccess_upd) (simp add: vaccess_def rbind_simps)
  qed
qed

lemma addTuples_refine:
  "map_sum id (db_view kec) (addTuples s els) = vaccess (al_tuples els) (db_view kec s)"
proof (induction els arbitrary: s)
  case Nil
  then show ?case by (simp add: vaccess_def rbind_simps db_view_def)
next
  case (Cons e els)
  obtain a keys where e: "e = (a, keys)" by (cases e)
  let ?s1 = "AddAddressToAccessList s a"
  note s1 = AddAddress_refine [of s a, THEN conjunct1] AddAddress_refine [of s a kec, THEN conjunct2]
  have slots: "map_sum id (db_view kec) (addSlots ?s1 a keys)
      = rbind (al_slots a keys (al_add a (accessL s))) (\<lambda>al. Inr ((db_view kec s)\<lparr>vAccess := al\<rparr>))"
    by (simp add: addSlots_refine s1 vaccess_upd)
  show ?case
  proof (cases "al_slots a keys (al_add a (accessL s))")
    case (Inl err)
    then have "addSlots ?s1 a keys = Inl err" using slots by (cases "addSlots ?s1 a keys") (auto simp: rbind_simps)
    then show ?thesis using Inl e by (simp add: vaccess_def rbind_simps)
  next
    case (Inr al)
    then obtain s2 where "addSlots ?s1 a keys = Inr s2" "db_view kec s2 = (db_view kec s)\<lparr>vAccess := al\<rparr>"
      using slots by (cases "addSlots ?s1 a keys") (auto simp: rbind_simps)
    then show ?thesis
      using Cons.IH [of s2] Inr e by (simp add: rbind_simps vaccess_upd) (simp add: vaccess_def rbind_simps)
  qed
qed

lemma fold_AddAddress_refine:
  "db_view kec (fold (\<lambda>a t. AddAddressToAccessList t a) as s)
     = (db_view kec s)\<lparr>vAccess := fold al_add as (accessL s)\<rparr>"
proof (induction "as" arbitrary: s)
  case Nil
  then show ?case by (simp add: db_view_def)
next
  case (Cons a as)
  then show ?case
    using AddAddress_refine [of s a kec] by simp
qed

lemma PrepareAccessList_refine:
  "map_sum id (db_view kec) (PrepareAccessList s sender dst pre els)
     = spec_op kec k c cfg (OpPrepareAccessList sender dst pre els) (db_view kec s)"
proof -
  define as where "as = sender # (case dst of None \<Rightarrow> [] | Some d \<Rightarrow> [d]) @ pre"
  have "PrepareAccessList s sender dst pre els = addTuples (fold (\<lambda>a t. AddAddressToAccessList t a) as s) els"
    by (cases dst) (simp_all add: PrepareAccessList_def as_def Let_def)
  moreover have "spec_op kec k c cfg (OpPrepareAccessList sender dst pre els) (db_view kec s)
      = vaccess (al_tuples els \<circ> fold al_add as) (db_view kec s)"
    unfolding as_def spec_op.simps ..
  ultimately show ?thesis
    by (simp add: addTuples_refine fold_AddAddress_refine vaccess_upd) (simp add: vaccess_def)
qed

text \<open>
  C2. Every operation of the database implements its specification: on a reachable database
  the view of the result is the specified update of the view, and it panics exactly when
  the specification does and with the same error. The caches, the journal and the live
  set never show.
\<close>

theorem apply_op_refines:
  assumes reach: "reachable kec s" and upd: "is_update op"
  shows "map_sum id (db_view kec) (apply_op kec op s)
     = spec_op kec (keeper s) (ctx s) (txConfig s) op (db_view kec s)"
proof (cases "\<exists>a. op \<in> {OpExist a, OpEmpty a, OpGetBalance a, OpGetNonce a, OpGetCodeHash a,
    OpHasSuicided a, OpForEachStorage a}")
  case True
  then obtain a where op: "op \<in> {OpExist a, OpEmpty a, OpGetBalance a, OpGetNonce a, OpGetCodeHash a,
    OpHasSuicided a, OpForEachStorage a}" by blast
  have "spec_op kec (keeper s) (ctx s) (txConfig s) op (db_view kec s) = Inr (db_view kec s)" using op by auto
  moreover from jext_plain_queries [OF reachable_inv [OF reach] op, of kec]
  obtain s' where "apply_op kec op s = Inr s'" "db_view kec s' = db_view kec s" by blast
  ultimately show ?thesis by simp
next
  case False
  note inv = reachable_inv [OF reach]
  show ?thesis
  proof (cases op)
    case (OpAddSlotToAccessList a slot)
    then show ?thesis using addSlots_refine [of kec s a "[slot]"]
      by (cases "AddSlotToAccessList s a slot") (simp_all add: rbind_simps)
  next
    case (OpPrepareAccessList sender dst pre els)
    then show ?thesis by (simp only: apply_op.simps PrepareAccessList_refine)
  next
    case (OpSuicide a)
    then show ?thesis by (simp add: objects_refine [OF inv, symmetric] del: spec_op.simps)
  next
    case (OpCreateAccount a)
    then show ?thesis by (simp add: objects_refine [OF inv, symmetric] del: spec_op.simps)
  next
    case (OpAddAddressToAccessList a)
    then show ?thesis using AddAddress_refine [of s a kec] by (simp add: vaccess_def rbind_simps)
  next
    case (OpSubRefund g)
    then show ?thesis by (simp add: SubRefund_def Let_def) (simp add: db_view_def)
  next
    case (OpAddLog l)
    then show ?thesis by (simp add: AddLog_def Let_def db_view_def)
  next
    case (OpAddRefund g)
    then show ?thesis by (simp add: AddRefund_def db_view_def)
  qed (use upd False in \<open>auto simp: is_update_def jext_GetState [OF inv] jext_GetCommittedState [OF inv]
          jext_GetCode [OF inv] setters_refine [OF inv]\<close>)
qed

theorem apply_op_refines_witness:
  "map_sum id (db_view (\<lambda>_. 0)) (apply_op (\<lambda>_. 0) (OpSetState 1 2 3) ex_db)
     = Inr (vmod (\<lambda>_. 0) empty_Keeper () 1 (\<lambda>ov. ov\<lparr>vState := (vState ov)(2 := 3)\<rparr>) (db_view (\<lambda>_. 0) ex_db))"
proof -
  have "reachable (\<lambda>_. 0) ex_db" "is_update (OpSetState 1 2 3)"
    by (simp_all add: ex_db_def reach_New is_update_def)
  from apply_op_refines [OF this] show ?thesis by (simp add: ex_db_def NewStateDB_def)
qed

section \<open>Queries answer from the view\<close>

definition vquery :: "view \<Rightarrow> addr \<Rightarrow> 'a \<Rightarrow> (objView \<Rightarrow> 'a) \<Rightarrow> 'a" where
  "vquery v a d f = (case vObjs v a of None \<Rightarrow> d | Some ov \<Rightarrow> f ov)"

lemma db_view_refund: "vRefund (db_view kec s) = refund s"
  by (simp add: db_view_def)

lemma suicided_view: "vSuicided (obj_view kec k c so) = suicided so"
  by (simp add: obj_view_def)

lemma so_answers:
  "snd (so_Code kec db so) = vCode (obj_view kec (keeper db) (ctx db) so)"
  "snd (so_GetState db so key) = vState (obj_view kec (keeper db) (ctx db) so) key"
  "snd (so_GetCommittedState db so key) = vCommitted (obj_view kec (keeper db) (ctx db) so) key"
  by (auto simp: so_Code_def so_GetState_def so_GetCommittedState_def obj_view_def code_view_def
      committed_view_def Let_def split: option.splits)

lemma loaded_answers:
  "snd (GetState kec s a key) = vquery (db_view kec s) a 0 (\<lambda>ov. vState ov key)"
  "snd (GetCommittedState kec s a key) = vquery (db_view kec s) a 0 (\<lambda>ov. vCommitted ov key)"
  "snd (GetCode kec s a) = vquery (db_view kec s) a None vCode"
  "snd (GetCodeSize kec s a)
     = vquery (db_view kec s) a 0 (\<lambda>ov. case vCode ov of None \<Rightarrow> 0 | Some bs \<Rightarrow> length bs)"
proof -
  obtain s1 r where g: "getStateObject kec s a = (s1, r)" by fastforce
  note ans = getStateObject_spec(6) [OF g] and sel = sel_load [OF g] and so = so_answers [where db = s1, unfolded sel]
  show "snd (GetState kec s a key) = vquery (db_view kec s) a 0 (\<lambda>ov. vState ov key)"
    "snd (GetCommittedState kec s a key) = vquery (db_view kec s) a 0 (\<lambda>ov. vCommitted ov key)"
    "snd (GetCode kec s a) = vquery (db_view kec s) a None vCode"
    "snd (GetCodeSize kec s a)
       = vquery (db_view kec s) a 0 (\<lambda>ov. case vCode ov of None \<Rightarrow> 0 | Some bs \<Rightarrow> length bs)"
    using g by (auto simp: vquery_def GetState_def GetCommittedState_def GetCode_def GetCodeSize_def
        so_CodeSize_def ans so [symmetric] Let_def case_prod_unfold split: option.splits)
qed

text \<open>
  Every query answers from the view: existence, emptiness, balance, nonce, code, code
  size, code hash, slots, committed slots, the suicide flag and the refund are what the
  view records for the account, with Go's zero value for an account that does not exist.
\<close>

theorem queries_answer_view:
  "snd (Exist kec s a) = vquery (db_view kec s) a False (\<lambda>_. True)
    \<and> snd (Empty kec s a) = vquery (db_view kec s) a True (\<lambda>ov. vAcct ov = \<lparr>Nonce = 0, Balance = 0, CodeHash = emptyCodeHash kec\<rparr>)
    \<and> snd (GetBalance kec s a) = vquery (db_view kec s) a 0 (\<lambda>ov. Balance (vAcct ov))
    \<and> snd (GetNonce kec s a) = vquery (db_view kec s) a 0 (\<lambda>ov. Nonce (vAcct ov))
    \<and> snd (GetCodeHash kec s a) = vquery (db_view kec s) a 0 (\<lambda>ov. CodeHash (vAcct ov))
    \<and> snd (GetCode kec s a) = vquery (db_view kec s) a None vCode
    \<and> snd (GetCodeSize kec s a) = vquery (db_view kec s) a 0 (\<lambda>ov. case vCode ov of None \<Rightarrow> 0 | Some bs \<Rightarrow> length bs)
    \<and> snd (GetState kec s a key) = vquery (db_view kec s) a 0 (\<lambda>ov. vState ov key)
    \<and> snd (GetCommittedState kec s a key) = vquery (db_view kec s) a 0 (\<lambda>ov. vCommitted ov key)
    \<and> snd (HasSuicided kec s a) = vquery (db_view kec s) a False vSuicided
    \<and> GetRefund s = vRefund (db_view kec s)"
proof -
  obtain s1 r where g: "getStateObject kec s a = (s1, r)" by fastforce
  note ans = getStateObject_spec(6) [OF g] and sel = sel_load [OF g]
  have eta: "(acct = \<lparr>Nonce = 0, Balance = 0, CodeHash = h\<rparr>) = (Nonce acct = 0 \<and> Balance acct = 0 \<and> CodeHash acct = h)"
    for acct :: Account and h by (cases acct) auto
  show ?thesis
    using g ans
    by (cases r) (simp_all add: loaded_answers, simp_all add: vquery_def Exist_def Empty_def GetBalance_def GetNonce_def GetCodeHash_def HasSuicided_def
        so_empty_def eta GetRefund_def db_view_refund suicided_view)
qed

end
