(* ===== verification/Coins.thy ===== *)
theory Coins
  imports Prelude
begin

text \<open>
  \<^verbatim>\<open>sdk.Coins\<close> as the multiset of its coin units: valid coins are sorted, positive and free
  of duplicates, so the amounts per denomination determine them. Adding coins adds the
  multisets, \<^verbatim>\<open>Min\<close> is their intersection, \<^verbatim>\<open>IsAllLTE\<close> the submultiset order, and \<^verbatim>\<open>Sub\<close>
  panics when it would give a negative amount.
\<close>

section \<open>Coins\<close>

type_synonym Coins = "string multiset"

definition NewCoin :: "string \<Rightarrow> int \<Rightarrow> Coins" where
  "NewCoin denom amount = replicate_mset (nat amount) denom"

definition AmountOf :: "Coins \<Rightarrow> string \<Rightarrow> int" where
  "AmountOf cs denom = int (count cs denom)"

lemma AmountOf_NewCoin [simp, coins_simps]:
  "AmountOf (NewCoin d n) d' = (if d = d' then int (nat n) else 0)"
  by (simp add: AmountOf_def NewCoin_def)

lemma AmountOf_add [simp, coins_simps]: "AmountOf (a + b) d = AmountOf a d + AmountOf b d"
  by (simp add: AmountOf_def)

text \<open>\<^verbatim>\<open>Coins.SafeSub\<close> and \<^verbatim>\<open>Coins.Sub\<close>, which panics when the result would be negative.\<close>

definition Coins_Sub :: "Coins \<Rightarrow> Coins \<Rightarrow> Coins result" where
  "Coins_Sub a b = (if b \<subseteq># a then Inr (a - b) else Inl (Panic ''negative coin amount''))"

text \<open>\<^verbatim>\<open>sdkmath.NewIntFromBigInt\<close> panics on values of more than 256 bits.\<close>

definition NewIntFromBigInt :: "int \<Rightarrow> int result" where
  "NewIntFromBigInt n = (if \<bar>n\<bar> < 2 ^ 256 then Inr n else Inl (Panic ''NewIntFromBigInt() out of bound''))"

lemma NewIntFromBigInt_Inr: "NewIntFromBigInt n = Inr m \<Longrightarrow> m = n"
  by (simp add: NewIntFromBigInt_def split: if_splits)

end
