(* ===== verification/Schedule.thy ===== *)
theory Schedule
  imports Coins
begin

text \<open>
  Vesting schedules, \<^verbatim>\<open>x/vesting/types/schedule.go\<close> and \<^verbatim>\<open>utils.go\<close>: a start time and a list
  of periods, read as a step function of time. The reference is \<open>released\<close>, the sum of
  the amounts of the events that lie at or before a time. Reading a schedule agrees with
  it, the union of two schedules adds the step functions, and their conjunction is the
  pointwise minimum. Times are 64-bit integers and wrap around; \<open>schedule_ok\<close> is the
  condition under which they do not.
\<close>

section \<open>The code\<close>

record Period =
  Length :: int
  Amount :: Coins

definition CoinEq :: "Coins \<Rightarrow> Coins \<Rightarrow> bool" where
  "CoinEq a b \<longleftrightarrow> a \<subseteq># b \<and> b \<subseteq># a"

definition Max64 :: "int \<Rightarrow> int \<Rightarrow> int" where
  "Max64 i j = (if i > j then i else j)"

definition Min64 :: "int \<Rightarrow> int \<Rightarrow> int" where
  "Min64 i j = (if i < j then i else j)"

text \<open>\<^verbatim>\<open>Periods.TotalLength\<close> and \<^verbatim>\<open>Periods.TotalAmount\<close> of the SDK: the sums over the periods.\<close>

fun TotalLength :: "Period list \<Rightarrow> int" where
  "TotalLength [] = 0"
| "TotalLength (p # ps) = i64 (Length p + TotalLength ps)"

fun TotalAmount :: "Period list \<Rightarrow> Coins" where
  "TotalAmount [] = {#}"
| "TotalAmount (p # ps) = Amount p + TotalAmount ps"

fun read_loop :: "int \<Rightarrow> int \<Rightarrow> Coins \<Rightarrow> Period list \<Rightarrow> Coins" where
  "read_loop readTime elapsedTime coins [] = coins"
| "read_loop readTime elapsedTime coins (period # periods) =
     (if readTime < i64 (elapsedTime + Length period) then coins
      else read_loop readTime (i64 (elapsedTime + Length period)) (coins + Amount period) periods)"

definition ReadSchedule :: "int \<Rightarrow> int \<Rightarrow> Period list \<Rightarrow> Coins \<Rightarrow> int \<Rightarrow> Coins" where
  "ReadSchedule startTime endTime periods totalCoins readTime =
     (if readTime \<le> startTime then {#}
      else if readTime \<ge> endTime then totalCoins
      else read_loop readTime startTime {#} periods)"

fun count_loop :: "int \<Rightarrow> int \<Rightarrow> nat \<Rightarrow> Period list \<Rightarrow> nat" where
  "count_loop readTime elapsedTime passedPeriods [] = passedPeriods"
| "count_loop readTime elapsedTime passedPeriods (period # periods) =
     (if readTime < i64 (elapsedTime + Length period) then passedPeriods
      else count_loop readTime (i64 (elapsedTime + Length period)) (passedPeriods + 1) periods)"

definition ReadPastPeriodCount :: "int \<Rightarrow> int \<Rightarrow> Period list \<Rightarrow> int \<Rightarrow> nat" where
  "ReadPastPeriodCount startTime endTime periods readTime =
     (if readTime \<le> startTime then 0
      else if readTime \<ge> endTime then length periods
      else count_loop readTime startTime 0 periods)"

text \<open>
  The merge of \<^verbatim>\<open>DisjunctPeriods\<close>, with the periods left of each schedule in place of the
  indices: it returns the end time and the periods emitted from here on.
\<close>

definition emit :: "int \<Rightarrow> int \<Rightarrow> Coins \<Rightarrow> Period" where
  "emit endTime nextTime amount = \<lparr>Length = i64 (nextTime - endTime), Amount = amount\<rparr>"

fun disjunct_loop ::
  "int \<Rightarrow> int \<Rightarrow> int \<Rightarrow> Period list \<Rightarrow> Period list \<Rightarrow> int \<times> Period list" where
  "disjunct_loop timeA timeB endTime [] [] = (endTime, [])"
| "disjunct_loop timeA timeB endTime (a # as) [] =
     (let nextA = i64 (timeA + Length a);
          (e, ps) = disjunct_loop nextA timeB nextA as []
      in (e, emit endTime nextA (Amount a) # ps))"
| "disjunct_loop timeA timeB endTime [] (b # bs) =
     (let nextB = i64 (timeB + Length b);
          (e, ps) = disjunct_loop timeA nextB nextB [] bs
      in (e, emit endTime nextB (Amount b) # ps))"
| "disjunct_loop timeA timeB endTime (a # as) (b # bs) =
     (let nextA = i64 (timeA + Length a); nextB = i64 (timeB + Length b)
      in if nextA < nextB then
           (let (e, ps) = disjunct_loop nextA timeB nextA as (b # bs)
            in (e, emit endTime nextA (Amount a) # ps))
         else if nextA > nextB then
           (let (e, ps) = disjunct_loop timeA nextB nextB (a # as) bs
            in (e, emit endTime nextB (Amount b) # ps))
         else
           (let (e, ps) = disjunct_loop nextA nextA nextA as bs
            in (e, emit endTime nextA (Amount a + Amount b) # ps)))"

definition DisjunctPeriods ::
  "int \<Rightarrow> int \<Rightarrow> Period list \<Rightarrow> Period list \<Rightarrow> int \<times> int \<times> Period list" where
  "DisjunctPeriods startA startB periodsA periodsB =
     (let startTime = Min64 startA startB
      in (startTime, disjunct_loop startA startB startTime periodsA periodsB))"

text \<open>
  The merge of \<^verbatim>\<open>ConjunctPeriods\<close>. \<open>conjunct_step\<close> is what the three closures share once
  the totals are updated: emit the difference between the minimum and what has been
  emitted, unless it is zero. It returns the new end time, the new emitted amount and the
  period emitted, if any.
\<close>

definition conjunct_step ::
  "int \<Rightarrow> Coins \<Rightarrow> Coins \<Rightarrow> Coins \<Rightarrow> int \<Rightarrow> int \<times> Coins \<times> Period list" where
  "conjunct_step endTime resulting totalA totalB nextTime =
     (let m = totalA \<inter># totalB
      in if resulting \<subseteq># m \<and> m - resulting \<noteq> {#}
         then (nextTime, resulting + (m - resulting), [emit endTime nextTime (m - resulting)])
         else (endTime, resulting, []))"

fun conjunct_loop ::
  "int \<Rightarrow> int \<Rightarrow> int \<Rightarrow> Coins \<Rightarrow> Coins \<Rightarrow> Coins \<Rightarrow> Period list \<Rightarrow> Period list \<Rightarrow> int \<times> Period list" where
  "conjunct_loop timeA timeB endTime res totA totB [] [] = (endTime, [])"
| "conjunct_loop timeA timeB endTime res totA totB (a # as) [] =
     (let nextA = i64 (timeA + Length a); totA1 = totA + Amount a;
          (e1, res1, out) = conjunct_step endTime res totA1 totB nextA;
          (e, ps) = conjunct_loop nextA timeB e1 res1 totA1 totB as []
      in (e, out @ ps))"
| "conjunct_loop timeA timeB endTime res totA totB [] (b # bs) =
     (let nextB = i64 (timeB + Length b); totB1 = totB + Amount b;
          (e1, res1, out) = conjunct_step endTime res totA totB1 nextB;
          (e, ps) = conjunct_loop timeA nextB e1 res1 totA totB1 [] bs
      in (e, out @ ps))"
| "conjunct_loop timeA timeB endTime res totA totB (a # as) (b # bs) =
     (let nextA = i64 (timeA + Length a); nextB = i64 (timeB + Length b)
      in if nextA < nextB then
           (let totA1 = totA + Amount a;
                (e1, res1, out) = conjunct_step endTime res totA1 totB nextA;
                (e, ps) = conjunct_loop nextA timeB e1 res1 totA1 totB as (b # bs)
            in (e, out @ ps))
         else if nextA > nextB then
           (let totB1 = totB + Amount b;
                (e1, res1, out) = conjunct_step endTime res totA totB1 nextB;
                (e, ps) = conjunct_loop timeA nextB e1 res1 totA totB1 (a # as) bs
            in (e, out @ ps))
         else
           (let totA1 = totA + Amount a; totB1 = totB + Amount b;
                (e1, res1, out) = conjunct_step endTime res totA1 totB1 nextA;
                (e, ps) = conjunct_loop nextA nextA e1 res1 totA1 totB1 as bs
            in (e, out @ ps)))"

definition ConjunctPeriods ::
  "int \<Rightarrow> int \<Rightarrow> Period list \<Rightarrow> Period list \<Rightarrow> int \<times> int \<times> Period list" where
  "ConjunctPeriods startA startB periodsA periodsB =
     (let startTime = Min64 startA startB
      in (startTime, conjunct_loop startA startB startTime {#} {#} {#} periodsA periodsB))"

text \<open>\<^verbatim>\<open>AlignSchedules\<close> writes into its two slices, so it returns them too.\<close>

definition extend_first :: "Period list \<Rightarrow> int \<Rightarrow> Period list" where
  "extend_first periods d =
     (case periods of [] \<Rightarrow> [] | p # ps \<Rightarrow> p\<lparr>Length := i64 (Length p + d)\<rparr> # ps)"

definition AlignSchedules ::
  "int \<Rightarrow> int \<Rightarrow> Period list \<Rightarrow> Period list \<Rightarrow> int \<times> int \<times> Period list \<times> Period list" where
  "AlignSchedules startA startB periodsA periodsB =
     (let startTime = Min64 startA startB;
          periodsA1 = extend_first periodsA (i64 (startA - startTime));
          periodsB1 = extend_first periodsB (i64 (startB - startTime));
          endA = i64 (startTime + TotalLength periodsA1);
          endB = i64 (startTime + TotalLength periodsB1)
      in (startTime, Max64 endA endB, periodsA1, periodsB1))"

section \<open>Schedules as step functions\<close>

text \<open>The reference: the amounts of the events at or before \<open>t\<close>, in unbounded integers.\<close>

fun released :: "int \<Rightarrow> Period list \<Rightarrow> int \<Rightarrow> Coins" where
  "released t0 [] t = {#}"
| "released t0 (p # ps) t =
     (if t0 + Length p \<le> t then Amount p else {#}) + released (t0 + Length p) ps t"

fun last_event :: "int \<Rightarrow> Period list \<Rightarrow> int" where
  "last_event t0 [] = t0"
| "last_event t0 (p # ps) = last_event (t0 + Length p) ps"

text \<open>The schedule starts at a time that is not negative, runs forward and ends within 64 bits.\<close>

definition schedule_ok :: "int \<Rightarrow> Period list \<Rightarrow> bool" where
  "schedule_ok t0 ps \<longleftrightarrow> 0 \<le> t0 \<and> (\<forall>p \<in> set ps. 0 \<le> Length p) \<and> last_event t0 ps < 2 ^ 63"

lemma last_event_ge: "\<forall>p \<in> set ps. 0 \<le> Length p \<Longrightarrow> t0 \<le> last_event t0 ps"
proof (induction ps arbitrary: t0)
  case (Cons p ps)
  then have "t0 + Length p \<le> last_event (t0 + Length p) ps" by simp
  then show ?case using Cons.prems by simp
qed simp

lemma schedule_ok_Cons:
  assumes "schedule_ok t0 (p # ps)"
  shows "schedule_ok (t0 + Length p) ps" "0 \<le> t0" "0 \<le> Length p" "t0 + Length p < 2 ^ 63"
    "i64 (t0 + Length p) = t0 + Length p"
proof -
  show ok: "schedule_ok (t0 + Length p) ps" "0 \<le> t0" "0 \<le> Length p"
    using assms by (auto simp: schedule_ok_def)
  show lt: "t0 + Length p < 2 ^ 63"
    using ok last_event_ge [of ps "t0 + Length p"] by (auto simp: schedule_ok_def)
  show "i64 (t0 + Length p) = t0 + Length p"
    using ok lt by (intro i64_id) (simp add: in_i64_def)
qed

lemma released_before: "\<forall>p \<in> set ps. 0 \<le> Length p \<Longrightarrow> t < t0 \<Longrightarrow> released t0 ps t = {#}"
proof (induction ps arbitrary: t0)
  case (Cons p ps)
  then have "t < t0 + Length p" by auto
  with Cons show ?case by simp
qed simp

lemma released_after: "\<forall>p \<in> set ps. 0 \<le> Length p \<Longrightarrow> last_event t0 ps \<le> t \<Longrightarrow> released t0 ps t = TotalAmount ps"
proof (induction ps arbitrary: t0)
  case (Cons p ps)
  then have "t0 + Length p \<le> t" using last_event_ge [of ps "t0 + Length p"] by simp
  with Cons show ?case by simp
qed simp

lemma released_mono: "t \<le> t' \<Longrightarrow> released t0 ps t \<subseteq># released t0 ps t'"
proof (induction ps arbitrary: t0)
  case (Cons p ps)
  then show ?case by (auto intro!: subset_mset.add_mono intro: subset_mset.order_trans
      [OF _ mset_subset_eq_add_right])
qed simp

lemma released_le_total: "released t0 ps t \<subseteq># TotalAmount ps"
  by (induction ps arbitrary: t0)
     (auto intro: subset_mset.add_mono subset_mset.order_trans [OF _ mset_subset_eq_add_right])

section \<open>Reading a schedule\<close>

lemma read_loop_released: "schedule_ok t0 ps \<Longrightarrow> read_loop t t0 acc ps = acc + released t0 ps t"
proof (induction ps arbitrary: t0 acc)
  case (Cons p ps)
  note ok = schedule_ok_Cons [OF Cons.prems]
  show ?case
  proof (cases "t < t0 + Length p")
    case True
    moreover have "released (t0 + Length p) ps t = {#}"
      using True ok(1) by (intro released_before) (auto simp: schedule_ok_def)
    ultimately show ?thesis using ok(5) by simp
  next
    case False
    then show ?thesis using ok(5) Cons.IH [OF ok(1)] by simp
  qed
qed simp

lemma count_loop_released:
  "schedule_ok t0 ps \<Longrightarrow> \<exists>n \<le> length ps. count_loop t t0 k ps = k + n \<and> TotalAmount (take n ps) = released t0 ps t"
proof (induction ps arbitrary: t0 k)
  case (Cons p ps)
  note ok = schedule_ok_Cons [OF Cons.prems]
  show ?case
  proof (cases "t < t0 + Length p")
    case True
    moreover have "released (t0 + Length p) ps t = {#}"
      using True ok(1) by (intro released_before) (auto simp: schedule_ok_def)
    ultimately show ?thesis using ok(5) by (intro exI [of _ 0]) simp
  next
    case False
    then obtain n where "n \<le> length ps" "count_loop t (t0 + Length p) (k + 1) ps = (k + 1) + n"
      "TotalAmount (take n ps) = released (t0 + Length p) ps t"
      using Cons.IH [OF ok(1)] by blast
    with False show ?thesis using ok(5) by (intro exI [of _ "Suc n"]) simp
  qed
qed simp

text \<open>The schedule, its end time and its total belong together.\<close>

definition account_schedule :: "int \<Rightarrow> int \<Rightarrow> Period list \<Rightarrow> Coins \<Rightarrow> bool" where
  "account_schedule t0 endTime ps tot \<longleftrightarrow>
     schedule_ok t0 ps \<and> last_event t0 ps \<le> endTime \<and> TotalAmount ps = tot"

lemma ReadSchedule_released:
  assumes "account_schedule t0 endTime ps tot"
  shows "ReadSchedule t0 endTime ps tot t = (if t \<le> t0 then {#} else released t0 ps t)"
proof -
  have "released t0 ps t = tot" if "t \<ge> endTime"
    using assms that released_after [of ps t0 t] by (auto simp: account_schedule_def schedule_ok_def)
  then show ?thesis
    using assms by (auto simp: ReadSchedule_def account_schedule_def read_loop_released)
qed

lemma ReadPastPeriodCount_released:
  assumes "account_schedule t0 endTime ps tot"
  shows "ReadPastPeriodCount t0 endTime ps t \<le> length ps"
    and "TotalAmount (take (ReadPastPeriodCount t0 endTime ps t) ps) = ReadSchedule t0 endTime ps tot t"
proof -
  obtain n where n: "n \<le> length ps" "count_loop t t0 0 ps = n" "TotalAmount (take n ps) = released t0 ps t"
    using count_loop_released [of t0 ps t 0] assms by (auto simp: account_schedule_def)
  then show "ReadPastPeriodCount t0 endTime ps t \<le> length ps"
    by (simp add: ReadPastPeriodCount_def)
  show "TotalAmount (take (ReadPastPeriodCount t0 endTime ps t) ps) = ReadSchedule t0 endTime ps tot t"
    using n assms read_loop_released [of t0 ps t "{#}"]
    by (simp add: ReadPastPeriodCount_def ReadSchedule_def account_schedule_def)
qed

text \<open>
  Reading a schedule is the step function of its events: \<^verbatim>\<open>ReadSchedule\<close> gives nothing
  at or before the start time and after it the sum of the amounts of all events at or
  before the read time, and the shortcut through the end time and the total never
  changes the answer. What is read never decreases with time and never exceeds the total.
\<close>

theorem ReadSchedule_step_function:
  assumes "account_schedule t0 endTime ps tot"
  shows "ReadSchedule t0 endTime ps tot t = (if t \<le> t0 then {#} else released t0 ps t)
    \<and> ReadSchedule t0 endTime ps tot t \<subseteq># tot
    \<and> (t \<le> t' \<longrightarrow> ReadSchedule t0 endTime ps tot t \<subseteq># ReadSchedule t0 endTime ps tot t')"
  using assms released_le_total [of t0 ps t] released_mono [of t t' t0 ps]
  by (auto simp: ReadSchedule_released account_schedule_def)

definition ex_periods :: "Period list" where
  "ex_periods = [\<lparr>Length = 10, Amount = NewCoin ''a'' 2\<rparr>, \<lparr>Length = 20, Amount = NewCoin ''a'' 3\<rparr>]"

lemma ex_schedule: "account_schedule 100 130 ex_periods (NewCoin ''a'' 5)"
  by (simp add: account_schedule_def schedule_ok_def ex_periods_def NewCoin_def multiset_eq_iff)

theorem ReadSchedule_step_function_witness:
  "ReadSchedule 100 130 ex_periods (NewCoin ''a'' 5) 115 = NewCoin ''a'' 2
   \<and> ReadSchedule 100 130 ex_periods (NewCoin ''a'' 5) 115 \<subseteq># NewCoin ''a'' 5"
  using ReadSchedule_step_function [OF ex_schedule, of 115 115] by (auto simp: ex_periods_def)

text \<open>
  Counting the passed periods agrees with reading the schedule: the amounts of the
  periods counted as passed add up to exactly what the schedule has released, so cutting
  the periods at that count keeps the released coins and drops the rest.
\<close>

theorem ReadPastPeriodCount_consistent:
  assumes "account_schedule t0 endTime ps tot"
  shows "ReadPastPeriodCount t0 endTime ps t \<le> length ps
    \<and> TotalAmount (take (ReadPastPeriodCount t0 endTime ps t) ps) = ReadSchedule t0 endTime ps tot t
    \<and> TotalAmount (drop (ReadPastPeriodCount t0 endTime ps t) ps) = tot - ReadSchedule t0 endTime ps tot t"
proof -
  have split: "TotalAmount (xs @ ys) = TotalAmount xs + TotalAmount ys" for xs ys
    by (induction xs) auto
  let ?n = "ReadPastPeriodCount t0 endTime ps t"
  have "TotalAmount (take ?n ps) + TotalAmount (drop ?n ps) = tot"
    using assms split [of "take ?n ps" "drop ?n ps"] by (simp add: account_schedule_def)
  then show ?thesis
    using ReadPastPeriodCount_released [OF assms, of t] by (metis add_diff_cancel_left')
qed

theorem ReadPastPeriodCount_consistent_witness:
  "TotalAmount (drop (ReadPastPeriodCount 100 130 ex_periods 115) ex_periods)
     = NewCoin ''a'' 5 - ReadSchedule 100 130 ex_periods (NewCoin ''a'' 5) 115"
  using ReadPastPeriodCount_consistent [OF ex_schedule, of 115] by simp

section \<open>The union of two schedules\<close>

definition next_ge :: "int \<Rightarrow> int \<Rightarrow> Period list \<Rightarrow> bool" where
  "next_ge e t0 ps \<longleftrightarrow> (case ps of [] \<Rightarrow> True | p # _ \<Rightarrow> e \<le> t0 + Length p)"

lemma next_ge_simps [simp]: "next_ge e t0 []" "next_ge e t0 (p # ps) \<longleftrightarrow> e \<le> t0 + Length p"
  by (simp_all add: next_ge_def)

lemma next_ge_step: "schedule_ok t0 ps \<Longrightarrow> e \<le> t0 \<Longrightarrow> next_ge e t0 ps"
  by (cases ps) (auto simp: schedule_ok_def)

definition merged_end :: "int \<Rightarrow> int \<Rightarrow> Period list \<Rightarrow> int \<Rightarrow> Period list \<Rightarrow> int" where
  "merged_end e tA as tB bs =
     (if as = [] then if bs = [] then e else last_event tB bs
      else if bs = [] then last_event tA as else max (last_event tA as) (last_event tB bs))"

lemma emit_fields:
  "0 \<le> e \<Longrightarrow> e \<le> t \<Longrightarrow> t < 2 ^ 63 \<Longrightarrow> Length (emit e t c) = t - e \<and> Amount (emit e t c) = c"
  by (simp add: emit_def i64_id in_i64_def)

definition disjunct_ok :: "int \<Rightarrow> Period list \<Rightarrow> int \<Rightarrow> int \<Rightarrow> Period list \<Rightarrow> int \<Rightarrow> Period list \<Rightarrow> bool" where
  "disjunct_ok e ps e' tA as tB bs \<longleftrightarrow>
     (\<forall>t. released e ps t = released tA as t + released tB bs t)
   \<and> (\<forall>p \<in> set ps. 0 \<le> Length p) \<and> last_event e ps = e'"

lemma disjunct_ok_emit:
  assumes "0 \<le> e" "e \<le> n" "n < 2 ^ 63" "disjunct_ok n ps e' tA as tB bs"
    and "\<And>t. released tA' as' t + released tB' bs' t
      = (if n \<le> t then c else {#}) + (released tA as t + released tB bs t)"
  shows "disjunct_ok e (emit e n c # ps) e' tA' as' tB' bs'"
  using assms emit_fields [OF assms(1-3), of c] by (auto simp: disjunct_ok_def)

lemma disjunct_loop_correct:
  assumes "schedule_ok tA as" "schedule_ok tB bs" "0 \<le> e" "next_ge e tA as" "next_ge e tB bs"
    and "disjunct_loop tA tB e as bs = (e', ps)"
  shows "disjunct_ok e ps e' tA as tB bs"
  using assms
proof (induction tA tB e as bs arbitrary: e' ps rule: disjunct_loop.induct)
  case (1 tA tB e)
  then show ?case by (simp add: disjunct_ok_def)
next
  case (2 tA tB e a as)
  note ok = schedule_ok_Cons [OF 2(2)]
  obtain ps1 where rec: "disjunct_loop (tA + Length a) tB (tA + Length a) as [] = (e', ps1)"
    "ps = emit e (tA + Length a) (Amount a) # ps1"
    using 2(7) ok(5) by (auto simp: Let_def split: prod.splits)
  have "disjunct_ok (tA + Length a) ps1 e' (tA + Length a) as tB []"
    using 2(1) [unfolded ok(5), OF refl ok(1) 2(3)] rec(1) ok next_ge_step [OF ok(1)] by simp
  then show ?case
    unfolding rec(2) using 2(4,5) ok by (intro disjunct_ok_emit) auto
next
  case (3 tA tB e b bs)
  note ok = schedule_ok_Cons [OF 3(3)]
  obtain ps1 where rec: "disjunct_loop tA (tB + Length b) (tB + Length b) [] bs = (e', ps1)"
    "ps = emit e (tB + Length b) (Amount b) # ps1"
    using 3(7) ok(5) by (auto simp: Let_def split: prod.splits)
  have "disjunct_ok (tB + Length b) ps1 e' tA [] (tB + Length b) bs"
    using 3(1) [unfolded ok(5), OF refl 3(2) ok(1)] rec(1) ok next_ge_step [OF ok(1)] by simp
  then show ?case
    unfolding rec(2) using 3(4,6) ok by (intro disjunct_ok_emit) auto
next
  case (4 tA tB e a as b bs)
  note okA = schedule_ok_Cons [OF 4(4)] and okB = schedule_ok_Cons [OF 4(5)]
  note IH = 4(1-3) [unfolded okA(5) okB(5), OF refl refl]
  note loop = 4(9) [simplified, unfolded okA(5) okB(5) Let_def]
  consider "tA + Length a < tB + Length b" | "tB + Length b < tA + Length a" | "tA + Length a = tB + Length b"
    by linarith
  then show ?case
  proof cases
    case 1
    obtain ps1 where rec: "disjunct_loop (tA + Length a) tB (tA + Length a) as (b # bs) = (e', ps1)"
      "ps = emit e (tA + Length a) (Amount a) # ps1"
      using loop 1 by (auto split: prod.splits)
    have "disjunct_ok (tA + Length a) ps1 e' (tA + Length a) as tB (b # bs)"
      using IH(1) [OF 1 okA(1) 4(5)] rec(1) okA 1 next_ge_step [OF okA(1)] by simp
    then show ?thesis
      unfolding rec(2) using 4(6,7) okA by (intro disjunct_ok_emit) auto
  next
    case 2
    obtain ps1 where rec: "disjunct_loop tA (tB + Length b) (tB + Length b) (a # as) bs = (e', ps1)"
      "ps = emit e (tB + Length b) (Amount b) # ps1"
      using loop 2 by (auto split: prod.splits)
    have "disjunct_ok (tB + Length b) ps1 e' tA (a # as) (tB + Length b) bs"
      using IH(2) [OF _ _ 4(4) okB(1)] 2 rec(1) okB next_ge_step [OF okB(1)] by simp
    then show ?thesis
      unfolding rec(2) using 4(6,8) okB by (intro disjunct_ok_emit) auto
  next
    case 3
    obtain ps1 where rec: "disjunct_loop (tA + Length a) (tA + Length a) (tA + Length a) as bs = (e', ps1)"
      "ps = emit e (tA + Length a) (Amount a + Amount b) # ps1"
      using loop 3 by (auto split: prod.splits)
    have "disjunct_ok (tA + Length a) ps1 e' (tA + Length a) as (tA + Length a) bs"
      using IH(3) [OF _ _ okA(1)] 3 rec(1) okA okB next_ge_step [OF okA(1)] next_ge_step [OF okB(1)] by simp
    then show ?thesis
      unfolding rec(2) using 4(6,7) okA 3 by (intro disjunct_ok_emit) auto
  qed
qed

lemma disjunct_loop_end:
  assumes "schedule_ok tA as" "schedule_ok tB bs"
  shows "fst (disjunct_loop tA tB e as bs) = merged_end e tA as tB bs"
  using assms
proof (induction tA tB e as bs rule: disjunct_loop.induct)
  case (2 tA tB e a as)
  note ok = schedule_ok_Cons [OF 2(2)]
  show ?case using 2(1) [unfolded ok(5), OF refl ok(1) 2(3)] ok(5)
    by (auto simp: merged_end_def Let_def split: prod.splits)
next
  case (3 tA tB e b bs)
  note ok = schedule_ok_Cons [OF 3(3)]
  show ?case using 3(1) [unfolded ok(5), OF refl 3(2) ok(1)] ok(5)
    by (auto simp: merged_end_def Let_def split: prod.splits)
next
  case (4 tA tB e a as b bs)
  note okA = schedule_ok_Cons [OF 4(4)] and okB = schedule_ok_Cons [OF 4(5)]
  note IH = 4(1-3) [unfolded okA(5) okB(5), OF refl refl]
  have "tA + Length a \<le> last_event (tA + Length a) as" "tB + Length b \<le> last_event (tB + Length b) bs"
    using okA(1) okB(1) by (auto intro: last_event_ge simp: schedule_ok_def)
  then show ?case
    using IH(1) [OF _ okA(1) 4(5)] IH(2) [OF _ _ 4(4) okB(1)] IH(3) [OF _ _ okA(1)] okA okB
    by (auto simp: merged_end_def Let_def split: prod.splits)
qed (simp_all add: merged_end_def)

lemma Min64_eq [simp]: "Min64 i j = min i j" "Max64 i j = max i j"
  by (simp_all add: Min64_def Max64_def)

lemma DisjunctPeriods_ok:
  assumes "schedule_ok sA as" "schedule_ok sB bs" "DisjunctPeriods sA sB as bs = (s, e, ps)"
  shows "s = min sA sB" "schedule_ok s ps" "last_event s ps = e"
    "released s ps t = released sA as t + released sB bs t"
    "TotalAmount ps = TotalAmount as + TotalAmount bs"
    "e = merged_end s sA as sB bs"
proof -
  show s: "s = min sA sB" using assms(3) by (simp add: DisjunctPeriods_def Let_def)
  have loop: "disjunct_loop sA sB s as bs = (e, ps)"
    using assms(3) s by (simp add: DisjunctPeriods_def Let_def)
  have ge: "0 \<le> s" "s \<le> sA" "s \<le> sB" using assms s by (auto simp: schedule_ok_def)
  have ok: "disjunct_ok s ps e sA as sB bs"
    by (rule disjunct_loop_correct [OF assms(1,2) ge(1) next_ge_step [OF assms(1) ge(2)]
          next_ge_step [OF assms(2) ge(3)] loop])
  then show "released s ps t = released sA as t + released sB bs t" "last_event s ps = e"
    by (simp_all add: disjunct_ok_def)
  show e: "e = merged_end s sA as sB bs"
    using disjunct_loop_end [OF assms(1,2), of s] loop by simp
  have lt: "e < 2 ^ 63"
    using assms(1,2) ge(2) last_event_ge [of as sA] unfolding e
    by (auto simp: merged_end_def schedule_ok_def)
  then show "schedule_ok s ps"
    using ok ge by (simp add: disjunct_ok_def schedule_ok_def)
  define T where "T = max e (max (last_event sA as) (last_event sB bs))"
  have "released s ps T = TotalAmount ps"
    using ok by (intro released_after) (simp_all add: disjunct_ok_def T_def)
  moreover have "released sA as T = TotalAmount as" "released sB bs T = TotalAmount bs"
    using assms(1,2) by (auto intro!: released_after simp: schedule_ok_def T_def)
  ultimately show "TotalAmount ps = TotalAmount as + TotalAmount bs"
    using ok by (simp add: disjunct_ok_def)
qed

text \<open>
  C23. The union of two schedules adds them: for schedules whose times stay within 64 bits,
  \<^verbatim>\<open>DisjunctPeriods\<close> starts at the earlier start, ends at its own last event, and at every
  time has released exactly what the two schedules have released together; its total is
  the sum of the totals, and it is again a schedule that runs forward within 64 bits.
\<close>

theorem DisjunctPeriods_union:
  assumes "schedule_ok sA as" "schedule_ok sB bs" "DisjunctPeriods sA sB as bs = (s, e, ps)"
  shows "s = min sA sB \<and> last_event s ps = e \<and> schedule_ok s ps
    \<and> (\<forall>t. released s ps t = released sA as t + released sB bs t)
    \<and> TotalAmount ps = TotalAmount as + TotalAmount bs"
  using DisjunctPeriods_ok [OF assms] by blast

definition ex_grant :: "Period list" where
  "ex_grant = [\<lparr>Length = 0, Amount = NewCoin ''b'' 4\<rparr>, \<lparr>Length = 5, Amount = NewCoin ''a'' 1\<rparr>]"

lemma ex_ok: "schedule_ok 100 ex_periods" "schedule_ok 105 ex_grant"
  by (simp_all add: schedule_ok_def ex_periods_def ex_grant_def)

theorem DisjunctPeriods_union_witness:
  "\<exists>s e ps. DisjunctPeriods 100 105 ex_periods ex_grant = (s, e, ps)
     \<and> released s ps 110 = released 100 ex_periods 110 + released 105 ex_grant 110"
proof -
  obtain s e ps where "DisjunctPeriods 100 105 ex_periods ex_grant = (s, e, ps)" by (metis prod_cases3)
  with DisjunctPeriods_union [OF ex_ok this] show ?thesis by blast
qed

section \<open>The conjunction of two schedules\<close>

lemma released_next_ge:
  "\<forall>p \<in> set ps. 0 \<le> Length p \<Longrightarrow> next_ge n e ps \<Longrightarrow> t < n \<Longrightarrow> released e ps t = {#}"
  by (cases ps) (auto intro!: released_before)

definition conjunct_ok ::
  "int \<Rightarrow> int \<Rightarrow> Period list \<Rightarrow> int \<Rightarrow> Coins \<Rightarrow> (int \<Rightarrow> Coins) \<Rightarrow> (int \<Rightarrow> Coins) \<Rightarrow> bool" where
  "conjunct_ok now e ps e' res f g \<longleftrightarrow>
     (\<forall>t \<ge> now. res + released e ps t = f t \<inter># g t)
   \<and> (\<forall>p \<in> set ps. 0 \<le> Length p) \<and> last_event e ps = e' \<and> next_ge now e ps \<and> e' < 2 ^ 63"

lemma conjunct_step_cases:
  assumes "conjunct_step e res tA tB n = (e1, res1, out)" "res \<subseteq># tA \<inter># tB"
  shows "res1 = tA \<inter># tB"
    and "out = [] \<and> e1 = e \<and> res1 = res \<or> out = [emit e n (tA \<inter># tB - res)] \<and> e1 = n"
proof -
  have full: "res = tA \<inter># tB" if "tA \<inter># tB - res = {#}"
    using that assms(2) by (simp add: Diff_eq_empty_iff_mset subset_mset.antisym)
  have "res + (tA \<inter># tB - res) = tA \<inter># tB" using assms(2) by (rule subset_mset.add_diff_inverse)
  then show "res1 = tA \<inter># tB"
    and "out = [] \<and> e1 = e \<and> res1 = res \<or> out = [emit e n (tA \<inter># tB - res)] \<and> e1 = n"
    using assms full by (auto simp: conjunct_step_def Let_def simp del: subset_mset.le_inf_iff split: if_splits)
qed

lemma conjunct_ok_step:
  assumes step: "conjunct_step e res totA totB n = (e1, res1, out)" and le: "res \<subseteq># totA \<inter># totB"
    and rest: "conjunct_ok n e1 ps e' res1 f g"
    and e: "0 \<le> e" "e \<le> now" "now \<le> n" "n < 2 ^ 63"
    and before: "\<And>t. now \<le> t \<Longrightarrow> t < n \<Longrightarrow> f' t \<inter># g' t = res"
    and after: "\<And>t. n \<le> t \<Longrightarrow> f' t = f t \<and> g' t = g t"
  shows "conjunct_ok now e (out @ ps) e' res f' g'"
proof -
  note cs = conjunct_step_cases [OF step le]
  have em: "Length (emit e n x) = n - e" "Amount (emit e n x) = x" for x
    using emit_fields [of e n x] e by auto
  have rel: "released e (out @ ps) t = (if n \<le> t then res1 - res else {#}) + released e1 ps t" for t
    using cs em by auto
  have "res + released e (out @ ps) t = f' t \<inter># g' t" if "now \<le> t" for t
  proof (cases "n \<le> t")
    case True
    have "res + (res1 - res) = res1" unfolding cs(1) by (rule subset_mset.add_diff_inverse [OF le])
    then have "res + released e (out @ ps) t = res1 + released e1 ps t"
      unfolding rel if_P [OF True] by (simp only: add.assoc [symmetric])
    then show ?thesis using rest True after by (simp add: conjunct_ok_def)
  next
    case False
    then have "released e1 ps t = {#}"
      using rest by (intro released_next_ge) (auto simp: conjunct_ok_def)
    then show ?thesis using False rel before [OF that] by simp
  qed
  moreover have "\<forall>p \<in> set (out @ ps). 0 \<le> Length p" "last_event e (out @ ps) = e'"
    using cs(2) rest em e by (auto simp: conjunct_ok_def)
  moreover have "next_ge now e (out @ ps)"
    using cs(2) rest em e by (cases ps) (auto simp: conjunct_ok_def)
  moreover have "e' < 2 ^ 63" using rest by (simp add: conjunct_ok_def)
  ultimately show ?thesis by (simp add: conjunct_ok_def)
qed

lemma released_none:
  "schedule_ok t0 ps \<Longrightarrow> next_ge n t0 ps \<Longrightarrow> t < n \<Longrightarrow> released t0 ps t = {#}"
  by (intro released_next_ge) (auto simp: schedule_ok_def)

lemma conjunct_loop_correct:
  assumes "schedule_ok tA as" "schedule_ok tB bs" "0 \<le> e" "e \<le> now" "next_ge now tA as" "next_ge now tB bs"
    and "res = totA \<inter># totB" and "conjunct_loop tA tB e res totA totB as bs = (e', ps)" and "now < 2 ^ 63"
  shows "conjunct_ok now e ps e' res (\<lambda>t. totA + released tA as t) (\<lambda>t. totB + released tB bs t)"
  using assms
proof (induction tA tB e res totA totB as bs arbitrary: now e' ps rule: conjunct_loop.induct)
  case (1 tA tB e res totA totB)
  then show ?case by (simp add: conjunct_ok_def)
next
  case (2 tA tB e res totA totB a as)
  note ok = schedule_ok_Cons [OF 2(2)]
  let ?n = "tA + Length a"
  obtain e1 res1 out ps1 where step: "conjunct_step e res (totA + Amount a) totB ?n = (e1, res1, out)"
    and rec: "conjunct_loop ?n tB e1 res1 (totA + Amount a) totB as [] = (e', ps1)" "ps = out @ ps1"
    using 2(9) ok(5) by (auto simp: Let_def split: prod.splits)
  have le: "res \<subseteq># (totA + Amount a) \<inter># totB" using 2(8) by (auto intro: subset_mset.le_infI1 subset_mset.le_infI2)
  note cs = conjunct_step_cases [OF step le]
  have e1: "0 \<le> e1" "e1 \<le> ?n" using cs(2) 2(4-6) ok by auto
  have "conjunct_ok ?n e1 ps1 e' res1 (\<lambda>t. (totA + Amount a) + released ?n as t) (\<lambda>t. totB + released tB [] t)"
    by (rule 2(1) [unfolded ok(5), OF refl refl step [symmetric] refl refl ok(1) 2(3) e1 next_ge_step [OF ok(1)] _ cs(1) rec(1)])
       (use ok in simp_all)
  then show ?case
    unfolding rec(2) using 2(4-6,8) ok released_none [OF 2(2), of ?n]
    by (intro conjunct_ok_step [OF step le]) (auto simp: ac_simps)
next
  case (3 tA tB e res totA totB b bs)
  note ok = schedule_ok_Cons [OF 3(3)]
  let ?n = "tB + Length b"
  obtain e1 res1 out ps1 where step: "conjunct_step e res totA (totB + Amount b) ?n = (e1, res1, out)"
    and rec: "conjunct_loop tA ?n e1 res1 totA (totB + Amount b) [] bs = (e', ps1)" "ps = out @ ps1"
    using 3(9) ok(5) by (auto simp: Let_def split: prod.splits)
  have le: "res \<subseteq># totA \<inter># (totB + Amount b)" using 3(8) by (auto intro: subset_mset.le_infI1 subset_mset.le_infI2)
  note cs = conjunct_step_cases [OF step le]
  have e1: "0 \<le> e1" "e1 \<le> ?n" using cs(2) 3(4,5,7) ok by auto
  have "conjunct_ok ?n e1 ps1 e' res1 (\<lambda>t. totA + released tA [] t) (\<lambda>t. (totB + Amount b) + released ?n bs t)"
    by (rule 3(1) [unfolded ok(5), OF refl refl step [symmetric] refl refl 3(2) ok(1) e1 _ next_ge_step [OF ok(1)] cs(1) rec(1)])
       (use ok in simp_all)
  then show ?case
    unfolding rec(2) using 3(4,5,7,8) ok released_none [OF 3(3), of ?n]
    by (intro conjunct_ok_step [OF step le]) (auto simp: ac_simps)
next
  case (4 tA tB e res totA totB a as b bs)
  note okA = schedule_ok_Cons [OF 4(4)] and okB = schedule_ok_Cons [OF 4(5)]
  note IH = 4(1-3) [unfolded okA(5) okB(5), OF refl refl]
  let ?n = "tA + Length a" and ?m = "tB + Length b"
  have le: "res \<subseteq># (totA + x) \<inter># (totB + y)" for x y
    using 4(10) by (auto intro: subset_mset.le_infI1 subset_mset.le_infI2)
  have ge: "now \<le> ?n" "now \<le> ?m" using 4(8,9) by simp_all
  consider "?n < ?m" | "?m < ?n" | "?n = ?m" by linarith
  then show ?case
  proof cases
    case 1
    obtain e1 res1 out ps1 where step: "conjunct_step e res (totA + Amount a) totB ?n = (e1, res1, out)"
      and rec: "conjunct_loop ?n tB e1 res1 (totA + Amount a) totB as (b # bs) = (e', ps1)" "ps = out @ ps1"
      using 4(11) okA(5) okB(5) 1 by (auto simp: Let_def split: prod.splits)
    have le1: "res \<subseteq># (totA + Amount a) \<inter># totB" using le [of "Amount a" "{#}"] by simp
    note cs = conjunct_step_cases [OF step le1]
    have e1: "0 \<le> e1" "e1 \<le> ?n" using cs(2) 4(6,7) ge okA by auto
    have "conjunct_ok ?n e1 ps1 e' res1 (\<lambda>t. (totA + Amount a) + released ?n as t)
        (\<lambda>t. totB + released tB (b # bs) t)"
      by (rule IH(1) [OF 1 refl step [symmetric] refl refl okA(1) 4(5) e1 next_ge_step [OF okA(1)] _ cs(1) rec(1)])
         (use 1 okA in simp_all)
    then show ?thesis
      unfolding rec(2) using 4(6,7,10) ge okA 1 released_none [OF 4(4), of ?n] released_none [OF 4(5), of ?n]
      by (intro conjunct_ok_step [OF step le1]) (auto simp: ac_simps)
  next
    case 2
    obtain e1 res1 out ps1 where step: "conjunct_step e res totA (totB + Amount b) ?m = (e1, res1, out)"
      and rec: "conjunct_loop tA ?m e1 res1 totA (totB + Amount b) (a # as) bs = (e', ps1)" "ps = out @ ps1"
      using 4(11) okA(5) okB(5) 2 by (auto simp: Let_def split: prod.splits)
    have le1: "res \<subseteq># totA \<inter># (totB + Amount b)" using le [of "{#}" "Amount b"] by simp
    note cs = conjunct_step_cases [OF step le1]
    have e1: "0 \<le> e1" "e1 \<le> ?m" using cs(2) 4(6,7) ge okB by auto
    have "conjunct_ok ?m e1 ps1 e' res1 (\<lambda>t. totA + released tA (a # as) t)
        (\<lambda>t. (totB + Amount b) + released ?m bs t)"
      by (rule IH(2) [OF _ 2 refl step [symmetric] refl refl 4(4) okB(1) e1 _ next_ge_step [OF okB(1)] cs(1) rec(1)])
         (use 2 okB in simp_all)
    then show ?thesis
      unfolding rec(2) using 4(6,7,10) ge okB 2 released_none [OF 4(4), of ?m] released_none [OF 4(5), of ?m]
      by (intro conjunct_ok_step [OF step le1]) (auto simp: ac_simps)
  next
    case 3
    obtain e1 res1 out ps1 where step: "conjunct_step e res (totA + Amount a) (totB + Amount b) ?n = (e1, res1, out)"
      and rec: "conjunct_loop ?n ?n e1 res1 (totA + Amount a) (totB + Amount b) as bs = (e', ps1)" "ps = out @ ps1"
      using 4(11) okA(5) okB(5) 3 by (auto simp: Let_def split: prod.splits)
    note le1 = le [of "Amount a" "Amount b"] and okB' = okB [folded 3]
    note cs = conjunct_step_cases [OF step le1]
    have e1: "0 \<le> e1" "e1 \<le> ?n" using cs(2) 4(6,7) ge okA by auto
    have "conjunct_ok ?n e1 ps1 e' res1 (\<lambda>t. (totA + Amount a) + released ?n as t)
        (\<lambda>t. (totB + Amount b) + released ?n bs t)"
      by (rule IH(3) [OF _ _ refl refl step [symmetric] refl refl okA(1) okB'(1) e1 next_ge_step [OF okA(1)]
            next_ge_step [OF okB'(1)] cs(1) rec(1)]) (use 3 okA in simp_all)
    then show ?thesis
      unfolding rec(2) using 4(6,7,10) ge okA 3 released_none [OF 4(4), of ?n] released_none [OF 4(5), of ?n]
      by (intro conjunct_ok_step [OF step le1]) (auto simp: ac_simps)
  qed
qed

lemma ConjunctPeriods_ok:
  assumes "schedule_ok sA as" "schedule_ok sB bs" "ConjunctPeriods sA sB as bs = (s, e, ps)"
  shows "s = min sA sB" "schedule_ok s ps" "last_event s ps = e"
    "released s ps t = released sA as t \<inter># released sB bs t"
    "TotalAmount ps = TotalAmount as \<inter># TotalAmount bs"
proof -
  show s: "s = min sA sB" using assms(3) by (simp add: ConjunctPeriods_def Let_def)
  have loop: "conjunct_loop sA sB s {#} {#} {#} as bs = (e, ps)"
    using assms(3) s by (simp add: ConjunctPeriods_def Let_def)
  have ge: "0 \<le> s" "s \<le> sA" "s \<le> sB" using assms s by (auto simp: schedule_ok_def)
  have lt: "s < 2 ^ 63" using ge assms(1) last_event_ge [of as sA] by (auto simp: schedule_ok_def)
  have ok: "conjunct_ok s s ps e {#} (\<lambda>t. {#} + released sA as t) (\<lambda>t. {#} + released sB bs t)"
    by (rule conjunct_loop_correct [OF assms(1,2) ge(1) order_refl next_ge_step [OF assms(1) ge(2)]
          next_ge_step [OF assms(2) ge(3)] _ loop lt]) simp
  then show last: "last_event s ps = e" by (simp add: conjunct_ok_def)
  have rel: "released s ps t = released sA as t \<inter># released sB bs t" for t
  proof (cases "s \<le> t")
    case True
    then show ?thesis using ok by (simp add: conjunct_ok_def)
  next
    case False
    then have "released s ps t = {#}" using ok by (intro released_before) (auto simp: conjunct_ok_def)
    moreover have "released sA as t = {#}"
      using False ge assms(1) by (intro released_before) (auto simp: schedule_ok_def)
    ultimately show ?thesis by simp
  qed
  then show "released s ps t = released sA as t \<inter># released sB bs t" .
  show "schedule_ok s ps" using ok last ge by (simp add: conjunct_ok_def schedule_ok_def)
  define T where "T = max e (max (last_event sA as) (last_event sB bs))"
  have "released s ps T = TotalAmount ps"
    using ok by (intro released_after) (simp_all add: conjunct_ok_def T_def)
  moreover have "released sA as T = TotalAmount as" "released sB bs T = TotalAmount bs"
    using assms(1,2) by (auto intro!: released_after simp: schedule_ok_def T_def)
  ultimately show "TotalAmount ps = TotalAmount as \<inter># TotalAmount bs" using rel by simp
qed

text \<open>
  C24. The conjunction of two schedules is their minimum: for schedules whose times stay
  within 64 bits, \<^verbatim>\<open>ConjunctPeriods\<close> starts at the earlier start, ends at its own last
  event, and at every time has released, for each denomination, the smaller of what the
  two schedules have released; so does its total.
\<close>

theorem ConjunctPeriods_minimum:
  assumes "schedule_ok sA as" "schedule_ok sB bs" "ConjunctPeriods sA sB as bs = (s, e, ps)"
  shows "s = min sA sB \<and> last_event s ps = e \<and> schedule_ok s ps
    \<and> (\<forall>t. released s ps t = released sA as t \<inter># released sB bs t)
    \<and> TotalAmount ps = TotalAmount as \<inter># TotalAmount bs"
  using ConjunctPeriods_ok [OF assms] by blast

theorem ConjunctPeriods_minimum_witness:
  "\<exists>s e ps. ConjunctPeriods 100 105 ex_periods ex_grant = (s, e, ps)
     \<and> released s ps 110 = released 100 ex_periods 110 \<inter># released 105 ex_grant 110"
proof -
  obtain s e ps where "ConjunctPeriods 100 105 ex_periods ex_grant = (s, e, ps)" by (metis prod_cases3)
  with ConjunctPeriods_minimum [OF ex_ok this] show ?thesis by blast
qed

section \<open>Aligning two schedules\<close>

lemma TotalLength_last_event: "schedule_ok t0 ps \<Longrightarrow> TotalLength ps = last_event t0 ps - t0"
proof (induction ps arbitrary: t0)
  case (Cons p ps)
  note ok = schedule_ok_Cons [OF Cons.prems]
  have "TotalLength ps = last_event (t0 + Length p) ps - (t0 + Length p)" by (rule Cons.IH [OF ok(1)])
  moreover have "t0 + Length p \<le> last_event (t0 + Length p) ps" "last_event (t0 + Length p) ps < 2 ^ 63"
    using ok(1) last_event_ge [of ps "t0 + Length p"] by (auto simp: schedule_ok_def)
  ultimately show ?case
    using ok by (simp add: i64_id in_i64_def)
qed simp

lemma extend_first_ok:
  assumes "schedule_ok t0 ps" "0 \<le> s" "s \<le> t0" "ps \<noteq> []"
  shows "schedule_ok s (extend_first ps (i64 (t0 - s)))"
    and "released s (extend_first ps (i64 (t0 - s))) t = released t0 ps t"
    and "last_event s (extend_first ps (i64 (t0 - s))) = last_event t0 ps"
proof -
  obtain p rest where ps: "ps = p # rest" using assms(4) by (cases ps) auto
  note ok = schedule_ok_Cons [OF assms(1) [unfolded ps]]
  have "i64 (t0 - s) = t0 - s" "i64 (Length p + (t0 - s)) = Length p + (t0 - s)"
    using ok assms(2,3) by (auto intro!: i64_id simp: in_i64_def)
  then have ext: "extend_first ps (i64 (t0 - s)) = p\<lparr>Length := Length p + (t0 - s)\<rparr> # rest"
    by (simp add: extend_first_def ps)
  then show "released s (extend_first ps (i64 (t0 - s))) t = released t0 ps t"
    "last_event s (extend_first ps (i64 (t0 - s))) = last_event t0 ps"
    by (simp_all add: ps add_ac)
  then show "schedule_ok s (extend_first ps (i64 (t0 - s)))"
    using assms ext ok by (auto simp: schedule_ok_def ps)
qed

lemma AlignSchedules_same:
  assumes "schedule_ok t0 as" "schedule_ok t0 bs"
  shows "AlignSchedules t0 t0 as bs = (t0, max (last_event t0 as) (last_event t0 bs), as, bs)"
proof -
  have keep: "extend_first ps (i64 (t0 - t0)) = ps" if "schedule_ok t0 ps" for ps
  proof (cases ps)
    case (Cons p rest)
    then have "in_i64 (Length p)" using schedule_ok_Cons [of t0 p rest] that by (auto simp: in_i64_def)
    then show ?thesis by (simp add: extend_first_def Cons i64_id in_i64_def)
  qed (simp add: extend_first_def)
  have "i64 (t0 + TotalLength ps) = last_event t0 ps" if "schedule_ok t0 ps" for ps
    using that last_event_ge [of ps t0]
    by (simp add: TotalLength_last_event [OF that] i64_id in_i64_def schedule_ok_def)
  then show ?thesis using keep assms by (simp add: AlignSchedules_def Let_def)
qed

end
