(* ===== verification/Sdk.thy ===== *)
theory Sdk
  imports StateDB Schedule
begin

text \<open>
  The interfaces of the Cosmos SDK that the modules call: account and bank keepers as
  records of functions over the SDK's own state \<open>'w\<close> (\<^verbatim>\<open>expected_keepers.go\<close> of the
  modules), the laws those keepers document, and the account type of the chain
  (\<^verbatim>\<open>types/account.go\<close>, and the vesting account of \<^verbatim>\<open>x/vesting\<close>). The last section has a
  small SDK on which every law holds.
\<close>

section \<open>Accounts\<close>

record BaseAccount =
  accAddress :: addr
  accNumber :: u64
  accSequence :: u64

text \<open>The clawback vesting account; times are Unix seconds.\<close>

record ClawbackVestingAccount =
  cvBase :: BaseAccount
  OriginalVesting :: Coins
  DelegatedFree :: Coins
  DelegatedVesting :: Coins
  EndTime :: int
  FunderAddress :: string
  StartTime :: int
  LockupPeriods :: "Period list"
  VestingPeriods :: "Period list"

text \<open>
  An account of the auth module: the chain's \<^verbatim>\<open>EthAccount\<close>, a clawback vesting account, or an
  account of another type, identified by a tag. Only the first implements \<^verbatim>\<open>EthAccountI\<close>.
\<close>

datatype AccountI =
    EthAccount BaseAccount hash
  | ClawbackAccount ClawbackVestingAccount
  | OtherAccount BaseAccount nat

fun baseAcc :: "AccountI \<Rightarrow> BaseAccount" where
  "baseAcc (EthAccount b h) = b"
| "baseAcc (ClawbackAccount va) = cvBase va"
| "baseAcc (OtherAccount b t) = b"

definition GetSequence :: "AccountI \<Rightarrow> u64" where
  "GetSequence acc = accSequence (baseAcc acc)"

fun SetSequence :: "AccountI \<Rightarrow> u64 \<Rightarrow> AccountI" where
  "SetSequence (EthAccount b h) n = EthAccount (b\<lparr>accSequence := n\<rparr>) h"
| "SetSequence (ClawbackAccount va) n = ClawbackAccount (va\<lparr>cvBase := (cvBase va)\<lparr>accSequence := n\<rparr>\<rparr>)"
| "SetSequence (OtherAccount b t) n = OtherAccount (b\<lparr>accSequence := n\<rparr>) t"

definition isEthAccountI :: "AccountI \<Rightarrow> bool" where
  "isEthAccountI acc = (case acc of EthAccount _ _ \<Rightarrow> True | _ \<Rightarrow> False)"

definition ProtoAccount :: "(byte list \<Rightarrow> hash) \<Rightarrow> AccountI" where
  "ProtoAccount kec = EthAccount \<lparr>accAddress = 0, accNumber = 0, accSequence = 0\<rparr> (kec [])"

definition EthAddress :: "AccountI \<Rightarrow> addr" where
  "EthAddress acc = accAddress (baseAcc acc)"

fun GetCodeHashI :: "AccountI \<Rightarrow> hash option" where
  "GetCodeHashI (EthAccount b h) = Some h"
| "GetCodeHashI (ClawbackAccount va) = None"
| "GetCodeHashI (OtherAccount b t) = None"

fun SetCodeHash :: "AccountI \<Rightarrow> hash \<Rightarrow> AccountI" where
  "SetCodeHash (EthAccount b h) h' = EthAccount b h'"
| "SetCodeHash (ClawbackAccount va) h' = ClawbackAccount va"
| "SetCodeHash (OtherAccount b t) h' = OtherAccount b t"

text \<open>\<^verbatim>\<open>Type()\<close>: 1 for an externally owned account, 2 for a contract.\<close>

fun AccountType :: "(byte list \<Rightarrow> hash) \<Rightarrow> AccountI \<Rightarrow> int option" where
  "AccountType kec (EthAccount b h) = Some (if h = kec [] then 1 else 2)"
| "AccountType kec (ClawbackAccount va) = None"
| "AccountType kec (OtherAccount b t) = None"

lemma account_setters [simp]:
  "baseAcc (SetSequence acc n) = (baseAcc acc)\<lparr>accSequence := n\<rparr>"
  "baseAcc (SetCodeHash acc h) = baseAcc acc"
  "GetCodeHashI (SetSequence acc n) = GetCodeHashI acc"
  "GetCodeHashI (SetCodeHash acc h) = map_option (\<lambda>_. h) (GetCodeHashI acc)"
  "isEthAccountI (SetSequence acc n) = isEthAccountI acc"
  "isEthAccountI (SetCodeHash acc h) = isEthAccountI acc"
  "isEthAccountI acc \<longleftrightarrow> GetCodeHashI acc \<noteq> None"
  by (cases acc; simp add: isEthAccountI_def)+

section \<open>Keepers of the SDK\<close>

record 'w AccountKeeper =
  akGetAccount :: "'w \<Rightarrow> addr \<Rightarrow> AccountI option"
  akNewAccountWithAddress :: "'w \<Rightarrow> addr \<Rightarrow> 'w \<times> AccountI"
  akSetAccount :: "'w \<Rightarrow> AccountI \<Rightarrow> 'w"
  akRemoveAccount :: "'w \<Rightarrow> AccountI \<Rightarrow> 'w"
  akGetModuleAddress :: "string \<Rightarrow> addr"

record 'w BankKeeper =
  bkGetBalance :: "'w \<Rightarrow> addr \<Rightarrow> string \<Rightarrow> int"
  bkMintCoins :: "'w \<Rightarrow> string \<Rightarrow> Coins \<Rightarrow> 'w result"
  bkBurnCoins :: "'w \<Rightarrow> string \<Rightarrow> Coins \<Rightarrow> 'w result"
  bkSendCoinsFromModuleToAccount :: "'w \<Rightarrow> string \<Rightarrow> addr \<Rightarrow> Coins \<Rightarrow> 'w result"
  bkSendCoinsFromAccountToModule :: "'w \<Rightarrow> addr \<Rightarrow> string \<Rightarrow> Coins \<Rightarrow> 'w result"
  bkSendCoins :: "'w \<Rightarrow> addr \<Rightarrow> addr \<Rightarrow> Coins \<Rightarrow> 'w result"
  bkBlockedAddr :: "addr \<Rightarrow> bool"

text \<open>
  The laws of the account keeper: an account is stored under its address, a setter is seen
  by the getter at that address and nowhere else, a new account is the prototype at that
  address and is not stored, and balances do not depend on any of this.
\<close>

definition account_laws :: "(byte list \<Rightarrow> hash) \<Rightarrow> 'w AccountKeeper \<Rightarrow> 'w BankKeeper \<Rightarrow> bool" where
  "account_laws kec ak bk \<longleftrightarrow>
     (\<forall>w a acc. akGetAccount ak w a = Some acc \<longrightarrow> accAddress (baseAcc acc) = a)
   \<and> (\<forall>w acc a. akGetAccount ak (akSetAccount ak w acc) a
        = (if a = accAddress (baseAcc acc) then Some acc else akGetAccount ak w a))
   \<and> (\<forall>w acc a. akGetAccount ak (akRemoveAccount ak w acc) a
        = (if a = accAddress (baseAcc acc) then None else akGetAccount ak w a))
   \<and> (\<forall>w a. \<exists>n. snd (akNewAccountWithAddress ak w a)
        = EthAccount \<lparr>accAddress = a, accNumber = n, accSequence = 0\<rparr> (kec []))
   \<and> (\<forall>w a. akGetAccount ak (fst (akNewAccountWithAddress ak w a)) = akGetAccount ak w)
   \<and> (\<forall>w a. bkGetBalance bk (fst (akNewAccountWithAddress ak w a)) = bkGetBalance bk w)
   \<and> (\<forall>w acc. bkGetBalance bk (akSetAccount ak w acc) = bkGetBalance bk w)
   \<and> (\<forall>w acc. bkGetBalance bk (akRemoveAccount ak w acc) = bkGetBalance bk w)"

text \<open>The balance function after \<open>cs\<close> has been added to or taken from the account \<open>a\<close>.\<close>

definition credit :: "addr \<Rightarrow> Coins \<Rightarrow> (addr \<Rightarrow> string \<Rightarrow> int) \<Rightarrow> addr \<Rightarrow> string \<Rightarrow> int" where
  "credit a cs bal = (\<lambda>b d. bal b d + (if b = a then AmountOf cs d else 0))"

definition debit :: "addr \<Rightarrow> Coins \<Rightarrow> (addr \<Rightarrow> string \<Rightarrow> int) \<Rightarrow> addr \<Rightarrow> string \<Rightarrow> int" where
  "debit a cs bal = (\<lambda>b d. bal b d - (if b = a then AmountOf cs d else 0))"

text \<open>
  Existing accounts stay as they are; only the accounts in \<open>as\<close> may appear, and none of them
  as a vesting account.
\<close>

definition keeps_accounts :: "'w AccountKeeper \<Rightarrow> addr set \<Rightarrow> 'w \<Rightarrow> 'w \<Rightarrow> bool" where
  "keeps_accounts ak as w w' \<longleftrightarrow>
     (\<forall>a. akGetAccount ak w a \<noteq> None \<or> a \<notin> as \<longrightarrow> akGetAccount ak w' a = akGetAccount ak w a)
   \<and> (\<forall>a va. akGetAccount ak w' a = Some (ClawbackAccount va) \<longrightarrow> akGetAccount ak w a = Some (ClawbackAccount va))"

definition bank_laws :: "'w AccountKeeper \<Rightarrow> 'w BankKeeper \<Rightarrow> bool" where
  "bank_laws ak bk \<longleftrightarrow>
     (\<forall>w w' m cs. bkMintCoins bk w m cs = Inr w' \<longrightarrow>
        bkGetBalance bk w' = credit (akGetModuleAddress ak m) cs (bkGetBalance bk w)
        \<and> keeps_accounts ak {akGetModuleAddress ak m} w w')
   \<and> (\<forall>w w' m cs. bkBurnCoins bk w m cs = Inr w' \<longrightarrow>
        bkGetBalance bk w' = debit (akGetModuleAddress ak m) cs (bkGetBalance bk w)
        \<and> keeps_accounts ak {akGetModuleAddress ak m} w w')
   \<and> (\<forall>w w' m a cs. bkSendCoinsFromModuleToAccount bk w m a cs = Inr w' \<longrightarrow>
        bkGetBalance bk w' = credit a cs (debit (akGetModuleAddress ak m) cs (bkGetBalance bk w))
        \<and> keeps_accounts ak {akGetModuleAddress ak m, a} w w')
   \<and> (\<forall>w w' m a cs. bkSendCoinsFromAccountToModule bk w a m cs = Inr w' \<longrightarrow>
        bkGetBalance bk w' = credit (akGetModuleAddress ak m) cs (debit a cs (bkGetBalance bk w))
        \<and> keeps_accounts ak {akGetModuleAddress ak m} w w')
   \<and> (\<forall>w w' a b cs. bkSendCoins bk w a b cs = Inr w' \<longrightarrow>
        bkGetBalance bk w' = credit b cs (debit a cs (bkGetBalance bk w))
        \<and> keeps_accounts ak {b} w w')"

lemma account_lawsD:
  assumes "account_laws kec ak bk"
  shows "akGetAccount ak w a = Some acc \<Longrightarrow> accAddress (baseAcc acc) = a"
    and "akGetAccount ak (akSetAccount ak w acc) a
        = (if a = accAddress (baseAcc acc) then Some acc else akGetAccount ak w a)"
    and "akGetAccount ak (akRemoveAccount ak w acc) a
        = (if a = accAddress (baseAcc acc) then None else akGetAccount ak w a)"
    and "\<exists>n. snd (akNewAccountWithAddress ak w a)
        = EthAccount \<lparr>accAddress = a, accNumber = n, accSequence = 0\<rparr> (kec [])"
    and "akGetAccount ak (fst (akNewAccountWithAddress ak w a)) = akGetAccount ak w"
    and "bkGetBalance bk (fst (akNewAccountWithAddress ak w a)) = bkGetBalance bk w"
    and "bkGetBalance bk (akSetAccount ak w acc) = bkGetBalance bk w"
    and "bkGetBalance bk (akRemoveAccount ak w acc) = bkGetBalance bk w"
  using assms unfolding account_laws_def by blast+

lemma bank_lawsD:
  assumes "bank_laws ak bk"
  shows "bkMintCoins bk w m cs = Inr w' \<Longrightarrow>
        bkGetBalance bk w' = credit (akGetModuleAddress ak m) cs (bkGetBalance bk w)
        \<and> keeps_accounts ak {akGetModuleAddress ak m} w w'"
    and "bkBurnCoins bk w m cs = Inr w' \<Longrightarrow>
        bkGetBalance bk w' = debit (akGetModuleAddress ak m) cs (bkGetBalance bk w)
        \<and> keeps_accounts ak {akGetModuleAddress ak m} w w'"
    and "bkSendCoinsFromModuleToAccount bk w m a cs = Inr w' \<Longrightarrow>
        bkGetBalance bk w' = credit a cs (debit (akGetModuleAddress ak m) cs (bkGetBalance bk w))
        \<and> keeps_accounts ak {akGetModuleAddress ak m, a} w w'"
    and "bkSendCoinsFromAccountToModule bk w a m cs = Inr w' \<Longrightarrow>
        bkGetBalance bk w' = credit (akGetModuleAddress ak m) cs (debit a cs (bkGetBalance bk w))
        \<and> keeps_accounts ak {akGetModuleAddress ak m} w w'"
    and "bkSendCoins bk w a b cs = Inr w' \<Longrightarrow>
        bkGetBalance bk w' = credit b cs (debit a cs (bkGetBalance bk w))
        \<and> keeps_accounts ak {b} w w'"
  using assms unfolding bank_laws_def by simp_all

lemma credit_debit [simp]: "credit a cs (debit a cs bal) = bal" "debit a cs (credit a cs bal) = bal"
  by (auto simp: credit_def debit_def fun_eq_iff)

lemma debit_credit_swap: "debit a cs (credit b cs' bal) = credit b cs' (debit a cs bal)"
  by (auto simp: credit_def debit_def fun_eq_iff)

lemma keeps_accounts_trans:
  "keeps_accounts ak A w w1 \<Longrightarrow> keeps_accounts ak B w1 w2 \<Longrightarrow> keeps_accounts ak (A \<union> B) w w2"
  unfolding keeps_accounts_def by (metis UnI1 UnI2)

lemma keeps_accountsD:
  "keeps_accounts ak as w w' \<Longrightarrow> akGetAccount ak w a \<noteq> None \<or> a \<notin> as \<Longrightarrow> akGetAccount ak w' a = akGetAccount ak w a"
  "keeps_accounts ak as w w' \<Longrightarrow> akGetAccount ak w' a = Some (ClawbackAccount va)
   \<Longrightarrow> akGetAccount ak w a = Some (ClawbackAccount va)"
  unfolding keeps_accounts_def by blast+

lemma keeps_accounts_refl: "keeps_accounts ak as w w"
  unfolding keeps_accounts_def by blast

lemma keeps_accounts_mono: "keeps_accounts ak as w w' \<Longrightarrow> as \<subseteq> bs \<Longrightarrow> keeps_accounts ak bs w w'"
  unfolding keeps_accounts_def by blast

section \<open>A small SDK\<close>

text \<open>
  Accounts as a map and balances as a function; every transfer succeeds if the payer has the
  coins. It shows that the laws can be met together.
\<close>

type_synonym ledger = "(addr \<rightharpoonup> AccountI) \<times> (addr \<Rightarrow> string \<Rightarrow> int)"

definition module_address :: "string \<Rightarrow> addr" where
  "module_address m = word_of_nat (1000 + length m)"

definition ledger_ak :: "(byte list \<Rightarrow> hash) \<Rightarrow> ledger AccountKeeper" where
  "ledger_ak kec =
     \<lparr>akGetAccount = (\<lambda>w a. case fst w a of None \<Rightarrow> None
        | Some acc \<Rightarrow> if accAddress (baseAcc acc) = a then Some acc else None),
      akNewAccountWithAddress = (\<lambda>w a. (w, EthAccount \<lparr>accAddress = a, accNumber = 0, accSequence = 0\<rparr> (kec []))),
      akSetAccount = (\<lambda>w acc. ((fst w)(accAddress (baseAcc acc) \<mapsto> acc), snd w)),
      akRemoveAccount = (\<lambda>w acc. ((fst w)(accAddress (baseAcc acc) := None), snd w)),
      akGetModuleAddress = module_address\<rparr>"

definition pay :: "addr \<Rightarrow> Coins \<Rightarrow> ledger \<Rightarrow> ledger result" where
  "pay a cs w =
     (if \<forall>d \<in># cs. AmountOf cs d \<le> snd w a d then Inr (fst w, debit a cs (snd w))
      else Inl (ErrExternal ''insufficient funds''))"

definition receive :: "addr \<Rightarrow> Coins \<Rightarrow> ledger \<Rightarrow> ledger result" where
  "receive a cs w = Inr (fst w, credit a cs (snd w))"

definition ledger_bk :: "ledger BankKeeper" where
  "ledger_bk =
     \<lparr>bkGetBalance = snd,
      bkMintCoins = (\<lambda>w m cs. receive (module_address m) cs w),
      bkBurnCoins = (\<lambda>w m cs. pay (module_address m) cs w),
      bkSendCoinsFromModuleToAccount = (\<lambda>w m a cs. rbind (pay (module_address m) cs w) (receive a cs)),
      bkSendCoinsFromAccountToModule = (\<lambda>w a m cs. rbind (pay a cs w) (receive (module_address m) cs)),
      bkSendCoins = (\<lambda>w a b cs. rbind (pay a cs w) (receive b cs)),
      bkBlockedAddr = (\<lambda>a. False)\<rparr>"

lemma ledger_account_laws: "account_laws kec (ledger_ak kec) ledger_bk"
  by (auto simp: account_laws_def ledger_ak_def ledger_bk_def split: option.splits if_splits)

lemma ledger_transfers:
  "pay a cs w = Inr w' \<Longrightarrow> fst w' = fst w \<and> snd w' = debit a cs (snd w)"
  "receive a cs w = Inr w' \<Longrightarrow> fst w' = fst w \<and> snd w' = credit a cs (snd w)"
  by (auto simp: pay_def receive_def split: if_splits)

lemma ledger_keeps: "fst w' = fst w \<Longrightarrow> keeps_accounts (ledger_ak kec) as w w'"
  by (simp add: keeps_accounts_def ledger_ak_def split: option.split)

lemma ledger_bank_laws: "bank_laws (ledger_ak kec) ledger_bk"
proof -
  have m: "akGetModuleAddress (ledger_ak kec) = module_address" by (simp add: ledger_ak_def)
  show ?thesis
    unfolding bank_laws_def m
    by (auto simp: ledger_bk_def dest!: ledger_transfers intro!: ledger_keeps)
qed

end
