(* ===== verification/VestingAccount.thy ===== *)
theory VestingAccount
  imports Sdk
begin

text \<open>
  The methods of the clawback vesting account,
  \<^verbatim>\<open>x/vesting/types/clawback_vesting_account.go\<close>: what is unlocked, vested, locked and
  vesting at a time, and the account and the coins that a clawback leaves. The parts of
  \<^verbatim>\<open>BaseVestingAccount\<close> that belong to the SDK are arguments.
\<close>

section \<open>The account\<close>

definition NewClawbackVestingAccount ::
  "BaseAccount \<Rightarrow> string \<Rightarrow> Coins \<Rightarrow> int \<Rightarrow> Period list \<Rightarrow> Period list \<Rightarrow> ClawbackVestingAccount" where
  "NewClawbackVestingAccount base funder originalVesting startTime lockupPeriods vestingPeriods =
     (let (_, endTime, lp, vp) = AlignSchedules startTime startTime lockupPeriods vestingPeriods
      in \<lparr>cvBase = base, OriginalVesting = originalVesting, DelegatedFree = {#}, DelegatedVesting = {#},
          EndTime = endTime, FunderAddress = funder, StartTime = startTime,
          LockupPeriods = lp, VestingPeriods = vp\<rparr>)"

definition GetUnlockedOnly :: "ClawbackVestingAccount \<Rightarrow> int \<Rightarrow> Coins" where
  "GetUnlockedOnly va blockTime =
     ReadSchedule (StartTime va) (EndTime va) (LockupPeriods va) (OriginalVesting va) blockTime"

definition GetLockedOnly :: "ClawbackVestingAccount \<Rightarrow> int \<Rightarrow> Coins result" where
  "GetLockedOnly va blockTime = Coins_Sub (OriginalVesting va) (GetUnlockedOnly va blockTime)"

definition GetVestedOnly :: "ClawbackVestingAccount \<Rightarrow> int \<Rightarrow> Coins" where
  "GetVestedOnly va blockTime =
     ReadSchedule (StartTime va) (EndTime va) (VestingPeriods va) (OriginalVesting va) blockTime"

definition GetUnvestedOnly :: "ClawbackVestingAccount \<Rightarrow> int \<Rightarrow> Coins result" where
  "GetUnvestedOnly va blockTime = Coins_Sub (OriginalVesting va) (GetVestedOnly va blockTime)"

definition GetVestedCoins :: "ClawbackVestingAccount \<Rightarrow> int \<Rightarrow> Coins" where
  "GetVestedCoins va blockTime = GetUnlockedOnly va blockTime \<inter># GetVestedOnly va blockTime"

definition GetVestingCoins :: "ClawbackVestingAccount \<Rightarrow> int \<Rightarrow> Coins result" where
  "GetVestingCoins va blockTime = Coins_Sub (OriginalVesting va) (GetVestedCoins va blockTime)"

text \<open>\<open>lockedFromVesting\<close> is \<^verbatim>\<open>BaseVestingAccount.LockedCoinsFromVesting\<close>.\<close>

definition LockedCoins ::
  "(ClawbackVestingAccount \<Rightarrow> Coins \<Rightarrow> Coins) \<Rightarrow> ClawbackVestingAccount \<Rightarrow> int \<Rightarrow> Coins result" where
  "LockedCoins lockedFromVesting va blockTime =
     rbind (GetVestingCoins va blockTime) (\<lambda>vesting. Inr (lockedFromVesting va vesting))"

text \<open>\<open>track\<close> is \<^verbatim>\<open>BaseVestingAccount.TrackDelegation\<close>: balance, vesting coins, amount.\<close>

definition TrackDelegation ::
  "(ClawbackVestingAccount \<Rightarrow> Coins \<Rightarrow> Coins \<Rightarrow> Coins \<Rightarrow> ClawbackVestingAccount result)
   \<Rightarrow> ClawbackVestingAccount \<Rightarrow> int \<Rightarrow> Coins \<Rightarrow> Coins \<Rightarrow> ClawbackVestingAccount result" where
  "TrackDelegation track va blockTime balance amount =
     rbind (GetVestingCoins va blockTime) (\<lambda>vesting. track va balance vesting amount)"

definition GetPassedPeriodCount :: "ClawbackVestingAccount \<Rightarrow> int \<Rightarrow> nat" where
  "GetPassedPeriodCount va blockTime =
     ReadPastPeriodCount (StartTime va) (EndTime va) (VestingPeriods va) blockTime"

definition HasLockedCoins :: "ClawbackVestingAccount \<Rightarrow> int \<Rightarrow> bool result" where
  "HasLockedCoins va blockTime = rbind (GetLockedOnly va blockTime) (\<lambda>locked. Inr (locked \<noteq> {#}))"

fun sum_periods :: "int \<Rightarrow> Coins \<Rightarrow> Period list \<Rightarrow> int \<times> Coins" where
  "sum_periods t coins [] = (t, coins)"
| "sum_periods t coins (p # ps) = sum_periods (i64 (t + Length p)) (coins + Amount p) ps"

text \<open>\<open>baseValidate\<close> is \<^verbatim>\<open>BaseVestingAccount.Validate\<close>.\<close>

definition Account_Validate ::
  "(ClawbackVestingAccount \<Rightarrow> unit result) \<Rightarrow> ClawbackVestingAccount \<Rightarrow> unit result" where
  "Account_Validate baseValidate va =
     (if StartTime va \<ge> EndTime va then Inl (ErrText ''vesting start-time must be before end-time'')
      else
        let (lockupEnd, lockupCoins) = sum_periods (StartTime va) {#} (LockupPeriods va)
        in if lockupEnd > EndTime va then Inl (ErrText ''lockup schedule extends beyond account end time'')
           else if \<not> CoinEq lockupCoins (OriginalVesting va)
           then Inl (ErrText ''original vesting coins does not match the sum of all coins in lockup periods'')
           else
             let (vestingEnd, vestingCoins) = sum_periods (StartTime va) {#} (VestingPeriods va)
             in if vestingEnd > EndTime va then Inl (ErrText ''vesting schedule exteds beyond account end time'')
                else if \<not> CoinEq vestingCoins (OriginalVesting va)
                then Inl (ErrText ''original vesting coins does not match the sum of all coins in vesting periods'')
                else baseValidate va)"

definition ComputeClawback ::
  "ClawbackVestingAccount \<Rightarrow> int \<Rightarrow> (ClawbackVestingAccount \<times> Coins) result" where
  "ComputeClawback va clawbackTime =
     (let totalVested = GetVestedOnly va clawbackTime
      in rbind (GetUnvestedOnly va clawbackTime) (\<lambda>totalUnvested.
         let passedPeriodID = GetPassedPeriodCount va clawbackTime;
             newVestingPeriods = take passedPeriodID (VestingPeriods va);
             newVestingEnd = i64 (StartTime va + TotalLength newVestingPeriods);
             capPeriods = [\<lparr>Length = 0, Amount = totalVested\<rparr>];
             (_, newLockingEnd, newLockupPeriods) =
               ConjunctPeriods (StartTime va) (StartTime va) (LockupPeriods va) capPeriods
         in Inr (va\<lparr>OriginalVesting := totalVested, EndTime := Max64 newVestingEnd newLockingEnd,
                   LockupPeriods := newLockupPeriods, VestingPeriods := newVestingPeriods\<rparr>,
                 totalUnvested)))"

section \<open>Well-formed accounts\<close>

text \<open>Both schedules fit 64 bits, end by the end time and add up to the original vesting.\<close>

definition vesting_ok :: "ClawbackVestingAccount \<Rightarrow> bool" where
  "vesting_ok va \<longleftrightarrow>
     account_schedule (StartTime va) (EndTime va) (LockupPeriods va) (OriginalVesting va)
   \<and> account_schedule (StartTime va) (EndTime va) (VestingPeriods va) (OriginalVesting va)"

lemma ReadSchedule_le: "account_schedule t0 e ps tot \<Longrightarrow> ReadSchedule t0 e ps tot t \<subseteq># tot"
  using released_le_total [of t0 ps t] by (simp add: ReadSchedule_released account_schedule_def)

lemma ReadSchedule_mono:
  "account_schedule t0 e ps tot \<Longrightarrow> t \<le> t' \<Longrightarrow> ReadSchedule t0 e ps tot t \<subseteq># ReadSchedule t0 e ps tot t'"
  using released_mono [of t t' t0 ps] by (simp add: ReadSchedule_released)

lemma Coins_Sub_eq: "b \<subseteq># a \<Longrightarrow> Coins_Sub a b = Inr (a - b)"
  by (simp add: Coins_Sub_def)

lemma vesting_ok_reads:
  assumes "vesting_ok va"
  shows "GetUnlockedOnly va t \<subseteq># OriginalVesting va" "GetVestedOnly va t \<subseteq># OriginalVesting va"
    "GetVestedCoins va t \<subseteq># OriginalVesting va"
    "GetLockedOnly va t = Inr (OriginalVesting va - GetUnlockedOnly va t)"
    "GetUnvestedOnly va t = Inr (OriginalVesting va - GetVestedOnly va t)"
    "GetVestingCoins va t = Inr (OriginalVesting va - GetVestedCoins va t)"
proof -
  show u: "GetUnlockedOnly va t \<subseteq># OriginalVesting va" and v: "GetVestedOnly va t \<subseteq># OriginalVesting va"
    using assms by (simp_all add: vesting_ok_def GetUnlockedOnly_def GetVestedOnly_def ReadSchedule_le)
  show c: "GetVestedCoins va t \<subseteq># OriginalVesting va"
    unfolding GetVestedCoins_def using u by (rule subset_mset.le_infI1)
  show "GetLockedOnly va t = Inr (OriginalVesting va - GetUnlockedOnly va t)"
    "GetUnvestedOnly va t = Inr (OriginalVesting va - GetVestedOnly va t)"
    "GetVestingCoins va t = Inr (OriginalVesting va - GetVestedCoins va t)"
    using u v c by (simp_all add: GetLockedOnly_def GetUnvestedOnly_def GetVestingCoins_def Coins_Sub_eq)
qed

lemma sum_periods_ok: "schedule_ok t ps \<Longrightarrow> sum_periods t cs ps = (last_event t ps, cs + TotalAmount ps)"
proof (induction ps arbitrary: t cs)
  case (Cons p ps)
  note ok = schedule_ok_Cons [OF Cons.prems]
  show ?case using Cons.IH [OF ok(1)] ok(5) by (simp add: add.assoc)
qed simp

lemma CoinEq_iff [simp]: "CoinEq a b \<longleftrightarrow> a = b"
  by (auto simp: CoinEq_def intro: subset_mset.antisym)


definition ex_va :: ClawbackVestingAccount where
  "ex_va = \<lparr>cvBase = \<lparr>accAddress = 7, accNumber = 1, accSequence = 0\<rparr>, OriginalVesting = NewCoin ''a'' 5,
     DelegatedFree = {#}, DelegatedVesting = {#}, EndTime = 130, FunderAddress = ''funder'', StartTime = 100,
     LockupPeriods = ex_periods, VestingPeriods = ex_periods\<rparr>"

lemma ex_va_ok: "vesting_ok ex_va"
  using ex_schedule by (simp add: vesting_ok_def ex_va_def)


text \<open>
  On a well-formed account the split of the original vesting is exact at every time and
  never panics: vested plus vesting coins, and locked plus unlocked coins, are the
  original vesting; vested coins are at once unlocked and vested; and what is still
  vesting only shrinks as time passes.
\<close>

theorem vesting_split:
  assumes "vesting_ok va"
  shows "\<exists>vesting locked unvested. GetVestingCoins va t = Inr vesting
      \<and> vesting + GetVestedCoins va t = OriginalVesting va
      \<and> GetLockedOnly va t = Inr locked \<and> locked + GetUnlockedOnly va t = OriginalVesting va
      \<and> GetUnvestedOnly va t = Inr unvested \<and> unvested + GetVestedOnly va t = OriginalVesting va
      \<and> vesting = locked \<union># unvested
      \<and> (t \<le> t' \<longrightarrow> (\<exists>vesting'. GetVestingCoins va t' = Inr vesting' \<and> vesting' \<subseteq># vesting))"
proof -
  note r = vesting_ok_reads [OF assms]
  have mono: "GetVestedCoins va t \<subseteq># GetVestedCoins va t'" if "t \<le> t'"
    using assms that unfolding GetVestedCoins_def GetUnlockedOnly_def GetVestedOnly_def vesting_ok_def
    by (meson ReadSchedule_mono subset_mset.inf_mono)
  have "OriginalVesting va - GetVestedCoins va t
      = (OriginalVesting va - GetUnlockedOnly va t) \<union># (OriginalVesting va - GetVestedOnly va t)"
    unfolding GetVestedCoins_def by (auto simp: multiset_eq_iff max_def min_def)
  moreover have "OriginalVesting va - GetVestedCoins va t' \<subseteq># OriginalVesting va - GetVestedCoins va t" if "t \<le> t'"
    using mono [OF that] by (auto simp: subseteq_mset_def intro: diff_le_mono2)
  moreover have "OriginalVesting va - a + a = OriginalVesting va" if "a \<subseteq># OriginalVesting va" for a
    using that by (rule subset_mset.diff_add)
  ultimately show ?thesis
    using r by metis
qed

theorem vesting_split_witness:
  "\<exists>vesting. GetVestingCoins ex_va 115 = Inr vesting \<and> vesting + GetVestedCoins ex_va 115 = NewCoin ''a'' 5"
proof -
  have "OriginalVesting ex_va = NewCoin ''a'' 5" by (simp add: ex_va_def)
  with vesting_split [OF ex_va_ok, of 115 115] show ?thesis by auto
qed

section \<open>Clawback\<close>

lemma take_schedule_ok:
  assumes "schedule_ok t0 ps"
  shows "schedule_ok t0 (take n ps) \<and> last_event t0 (take n ps) \<le> last_event t0 ps"
  using assms
proof (induction ps arbitrary: t0 n)
  case (Cons p ps)
  note ok = schedule_ok_Cons [OF Cons.prems]
  show ?case
  proof (cases n)
    case 0
    then show ?thesis
      using ok last_event_ge [of ps "t0 + Length p"] Cons.prems by (auto simp: schedule_ok_def)
  next
    case (Suc m)
    then show ?thesis using Cons.IH [OF ok(1), of m] ok by (auto simp: schedule_ok_def)
  qed
qed simp

lemma cap_schedule_ok: "schedule_ok t0 ps \<Longrightarrow> schedule_ok t0 [\<lparr>Length = 0, Amount = c\<rparr>]"
  using last_event_ge [of ps t0] by (auto simp: schedule_ok_def)

lemma ComputeClawback_ok:
  assumes ok: "vesting_ok va" and cb: "ComputeClawback va t = Inr (va', clawed)"
  shows "clawed = OriginalVesting va - GetVestedOnly va t"
    and "OriginalVesting va' = GetVestedOnly va t"
    and "vesting_ok va'"
    and "VestingPeriods va' = take (GetPassedPeriodCount va t) (VestingPeriods va)"
    and "released (StartTime va) (LockupPeriods va') t'
      = (if StartTime va \<le> t' then released (StartTime va) (LockupPeriods va) t' \<inter># GetVestedOnly va t else {#})"
    and "StartTime va' = StartTime va" "cvBase va' = cvBase va" "FunderAddress va' = FunderAddress va"
proof -
  define n where "n = GetPassedPeriodCount va t"
  define vs where "vs = take n (VestingPeriods va)"
  have lock: "account_schedule (StartTime va) (EndTime va) (LockupPeriods va) (OriginalVesting va)"
    and vest: "account_schedule (StartTime va) (EndTime va) (VestingPeriods va) (OriginalVesting va)"
    using ok by (simp_all add: vesting_ok_def)
  note lo = lock [unfolded account_schedule_def, THEN conjunct1]
  note cap = cap_schedule_ok [OF lo, of "GetVestedOnly va t"]
  obtain s e ls where con: "ConjunctPeriods (StartTime va) (StartTime va) (LockupPeriods va)
      [\<lparr>Length = 0, Amount = GetVestedOnly va t\<rparr>] = (s, e, ls)" by (metis prod_cases3)
  note c = ConjunctPeriods_ok [OF lo cap con]
  have s: "s = StartTime va" using c(1) by simp
  have va': "va' = va\<lparr>OriginalVesting := GetVestedOnly va t,
        EndTime := Max64 (i64 (StartTime va + TotalLength vs)) e, LockupPeriods := ls, VestingPeriods := vs\<rparr>"
    and cl: "clawed = OriginalVesting va - GetVestedOnly va t"
    using cb con vesting_ok_reads(5) [OF ok, of t] by (auto simp: ComputeClawback_def vs_def n_def Let_def)
  have vs: "schedule_ok (StartTime va) vs" "last_event (StartTime va) vs \<le> EndTime va"
    using take_schedule_ok [of "StartTime va" "VestingPeriods va" n] vest
    by (auto simp: vs_def account_schedule_def)
  have end_eq: "i64 (StartTime va + TotalLength vs) = last_event (StartTime va) vs"
    using vs(1) last_event_ge [of vs "StartTime va"]
    by (simp add: TotalLength_last_event [OF vs(1)] i64_id in_i64_def schedule_ok_def)
  have vt: "TotalAmount vs = GetVestedOnly va t"
    using ReadPastPeriodCount_released(2) [OF vest, of t]
    by (simp add: vs_def n_def GetPassedPeriodCount_def GetVestedOnly_def)
  have lt: "TotalAmount ls = GetVestedOnly va t"
    using c(5) lock vesting_ok_reads(2) [OF ok, of t]
    by (simp add: account_schedule_def subset_mset.inf.absorb2)
  show "vesting_ok va'"
    using c(2,3) s vs end_eq vt lt by (simp add: vesting_ok_def va' account_schedule_def)
  show "clawed = OriginalVesting va - GetVestedOnly va t" by (fact cl)
  show "released (StartTime va) (LockupPeriods va') t'
      = (if StartTime va \<le> t' then released (StartTime va) (LockupPeriods va) t' \<inter># GetVestedOnly va t else {#})"
    using c(4) [of t'] s by (simp add: va')
  show "OriginalVesting va' = GetVestedOnly va t"
    "VestingPeriods va' = take (GetPassedPeriodCount va t) (VestingPeriods va)"
    "StartTime va' = StartTime va" "cvBase va' = cvBase va" "FunderAddress va' = FunderAddress va"
    by (simp_all add: va' vs_def n_def)
qed

text \<open>
  C26. A clawback conserves the grant: it never panics on a well-formed account, the coins it
  takes are exactly the unvested ones, what it leaves as original vesting is exactly what
  has vested, and the two add up to the old original vesting. The account it computes is
  well-formed again, keeps the vesting events that have passed, and unlocks on the old
  schedule, capped at the vested amount.
\<close>

theorem ComputeClawback_conserves:
  assumes "vesting_ok va"
  shows "\<exists>va' clawed. ComputeClawback va t = Inr (va', clawed)
      \<and> OriginalVesting va' + clawed = OriginalVesting va
      \<and> OriginalVesting va' = GetVestedOnly va t \<and> vesting_ok va'
      \<and> VestingPeriods va' = take (GetPassedPeriodCount va t) (VestingPeriods va)
      \<and> (\<forall>t' \<ge> StartTime va. released (StartTime va) (LockupPeriods va') t'
           = released (StartTime va) (LockupPeriods va) t' \<inter># GetVestedOnly va t)"
proof -
  obtain va' clawed where cb: "ComputeClawback va t = Inr (va', clawed)"
    using vesting_ok_reads(5) [OF assms, of t] by (simp add: ComputeClawback_def Let_def case_prod_unfold)
  note c = ComputeClawback_ok [OF assms cb]
  have "OriginalVesting va' + clawed = OriginalVesting va"
    using c(1,2) vesting_ok_reads(2) [OF assms, of t] by (simp add: subset_mset.add_diff_inverse)
  then show ?thesis using cb c by auto
qed

theorem ComputeClawback_conserves_witness:
  "\<exists>va' clawed. ComputeClawback ex_va 115 = Inr (va', clawed)
     \<and> OriginalVesting va' + clawed = NewCoin ''a'' 5 \<and> vesting_ok va'"
proof -
  have "OriginalVesting ex_va = NewCoin ''a'' 5" by (simp add: ex_va_def)
  with ComputeClawback_conserves [OF ex_va_ok, of 115] show ?thesis by auto
qed

end
