(* ===== verification/VestingKeeper.thy ===== *)
theory VestingKeeper
  imports VestingAccount
begin

text \<open>
  The \<^verbatim>\<open>x/vesting\<close> module around the account: the stateless checks of its messages and of
  the clawback proposal (\<^verbatim>\<open>types/msg.go\<close>, \<^verbatim>\<open>types/proposal.go\<close>), the keeper's handlers
  (\<^verbatim>\<open>keeper/msg_server.go\<close>), its two stores (\<^verbatim>\<open>keeper/gov.go\<close>), the governance hooks
  (\<^verbatim>\<open>keeper/hooks.go\<close>), the proposal handler and the query. The address codec and the
  keepers of other modules are fields of \<open>vesting_env\<close>.
\<close>

section \<open>Messages\<close>

text \<open>Coins as a message carries them, before \<^verbatim>\<open>IsValid\<close> has been checked.\<close>

type_synonym RawCoins = "(string \<times> int) list"

definition to_Coins :: "RawCoins \<Rightarrow> Coins" where
  "to_Coins cs = sum_list (map (\<lambda>(d, n). NewCoin d n) cs)"

definition to_Periods :: "(int \<times> RawCoins) list \<Rightarrow> Period list" where
  "to_Periods ps = map (\<lambda>(l, cs). \<lparr>Length = l, Amount = to_Coins cs\<rparr>) ps"

record MsgCreateClawbackVestingAccount =
  mcFunderAddress :: string
  mcVestingAddress :: string
  mcEnableGovClawback :: bool

record MsgFundVestingAccount =
  mfFunderAddress :: string
  mfVestingAddress :: string
  mfStartTime :: int
  mfLockupPeriods :: "(int \<times> RawCoins) list"
  mfVestingPeriods :: "(int \<times> RawCoins) list"

record MsgClawback =
  mbFunderAddress :: string
  mbAccountAddress :: string
  mbDestAddress :: string

record MsgUpdateVestingFunder =
  muFunderAddress :: string
  muNewFunderAddress :: string
  muVestingAddress :: string

record MsgConvertVestingAccount =
  mvVestingAddress :: string

record ClawbackProposal =
  cpTitle :: string
  cpDescription :: string
  cpAddress :: string
  cpDestinationAddress :: string

text \<open>
  The messages of a governance proposal and the content of a legacy one, as far as the
  module tells them apart.
\<close>

datatype gov_content = ClawbackContent ClawbackProposal | OtherContent nat

datatype gov_msg = MsgExecLegacyContent gov_content | OtherMsg nat

record gov_proposal =
  GetMsgs :: "gov_msg list result"
  GetTotalDeposit :: Coins

section \<open>The environment of the keeper\<close>

text \<open>
  \<open>fromBech32\<close> and \<open>toBech32\<close> are the SDK's address codec for 20-byte addresses; \<open>nilAddr\<close> is
  the address that \<^verbatim>\<open>AccAddressFromBech32\<close> returns beside an error.
\<close>

record 'w vesting_env =
  vAk :: "'w AccountKeeper"
  vBk :: "'w BankKeeper"
  fromBech32 :: "string \<Rightarrow> addr option"
  toBech32 :: "addr \<Rightarrow> string"
  nilAddr :: addr
  authority :: addr
  GetDelegatorBonded :: "'w \<Rightarrow> addr \<Rightarrow> int"
  GetDelegatorUnbonding :: "'w \<Rightarrow> addr \<Rightarrow> int"
  BondDenom :: "'w \<Rightarrow> string"
  FundCommunityPool :: "'w \<Rightarrow> Coins \<Rightarrow> addr \<Rightarrow> 'w result"
  NewModuleAddress :: "string \<Rightarrow> addr"
  govGetProposal :: "'w \<Rightarrow> u64 \<Rightarrow> gov_proposal option"
  govMinDeposit :: "'w \<Rightarrow> Coins"
  coinsIsValid :: "RawCoins \<Rightarrow> bool"
  ValidateAbstract :: "ClawbackProposal \<Rightarrow> unit result"
  vKec :: "byte list \<Rightarrow> hash"

record 'w VestingCtx =
  vSdk :: 'w
  govClawbackDisabled :: "addr set"
  activeClawbackProposals :: "addr set"
  blockTime :: int

definition MustAccAddressFromBech32 :: "'w vesting_env \<Rightarrow> string \<Rightarrow> addr result" where
  "MustAccAddressFromBech32 e s =
     (case fromBech32 e s of Some a \<Rightarrow> Inr a | None \<Rightarrow> Inl (Panic ''decoding bech32 failed''))"

definition AccAddressFromBech32 :: "'w vesting_env \<Rightarrow> string \<Rightarrow> addr result" where
  "AccAddressFromBech32 e s =
     (case fromBech32 e s of Some a \<Rightarrow> Inr a | None \<Rightarrow> Inl (ErrExternal ''decoding bech32 failed''))"

section \<open>Stateless checks\<close>

definition MsgCreate_ValidateBasic ::
  "'w vesting_env \<Rightarrow> MsgCreateClawbackVestingAccount \<Rightarrow> unit result" where
  "MsgCreate_ValidateBasic e msg =
     rbind (AccAddressFromBech32 e (mcFunderAddress msg)) (\<lambda>funderAcc.
     if funderAcc = 0 then Inl ErrInvalidAddress
     else rbind (AccAddressFromBech32 e (mcVestingAddress msg)) (\<lambda>vestingAcc.
     if vestingAcc = 0 then Inl ErrInvalidAddress
     else Inr ()))"

fun sum_valid_periods ::
  "'w vesting_env \<Rightarrow> Coins \<Rightarrow> (int \<times> RawCoins) list \<Rightarrow> Coins result" where
  "sum_valid_periods e acc [] = Inr acc"
| "sum_valid_periods e acc ((len, amt) # ps) =
     (if len < 1 then Inl ErrInvalidRequest
      else if \<not> coinsIsValid e amt then Inl ErrInvalidCoins
      else sum_valid_periods e (acc + to_Coins amt) ps)"

definition MsgFund_ValidateBasic :: "'w vesting_env \<Rightarrow> MsgFundVestingAccount \<Rightarrow> unit result" where
  "MsgFund_ValidateBasic e msg =
     rbind (AccAddressFromBech32 e (mfFunderAddress msg)) (\<lambda>_.
     rbind (AccAddressFromBech32 e (mfVestingAddress msg)) (\<lambda>vestingAddr.
     if vestingAddr = 0 then Inl ErrInvalidAddress
     else
       rbind (sum_valid_periods e {#} (mfLockupPeriods msg)) (\<lambda>lockupCoins.
       rbind (sum_valid_periods e {#} (mfVestingPeriods msg)) (\<lambda>vestingCoins.
       if lockupCoins = {#} \<and> vestingCoins = {#}
       then Inl ErrInvalidRequest
       else if mfLockupPeriods msg \<noteq> [] \<and> mfVestingPeriods msg \<noteq> [] \<and> \<not> CoinEq lockupCoins vestingCoins
       then Inl ErrInvalidRequest
       else Inr ()))))"

definition MsgClawback_ValidateBasic :: "'w vesting_env \<Rightarrow> MsgClawback \<Rightarrow> unit result" where
  "MsgClawback_ValidateBasic e msg =
     rbind (AccAddressFromBech32 e (mbFunderAddress msg)) (\<lambda>_.
     rbind (AccAddressFromBech32 e (mbAccountAddress msg)) (\<lambda>_.
     if mbDestAddress msg \<noteq> [] then rbind (AccAddressFromBech32 e (mbDestAddress msg)) (\<lambda>_. Inr ())
     else Inr ()))"

definition MsgUpdate_ValidateBasic :: "'w vesting_env \<Rightarrow> MsgUpdateVestingFunder \<Rightarrow> unit result" where
  "MsgUpdate_ValidateBasic e msg =
     rbind (AccAddressFromBech32 e (muFunderAddress msg)) (\<lambda>_.
     rbind (AccAddressFromBech32 e (muNewFunderAddress msg)) (\<lambda>newFunderAddr.
     if newFunderAddr = 0 then Inl ErrInvalidAddress
     else if muFunderAddress msg = muNewFunderAddress msg
     then Inl ErrInvalidRequest
     else rbind (AccAddressFromBech32 e (muVestingAddress msg)) (\<lambda>_. Inr ())))"

definition MsgConvert_ValidateBasic :: "'w vesting_env \<Rightarrow> MsgConvertVestingAccount \<Rightarrow> unit result" where
  "MsgConvert_ValidateBasic e msg =
     rbind (AccAddressFromBech32 e (mvVestingAddress msg)) (\<lambda>_. Inr ())"

definition ClawbackProposal_ValidateBasic :: "'w vesting_env \<Rightarrow> ClawbackProposal \<Rightarrow> unit result" where
  "ClawbackProposal_ValidateBasic e cbp =
     rbind (AccAddressFromBech32 e (cpAddress cbp)) (\<lambda>_.
     if cpDestinationAddress cbp \<noteq> []
     then rbind (AccAddressFromBech32 e (cpDestinationAddress cbp)) (\<lambda>_. ValidateAbstract e cbp)
     else ValidateAbstract e cbp)"

text \<open>The messages built by the constructors, and whose signature each needs.\<close>

definition NewMsgCreateClawbackVestingAccount ::
  "'w vesting_env \<Rightarrow> addr \<Rightarrow> addr \<Rightarrow> bool \<Rightarrow> MsgCreateClawbackVestingAccount" where
  "NewMsgCreateClawbackVestingAccount e funderAddr vestingAddr enableGovClawback =
     \<lparr>mcFunderAddress = toBech32 e funderAddr, mcVestingAddress = toBech32 e vestingAddr,
      mcEnableGovClawback = enableGovClawback\<rparr>"

definition NewMsgFundVestingAccount ::
  "'w vesting_env \<Rightarrow> addr \<Rightarrow> addr \<Rightarrow> int \<Rightarrow> (int \<times> RawCoins) list \<Rightarrow> (int \<times> RawCoins) list
   \<Rightarrow> MsgFundVestingAccount" where
  "NewMsgFundVestingAccount e funderAddr vestingAddr startTime lockupPeriods vestingPeriods =
     \<lparr>mfFunderAddress = toBech32 e funderAddr, mfVestingAddress = toBech32 e vestingAddr,
      mfStartTime = startTime, mfLockupPeriods = lockupPeriods, mfVestingPeriods = vestingPeriods\<rparr>"

definition NewMsgClawback :: "'w vesting_env \<Rightarrow> addr \<Rightarrow> addr \<Rightarrow> addr option \<Rightarrow> MsgClawback" where
  "NewMsgClawback e funder addr dest =
     \<lparr>mbFunderAddress = toBech32 e funder, mbAccountAddress = toBech32 e addr,
      mbDestAddress = (case dest of None \<Rightarrow> [] | Some a \<Rightarrow> toBech32 e a)\<rparr>"

definition NewMsgUpdateVestingFunder :: "'w vesting_env \<Rightarrow> addr \<Rightarrow> addr \<Rightarrow> addr \<Rightarrow> MsgUpdateVestingFunder" where
  "NewMsgUpdateVestingFunder e funder newFunder vesting =
     \<lparr>muFunderAddress = toBech32 e funder, muNewFunderAddress = toBech32 e newFunder,
      muVestingAddress = toBech32 e vesting\<rparr>"

definition NewMsgConvertVestingAccount :: "'w vesting_env \<Rightarrow> addr \<Rightarrow> MsgConvertVestingAccount" where
  "NewMsgConvertVestingAccount e vestingAcc = \<lparr>mvVestingAddress = toBech32 e vestingAcc\<rparr>"

definition NewClawbackProposal :: "string \<Rightarrow> string \<Rightarrow> string \<Rightarrow> string \<Rightarrow> ClawbackProposal" where
  "NewClawbackProposal title description addr destinationAddress =
     \<lparr>cpTitle = title, cpDescription = description, cpAddress = addr,
      cpDestinationAddress = destinationAddress\<rparr>"

definition MsgCreate_GetSigners ::
  "'w vesting_env \<Rightarrow> MsgCreateClawbackVestingAccount \<Rightarrow> addr list result" where
  "MsgCreate_GetSigners e msg = rbind (MustAccAddressFromBech32 e (mcVestingAddress msg)) (\<lambda>from. Inr [from])"

definition MsgFund_GetSigners :: "'w vesting_env \<Rightarrow> MsgFundVestingAccount \<Rightarrow> addr list result" where
  "MsgFund_GetSigners e msg = rbind (MustAccAddressFromBech32 e (mfFunderAddress msg)) (\<lambda>from. Inr [from])"

definition MsgClawback_GetSigners :: "'w vesting_env \<Rightarrow> MsgClawback \<Rightarrow> addr list result" where
  "MsgClawback_GetSigners e msg = rbind (MustAccAddressFromBech32 e (mbFunderAddress msg)) (\<lambda>funder. Inr [funder])"

definition MsgUpdate_GetSigners :: "'w vesting_env \<Rightarrow> MsgUpdateVestingFunder \<Rightarrow> addr list result" where
  "MsgUpdate_GetSigners e msg = rbind (MustAccAddressFromBech32 e (muFunderAddress msg)) (\<lambda>funder. Inr [funder])"

definition MsgConvert_GetSigners :: "'w vesting_env \<Rightarrow> MsgConvertVestingAccount \<Rightarrow> addr list result" where
  "MsgConvert_GetSigners e msg =
     rbind (MustAccAddressFromBech32 e (mvVestingAddress msg)) (\<lambda>vesting. Inr [vesting])"

section \<open>The stores of the module\<close>

definition HasGovClawbackDisabled :: "'w VestingCtx \<Rightarrow> addr \<Rightarrow> bool" where
  "HasGovClawbackDisabled cx addr = (addr \<in> govClawbackDisabled cx)"

definition SetGovClawbackDisabled :: "'w VestingCtx \<Rightarrow> addr \<Rightarrow> 'w VestingCtx" where
  "SetGovClawbackDisabled cx addr = cx\<lparr>govClawbackDisabled := insert addr (govClawbackDisabled cx)\<rparr>"

definition DeleteGovClawbackDisabled :: "'w VestingCtx \<Rightarrow> addr \<Rightarrow> 'w VestingCtx" where
  "DeleteGovClawbackDisabled cx addr = cx\<lparr>govClawbackDisabled := govClawbackDisabled cx - {addr}\<rparr>"

definition HasActiveClawbackProposal :: "'w VestingCtx \<Rightarrow> addr \<Rightarrow> bool" where
  "HasActiveClawbackProposal cx addr = (addr \<in> activeClawbackProposals cx)"

definition SetActiveClawbackProposal :: "'w VestingCtx \<Rightarrow> addr \<Rightarrow> 'w VestingCtx" where
  "SetActiveClawbackProposal cx addr =
     cx\<lparr>activeClawbackProposals := insert addr (activeClawbackProposals cx)\<rparr>"

definition DeleteActiveClawbackProposal :: "'w VestingCtx \<Rightarrow> addr \<Rightarrow> 'w VestingCtx" where
  "DeleteActiveClawbackProposal cx addr =
     cx\<lparr>activeClawbackProposals := activeClawbackProposals cx - {addr}\<rparr>"

definition vset_account :: "'w vesting_env \<Rightarrow> 'w VestingCtx \<Rightarrow> AccountI \<Rightarrow> 'w VestingCtx" where
  "vset_account e cx acc = cx\<lparr>vSdk := akSetAccount (vAk e) (vSdk cx) acc\<rparr>"

definition GetClawbackVestingAccount ::
  "'w vesting_env \<Rightarrow> 'w VestingCtx \<Rightarrow> addr \<Rightarrow> ClawbackVestingAccount result" where
  "GetClawbackVestingAccount e cx addr =
     (case akGetAccount (vAk e) (vSdk cx) addr of
        None \<Rightarrow> Inl ErrUnknownAddress
      | Some (ClawbackAccount va) \<Rightarrow> Inr va
      | Some _ \<Rightarrow> Inl ErrNotSubjectToClawback)"

section \<open>The message server\<close>

text \<open>\<^verbatim>\<open>time.Time{}.Unix()\<close>: the zero time is the first of January of the year 1.\<close>

definition zeroTimeUnix :: int where
  "zeroTimeUnix = - 62135596800"

definition CreateClawbackVestingAccount ::
  "'w vesting_env \<Rightarrow> 'w VestingCtx \<Rightarrow> MsgCreateClawbackVestingAccount \<Rightarrow> 'w VestingCtx result" where
  "CreateClawbackVestingAccount e cx msg =
     rbind (MustAccAddressFromBech32 e (mcFunderAddress msg)) (\<lambda>funderAddress.
     rbind (MustAccAddressFromBech32 e (mcVestingAddress msg)) (\<lambda>vestingAddress.
     if bkBlockedAddr (vBk e) vestingAddress
     then Inl ErrUnauthorized
     else case akGetAccount (vAk e) (vSdk cx) vestingAddress of
       None \<Rightarrow> Inl ErrInvalidRequest
     | Some (ClawbackAccount _) \<Rightarrow> Inl ErrInvalidRequest
     | Some (OtherAccount _ _) \<Rightarrow> Inl ErrInvalidRequest
     | Some (EthAccount base codeHash) \<Rightarrow>
         if codeHash \<noteq> vKec e [] then Inl ErrInvalidRequest
         else
           let vestingAcc = \<lparr>cvBase = base, OriginalVesting = {#}, DelegatedFree = {#}, DelegatedVesting = {#},
                 EndTime = 0, FunderAddress = toBech32 e funderAddress, StartTime = zeroTimeUnix,
                 LockupPeriods = [], VestingPeriods = []\<rparr>;
               cx = vset_account e cx (ClawbackAccount vestingAcc)
           in Inr (if \<not> mcEnableGovClawback msg then SetGovClawbackDisabled cx (accAddress base) else cx)))"

definition addGrant ::
  "'w vesting_env \<Rightarrow> 'w VestingCtx \<Rightarrow> ClawbackVestingAccount \<Rightarrow> int \<Rightarrow> Period list \<Rightarrow> Period list \<Rightarrow> Coins
   \<Rightarrow> ClawbackVestingAccount result" where
  "addGrant e cx va grantStartTime grantLockupPeriods grantVestingPeriods grantCoins =
     (let va = (if LockupPeriods va = [] \<and> VestingPeriods va = [] then va\<lparr>StartTime := grantStartTime\<rparr> else va);
          vestingAddr = accAddress (cvBase va);
          bondedAmt = GetDelegatorBonded e (vSdk cx) vestingAddr;
          unbondingAmt = GetDelegatorUnbonding e (vSdk cx) vestingAddr;
          delegated = NewCoin (BondDenom e (vSdk cx)) (bondedAmt + unbondingAmt);
          accStartTime = StartTime va;
          (newLockupStart, newLockupEnd, newLockupPeriods) =
            DisjunctPeriods accStartTime grantStartTime (LockupPeriods va) grantLockupPeriods;
          (newVestingStart, newVestingEnd, newVestingPeriods) =
            DisjunctPeriods accStartTime grantStartTime (VestingPeriods va) grantVestingPeriods
      in if newLockupStart \<noteq> newVestingStart
         then Inl ErrVestingLockup
         else
           let va = va\<lparr>StartTime := newLockupStart, EndTime := Max64 newLockupEnd newVestingEnd,
                 LockupPeriods := newLockupPeriods, VestingPeriods := newVestingPeriods,
                 OriginalVesting := OriginalVesting va + grantCoins\<rparr>
           in rbind (GetVestingCoins va (blockTime cx)) (\<lambda>unvested.
              let dv = delegated \<inter># unvested
              in rbind (Coins_Sub delegated dv) (\<lambda>df.
                 Inr (va\<lparr>DelegatedVesting := dv, DelegatedFree := df\<rparr>))))"

text \<open>An absent schedule is filled in by one that releases everything at once.\<close>

definition default_schedules :: "Period list \<Rightarrow> Period list \<Rightarrow> Period list \<times> Period list \<times> Coins" where
  "default_schedules lockupPeriods vestingPeriods =
     (let vestingCoins = TotalAmount vestingPeriods;
          lockupCoins = TotalAmount lockupPeriods;
          (lockupPeriods, lockupCoins) =
            (if vestingCoins \<noteq> {#} \<and> lockupPeriods = []
             then ([\<lparr>Length = 0, Amount = vestingCoins\<rparr>], vestingCoins) else (lockupPeriods, lockupCoins));
          (vestingPeriods, vestingCoins) =
            (if lockupCoins \<noteq> {#} \<and> vestingPeriods = []
             then ([\<lparr>Length = 0, Amount = lockupCoins\<rparr>], lockupCoins) else (vestingPeriods, vestingCoins))
      in (lockupPeriods, vestingPeriods, vestingCoins))"

definition FundVestingAccount ::
  "'w vesting_env \<Rightarrow> 'w VestingCtx \<Rightarrow> MsgFundVestingAccount \<Rightarrow> 'w VestingCtx result" where
  "FundVestingAccount e cx msg =
     rbind (MustAccAddressFromBech32 e (mfFunderAddress msg)) (\<lambda>funderAddr.
     rbind (MustAccAddressFromBech32 e (mfVestingAddress msg)) (\<lambda>vestingAddr.
     if bkBlockedAddr (vBk e) vestingAddr then Inl ErrUnauthorized
     else rbind (GetClawbackVestingAccount e cx vestingAddr) (\<lambda>vestingAcc.
       let (lockupPeriods, vestingPeriods, vestingCoins) =
             default_schedules (to_Periods (mfLockupPeriods msg)) (to_Periods (mfVestingPeriods msg))
       in if mfFunderAddress msg \<noteq> FunderAddress vestingAcc
          then Inl ErrInvalidRequest
          else rbind (addGrant e cx vestingAcc (mfStartTime msg) lockupPeriods vestingPeriods vestingCoins) (\<lambda>va.
            let cx = vset_account e cx (ClawbackAccount va)
            in rbind (bkSendCoins (vBk e) (vSdk cx) funderAddr vestingAddr vestingCoins) (\<lambda>w.
               Inr (cx\<lparr>vSdk := w\<rparr>))))))"

definition transferClawback ::
  "'w vesting_env \<Rightarrow> 'w VestingCtx \<Rightarrow> ClawbackVestingAccount \<Rightarrow> addr \<Rightarrow> ('w VestingCtx \<times> Coins) result" where
  "transferClawback e cx vestingAccount destinationAddr =
     rbind (ComputeClawback vestingAccount (blockTime cx)) (\<lambda>(updatedAcc, toClawBack).
       let cx = vset_account e cx (EthAccount (cvBase updatedAcc) (vKec e []));
           vaddr = accAddress (cvBase updatedAcc);
           cx = DeleteGovClawbackDisabled cx vaddr
       in if toBech32 e destinationAddr = toBech32 e (NewModuleAddress e ''distribution'')
          then rbind (FundCommunityPool e (vSdk cx) toClawBack vaddr) (\<lambda>w. Inr (cx\<lparr>vSdk := w\<rparr>, toClawBack))
          else rbind (bkSendCoins (vBk e) (vSdk cx) vaddr destinationAddr toClawBack) (\<lambda>w.
               Inr (cx\<lparr>vSdk := w\<rparr>, toClawBack)))"

definition Clawback ::
  "'w vesting_env \<Rightarrow> 'w VestingCtx \<Rightarrow> MsgClawback \<Rightarrow> ('w VestingCtx \<times> Coins) result" where
  "Clawback e cx msg =
     rbind (MustAccAddressFromBech32 e (mbAccountAddress msg)) (\<lambda>addr.
     rbind (MustAccAddressFromBech32 e (mbFunderAddress msg)) (\<lambda>funder.
     let dest = (case fromBech32 e (mbDestAddress msg) of Some a \<Rightarrow> a | None \<Rightarrow> nilAddr e);
         dest = (if mbDestAddress msg = [] then funder else dest)
     in if mbFunderAddress msg \<noteq> toBech32 e (authority e) \<and> HasActiveClawbackProposal cx addr
        then Inl ErrUnauthorized
        else if mbFunderAddress msg \<noteq> toBech32 e (authority e) \<and> bkBlockedAddr (vBk e) dest
        then Inl ErrUnauthorized
        else rbind (GetClawbackVestingAccount e cx addr) (\<lambda>va.
          if VestingPeriods va = [] \<and> LockupPeriods va = []
          then Inl ErrInvalidRequest
          else if toBech32 e (authority e) = mbFunderAddress msg then
            if HasGovClawbackDisabled cx addr then Inl ErrNotSubjectToGovClawback
            else transferClawback e cx va (akGetModuleAddress (vAk e) ''distribution'')
          else if FunderAddress va \<noteq> mbFunderAddress msg
          then Inl ErrUnauthorized
          else transferClawback e cx va dest)))"

definition UpdateVestingFunder ::
  "'w vesting_env \<Rightarrow> 'w VestingCtx \<Rightarrow> MsgUpdateVestingFunder \<Rightarrow> 'w VestingCtx result" where
  "UpdateVestingFunder e cx msg =
     rbind (MustAccAddressFromBech32 e (muNewFunderAddress msg)) (\<lambda>newFunder.
     rbind (MustAccAddressFromBech32 e (muVestingAddress msg)) (\<lambda>vestingAccAddr.
     if HasActiveClawbackProposal cx vestingAccAddr
     then Inl ErrUnauthorized
     else if bkBlockedAddr (vBk e) newFunder
     then Inl ErrUnauthorized
     else rbind (GetClawbackVestingAccount e cx vestingAccAddr) (\<lambda>va.
       if FunderAddress va \<noteq> muFunderAddress msg
       then Inl ErrUnauthorized
       else Inr (vset_account e cx (ClawbackAccount (va\<lparr>FunderAddress := muNewFunderAddress msg\<rparr>))))))"

definition ConvertVestingAccount ::
  "'w vesting_env \<Rightarrow> 'w VestingCtx \<Rightarrow> MsgConvertVestingAccount \<Rightarrow> 'w VestingCtx result" where
  "ConvertVestingAccount e cx msg =
     rbind (MustAccAddressFromBech32 e (mvVestingAddress msg)) (\<lambda>vaddr.
     rbind (GetClawbackVestingAccount e cx vaddr) (\<lambda>vestingAcc.
     rbind (GetVestingCoins vestingAcc (blockTime cx)) (\<lambda>vesting.
     if vesting \<noteq> {#} then Inl ErrInvalidRequest
     else Inr (vset_account e (DeleteGovClawbackDisabled cx vaddr)
                (EthAccount (cvBase vestingAcc) (vKec e []))))))"

datatype vesting_msg =
    VMsgCreate MsgCreateClawbackVestingAccount
  | VMsgFund MsgFundVestingAccount
  | VMsgClawback MsgClawback
  | VMsgUpdate MsgUpdateVestingFunder
  | VMsgConvert MsgConvertVestingAccount
  | VMsgUnrecognized

fun NewHandler :: "'w vesting_env \<Rightarrow> 'w VestingCtx \<Rightarrow> vesting_msg \<Rightarrow> 'w VestingCtx result" where
  "NewHandler e cx (VMsgCreate msg) = CreateClawbackVestingAccount e cx msg"
| "NewHandler e cx (VMsgClawback msg) = rbind (Clawback e cx msg) (\<lambda>(cx, _). Inr cx)"
| "NewHandler e cx (VMsgUpdate msg) = UpdateVestingFunder e cx msg"
| "NewHandler e cx (VMsgConvert msg) = ConvertVestingAccount e cx msg"
| "NewHandler e cx (VMsgFund msg) = FundVestingAccount e cx msg"
| "NewHandler e cx VMsgUnrecognized = Inl ErrUnknownRequest"

section \<open>Governance\<close>

fun getClawbackProposals_loop :: "gov_msg list \<Rightarrow> ClawbackProposal list" where
  "getClawbackProposals_loop [] = []"
| "getClawbackProposals_loop (MsgExecLegacyContent (ClawbackContent p) # ms) =
     p # getClawbackProposals_loop ms"
| "getClawbackProposals_loop (MsgExecLegacyContent (OtherContent _) # ms) = getClawbackProposals_loop ms"
| "getClawbackProposals_loop (OtherMsg _ # ms) = getClawbackProposals_loop ms"

definition getClawbackProposals :: "gov_proposal \<Rightarrow> ClawbackProposal list result" where
  "getClawbackProposals p =
     rbind (GetMsgs p) (\<lambda>msgs.
     if msgs = [] then Inl (ErrText ''proposal has no messages'') else Inr (getClawbackProposals_loop msgs))"

text \<open>\<^verbatim>\<open>Coins.IsAllLT\<close>: every denomination of the first is in the second, with a larger amount.\<close>

definition IsAllLT :: "Coins \<Rightarrow> Coins \<Rightarrow> bool" where
  "IsAllLT a b \<longleftrightarrow> b \<noteq> {#} \<and> (\<forall>d \<in> set_mset a. count a d < count b d)"

fun mark_proposals ::
  "'w vesting_env \<Rightarrow> ('w VestingCtx \<Rightarrow> addr \<Rightarrow> 'w VestingCtx) \<Rightarrow> 'w VestingCtx \<Rightarrow> ClawbackProposal list
   \<Rightarrow> 'w VestingCtx result" where
  "mark_proposals e mark cx [] = Inr cx"
| "mark_proposals e mark cx (p # ps) =
     rbind (MustAccAddressFromBech32 e (cpAddress p)) (\<lambda>a. mark_proposals e mark (mark cx a) ps)"

definition AfterProposalDeposit :: "'w vesting_env \<Rightarrow> 'w VestingCtx \<Rightarrow> u64 \<Rightarrow> 'w VestingCtx result" where
  "AfterProposalDeposit e cx proposalID =
     (case govGetProposal e (vSdk cx) proposalID of
        None \<Rightarrow> Inr cx
      | Some proposal \<Rightarrow>
          (case getClawbackProposals proposal of
             Inl _ \<Rightarrow> Inr cx
           | Inr ps \<Rightarrow>
               if ps = [] then Inr cx
               else if IsAllLT (GetTotalDeposit proposal) (govMinDeposit e (vSdk cx)) then Inr cx
               else mark_proposals e SetActiveClawbackProposal cx ps))"

definition AfterProposalVotingPeriodEnded ::
  "'w vesting_env \<Rightarrow> 'w VestingCtx \<Rightarrow> u64 \<Rightarrow> 'w VestingCtx result" where
  "AfterProposalVotingPeriodEnded e cx proposalID =
     (case govGetProposal e (vSdk cx) proposalID of
        None \<Rightarrow> Inr cx
      | Some proposal \<Rightarrow>
          (case getClawbackProposals proposal of
             Inl _ \<Rightarrow> Inr cx
           | Inr ps \<Rightarrow> if ps = [] then Inr cx else mark_proposals e DeleteActiveClawbackProposal cx ps))"

definition HandleClawbackProposal ::
  "'w vesting_env \<Rightarrow> 'w VestingCtx \<Rightarrow> ClawbackProposal \<Rightarrow> 'w VestingCtx result" where
  "HandleClawbackProposal e cx p =
     (let governanceAddr = NewModuleAddress e ''gov'';
          msg = \<lparr>mbFunderAddress = toBech32 e governanceAddr, mbAccountAddress = cpAddress p,
                 mbDestAddress = cpDestinationAddress p\<rparr>
      in rbind (Clawback e cx msg) (\<lambda>(cx, _). Inr cx))"

definition VestingProposalHandler ::
  "'w vesting_env \<Rightarrow> 'w VestingCtx \<Rightarrow> gov_content \<Rightarrow> 'w VestingCtx result" where
  "VestingProposalHandler e cx content =
     (case content of ClawbackContent c \<Rightarrow> HandleClawbackProposal e cx c
      | OtherContent _ \<Rightarrow> Inl ErrUnknownRequest)"

section \<open>The query\<close>

record QueryBalancesResponse =
  qbLocked :: Coins
  qbUnvested :: Coins
  qbVested :: Coins

definition Balances :: "'w vesting_env \<Rightarrow> 'w VestingCtx \<Rightarrow> string option \<Rightarrow> QueryBalancesResponse result" where
  "Balances e cx req =
     (case req of None \<Rightarrow> Inl (ErrText ''empty request'')
      | Some s \<Rightarrow>
          (case fromBech32 e s of None \<Rightarrow> Inl (ErrText ''invalid address'')
           | Some addr \<Rightarrow>
               (case GetClawbackVestingAccount e cx addr of
                  Inl _ \<Rightarrow> Inl (ErrText ''account either does not exist or is not a vesting account'')
                | Inr va \<Rightarrow>
                    rbind (GetLockedOnly va (blockTime cx)) (\<lambda>locked.
                    rbind (GetUnvestedOnly va (blockTime cx)) (\<lambda>unvested.
                    Inr \<lparr>qbLocked = locked, qbUnvested = unvested,
                         qbVested = GetVestedOnly va (blockTime cx)\<rparr>)))))"

end
