(* ===== verification/VestingModule.thy ===== *)
theory VestingModule
  imports VestingKeeper
begin

text \<open>
  What the vesting module guarantees: the well-formedness of every stored vesting account in
  every state that the handlers, hooks and proposals can reach, what a grant and a clawback
  do to the account and to the balances, and who can make them happen.
\<close>

section \<open>Laws of the environment\<close>

definition vesting_laws :: "'w vesting_env \<Rightarrow> bool" where
  "vesting_laws e \<longleftrightarrow>
     account_laws (vKec e) (vAk e) (vBk e) \<and> bank_laws (vAk e) (vBk e)
   \<and> (\<forall>a. fromBech32 e (toBech32 e a) = Some a)
   \<and> akGetModuleAddress (vAk e) ''distribution'' = NewModuleAddress e ''distribution''
   \<and> (\<forall>w w' cs a. FundCommunityPool e w cs a = Inr w' \<longrightarrow>
        bkGetBalance (vBk e) w' = credit (NewModuleAddress e ''distribution'') cs (debit a cs (bkGetBalance (vBk e) w))
        \<and> keeps_accounts (vAk e) {NewModuleAddress e ''distribution''} w w')"

lemma vesting_lawsD:
  assumes "vesting_laws e"
  shows "account_laws (vKec e) (vAk e) (vBk e)" "bank_laws (vAk e) (vBk e)"
    "fromBech32 e (toBech32 e a) = Some a"
    "akGetModuleAddress (vAk e) ''distribution'' = NewModuleAddress e ''distribution''"
    "FundCommunityPool e w cs a = Inr w' \<Longrightarrow>
       bkGetBalance (vBk e) w' = credit (NewModuleAddress e ''distribution'') cs (debit a cs (bkGetBalance (vBk e) w))
       \<and> keeps_accounts (vAk e) {NewModuleAddress e ''distribution''} w w'"
  using assms unfolding vesting_laws_def by blast+

lemma toBech32_inj: "vesting_laws e \<Longrightarrow> toBech32 e a = toBech32 e b \<longleftrightarrow> a = b"
  by (metis option.inject vesting_lawsD(3))

abbreviation vaccount :: "'w vesting_env \<Rightarrow> 'w VestingCtx \<Rightarrow> addr \<Rightarrow> AccountI option" where
  "vaccount e cx \<equiv> akGetAccount (vAk e) (vSdk cx)"

abbreviation vbalances :: "'w vesting_env \<Rightarrow> 'w VestingCtx \<Rightarrow> addr \<Rightarrow> string \<Rightarrow> int" where
  "vbalances e cx \<equiv> bkGetBalance (vBk e) (vSdk cx)"

lemma must_Inr [simp]: "MustAccAddressFromBech32 e s = Inr a \<longleftrightarrow> fromBech32 e s = Some a"
  by (simp add: MustAccAddressFromBech32_def split: option.split)

lemma acc_Inr [simp]: "AccAddressFromBech32 e s = Inr a \<longleftrightarrow> fromBech32 e s = Some a"
  by (simp add: AccAddressFromBech32_def split: option.split)

lemma GetClawbackVestingAccount_Inr [simp]:
  "GetClawbackVestingAccount e cx a = Inr va \<longleftrightarrow> vaccount e cx a = Some (ClawbackAccount va)"
  by (simp add: GetClawbackVestingAccount_def split: option.split AccountI.split)

lemma vset_account_simps [simp]:
  "govClawbackDisabled (vset_account e cx acc) = govClawbackDisabled cx"
  "activeClawbackProposals (vset_account e cx acc) = activeClawbackProposals cx"
  "blockTime (vset_account e cx acc) = blockTime cx"
  "vSdk (vset_account e cx acc) = akSetAccount (vAk e) (vSdk cx) acc"
  by (simp_all add: vset_account_def)

lemma vset_account_laws:
  assumes "vesting_laws e"
  shows "vaccount e (vset_account e cx acc) b
      = (if b = accAddress (baseAcc acc) then Some acc else vaccount e cx b)"
    "vbalances e (vset_account e cx acc) = vbalances e cx"
  using account_lawsD(2,7) [OF vesting_lawsD(1) [OF assms]] by simp_all

lemma vaccount_address:
  assumes "vesting_laws e" "vaccount e cx a = Some acc"
  shows "accAddress (baseAcc acc) = a"
  by (rule account_lawsD(1) [OF vesting_lawsD(1) [OF assms(1)] assms(2)])

section \<open>The invariant\<close>

definition unfunded :: "ClawbackVestingAccount \<Rightarrow> bool" where
  "unfunded va \<longleftrightarrow> LockupPeriods va = [] \<and> VestingPeriods va = [] \<and> OriginalVesting va = {#}"

definition vesting_inv :: "'w vesting_env \<Rightarrow> 'w VestingCtx \<Rightarrow> bool" where
  "vesting_inv e cx \<longleftrightarrow>
     (\<forall>a va. vaccount e cx a = Some (ClawbackAccount va) \<longrightarrow> vesting_ok va \<or> unfunded va)
   \<and> (\<forall>a \<in> govClawbackDisabled cx. \<exists>va. vaccount e cx a = Some (ClawbackAccount va))"

lemma vesting_invD:
  assumes "vesting_inv e cx"
  shows "vaccount e cx a = Some (ClawbackAccount va) \<Longrightarrow> vesting_ok va \<or> unfunded va"
    "a \<in> govClawbackDisabled cx \<Longrightarrow> \<exists>va. vaccount e cx a = Some (ClawbackAccount va)"
  using assms unfolding vesting_inv_def by blast+

section \<open>Grants\<close>

lemma sum_valid_periods_total:
  "sum_valid_periods e acc ps = Inr cs \<Longrightarrow> cs = acc + TotalAmount (to_Periods ps)"
proof (induction e acc ps rule: sum_valid_periods.induct)
  case (2 e acc len amt ps)
  then show ?case by (simp add: to_Periods_def add.assoc split: if_splits)
qed (simp add: to_Periods_def)

lemma instant_schedule_ok: "0 \<le> g \<Longrightarrow> g < 2 ^ 63 \<Longrightarrow> schedule_ok g [\<lparr>Length = 0, Amount = c\<rparr>]"
  by (simp add: schedule_ok_def)

lemma to_Periods_Nil [simp]: "to_Periods ps = [] \<longleftrightarrow> ps = []" "to_Periods [] = []"
  by (simp_all add: to_Periods_def)

lemma default_schedules_ok:
  assumes valid: "MsgFund_ValidateBasic e msg = Inr ()"
    and fit: "schedule_ok g (to_Periods (mfLockupPeriods msg))" "schedule_ok g (to_Periods (mfVestingPeriods msg))"
    and d: "default_schedules (to_Periods (mfLockupPeriods msg)) (to_Periods (mfVestingPeriods msg)) = (lp, vp, coins)"
  shows "schedule_ok g lp" "schedule_ok g vp" "TotalAmount lp = coins" "TotalAmount vp = coins"
    "coins \<noteq> {#}"
proof -
  let ?l = "to_Periods (mfLockupPeriods msg)" and ?v = "to_Periods (mfVestingPeriods msg)"
  have tot: "TotalAmount ?l \<noteq> {#} \<or> TotalAmount ?v \<noteq> {#}" "?l \<noteq> [] \<Longrightarrow> ?v \<noteq> [] \<Longrightarrow> TotalAmount ?l = TotalAmount ?v"
    using valid by (auto simp: MsgFund_ValidateBasic_def rbind_Inr_iff dest!: sum_valid_periods_total split: if_splits)
  have g: "0 \<le> g" "g < 2 ^ 63"
    using fit(1) last_event_ge [of ?l g] by (auto simp: schedule_ok_def)
  note inst = instant_schedule_ok [OF g]
  consider "?l = []" "?v \<noteq> []" "TotalAmount ?v \<noteq> {#}" | "?v = []" "?l \<noteq> []" "TotalAmount ?l \<noteq> {#}"
    | "?l \<noteq> []" "?v \<noteq> []"
    using tot by fastforce
  then have "schedule_ok g lp \<and> schedule_ok g vp \<and> TotalAmount lp = coins \<and> TotalAmount vp = coins \<and> coins \<noteq> {#}"
    by cases (use d fit tot inst in \<open>auto simp: default_schedules_def Let_def\<close>)
  then show "schedule_ok g lp" "schedule_ok g vp" "TotalAmount lp = coins" "TotalAmount vp = coins" "coins \<noteq> {#}"
    by blast+
qed

lemma inter_plus_diff: "a \<inter># b + (a - b) = (a :: 'a multiset)"
  by (auto simp: multiset_eq_iff min_def)

definition fundable :: "ClawbackVestingAccount \<Rightarrow> bool" where
  "fundable va \<longleftrightarrow> vesting_ok va \<or> unfunded va"

text \<open>The account a grant works on: an unfunded one takes the start of the grant.\<close>

definition grant_base :: "int \<Rightarrow> ClawbackVestingAccount \<Rightarrow> ClawbackVestingAccount" where
  "grant_base g va = (if LockupPeriods va = [] \<and> VestingPeriods va = [] then va\<lparr>StartTime := g\<rparr> else va)"

lemma grant_base_ok:
  assumes "fundable va" "0 \<le> g" "g < 2 ^ 63"
  shows "schedule_ok (StartTime (grant_base g va)) (LockupPeriods va)"
    "schedule_ok (StartTime (grant_base g va)) (VestingPeriods va)"
    "TotalAmount (LockupPeriods va) = OriginalVesting va" "TotalAmount (VestingPeriods va) = OriginalVesting va"
    "released (StartTime (grant_base g va)) (VestingPeriods va) t = released (StartTime va) (VestingPeriods va) t"
    "released (StartTime (grant_base g va)) (LockupPeriods va) t = released (StartTime va) (LockupPeriods va) t"
  using assms
  by (auto simp: grant_base_def fundable_def vesting_ok_def unfunded_def account_schedule_def schedule_ok_def)

definition grant_result ::
  "'w vesting_env \<Rightarrow> 'w VestingCtx \<Rightarrow> ClawbackVestingAccount \<Rightarrow> int \<Rightarrow> Period list \<Rightarrow> Period list \<Rightarrow> Coins
   \<Rightarrow> ClawbackVestingAccount \<Rightarrow> bool" where
  "grant_result e cx va g lp vp coins va' \<longleftrightarrow>
     vesting_ok va' \<and> OriginalVesting va' = OriginalVesting va + coins
   \<and> cvBase va' = cvBase va \<and> FunderAddress va' = FunderAddress va
   \<and> StartTime va' = min (StartTime (grant_base g va)) g
   \<and> (\<forall>t. released (StartTime va') (LockupPeriods va') t
            = released (StartTime va) (LockupPeriods va) t + released g lp t)
   \<and> (\<forall>t. released (StartTime va') (VestingPeriods va') t
            = released (StartTime va) (VestingPeriods va) t + released g vp t)
   \<and> DelegatedVesting va' + DelegatedFree va'
       = NewCoin (BondDenom e (vSdk cx))
           (GetDelegatorBonded e (vSdk cx) (accAddress (cvBase va))
            + GetDelegatorUnbonding e (vSdk cx) (accAddress (cvBase va)))
   \<and> GetVestingCoins va' (blockTime cx) = Inr (OriginalVesting va' - GetVestedCoins va' (blockTime cx))
   \<and> DelegatedVesting va' \<subseteq># OriginalVesting va' - GetVestedCoins va' (blockTime cx)"

lemma addGrant_ok:
  assumes f: "fundable va" and lp: "schedule_ok g lp" and vp: "schedule_ok g vp"
    and tl: "TotalAmount lp = coins" and tv: "TotalAmount vp = coins"
  shows "\<exists>va'. addGrant e cx va g lp vp coins = Inr va' \<and> grant_result e cx va g lp vp coins va'"
proof -
  have "0 \<le> g" "g < 2 ^ 63" using lp last_event_ge [of lp g] by (auto simp: schedule_ok_def)
  note b = grant_base_ok [OF f this]
  let ?s = "StartTime (grant_base g va)"
  obtain ls le lq where l: "DisjunctPeriods ?s g (LockupPeriods va) lp = (ls, le, lq)" by (metis prod_cases3)
  obtain vs ve vq where v: "DisjunctPeriods ?s g (VestingPeriods va) vp = (vs, ve, vq)" by (metis prod_cases3)
  note dl = DisjunctPeriods_ok [OF b(1) lp l] and dv = DisjunctPeriods_ok [OF b(2) vp v]
  define va1 where "va1 = (grant_base g va)\<lparr>StartTime := ls, EndTime := Max64 le ve, LockupPeriods := lq,
      VestingPeriods := vq, OriginalVesting := OriginalVesting va + coins\<rparr>"
  have base: "LockupPeriods (grant_base g va) = LockupPeriods va" "VestingPeriods (grant_base g va) = VestingPeriods va"
    "OriginalVesting (grant_base g va) = OriginalVesting va" "cvBase (grant_base g va) = cvBase va"
    "FunderAddress (grant_base g va) = FunderAddress va"
    by (simp_all add: grant_base_def)
  have ok1: "vesting_ok va1"
    using dl dv b(3,4) tl tv by (simp add: va1_def vesting_ok_def account_schedule_def)
  note r = vesting_ok_reads(6) [OF ok1, of "blockTime cx"]
  define delegated where "delegated = NewCoin (BondDenom e (vSdk cx))
      (GetDelegatorBonded e (vSdk cx) (accAddress (cvBase va)) + GetDelegatorUnbonding e (vSdk cx) (accAddress (cvBase va)))"
  define unvested where "unvested = OriginalVesting va1 - GetVestedCoins va1 (blockTime cx)"
  define va2 where "va2 = va1\<lparr>DelegatedVesting := delegated \<inter># unvested,
      DelegatedFree := delegated - (delegated \<inter># unvested)\<rparr>"
  have sub: "Coins_Sub delegated (delegated \<inter># unvested) = Inr (delegated - (delegated \<inter># unvested))"
    by (rule Coins_Sub_eq) simp
  have step: "addGrant e cx va g lp vp coins = Inr va2"
    unfolding addGrant_def grant_base_def [symmetric] Let_def base l v prod.case
      va1_def [symmetric] delegated_def [symmetric]
    using dl(1) dv(1) r [folded unvested_def] sub by (simp add: va2_def)
  have same: "GetVestingCoins va2 t = GetVestingCoins va1 t" "GetVestedCoins va2 t = GetVestedCoins va1 t" for t
    by (simp_all add: va2_def GetVestingCoins_def GetVestedCoins_def GetUnlockedOnly_def GetVestedOnly_def)
  have "grant_result e cx va g lp vp coins va2"
    unfolding grant_result_def same
    using ok1 r dl(1,4) dv(1,4) b(5,6)
    by (simp add: va2_def va1_def base vesting_ok_def delegated_def [symmetric] unvested_def inter_plus_diff)
  with step show ?thesis by blast
qed

section \<open>What each handler does\<close>

lemma CreateClawbackVestingAccount_effect:
  assumes laws: "vesting_laws e" and step: "CreateClawbackVestingAccount e cx msg = Inr cx'"
  obtains a f base va where "fromBech32 e (mcVestingAddress msg) = Some a"
    "fromBech32 e (mcFunderAddress msg) = Some f"
    "\<not> bkBlockedAddr (vBk e) a" "vaccount e cx a = Some (EthAccount base (vKec e []))"
    "vaccount e cx' = (vaccount e cx)(a \<mapsto> ClawbackAccount va)"
    "unfunded va" "cvBase va = base" "FunderAddress va = toBech32 e f" "vbalances e cx' = vbalances e cx"
    "govClawbackDisabled cx' = (if mcEnableGovClawback msg then govClawbackDisabled cx else insert a (govClawbackDisabled cx))"
    "activeClawbackProposals cx' = activeClawbackProposals cx"
proof -
  obtain a f base where c: "fromBech32 e (mcVestingAddress msg) = Some a" "fromBech32 e (mcFunderAddress msg) = Some f"
    "\<not> bkBlockedAddr (vBk e) a" "vaccount e cx a = Some (EthAccount base (vKec e []))"
    using step by (auto simp: CreateClawbackVestingAccount_def rbind_Inr_iff split: if_splits option.splits AccountI.splits)
  have ab: "accAddress base = a" using vaccount_address [OF laws c(4)] by simp
  define va where "va = \<lparr>cvBase = base, OriginalVesting = {#}, DelegatedFree = {#}, DelegatedVesting = {#},
     EndTime = 0, FunderAddress = toBech32 e f, StartTime = zeroTimeUnix, LockupPeriods = [], VestingPeriods = []\<rparr>"
  define cx1 where "cx1 = vset_account e cx (ClawbackAccount va)"
  have cx': "cx' = (if \<not> mcEnableGovClawback msg then SetGovClawbackDisabled cx1 a else cx1)"
    using step c ab
    by (auto simp: CreateClawbackVestingAccount_def MustAccAddressFromBech32_def va_def cx1_def Let_def split: if_splits)
  have sdk: "vSdk cx' = vSdk cx1" by (simp add: cx' SetGovClawbackDisabled_def)
  have acc: "vaccount e cx' = (vaccount e cx)(a \<mapsto> ClawbackAccount va)"
    using vset_account_laws(1) [OF laws, of cx "ClawbackAccount va"] ab
    by (auto simp: fun_eq_iff sdk cx1_def va_def)
  show thesis
    by (rule that [OF c acc])
      (use vset_account_laws(2) [OF laws, of cx "ClawbackAccount va"]
       in \<open>simp_all add: va_def unfunded_def sdk cx1_def\<close>,
       auto simp: cx' cx1_def SetGovClawbackDisabled_def)
qed

lemma FundVestingAccount_effect:
  assumes laws: "vesting_laws e" and step: "FundVestingAccount e cx msg = Inr cx'"
  obtains f a va lp vp coins va' where "fromBech32 e (mfFunderAddress msg) = Some f"
    "fromBech32 e (mfVestingAddress msg) = Some a" "\<not> bkBlockedAddr (vBk e) a"
    "vaccount e cx a = Some (ClawbackAccount va)" "FunderAddress va = mfFunderAddress msg"
    "default_schedules (to_Periods (mfLockupPeriods msg)) (to_Periods (mfVestingPeriods msg)) = (lp, vp, coins)"
    "addGrant e cx va (mfStartTime msg) lp vp coins = Inr va'"
    "bkSendCoins (vBk e) (akSetAccount (vAk e) (vSdk cx) (ClawbackAccount va')) f a coins = Inr (vSdk cx')"
    "cx' = cx\<lparr>vSdk := vSdk cx'\<rparr>"
proof -
  obtain f a va where c: "fromBech32 e (mfFunderAddress msg) = Some f"
    "fromBech32 e (mfVestingAddress msg) = Some a" "\<not> bkBlockedAddr (vBk e) a"
    "vaccount e cx a = Some (ClawbackAccount va)"
    using step by (auto simp: FundVestingAccount_def rbind_Inr_iff split: if_splits)
  obtain lp vp coins where d: "default_schedules (to_Periods (mfLockupPeriods msg)) (to_Periods (mfVestingPeriods msg)) = (lp, vp, coins)"
    by (metis prod_cases3)
  have "FunderAddress va = mfFunderAddress msg"
    "rbind (addGrant e cx va (mfStartTime msg) lp vp coins) (\<lambda>va.
       rbind (bkSendCoins (vBk e) (vSdk (vset_account e cx (ClawbackAccount va))) f a coins) (\<lambda>w.
       Inr ((vset_account e cx (ClawbackAccount va))\<lparr>vSdk := w\<rparr>))) = Inr cx'"
    using step c d GetClawbackVestingAccount_Inr [of e cx a va]
    by (auto simp: FundVestingAccount_def MustAccAddressFromBech32_def Let_def split: if_splits)
  then show thesis
    using that [OF c _ d] by (auto simp: rbind_Inr_iff vset_account_def)
qed

lemma transferClawback_effect:
  assumes laws: "vesting_laws e" and ok: "vesting_ok va" and a: "accAddress (cvBase va) = a"
    and step: "transferClawback e cx va dest = Inr (cx', coins)"
  shows "coins = OriginalVesting va - GetVestedOnly va (blockTime cx)"
    "cx' = cx\<lparr>vSdk := vSdk cx', govClawbackDisabled := govClawbackDisabled cx - {a}\<rparr>"
    "vbalances e cx' = credit dest coins (debit a coins (vbalances e cx))"
    "keeps_accounts (vAk e) {dest} (akSetAccount (vAk e) (vSdk cx) (EthAccount (cvBase va) (vKec e []))) (vSdk cx')"
proof -
  define cx1 where "cx1 = DeleteGovClawbackDisabled (vset_account e cx (EthAccount (cvBase va) (vKec e []))) a"
  obtain va' where cb: "ComputeClawback va (blockTime cx) = Inr (va', coins)"
    using step by (auto simp: transferClawback_def rbind_Inr_iff Let_def split: if_splits)
  note c = ComputeClawback_ok [OF ok cb]
  obtain w where w: "cx' = cx1\<lparr>vSdk := w\<rparr>"
    and send: "(if dest = NewModuleAddress e ''distribution''
      then FundCommunityPool e (vSdk cx1) coins a else bkSendCoins (vBk e) (vSdk cx1) a dest coins) = Inr w"
    using step cb c(7) a
    by (auto simp: transferClawback_def rbind_Inr_iff Let_def cx1_def toBech32_inj [OF laws] split: if_splits)
  have e1: "bkGetBalance (vBk e) w = credit dest coins (debit a coins (bkGetBalance (vBk e) (vSdk cx1)))
      \<and> keeps_accounts (vAk e) {dest} (vSdk cx1) w"
    using send vesting_lawsD(5) [OF laws, of "vSdk cx1" coins a w]
      bank_lawsD(5) [OF vesting_lawsD(2) [OF laws], of "vSdk cx1" a dest coins w]
    by (auto split: if_splits)
  have sdk: "vSdk cx1 = akSetAccount (vAk e) (vSdk cx) (EthAccount (cvBase va) (vKec e []))"
    by (simp add: cx1_def DeleteGovClawbackDisabled_def)
  show "coins = OriginalVesting va - GetVestedOnly va (blockTime cx)" by (rule c(1))
  show "cx' = cx\<lparr>vSdk := vSdk cx', govClawbackDisabled := govClawbackDisabled cx - {a}\<rparr>"
    by (simp add: w cx1_def DeleteGovClawbackDisabled_def vset_account_def)
  show "vbalances e cx' = credit dest coins (debit a coins (vbalances e cx))"
    using e1 account_lawsD(7) [OF vesting_lawsD(1) [OF laws]] by (simp add: w sdk)
  show "keeps_accounts (vAk e) {dest} (akSetAccount (vAk e) (vSdk cx) (EthAccount (cvBase va) (vKec e []))) (vSdk cx')"
    using e1 by (simp add: w sdk)
qed

text \<open>Where the coins of a clawback go.\<close>

definition clawback_dest :: "'w vesting_env \<Rightarrow> MsgClawback \<Rightarrow> addr \<Rightarrow> addr" where
  "clawback_dest e msg funder =
     (if mbFunderAddress msg = toBech32 e (authority e) then NewModuleAddress e ''distribution''
      else if mbDestAddress msg = [] then funder
      else case fromBech32 e (mbDestAddress msg) of Some d \<Rightarrow> d | None \<Rightarrow> nilAddr e)"

text \<open>Who may claw back from the account \<open>va\<close> at address \<open>a\<close>.\<close>

definition may_clawback ::
  "'w vesting_env \<Rightarrow> 'w VestingCtx \<Rightarrow> MsgClawback \<Rightarrow> addr \<Rightarrow> addr \<Rightarrow> ClawbackVestingAccount \<Rightarrow> bool" where
  "may_clawback e cx msg funder a va \<longleftrightarrow>
     (if mbFunderAddress msg = toBech32 e (authority e) then a \<notin> govClawbackDisabled cx
      else mbFunderAddress msg = FunderAddress va \<and> a \<notin> activeClawbackProposals cx
         \<and> \<not> bkBlockedAddr (vBk e) (clawback_dest e msg funder))"

lemma Clawback_Inr:
  assumes laws: "vesting_laws e" and step: "Clawback e cx msg = Inr (cx', coins)"
  obtains a funder va where "fromBech32 e (mbAccountAddress msg) = Some a"
    "fromBech32 e (mbFunderAddress msg) = Some funder" "vaccount e cx a = Some (ClawbackAccount va)"
    "\<not> unfunded va" "may_clawback e cx msg funder a va"
    "transferClawback e cx va (clawback_dest e msg funder) = Inr (cx', coins)"
proof -
  obtain a funder va where c: "fromBech32 e (mbAccountAddress msg) = Some a"
    "fromBech32 e (mbFunderAddress msg) = Some funder" "vaccount e cx a = Some (ClawbackAccount va)"
    using step by (auto simp: Clawback_def rbind_Inr_iff Let_def split: if_splits)
  have get: "GetClawbackVestingAccount e cx a = Inr va" using c(3) by simp
  show thesis
    by (rule that [OF c])
      (use step c get vesting_lawsD(4) [OF laws] in \<open>auto simp: Clawback_def MustAccAddressFromBech32_def
        Let_def unfunded_def may_clawback_def clawback_dest_def HasActiveClawbackProposal_def
        HasGovClawbackDisabled_def split: if_splits\<close>)
qed

lemma UpdateVestingFunder_effect:
  assumes "UpdateVestingFunder e cx msg = Inr cx'"
  obtains nf a va where "fromBech32 e (muNewFunderAddress msg) = Some nf"
    "fromBech32 e (muVestingAddress msg) = Some a"
    "a \<notin> activeClawbackProposals cx" "\<not> bkBlockedAddr (vBk e) nf"
    "vaccount e cx a = Some (ClawbackAccount va)" "FunderAddress va = muFunderAddress msg"
    "cx' = vset_account e cx (ClawbackAccount (va\<lparr>FunderAddress := muNewFunderAddress msg\<rparr>))"
  using assms
  by (auto simp: UpdateVestingFunder_def HasActiveClawbackProposal_def rbind_Inr_iff split: if_splits)

lemma ConvertVestingAccount_effect:
  assumes "ConvertVestingAccount e cx msg = Inr cx'"
  obtains a va where "fromBech32 e (mvVestingAddress msg) = Some a"
    "vaccount e cx a = Some (ClawbackAccount va)" "GetVestingCoins va (blockTime cx) = Inr {#}"
    "cx' = vset_account e (DeleteGovClawbackDisabled cx a) (EthAccount (cvBase va) (vKec e []))"
  using assms by (auto simp: ConvertVestingAccount_def rbind_Inr_iff split: if_splits)

section \<open>Every reachable account is well-formed\<close>

text \<open>
  The sums of the period lengths of a grant fit 64 bits; the stateless checks of the message
  bound each length from below but no sum from above.
\<close>

definition fund_fits :: "MsgFundVestingAccount \<Rightarrow> bool" where
  "fund_fits msg \<longleftrightarrow> schedule_ok (mfStartTime msg) (to_Periods (mfLockupPeriods msg))
     \<and> schedule_ok (mfStartTime msg) (to_Periods (mfVestingPeriods msg))"

fun msg_ok :: "'w vesting_env \<Rightarrow> vesting_msg \<Rightarrow> bool" where
  "msg_ok e (VMsgFund msg) = (MsgFund_ValidateBasic e msg = Inr () \<and> fund_fits msg)"
| "msg_ok e _ = True"

text \<open>
  A step of the chain: a message, a governance hook or proposal, the passing of time, and
  whatever else moves coins without touching the vesting accounts.
\<close>

inductive vesting_step :: "'w vesting_env \<Rightarrow> 'w VestingCtx \<Rightarrow> 'w VestingCtx \<Rightarrow> bool" for e where
  msg: "msg_ok e m \<Longrightarrow> NewHandler e cx m = Inr cx' \<Longrightarrow> vesting_step e cx cx'"
| deposit: "AfterProposalDeposit e cx i = Inr cx' \<Longrightarrow> vesting_step e cx cx'"
| ended: "AfterProposalVotingPeriodEnded e cx i = Inr cx' \<Longrightarrow> vesting_step e cx cx'"
| proposal: "VestingProposalHandler e cx p = Inr cx' \<Longrightarrow> vesting_step e cx cx'"
| time: "blockTime cx \<le> t \<Longrightarrow> vesting_step e cx (cx\<lparr>blockTime := t\<rparr>)"
| bank: "keeps_accounts (vAk e) UNIV (vSdk cx) w \<Longrightarrow> vesting_step e cx (cx\<lparr>vSdk := w\<rparr>)"

inductive vesting_reachable :: "'w vesting_env \<Rightarrow> 'w VestingCtx \<Rightarrow> bool" for e where
  init: "(\<forall>a va. akGetAccount (vAk e) w a \<noteq> Some (ClawbackAccount va)) \<Longrightarrow>
     vesting_reachable e \<lparr>vSdk = w, govClawbackDisabled = {}, activeClawbackProposals = {}, blockTime = t\<rparr>"
| step: "vesting_reachable e cx \<Longrightarrow> vesting_step e cx cx' \<Longrightarrow> vesting_reachable e cx'"

lemma vesting_invI:
  assumes "vesting_inv e cx"
    and "\<And>b v. vaccount e cx' b = Some (ClawbackAccount v) \<Longrightarrow> fundable v \<or> vaccount e cx b = Some (ClawbackAccount v)"
    and "\<And>b. b \<in> govClawbackDisabled cx' \<Longrightarrow> \<exists>v. vaccount e cx' b = Some (ClawbackAccount v)"
  shows "vesting_inv e cx'"
  using assms unfolding vesting_inv_def fundable_def by blast

lemma Create_inv:
  assumes "vesting_laws e" "vesting_inv e cx" "CreateClawbackVestingAccount e cx msg = Inr cx'"
  shows "vesting_inv e cx'"
proof -
  obtain a f base va where c: "vaccount e cx a = Some (EthAccount base (vKec e []))"
    "vaccount e cx' = (vaccount e cx)(a \<mapsto> ClawbackAccount va)" "unfunded va"
    "govClawbackDisabled cx' = (if mcEnableGovClawback msg then govClawbackDisabled cx else insert a (govClawbackDisabled cx))"
    by (rule CreateClawbackVestingAccount_effect [OF assms(1,3)])
  show ?thesis
    by (rule vesting_invI [OF assms(2)])
       (use c vesting_invD(2) [OF assms(2)] in \<open>auto simp: fundable_def split: if_splits\<close>)
qed

lemma Fund_account:
  assumes laws: "vesting_laws e" and inv: "vesting_inv e cx"
    and valid: "MsgFund_ValidateBasic e msg = Inr ()" and fits: "fund_fits msg"
    and step: "FundVestingAccount e cx msg = Inr cx'"
  obtains f a va lp vp coins va' where "fromBech32 e (mfFunderAddress msg) = Some f"
    "fromBech32 e (mfVestingAddress msg) = Some a" "\<not> bkBlockedAddr (vBk e) a"
    "vaccount e cx a = Some (ClawbackAccount va)" "FunderAddress va = mfFunderAddress msg"
    "default_schedules (to_Periods (mfLockupPeriods msg)) (to_Periods (mfVestingPeriods msg)) = (lp, vp, coins)"
    "grant_result e cx va (mfStartTime msg) lp vp coins va'"
    "vaccount e cx' = (vaccount e cx)(a \<mapsto> ClawbackAccount va')"
    "vbalances e cx' = credit a coins (debit f coins (vbalances e cx))"
    "cx' = cx\<lparr>vSdk := vSdk cx'\<rparr>"
proof -
  obtain f a va lp vp coins va' where c: "fromBech32 e (mfFunderAddress msg) = Some f"
    "fromBech32 e (mfVestingAddress msg) = Some a" "\<not> bkBlockedAddr (vBk e) a"
    "vaccount e cx a = Some (ClawbackAccount va)" "FunderAddress va = mfFunderAddress msg"
    "default_schedules (to_Periods (mfLockupPeriods msg)) (to_Periods (mfVestingPeriods msg)) = (lp, vp, coins)"
    and g: "addGrant e cx va (mfStartTime msg) lp vp coins = Inr va'"
    "bkSendCoins (vBk e) (akSetAccount (vAk e) (vSdk cx) (ClawbackAccount va')) f a coins = Inr (vSdk cx')"
    "cx' = cx\<lparr>vSdk := vSdk cx'\<rparr>"
    by (rule FundVestingAccount_effect [OF laws step])
  note d = default_schedules_ok [OF valid fits [unfolded fund_fits_def, THEN conjunct1]
      fits [unfolded fund_fits_def, THEN conjunct2] c(6)]
  have "fundable va" using vesting_invD(1) [OF inv c(4)] by (simp add: fundable_def)
  from addGrant_ok [OF this d(1-4), of e cx] g(1)
  have gr: "grant_result e cx va (mfStartTime msg) lp vp coins va'" by auto
  have ab: "accAddress (cvBase va') = a"
    using vaccount_address [OF laws c(4)] gr by (simp add: grant_result_def)
  note send = bank_lawsD(5) [OF vesting_lawsD(2) [OF laws] g(2)]
  note set = account_lawsD(2) [OF vesting_lawsD(1) [OF laws], of "vSdk cx" "ClawbackAccount va'"]
  have "vaccount e cx' b = ((vaccount e cx)(a \<mapsto> ClawbackAccount va')) b" for b
    using keeps_accountsD(1) [OF conjunct2 [OF send], of b] set [of b] ab by (cases "b = a") simp_all
  then have acc: "vaccount e cx' = (vaccount e cx)(a \<mapsto> ClawbackAccount va')" by (rule ext)
  have bal: "vbalances e cx' = credit a coins (debit f coins (vbalances e cx))"
    using conjunct1 [OF send] account_lawsD(7) [OF vesting_lawsD(1) [OF laws]] by simp
  show thesis by (rule that [OF c gr acc bal g(3)])
qed

lemma Fund_inv:
  assumes "vesting_laws e" "vesting_inv e cx" "MsgFund_ValidateBasic e msg = Inr ()" "fund_fits msg"
    "FundVestingAccount e cx msg = Inr cx'"
  shows "vesting_inv e cx'"
proof -
  obtain a va lp vp coins va' where c: "vaccount e cx a = Some (ClawbackAccount va)"
    "grant_result e cx va (mfStartTime msg) lp vp coins va'"
    "vaccount e cx' = (vaccount e cx)(a \<mapsto> ClawbackAccount va')" "cx' = cx\<lparr>vSdk := vSdk cx'\<rparr>"
    by (rule Fund_account [OF assms])
  have gov: "govClawbackDisabled cx' = govClawbackDisabled cx" by (subst c(4)) simp
  have "fundable va'" using c(2) by (simp add: grant_result_def fundable_def)
  then show ?thesis
    by (intro vesting_invI [OF assms(2)])
       (use c(3) gov vesting_invD(2) [OF assms(2)] in \<open>auto split: if_splits\<close>)
qed

lemma Clawback_account:
  assumes laws: "vesting_laws e" and inv: "vesting_inv e cx" and step: "Clawback e cx msg = Inr (cx', coins)"
  obtains a funder va where "fromBech32 e (mbAccountAddress msg) = Some a"
    "fromBech32 e (mbFunderAddress msg) = Some funder" "vaccount e cx a = Some (ClawbackAccount va)"
    "vesting_ok va" "may_clawback e cx msg funder a va"
    "coins = OriginalVesting va - GetVestedOnly va (blockTime cx)"
    "vbalances e cx' = credit (clawback_dest e msg funder) coins (debit a coins (vbalances e cx))"
    "vaccount e cx' a = Some (EthAccount (cvBase va) (vKec e []))"
    "keeps_accounts (vAk e) {clawback_dest e msg funder}
       (akSetAccount (vAk e) (vSdk cx) (EthAccount (cvBase va) (vKec e []))) (vSdk cx')"
    "cx' = cx\<lparr>vSdk := vSdk cx', govClawbackDisabled := govClawbackDisabled cx - {a}\<rparr>"
proof -
  obtain a funder va where c: "fromBech32 e (mbAccountAddress msg) = Some a"
    "fromBech32 e (mbFunderAddress msg) = Some funder" "vaccount e cx a = Some (ClawbackAccount va)"
    and nf: "\<not> unfunded va" and may: "may_clawback e cx msg funder a va"
    and t: "transferClawback e cx va (clawback_dest e msg funder) = Inr (cx', coins)"
    by (rule Clawback_Inr [OF laws step])
  have ok: "vesting_ok va" using vesting_invD(1) [OF inv c(3)] nf by simp
  have ab: "accAddress (cvBase va) = a" using vaccount_address [OF laws c(3)] by simp
  note e = transferClawback_effect [OF laws ok ab t]
  have "vaccount e cx' a = Some (EthAccount (cvBase va) (vKec e []))"
    using keeps_accountsD(1) [OF e(4), of a]
      account_lawsD(2) [OF vesting_lawsD(1) [OF laws], of "vSdk cx" "EthAccount (cvBase va) (vKec e [])" a] ab by simp
  then show thesis using that [OF c ok may e(1,3) _ e(4,2)] by blast
qed

lemma Clawback_inv:
  assumes laws: "vesting_laws e" and inv: "vesting_inv e cx" and step: "Clawback e cx msg = Inr (cx', coins)"
  shows "vesting_inv e cx'"
proof -
  obtain a funder va where c: "vaccount e cx a = Some (ClawbackAccount va)"
    "keeps_accounts (vAk e) {clawback_dest e msg funder}
       (akSetAccount (vAk e) (vSdk cx) (EthAccount (cvBase va) (vKec e []))) (vSdk cx')"
    "cx' = cx\<lparr>vSdk := vSdk cx', govClawbackDisabled := govClawbackDisabled cx - {a}\<rparr>"
    by (rule Clawback_account [OF assms])
  have ab: "accAddress (cvBase va) = a" using vaccount_address [OF laws c(1)] by simp
  note set = account_lawsD(2) [OF vesting_lawsD(1) [OF laws], of "vSdk cx" "EthAccount (cvBase va) (vKec e [])"]
  have gov: "govClawbackDisabled cx' = govClawbackDisabled cx - {a}" by (subst c(3)) simp
  have older: "vaccount e cx b = Some (ClawbackAccount v)" if "vaccount e cx' b = Some (ClawbackAccount v)" for b v
    using keeps_accountsD(2) [OF c(2) that] set [of b] by (simp split: if_splits)
  have kept: "vaccount e cx' b = vaccount e cx b" if "b \<noteq> a" "vaccount e cx b \<noteq> None" for b
    using keeps_accountsD(1) [OF c(2), of b] set [of b] that ab by simp
  show ?thesis
  proof (rule vesting_invI [OF inv])
    fix b assume "b \<in> govClawbackDisabled cx'"
    then have "b \<noteq> a" "b \<in> govClawbackDisabled cx" using gov by auto
    with vesting_invD(2) [OF inv] kept show "\<exists>v. vaccount e cx' b = Some (ClawbackAccount v)" by fastforce
  qed (use older in blast)
qed

lemma Update_inv:
  assumes laws: "vesting_laws e" and inv: "vesting_inv e cx" and step: "UpdateVestingFunder e cx msg = Inr cx'"
  shows "vesting_inv e cx'"
proof -
  obtain a va where c: "vaccount e cx a = Some (ClawbackAccount va)"
    "cx' = vset_account e cx (ClawbackAccount (va\<lparr>FunderAddress := muNewFunderAddress msg\<rparr>))"
    by (rule UpdateVestingFunder_effect [OF step])
  note set = vset_account_laws(1) [OF laws, of cx "ClawbackAccount (va\<lparr>FunderAddress := muNewFunderAddress msg\<rparr>)"]
  have "fundable (va\<lparr>FunderAddress := muNewFunderAddress msg\<rparr>)"
    using vesting_invD(1) [OF inv c(1)] by (simp add: fundable_def vesting_ok_def unfunded_def)
  then show ?thesis
    by (intro vesting_invI [OF inv])
       (use c set vesting_invD(2) [OF inv] in \<open>auto split: if_splits\<close>)
qed

lemma Convert_inv:
  assumes laws: "vesting_laws e" and inv: "vesting_inv e cx" and step: "ConvertVestingAccount e cx msg = Inr cx'"
  shows "vesting_inv e cx'"
proof -
  obtain a va where c: "vaccount e cx a = Some (ClawbackAccount va)"
    "cx' = vset_account e (DeleteGovClawbackDisabled cx a) (EthAccount (cvBase va) (vKec e []))"
    by (rule ConvertVestingAccount_effect [OF step])
  have ab: "accAddress (cvBase va) = a" using vaccount_address [OF laws c(1)] by simp
  note set = vset_account_laws(1) [OF laws, of "DeleteGovClawbackDisabled cx a" "EthAccount (cvBase va) (vKec e [])"]
  have sdk: "vSdk (DeleteGovClawbackDisabled cx a) = vSdk cx"
    and gov: "govClawbackDisabled (DeleteGovClawbackDisabled cx a) = govClawbackDisabled cx - {a}"
    by (simp_all add: DeleteGovClawbackDisabled_def)
  show ?thesis
    by (rule vesting_invI [OF inv])
       (use c(2) set sdk gov ab vesting_invD(2) [OF inv] in \<open>auto split: if_splits\<close>)
qed

text \<open>The hooks change nothing but the store of active proposals.\<close>

definition only_active :: "'w VestingCtx \<Rightarrow> 'w VestingCtx \<Rightarrow> bool" where
  "only_active cx cx' \<longleftrightarrow> vSdk cx' = vSdk cx \<and> govClawbackDisabled cx' = govClawbackDisabled cx
     \<and> blockTime cx' = blockTime cx"

lemma mark_proposals_effect:
  assumes "\<And>c a. only_active c (f c a)"
  shows "mark_proposals e f cx ps = Inr cx' \<Longrightarrow> only_active cx cx'"
proof (induction ps arbitrary: cx)
  case (Cons p ps)
  then obtain a where "mark_proposals e f (f cx a) ps = Inr cx'" by (auto simp: rbind_Inr_iff)
  from Cons.IH [OF this] assms [of cx a] show ?case by (simp add: only_active_def)
qed (simp add: only_active_def)

lemma hooks_effect:
  "AfterProposalDeposit e cx i = Inr cx' \<Longrightarrow> only_active cx cx'"
  "AfterProposalVotingPeriodEnded e cx i = Inr cx' \<Longrightarrow> only_active cx cx'"
proof -
  have self: "only_active cx cx" by (simp add: only_active_def)
  have m: "only_active cx cx'" if "mark_proposals e SetActiveClawbackProposal cx ps = Inr cx'" for ps
    by (rule mark_proposals_effect [OF _ that]) (simp add: only_active_def SetActiveClawbackProposal_def)
  have n: "only_active cx cx'" if "mark_proposals e DeleteActiveClawbackProposal cx ps = Inr cx'" for ps
    by (rule mark_proposals_effect [OF _ that]) (simp add: only_active_def DeleteActiveClawbackProposal_def)
  show "AfterProposalDeposit e cx i = Inr cx' \<Longrightarrow> only_active cx cx'"
    "AfterProposalVotingPeriodEnded e cx i = Inr cx' \<Longrightarrow> only_active cx cx'"
    using self m n
    by (auto simp: AfterProposalDeposit_def AfterProposalVotingPeriodEnded_def split: option.splits sum.splits if_splits)
qed

lemma only_active_inv: "only_active cx cx' \<Longrightarrow> vesting_inv e cx' = vesting_inv e cx"
  by (simp add: only_active_def vesting_inv_def)

lemma vesting_inv_time [simp]: "vesting_inv e (cx\<lparr>blockTime := t\<rparr>) = vesting_inv e cx"
  by (simp add: vesting_inv_def)

lemma NewHandler_inv:
  assumes "vesting_laws e" "vesting_inv e cx" "msg_ok e m" "NewHandler e cx m = Inr cx'"
  shows "vesting_inv e cx'"
  using assms(3,4)
  by (cases m) (auto simp: rbind_Inr_iff intro: Create_inv [OF assms(1,2)] Fund_inv [OF assms(1,2)]
      Clawback_inv [OF assms(1,2)] Update_inv [OF assms(1,2)] Convert_inv [OF assms(1,2)])

lemma vesting_step_inv:
  assumes laws: "vesting_laws e" and "vesting_step e cx cx'" and inv: "vesting_inv e cx"
  shows "vesting_inv e cx'"
  using assms(2)
proof cases
  case (msg m)
  then show ?thesis using NewHandler_inv [OF laws inv] by blast
next
  case (proposal p)
  then obtain msg coins where "Clawback e cx msg = Inr (cx', coins)"
    by (auto simp: VestingProposalHandler_def HandleClawbackProposal_def rbind_Inr_iff Let_def split: gov_content.splits)
  then show ?thesis by (rule Clawback_inv [OF laws inv])
next
  case (bank w)
  have kept: "akGetAccount (vAk e) w b = vaccount e cx b" if "vaccount e cx b \<noteq> None" for b
    using keeps_accountsD(1) [OF bank(2), of b] that by blast
  show ?thesis
  proof (rule vesting_invI [OF inv])
    fix b v assume "vaccount e cx' b = Some (ClawbackAccount v)"
    then have "vaccount e cx b = Some (ClawbackAccount v)"
      using keeps_accountsD(2) [OF bank(2), of b v] bank(1) by simp
    then show "fundable v \<or> vaccount e cx b = Some (ClawbackAccount v)" ..
  next
    fix b assume "b \<in> govClawbackDisabled cx'"
    then obtain v where v: "vaccount e cx b = Some (ClawbackAccount v)"
      using vesting_invD(2) [OF inv, of b] bank(1) by auto
    then have "vaccount e cx' b = Some (ClawbackAccount v)" using kept [of b] bank(1) by simp
    then show "\<exists>v. vaccount e cx' b = Some (ClawbackAccount v)" ..
  qed
next
  case (deposit i)
  then show ?thesis using only_active_inv [OF hooks_effect(1)] inv by blast
next
  case (ended i)
  then show ?thesis using only_active_inv [OF hooks_effect(2)] inv by blast
next
  case (time t)
  then show ?thesis using inv by simp
qed

section \<open>A concrete environment\<close>

text \<open>The small SDK, with addresses in unary notation.\<close>

definition ex_venv :: "ledger vesting_env" where
  "ex_venv = \<lparr>vAk = ledger_ak (\<lambda>_. 0), vBk = ledger_bk,
     fromBech32 = (\<lambda>s. if s = [] then None else Some (word_of_nat (length s - 1))),
     toBech32 = (\<lambda>a. replicate (Suc (unat a)) CHR ''1''), nilAddr = 0, authority = 0,
     GetDelegatorBonded = (\<lambda>w a. 2), GetDelegatorUnbonding = (\<lambda>w a. 0), BondDenom = (\<lambda>w. ''a''),
     FundCommunityPool = (\<lambda>w cs a. rbind (pay a cs w) (receive (module_address ''distribution'') cs)),
     NewModuleAddress = module_address,
     govGetProposal = (\<lambda>w i. Some \<lparr>GetMsgs = Inr [OtherMsg 0, MsgExecLegacyContent (ClawbackContent
        \<lparr>cpTitle = ''t'', cpDescription = ''d'', cpAddress = ''11111111'', cpDestinationAddress = []\<rparr>)],
        GetTotalDeposit = NewCoin ''a'' 10\<rparr>),
     govMinDeposit = (\<lambda>w. NewCoin ''a'' 10), coinsIsValid = (\<lambda>cs. \<forall>(d, n) \<in> set cs. 0 < n),
     ValidateAbstract = (\<lambda>p. Inr ()), vKec = (\<lambda>_. 0)\<rparr>"

lemma ex_venv_laws: "vesting_laws ex_venv"
proof -
  have "bkGetBalance ledger_bk = snd" "akGetModuleAddress (ledger_ak k) = module_address" for k
    by (simp_all add: ledger_bk_def ledger_ak_def)
  then show ?thesis
    using ledger_account_laws [of "\<lambda>_. 0"] ledger_bank_laws [of "\<lambda>_. 0"]
    by (auto simp: vesting_laws_def ex_venv_def rbind_Inr_iff dest!: ledger_transfers intro!: ledger_keeps)
qed

definition ex_vcx :: "AccountI \<Rightarrow> ledger VestingCtx" where
  "ex_vcx acc = \<lparr>vSdk = ([7 \<mapsto> acc], \<lambda>_ _. 100), govClawbackDisabled = {}, activeClawbackProposals = {}, blockTime = 115\<rparr>"

definition ex_eth :: AccountI where
  "ex_eth = EthAccount \<lparr>accAddress = 7, accNumber = 1, accSequence = 0\<rparr> 0"

definition ex_funded :: ClawbackVestingAccount where
  "ex_funded = ex_va\<lparr>FunderAddress := ''1111''\<rparr>"

lemma ex_funded_ok: "vesting_ok ex_funded"
  using ex_va_ok by (simp add: ex_funded_def vesting_ok_def)

lemma ex_vcx_inv: "vesting_inv ex_venv (ex_vcx (ClawbackAccount ex_funded))"
  using ex_funded_ok by (simp add: vesting_inv_def ex_vcx_def ex_venv_def ledger_ak_def split: option.split if_splits)

section \<open>What the module guarantees\<close>



text \<open>
  C9. Nobody but the account's current funder or governance can claw back, the funder only
  while no governance clawback of that account is open and only to an address that may
  receive funds, governance only from an account that has not opted out and only to the
  community pool. What moves is exactly the unvested part at the block time, from the
  account to the destination; no other balance changes; the account becomes a plain
  Ethereum account with the same address, number and sequence; its opt-out entry goes.
\<close>

theorem Clawback_authorised_and_exact:
  assumes "vesting_laws e" "vesting_inv e cx" "Clawback e cx msg = Inr (cx', coins)"
  shows "\<exists>a funder va. fromBech32 e (mbAccountAddress msg) = Some a
      \<and> fromBech32 e (mbFunderAddress msg) = Some funder
      \<and> vaccount e cx a = Some (ClawbackAccount va) \<and> may_clawback e cx msg funder a va
      \<and> coins + GetVestedOnly va (blockTime cx) = OriginalVesting va
      \<and> vbalances e cx' = credit (clawback_dest e msg funder) coins (debit a coins (vbalances e cx))
      \<and> vaccount e cx' a = Some (EthAccount (cvBase va) (vKec e []))
      \<and> govClawbackDisabled cx' = govClawbackDisabled cx - {a}
      \<and> activeClawbackProposals cx' = activeClawbackProposals cx"
proof -
  obtain a funder va where c: "fromBech32 e (mbAccountAddress msg) = Some a"
    "fromBech32 e (mbFunderAddress msg) = Some funder" "vaccount e cx a = Some (ClawbackAccount va)"
    "vesting_ok va" "may_clawback e cx msg funder a va"
    "coins = OriginalVesting va - GetVestedOnly va (blockTime cx)"
    "vbalances e cx' = credit (clawback_dest e msg funder) coins (debit a coins (vbalances e cx))"
    "vaccount e cx' a = Some (EthAccount (cvBase va) (vKec e []))"
    and cx': "cx' = cx\<lparr>vSdk := vSdk cx', govClawbackDisabled := govClawbackDisabled cx - {a}\<rparr>"
    by (rule Clawback_account [OF assms])
  have "govClawbackDisabled cx' = govClawbackDisabled cx - {a}" "activeClawbackProposals cx' = activeClawbackProposals cx"
    by (subst cx', simp)+
  moreover have "coins + GetVestedOnly va (blockTime cx) = OriginalVesting va"
    unfolding c(6) by (rule subset_mset.diff_add [OF vesting_ok_reads(2) [OF c(4)]])
  ultimately show ?thesis using c by blast
qed

definition ex_clawback :: MsgClawback where
  "ex_clawback = \<lparr>mbFunderAddress = ''1111'', mbAccountAddress = ''11111111'', mbDestAddress = []\<rparr>"

lemma ComputeClawback_total: "vesting_ok va \<Longrightarrow> \<exists>va'. ComputeClawback va t = Inr (va', OriginalVesting va - GetVestedOnly va t) \<and> cvBase va' = cvBase va"
  by (simp add: ComputeClawback_def vesting_ok_reads(5) Let_def case_prod_unfold)

lemma ex_clawback_runs:
  "\<exists>cx' coins. Clawback ex_venv (ex_vcx (ClawbackAccount ex_funded)) ex_clawback = Inr (cx', coins)"
proof -
  obtain va' where cb: "ComputeClawback ex_funded 115 = Inr (va', OriginalVesting ex_funded - GetVestedOnly ex_funded 115)"
    "cvBase va' = cvBase ex_funded" using ComputeClawback_total [OF ex_funded_ok] by blast
  have le: "AmountOf (OriginalVesting ex_funded - GetVestedOnly ex_funded 115) d \<le> 100" for d
  proof -
    have "count (OriginalVesting ex_funded) d \<le> 5" by (simp add: ex_funded_def ex_va_def NewCoin_def)
    then show ?thesis by (simp add: AmountOf_def)
  qed
  then show ?thesis
    using cb
    by (simp add: Clawback_def transferClawback_def ex_clawback_def MustAccAddressFromBech32_def ex_venv_def ex_vcx_def
        GetClawbackVestingAccount_def HasActiveClawbackProposal_def ledger_ak_def ledger_bk_def Let_def
        ex_funded_def ex_va_def ex_periods_def vset_account_def DeleteGovClawbackDisabled_def pay_def receive_def)
qed

theorem Clawback_authorised_and_exact_witness:
  "\<exists>cx' coins. Clawback ex_venv (ex_vcx (ClawbackAccount ex_funded)) ex_clawback = Inr (cx', coins)
     \<and> coins + GetVestedOnly ex_funded 115 = NewCoin ''a'' 5"
proof -
  obtain cx' coins where cx': "Clawback ex_venv (ex_vcx (ClawbackAccount ex_funded)) ex_clawback = Inr (cx', coins)"
    using ex_clawback_runs by blast
  have acc: "vaccount ex_venv (ex_vcx (ClawbackAccount ex_funded)) a = Some (ClawbackAccount va) \<Longrightarrow> va = ex_funded" for a va
    by (simp add: ex_venv_def ex_vcx_def ledger_ak_def split: if_splits option.splits)
  have "OriginalVesting ex_funded = NewCoin ''a'' 5" "blockTime (ex_vcx (ClawbackAccount ex_funded)) = 115"
    by (simp_all add: ex_funded_def ex_va_def ex_vcx_def)
  with Clawback_authorised_and_exact [OF ex_venv_laws ex_vcx_inv cx'] acc cx' show ?thesis by metis
qed

text \<open>
  C22. A grant is recorded exactly: when funding succeeds, the sender is the account's funder
  and the account may receive funds; the new schedules release, at every time, what the
  old ones released plus what the grant's do (an absent schedule of the grant counting as
  everything at the start time); the original vesting grows by the granted coins, which
  are what moves from the funder to the account; the two delegation counters add up to
  what is really delegated, the vesting one at most the coins still vesting.
\<close>

theorem FundVestingAccount_grants:
  assumes "vesting_laws e" "vesting_inv e cx" "MsgFund_ValidateBasic e msg = Inr ()" "fund_fits msg"
    "FundVestingAccount e cx msg = Inr cx'"
  shows "\<exists>f a va lp vp coins va'. fromBech32 e (mfFunderAddress msg) = Some f
      \<and> fromBech32 e (mfVestingAddress msg) = Some a \<and> \<not> bkBlockedAddr (vBk e) a
      \<and> vaccount e cx a = Some (ClawbackAccount va) \<and> FunderAddress va = mfFunderAddress msg
      \<and> default_schedules (to_Periods (mfLockupPeriods msg)) (to_Periods (mfVestingPeriods msg)) = (lp, vp, coins)
      \<and> grant_result e cx va (mfStartTime msg) lp vp coins va'
      \<and> vaccount e cx' = (vaccount e cx)(a \<mapsto> ClawbackAccount va')
      \<and> vbalances e cx' = credit a coins (debit f coins (vbalances e cx))"
  by (rule Fund_account [OF assms]) blast

definition ex_fund :: MsgFundVestingAccount where
  "ex_fund = \<lparr>mfFunderAddress = ''1111'', mfVestingAddress = ''11111111'', mfStartTime = 200,
     mfLockupPeriods = [], mfVestingPeriods = [(10, [(''a'', 3)]), (20, [(''a'', 4)])]\<rparr>"

lemma ex_fund_valid: "MsgFund_ValidateBasic ex_venv ex_fund = Inr ()" "fund_fits ex_fund"
  by (simp_all add: MsgFund_ValidateBasic_def AccAddressFromBech32_def ex_fund_def ex_venv_def to_Coins_def NewCoin_def
      fund_fits_def to_Periods_def schedule_ok_def)

lemma ex_fund_runs: "\<exists>cx'. FundVestingAccount ex_venv (ex_vcx (ClawbackAccount ex_funded)) ex_fund = Inr cx'"
proof -
  let ?cx = "ex_vcx (ClawbackAccount ex_funded)"
  obtain lp vp coins where d: "default_schedules (to_Periods (mfLockupPeriods ex_fund)) (to_Periods (mfVestingPeriods ex_fund)) = (lp, vp, coins)"
    by (metis prod_cases3)
  have coins: "coins = replicate_mset 7 ''a''"
    using d by (simp add: default_schedules_def ex_fund_def to_Periods_def to_Coins_def NewCoin_def Let_def numeral_eq_Suc split: if_splits)
  note ok = default_schedules_ok [OF ex_fund_valid(1) ex_fund_valid(2) [unfolded fund_fits_def, THEN conjunct1]
      ex_fund_valid(2) [unfolded fund_fits_def, THEN conjunct2] d]
  obtain va' where g: "addGrant ex_venv ?cx ex_funded (mfStartTime ex_fund) lp vp coins = Inr va'"
    using addGrant_ok [OF _ ok(1-4), of ex_funded ex_venv ?cx] ex_funded_ok by (auto simp: fundable_def)
  have "bkSendCoins ledger_bk w 3 7 coins = Inr (fst w, credit 7 coins (debit 3 coins (snd w)))" if "snd w = (\<lambda>_ _. 100)" for w
    using that by (simp add: ledger_bk_def pay_def receive_def coins AmountOf_def)
  then show ?thesis
    using d g
    by (simp add: FundVestingAccount_def MustAccAddressFromBech32_def GetClawbackVestingAccount_def ex_fund_def
        ex_venv_def ex_vcx_def ex_funded_def ex_va_def ledger_ak_def vset_account_def) (simp add: ledger_bk_def)
qed

theorem FundVestingAccount_grants_witness:
  "\<exists>cx' va'. FundVestingAccount ex_venv (ex_vcx (ClawbackAccount ex_funded)) ex_fund = Inr cx'
     \<and> vaccount ex_venv cx' 7 = Some (ClawbackAccount va') \<and> vesting_ok va'"
proof -
  obtain cx' where cx': "FundVestingAccount ex_venv (ex_vcx (ClawbackAccount ex_funded)) ex_fund = Inr cx'"
    using ex_fund_runs by blast
  have "fromBech32 ex_venv (mfVestingAddress ex_fund) = Some 7" by (simp add: ex_venv_def ex_fund_def)
  with FundVestingAccount_grants [OF ex_venv_laws ex_vcx_inv ex_fund_valid cx'] cx' show ?thesis
    by (auto simp: grant_result_def)
qed



text \<open>
  An account leaves vesting only when nothing is left to vest: on a well-formed account
  \<^verbatim>\<open>ConvertVestingAccount\<close> succeeds exactly when everything has both vested and unlocked
  (which happens at the latest at the end time), and then keeps the base account and
  drops the opt-out entry; otherwise it reports an invalid request.
\<close>

theorem ConvertVestingAccount_complete:
  assumes "vesting_laws e" "fromBech32 e (mvVestingAddress msg) = Some a"
    "vaccount e cx a = Some (ClawbackAccount va)" "vesting_ok va"
  shows "(if GetVestedCoins va (blockTime cx) = OriginalVesting va
          then \<exists>cx'. ConvertVestingAccount e cx msg = Inr cx'
             \<and> vaccount e cx' = (vaccount e cx)(a \<mapsto> EthAccount (cvBase va) (vKec e []))
             \<and> govClawbackDisabled cx' = govClawbackDisabled cx - {a} \<and> vbalances e cx' = vbalances e cx
          else ConvertVestingAccount e cx msg = Inl ErrInvalidRequest)
     \<and> (EndTime va \<le> blockTime cx \<longrightarrow> StartTime va < blockTime cx \<longrightarrow>
          GetVestedCoins va (blockTime cx) = OriginalVesting va)"
proof -
  note r = vesting_ok_reads [OF assms(4), of "blockTime cx"]
  have zero: "OriginalVesting va - GetVestedCoins va (blockTime cx) = {#} \<longleftrightarrow> GetVestedCoins va (blockTime cx) = OriginalVesting va"
    using r(3) by (metis Diff_eq_empty_iff_mset subset_mset.antisym subset_mset.order_refl)
  have ab: "accAddress (cvBase va) = a" using vaccount_address [OF assms(1,3)] by simp
  define cx1 where "cx1 = DeleteGovClawbackDisabled cx a"
  have sdk: "vSdk cx1 = vSdk cx" "govClawbackDisabled cx1 = govClawbackDisabled cx - {a}"
    by (simp_all add: cx1_def DeleteGovClawbackDisabled_def)
  note set = vset_account_laws [OF assms(1), of cx1 "EthAccount (cvBase va) (vKec e [])"]
  have upd: "vaccount e (vset_account e cx1 (EthAccount (cvBase va) (vKec e []))) = (vaccount e cx)(a \<mapsto> EthAccount (cvBase va) (vKec e []))"
    using set(1) ab sdk by (auto simp: fun_eq_iff)
  have "GetVestedCoins va (blockTime cx) = OriginalVesting va" if "EndTime va \<le> blockTime cx" "StartTime va < blockTime cx"
    using that by (simp add: GetVestedCoins_def GetUnlockedOnly_def GetVestedOnly_def ReadSchedule_def)
  moreover have "ConvertVestingAccount e cx msg = (if GetVestedCoins va (blockTime cx) = OriginalVesting va
      then Inr (vset_account e cx1 (EthAccount (cvBase va) (vKec e []))) else Inl ErrInvalidRequest)"
    using assms(2,3) r(6) zero
    by (simp add: ConvertVestingAccount_def MustAccAddressFromBech32_def GetClawbackVestingAccount_def cx1_def)
  ultimately show ?thesis using upd sdk set(2) by simp
qed

theorem ConvertVestingAccount_complete_witness:
  "ConvertVestingAccount ex_venv (ex_vcx (ClawbackAccount ex_funded)) \<lparr>mvVestingAddress = ''11111111''\<rparr> = Inl ErrInvalidRequest"
proof -
  let ?cx = "ex_vcx (ClawbackAccount ex_funded)"
  have h: "fromBech32 ex_venv (mvVestingAddress \<lparr>mvVestingAddress = ''11111111''\<rparr>) = Some 7"
    "vaccount ex_venv ?cx 7 = Some (ClawbackAccount ex_funded)"
    by (simp_all add: ex_venv_def ex_vcx_def ledger_ak_def ex_funded_def ex_va_def)
  have "GetVestedCoins ex_funded (blockTime ?cx) \<noteq> OriginalVesting ex_funded"
    by (simp add: GetVestedCoins_def GetUnlockedOnly_def GetVestedOnly_def ReadSchedule_def ex_funded_def ex_va_def
        ex_vcx_def ex_periods_def i64_id in_i64_def NewCoin_def numeral_eq_Suc)
  with ConvertVestingAccount_complete [OF ex_venv_laws h ex_funded_ok] show ?thesis by simp
qed

end
