(* ===== verification/KVStore.thy ===== *)
theory KVStore
  imports Prelude "HOL-Library.List_Lexorder" "HOL-Library.Char_ord"
begin

text \<open>
  The key-value stores of the modules: \<^verbatim>\<open>sdk.KVStore\<close> iterates in the order of its keys, so
  a store is an association list sorted by key. The locale \<open>keyed_store\<close> is what the
  keepers rely on.
\<close>

section \<open>The interface\<close>

locale keyed_store =
  fixes get :: "'s \<Rightarrow> 'k \<Rightarrow> 'v option"
    and put :: "'s \<Rightarrow> 'k \<Rightarrow> 'v \<Rightarrow> 's"
    and del :: "'s \<Rightarrow> 'k \<Rightarrow> 's"
    and ok :: "'s \<Rightarrow> bool"
  assumes ok_put: "ok s \<Longrightarrow> ok (put s k v)"
    and ok_del: "ok s \<Longrightarrow> ok (del s k)"
    and get_put: "ok s \<Longrightarrow> get (put s k v) k' = (if k' = k then Some v else get s k')"
    and get_del: "ok s \<Longrightarrow> get (del s k) k' = (if k' = k then None else get s k')"
begin

lemma ok_put_all: "ok s \<Longrightarrow> ok (fold (\<lambda>x s. put s (f x) (g x)) xs s)"
  by (induction xs arbitrary: s) (auto intro: ok_put)

lemma get_put_all:
  "ok s \<Longrightarrow> get (fold (\<lambda>x s. put s (f x) (g x)) xs s) k
     = (case map_of (rev (map (\<lambda>x. (f x, g x)) xs)) k of Some v \<Rightarrow> Some v | None \<Rightarrow> get s k)"
proof (induction xs arbitrary: s)
  case (Cons x xs)
  then show ?case by (auto simp: ok_put get_put map_add_def split: option.split)
qed simp

lemma get_put_get: "ok s \<Longrightarrow> get s k = Some v \<Longrightarrow> get (put s k v) k' = get s k'"
  by (simp add: get_put)

end

section \<open>Sorted association lists\<close>

definition kv_get :: "('k \<times> 'v) list \<Rightarrow> 'k \<Rightarrow> 'v option" where
  "kv_get s k = map_of s k"

fun kv_set :: "('k :: linorder \<times> 'v) list \<Rightarrow> 'k \<Rightarrow> 'v \<Rightarrow> ('k \<times> 'v) list" where
  "kv_set [] k v = [(k, v)]"
| "kv_set ((k', v') # s) k v =
     (if k < k' then (k, v) # (k', v') # s else if k = k' then (k, v) # s else (k', v') # kv_set s k v)"

definition kv_delete :: "('k \<times> 'v) list \<Rightarrow> 'k \<Rightarrow> ('k \<times> 'v) list" where
  "kv_delete s k = filter (\<lambda>p. fst p \<noteq> k) s"

definition kv_ok :: "('k :: linorder \<times> 'v) list \<Rightarrow> bool" where
  "kv_ok s \<longleftrightarrow> sorted_wrt (<) (map fst s)"

lemma kv_ok_Cons: "kv_ok ((k, v) # s) \<longleftrightarrow> (\<forall>p \<in> set s. k < fst p) \<and> kv_ok s"
  by (auto simp: kv_ok_def)

lemma kv_ok_Nil [simp]: "kv_ok []"
  by (simp add: kv_ok_def)

lemma kv_ok_distinct: "kv_ok s \<Longrightarrow> distinct (map fst s)"
  by (simp add: kv_ok_def strict_sorted_iff)

lemma kv_get_mem: "kv_ok s \<Longrightarrow> kv_get s k = Some v \<longleftrightarrow> (k, v) \<in> set s"
  by (simp add: kv_get_def kv_ok_distinct)

lemma kv_set_keys: "set (map fst (kv_set s k v)) = insert k (set (map fst s))"
  by (induction s k v rule: kv_set.induct) (auto simp del: set_map simp: insert_commute)

lemma kv_ok_set: "kv_ok s \<Longrightarrow> kv_ok (kv_set s k v)"
proof (induction s)
  case (Cons p s)
  obtain k' v' where p: "p = (k', v')" by (cases p)
  have "fst q = k \<or> fst q \<in> fst ` set s" if "q \<in> set (kv_set s k v)" for q
    using kv_set_keys [of s k v] that by fastforce
  with Cons p show ?case by (fastforce simp: kv_ok_Cons)
qed (simp add: kv_ok_def)

lemma kv_get_set: "kv_ok s \<Longrightarrow> kv_get (kv_set s k v) k' = (if k' = k then Some v else kv_get s k')"
  by (induction s) (auto simp: kv_get_def kv_ok_Cons)

lemma kv_ok_delete: "kv_ok s \<Longrightarrow> kv_ok (kv_delete s k)"
  by (induction s) (auto simp: kv_delete_def kv_ok_Cons)

lemma kv_get_delete: "kv_get (kv_delete s k) k' = (if k' = k then None else kv_get s k')"
  by (induction s) (auto simp: kv_get_def kv_delete_def)

interpretation kv: keyed_store kv_get kv_set kv_delete kv_ok
  by unfold_locales (simp_all add: kv_ok_set kv_ok_delete kv_get_set kv_get_delete)

lemma kv_ok_map: "kv_ok (map (\<lambda>(k, v). (k, f v)) s) = kv_ok s"
  by (simp add: kv_ok_def case_prod_unfold comp_def)

lemma kv_get_map: "kv_get (map (\<lambda>(k, v). (k, f v)) s) k = map_option f (kv_get s k)"
  by (induction s) (auto simp: kv_get_def)

text \<open>Replacing the value of a key that is there keeps the rest of the list in place.\<close>

lemma kv_set_middle:
  "kv_ok (xs @ (k, v) # ys) \<Longrightarrow> kv_set (xs @ (k, v) # ys) k v' = xs @ (k, v') # ys"
  by (induction xs) (auto simp: kv_ok_Cons)

text \<open>Writing the entries of a store, in order, into an empty one gives the store back.\<close>

lemma kv_set_last: "\<forall>p \<in> set xs. fst p < k \<Longrightarrow> kv_set xs k v = xs @ [(k, v)]"
  by (induction xs) (auto simp: less_imp_not_less)

lemma kv_import: "kv_ok (xs @ ys) \<Longrightarrow> fold (\<lambda>(k, v) s. kv_set s k v) ys xs = xs @ ys"
proof (induction ys arbitrary: xs)
  case (Cons y ys)
  obtain k v where y: "y = (k, v)" by (cases y)
  have "kv_set xs k v = xs @ [(k, v)]"
    using Cons.prems y by (intro kv_set_last) (auto simp: kv_ok_def sorted_wrt_append)
  then show ?case using Cons.IH [of "xs @ [(k, v)]"] Cons.prems y by simp
qed simp

end
