(* ===== verification/Epochs.thy ===== *)
theory Epochs
  imports KVStore
begin

text \<open>
  The \<^verbatim>\<open>x/epochs\<close> module: epoch infos and their store, genesis, the begin blocker that starts
  and ends epochs, and the hooks it calls. Times and durations are nanoseconds; the epoch
  counter and the heights are 64-bit integers. The hooks of the other modules act on a state
  \<open>'h\<close> of their own and are arguments.
\<close>

section \<open>Epoch infos\<close>

record EpochInfo =
  Identifier :: string
  eStartTime :: int
  Duration :: int
  CurrentEpoch :: int
  CurrentEpochStartTime :: int
  EpochCountingStarted :: bool
  CurrentEpochStartHeight :: int

definition StartInitialEpoch :: "EpochInfo \<Rightarrow> EpochInfo" where
  "StartInitialEpoch ei = ei\<lparr>EpochCountingStarted := True, CurrentEpoch := 1, CurrentEpochStartTime := eStartTime ei\<rparr>"

definition EndEpoch :: "EpochInfo \<Rightarrow> EpochInfo" where
  "EndEpoch ei = ei\<lparr>CurrentEpoch := i64 (CurrentEpoch ei + 1),
     CurrentEpochStartTime := CurrentEpochStartTime ei + Duration ei\<rparr>"

definition EpochInfo_Validate :: "EpochInfo \<Rightarrow> unit result" where
  "EpochInfo_Validate ei =
     (if list_all isSpace (Identifier ei) then Inl (ErrText ''epoch identifier cannot be blank'')
      else if Duration ei = 0 then Inl (ErrText ''epoch duration cannot be 0'')
      else if CurrentEpoch ei < 0 then Inl (ErrText ''current epoch cannot be negative'')
      else if CurrentEpochStartHeight ei < 0 then Inl (ErrText ''current epoch start height cannot be negative'')
      else Inr ())"

definition WeekEpochID :: string where "WeekEpochID = ''week''"

definition DayEpochID :: string where "DayEpochID = ''day''"

definition ValidateEpochIdentifierString :: "string \<Rightarrow> unit result" where
  "ValidateEpochIdentifierString s =
     (if list_all isSpace s then Inl (ErrText ''blank epoch identifier'') else Inr ())"

text \<open>The zero \<^verbatim>\<open>time.Time\<close>, the first of January of the year 1.\<close>

definition zeroTime :: int where
  "zeroTime = - 62135596800 * 10 ^ 9"

definition DefaultGenesisState :: "EpochInfo list" where
  "DefaultGenesisState =
     [\<lparr>Identifier = WeekEpochID, eStartTime = zeroTime, Duration = 3600 * 10 ^ 9 * 24 * 7, CurrentEpoch = 0,
       CurrentEpochStartTime = zeroTime, EpochCountingStarted = False, CurrentEpochStartHeight = 0\<rparr>,
      \<lparr>Identifier = DayEpochID, eStartTime = zeroTime, Duration = 3600 * 10 ^ 9 * 24, CurrentEpoch = 0,
       CurrentEpochStartTime = zeroTime, EpochCountingStarted = False, CurrentEpochStartHeight = 0\<rparr>]"

fun validate_epochs :: "string set \<Rightarrow> EpochInfo list \<Rightarrow> unit result" where
  "validate_epochs seen [] = Inr ()"
| "validate_epochs seen (e # es) =
     (if Identifier e \<in> seen then Inl (ErrText ''duplicated epoch entry'')
      else rbind (EpochInfo_Validate e) (\<lambda>_. validate_epochs (insert (Identifier e) seen) es))"

definition GenesisState_Validate :: "EpochInfo list \<Rightarrow> unit result" where
  "GenesisState_Validate gs = validate_epochs {} gs"

section \<open>The keeper\<close>

datatype epoch_event = EpochEndEvent int | EpochStartEvent int int

record 'h EpochCtx =
  epochStore :: "(string \<times> EpochInfo) list"
  hookState :: 'h
  epBlockTime :: int
  epBlockHeight :: int
  epEvents :: "epoch_event list"

record 'h EpochHooks =
  hkAfterEpochEnd :: "'h \<Rightarrow> string \<Rightarrow> int \<Rightarrow> 'h result"
  hkBeforeEpochStart :: "'h \<Rightarrow> string \<Rightarrow> int \<Rightarrow> 'h result"

definition GetEpochInfo :: "'h EpochCtx \<Rightarrow> string \<Rightarrow> EpochInfo option" where
  "GetEpochInfo cx identifier = kv_get (epochStore cx) identifier"

definition SetEpochInfo :: "'h EpochCtx \<Rightarrow> EpochInfo \<Rightarrow> 'h EpochCtx" where
  "SetEpochInfo cx epoch = cx\<lparr>epochStore := kv_set (epochStore cx) (Identifier epoch) epoch\<rparr>"

definition DeleteEpochInfo :: "'h EpochCtx \<Rightarrow> string \<Rightarrow> 'h EpochCtx" where
  "DeleteEpochInfo cx identifier = cx\<lparr>epochStore := kv_delete (epochStore cx) identifier\<rparr>"

text \<open>
  The iteration runs over the entries the store has when it starts, in the order of their
  keys; the callback gets the index and tells whether to stop.
\<close>

fun iterate_epochs ::
  "(int \<Rightarrow> EpochInfo \<Rightarrow> 'c \<Rightarrow> ('c \<times> bool) result) \<Rightarrow> int \<Rightarrow> EpochInfo list \<Rightarrow> 'c \<Rightarrow> 'c result" where
  "iterate_epochs fn i [] c = Inr c"
| "iterate_epochs fn i (e # es) c =
     rbind (fn i e c) (\<lambda>(c', stop). if stop then Inr c' else iterate_epochs fn (i64 (i + 1)) es c')"

definition IterateEpochInfo ::
  "'h EpochCtx \<Rightarrow> (int \<Rightarrow> EpochInfo \<Rightarrow> 'c \<Rightarrow> ('c \<times> bool) result) \<Rightarrow> 'c \<Rightarrow> 'c result" where
  "IterateEpochInfo cx fn c = iterate_epochs fn 0 (map snd (epochStore cx)) c"

definition AllEpochInfos :: "'h EpochCtx \<Rightarrow> EpochInfo list result" where
  "AllEpochInfos cx = IterateEpochInfo cx (\<lambda>_ epochInfo epochs. Inr (epochs @ [epochInfo], False)) []"

fun multi_AfterEpochEnd :: "'h EpochHooks list \<Rightarrow> 'h \<Rightarrow> string \<Rightarrow> int \<Rightarrow> 'h result" where
  "multi_AfterEpochEnd [] h identifier n = Inr h"
| "multi_AfterEpochEnd (k # ks) h identifier n =
     rbind (hkAfterEpochEnd k h identifier n) (\<lambda>h. multi_AfterEpochEnd ks h identifier n)"

fun multi_BeforeEpochStart :: "'h EpochHooks list \<Rightarrow> 'h \<Rightarrow> string \<Rightarrow> int \<Rightarrow> 'h result" where
  "multi_BeforeEpochStart [] h identifier n = Inr h"
| "multi_BeforeEpochStart (k # ks) h identifier n =
     rbind (hkBeforeEpochStart k h identifier n) (\<lambda>h. multi_BeforeEpochStart ks h identifier n)"

definition ep_AfterEpochEnd :: "'h EpochHooks list \<Rightarrow> 'h EpochCtx \<Rightarrow> string \<Rightarrow> int \<Rightarrow> 'h EpochCtx result" where
  "ep_AfterEpochEnd hooks cx identifier n =
     rbind (multi_AfterEpochEnd hooks (hookState cx) identifier n) (\<lambda>h. Inr (cx\<lparr>hookState := h\<rparr>))"

definition ep_BeforeEpochStart :: "'h EpochHooks list \<Rightarrow> 'h EpochCtx \<Rightarrow> string \<Rightarrow> int \<Rightarrow> 'h EpochCtx result" where
  "ep_BeforeEpochStart hooks cx identifier n =
     rbind (multi_BeforeEpochStart hooks (hookState cx) identifier n) (\<lambda>h. Inr (cx\<lparr>hookState := h\<rparr>))"

definition ep_emit :: "'h EpochCtx \<Rightarrow> epoch_event \<Rightarrow> 'h EpochCtx" where
  "ep_emit cx ev = cx\<lparr>epEvents := epEvents cx @ [ev]\<rparr>"

text \<open>The callback of the begin blocker.\<close>

definition begin_epoch ::
  "'h EpochHooks list \<Rightarrow> int \<Rightarrow> EpochInfo \<Rightarrow> 'h EpochCtx \<Rightarrow> ('h EpochCtx \<times> bool) result" where
  "begin_epoch hooks i epochInfo cx =
     (let t = epBlockTime cx;
          shouldInitialEpochStart = (\<not> EpochCountingStarted epochInfo \<and> \<not> eStartTime epochInfo > t);
          epochEndTime = CurrentEpochStartTime epochInfo + Duration epochInfo;
          shouldEpochEnd = (t > epochEndTime \<and> \<not> shouldInitialEpochStart \<and> \<not> eStartTime epochInfo > t);
          epochInfo = epochInfo\<lparr>CurrentEpochStartHeight := epBlockHeight cx\<rparr>;
          finish = (\<lambda>epochInfo cx.
            rbind (ep_BeforeEpochStart hooks
                (ep_emit (SetEpochInfo cx epochInfo)
                  (EpochStartEvent (CurrentEpoch epochInfo) (CurrentEpochStartTime epochInfo div 10 ^ 9)))
                (Identifier epochInfo) (CurrentEpoch epochInfo))
              (\<lambda>cx. Inr (cx, False)))
      in if shouldInitialEpochStart then finish (StartInitialEpoch epochInfo) cx
         else if shouldEpochEnd then
           let epochInfo = EndEpoch epochInfo
           in rbind (ep_AfterEpochEnd hooks (ep_emit cx (EpochEndEvent (CurrentEpoch epochInfo)))
                (Identifier epochInfo) (CurrentEpoch epochInfo)) (finish epochInfo)
         else Inr (cx, False))"

definition ep_BeginBlocker :: "'h EpochHooks list \<Rightarrow> 'h EpochCtx \<Rightarrow> 'h EpochCtx result" where
  "ep_BeginBlocker hooks cx = IterateEpochInfo cx (begin_epoch hooks) cx"

section \<open>Genesis and queries\<close>

definition ep_InitGenesis :: "'h EpochCtx \<Rightarrow> EpochInfo list \<Rightarrow> 'h EpochCtx" where
  "ep_InitGenesis cx gs =
     fold (\<lambda>epoch cx.
       let epoch = (if eStartTime epoch = zeroTime then epoch\<lparr>eStartTime := epBlockTime cx\<rparr> else epoch);
           epoch = epoch\<lparr>CurrentEpochStartHeight := epBlockHeight cx\<rparr>
       in SetEpochInfo cx epoch) gs cx"

definition ep_ExportGenesis :: "'h EpochCtx \<Rightarrow> EpochInfo list result" where
  "ep_ExportGenesis cx = AllEpochInfos cx"

definition qCurrentEpoch :: "'h EpochCtx \<Rightarrow> string option \<Rightarrow> int result" where
  "qCurrentEpoch cx req =
     (case req of None \<Rightarrow> Inl (ErrText ''empty request'')
      | Some identifier \<Rightarrow>
          (case GetEpochInfo cx identifier of None \<Rightarrow> Inl (ErrText ''epoch info not found'')
           | Some info \<Rightarrow> Inr (CurrentEpoch info)))"

section \<open>What a block does to the epochs\<close>

text \<open>
  The specification of a block: how one epoch info changes, the calls of the hooks it causes,
  in order (\<open>True\<close> for the end of an epoch), and its events.
\<close>

definition epoch_tick :: "int \<Rightarrow> int \<Rightarrow> EpochInfo \<Rightarrow> EpochInfo" where
  "epoch_tick t height e =
     (if t < eStartTime e then e
      else if \<not> EpochCountingStarted e then (StartInitialEpoch e)\<lparr>CurrentEpochStartHeight := height\<rparr>
      else if CurrentEpochStartTime e + Duration e < t then (EndEpoch e)\<lparr>CurrentEpochStartHeight := height\<rparr>
      else e)"

definition epoch_calls :: "int \<Rightarrow> EpochInfo \<Rightarrow> (bool \<times> string \<times> int) list" where
  "epoch_calls t e =
     (if t < eStartTime e then []
      else if \<not> EpochCountingStarted e then [(False, Identifier e, 1)]
      else if CurrentEpochStartTime e + Duration e < t
      then [(True, Identifier e, i64 (CurrentEpoch e + 1)), (False, Identifier e, i64 (CurrentEpoch e + 1))]
      else [])"

definition epoch_events :: "int \<Rightarrow> EpochInfo \<Rightarrow> epoch_event list" where
  "epoch_events t e =
     (let e' = epoch_tick t 0 e
      in (if \<exists>c \<in> set (epoch_calls t e). fst c then [EpochEndEvent (CurrentEpoch e')] else [])
         @ (if epoch_calls t e = [] then [] else [EpochStartEvent (CurrentEpoch e') (CurrentEpochStartTime e' div 10 ^ 9)]))"

fun run_calls :: "'h EpochHooks list \<Rightarrow> (bool \<times> string \<times> int) list \<Rightarrow> 'h \<Rightarrow> 'h result" where
  "run_calls hooks [] h = Inr h"
| "run_calls hooks ((ending, identifier, n) # cs) h =
     rbind (if ending then multi_AfterEpochEnd hooks h identifier n else multi_BeforeEpochStart hooks h identifier n)
       (run_calls hooks cs)"

text \<open>A store whose keys are the identifiers of its entries.\<close>

definition epochs_ok :: "(string \<times> EpochInfo) list \<Rightarrow> bool" where
  "epochs_ok s \<longleftrightarrow> kv_ok s \<and> (\<forall>(k, e) \<in> set s. k = Identifier e)"

lemma run_calls_append: "run_calls hooks (cs @ ds) h = rbind (run_calls hooks cs h) (run_calls hooks ds)"
  by (induction hooks cs h rule: run_calls.induct) (auto simp: rbind_def split: sum.split)

lemma Identifier_tick [simp]: "Identifier (epoch_tick t height e) = Identifier e"
  by (simp add: epoch_tick_def StartInitialEpoch_def EndEpoch_def)

lemma epochs_ok_tick: "epochs_ok (map (\<lambda>(k, e). (k, epoch_tick t height e)) s) = epochs_ok s"
  unfolding epochs_ok_def kv_ok_map by auto

lemma begin_epoch_spec:
  assumes "epochStore cx = xs @ (Identifier e, e) # ys" "kv_ok (epochStore cx)"
  shows "begin_epoch hooks i e cx =
    rbind (run_calls hooks (epoch_calls (epBlockTime cx) e) (hookState cx)) (\<lambda>h.
      Inr (cx\<lparr>epochStore := xs @ (Identifier e, epoch_tick (epBlockTime cx) (epBlockHeight cx) e) # ys,
              hookState := h, epEvents := epEvents cx @ epoch_events (epBlockTime cx) e\<rparr>, False))"
proof -
  have set: "kv_set (xs @ (Identifier e, e) # ys) (Identifier e) v = xs @ (Identifier e, v) # ys" for v
    using assms by (intro kv_set_middle) simp
  consider (before) "epBlockTime cx < eStartTime e"
    | (start) "\<not> epBlockTime cx < eStartTime e" "\<not> EpochCountingStarted e"
    | (finish) "\<not> epBlockTime cx < eStartTime e" "EpochCountingStarted e"
        "CurrentEpochStartTime e + Duration e < epBlockTime cx"
    | (none) "\<not> epBlockTime cx < eStartTime e" "EpochCountingStarted e"
        "\<not> CurrentEpochStartTime e + Duration e < epBlockTime cx"
    by blast
  then show ?thesis
  proof cases
    case start
    then show ?thesis
      using assms(1) set
      by (cases cx; cases e) (simp add: begin_epoch_def epoch_calls_def epoch_tick_def epoch_events_def Let_def
          StartInitialEpoch_def ep_BeforeEpochStart_def SetEpochInfo_def ep_emit_def rbind_assoc)
  next
    case finish
    then show ?thesis
      using assms(1) set
      by (cases cx; cases e) (simp add: begin_epoch_def epoch_calls_def epoch_tick_def epoch_events_def Let_def
          EndEpoch_def ep_BeforeEpochStart_def ep_AfterEpochEnd_def SetEpochInfo_def ep_emit_def rbind_assoc)
  qed (use assms(1) in \<open>simp_all add: begin_epoch_def epoch_calls_def epoch_tick_def epoch_events_def Let_def\<close>)
qed

lemma iterate_begin_epoch:
  assumes "epochStore cx = xs @ ys" "epochs_ok (epochStore cx)"
  shows "iterate_epochs (begin_epoch hooks) i (map snd ys) cx =
    rbind (run_calls hooks (concat (map (\<lambda>(k, e). epoch_calls (epBlockTime cx) e) ys)) (hookState cx)) (\<lambda>h.
      Inr (cx\<lparr>epochStore := xs @ map (\<lambda>(k, e). (k, epoch_tick (epBlockTime cx) (epBlockHeight cx) e)) ys,
              hookState := h,
              epEvents := epEvents cx @ concat (map (\<lambda>(k, e). epoch_events (epBlockTime cx) e) ys)\<rparr>))"
  using assms
proof (induction ys arbitrary: xs cx i)
  case (Cons y ys)
  obtain e where y: "y = (Identifier e, e)"
    using Cons.prems by (cases y) (auto simp: epochs_ok_def)
  let ?t = "epBlockTime cx" and ?h = "epBlockHeight cx"
  let ?y = "(Identifier e, epoch_tick ?t ?h e)"
  have ok: "epochs_ok (xs @ ?y # ys)"
    using Cons.prems y by (auto simp: epochs_ok_def kv_ok_def)
  show ?case
  proof (cases "run_calls hooks (epoch_calls ?t e) (hookState cx)")
    case (Inl err)
    then show ?thesis
      using begin_epoch_spec [of cx xs e ys hooks i] Cons.prems y
      by (simp add: epochs_ok_def run_calls_append)
  next
    case (Inr h)
    define cx1 where "cx1 = cx\<lparr>epochStore := xs @ ?y # ys, hookState := h,
        epEvents := epEvents cx @ epoch_events ?t e\<rparr>"
    have step: "begin_epoch hooks i e cx = Inr (cx1, False)"
      using begin_epoch_spec [of cx xs e ys hooks i] Cons.prems y Inr by (simp add: epochs_ok_def cx1_def)
    have "epochStore cx1 = (xs @ [?y]) @ ys" "epochs_ok (epochStore cx1)"
      using ok by (simp_all add: cx1_def)
    from Cons.IH [OF this, of "i64 (i + 1)"] show ?thesis
      by (simp add: y step Inr run_calls_append) (simp add: cx1_def)
  qed
qed simp

lemma BeginBlocker_eq:
  assumes "epochs_ok (epochStore cx)"
  shows "ep_BeginBlocker hooks cx =
    rbind (run_calls hooks (concat (map (\<lambda>(k, e). epoch_calls (epBlockTime cx) e) (epochStore cx))) (hookState cx)) (\<lambda>h.
      Inr (cx\<lparr>epochStore := map (\<lambda>(k, e). (k, epoch_tick (epBlockTime cx) (epBlockHeight cx) e)) (epochStore cx),
              hookState := h,
              epEvents := epEvents cx @ concat (map (\<lambda>(k, e). epoch_events (epBlockTime cx) e) (epochStore cx))\<rparr>))"
  using iterate_begin_epoch [of cx "[]" "epochStore cx" hooks 0] assms
  by (simp add: ep_BeginBlocker_def IterateEpochInfo_def)

text \<open>
  C13. A block treats every epoch info exactly as the specification of a single epoch says: in
  the order of the identifiers it starts an epoch whose time has come, ends one that is
  over and starts the next, and leaves the others; for each it calls the end hooks, then
  the start hooks of all modules, with the number of the epoch that begins; it fails
  exactly when a hook does; and nothing else in the store changes.
\<close>

theorem BeginBlocker_refines:
  assumes "epochs_ok (epochStore cx)"
  shows "ep_BeginBlocker hooks cx =
    rbind (run_calls hooks (concat (map (\<lambda>(k, e). epoch_calls (epBlockTime cx) e) (epochStore cx))) (hookState cx)) (\<lambda>h.
      Inr (cx\<lparr>epochStore := map (\<lambda>(k, e). (k, epoch_tick (epBlockTime cx) (epBlockHeight cx) e)) (epochStore cx),
              hookState := h,
              epEvents := epEvents cx @ concat (map (\<lambda>(k, e). epoch_events (epBlockTime cx) e) (epochStore cx))\<rparr>))"
  by (rule BeginBlocker_eq [OF assms])

definition ex_epoch :: "bool \<Rightarrow> int \<Rightarrow> EpochInfo" where
  "ex_epoch started n = \<lparr>Identifier = ''day'', eStartTime = 100, Duration = 10, CurrentEpoch = n,
     CurrentEpochStartTime = 100 + (n - 1) * 10, EpochCountingStarted = started, CurrentEpochStartHeight = 0\<rparr>"

text \<open>Hooks that record the calls.\<close>

definition ex_hooks :: "(bool \<times> string \<times> int) list EpochHooks" where
  "ex_hooks = \<lparr>hkAfterEpochEnd = (\<lambda>h s n. Inr (h @ [(True, s, n)])), hkBeforeEpochStart = (\<lambda>h s n. Inr (h @ [(False, s, n)]))\<rparr>"

definition ex_epoch_cx :: "(bool \<times> string \<times> int) list EpochCtx" where
  "ex_epoch_cx = \<lparr>epochStore = [(''day'', ex_epoch True 3)], hookState = [], epBlockTime = 131, epBlockHeight = 9, epEvents = []\<rparr>"

theorem BeginBlocker_refines_witness:
  "\<exists>cx'. ep_BeginBlocker [ex_hooks] ex_epoch_cx = Inr cx' \<and> hookState cx' = [(True, ''day'', 4), (False, ''day'', 4)]"
proof -
  have "epochs_ok (epochStore ex_epoch_cx)"
    by (simp add: epochs_ok_def ex_epoch_cx_def ex_epoch_def kv_ok_def)
  from BeginBlocker_refines [OF this, of "[ex_hooks]"] show ?thesis
    by (simp add: ex_epoch_cx_def epoch_calls_def ex_epoch_def ex_hooks_def i64_id in_i64_def)
qed

section \<open>Epochs over many blocks\<close>

fun epoch_run :: "(int \<times> int) list \<Rightarrow> EpochInfo \<Rightarrow> EpochInfo" where
  "epoch_run [] e = e"
| "epoch_run ((t, height) # bs) e = epoch_run bs (epoch_tick t height e)"

text \<open>A counting epoch starts at the start time plus one duration per earlier epoch.\<close>

definition epoch_inv :: "EpochInfo \<Rightarrow> bool" where
  "epoch_inv e \<longleftrightarrow> (EpochCountingStarted e \<longrightarrow>
     1 \<le> CurrentEpoch e \<and> CurrentEpochStartTime e = eStartTime e + (CurrentEpoch e - 1) * Duration e)"

lemma epoch_tick_inv:
  assumes "epoch_inv e" "CurrentEpoch e + 1 < 2 ^ 63"
  shows "epoch_inv (epoch_tick t height e)"
    "EpochCountingStarted e \<Longrightarrow> CurrentEpoch (epoch_tick t height e) \<in> {CurrentEpoch e, CurrentEpoch e + 1}"
    "eStartTime (epoch_tick t height e) = eStartTime e" "Duration (epoch_tick t height e) = Duration e"
    "EpochCountingStarted (epoch_tick t height e) \<longleftrightarrow> EpochCountingStarted e \<or> eStartTime e \<le> t"
  using assms
  by (auto simp: epoch_tick_def epoch_inv_def StartInitialEpoch_def EndEpoch_def i64_id in_i64_def algebra_simps)

lemma epoch_run_started:
  assumes "epoch_inv e" "EpochCountingStarted e" "CurrentEpoch e + int (length bs) < 2 ^ 63"
  shows "epoch_inv (epoch_run bs e) \<and> EpochCountingStarted (epoch_run bs e)
    \<and> eStartTime (epoch_run bs e) = eStartTime e \<and> Duration (epoch_run bs e) = Duration e
    \<and> CurrentEpoch e \<le> CurrentEpoch (epoch_run bs e)
    \<and> CurrentEpoch (epoch_run bs e) \<le> CurrentEpoch e + int (length bs)"
  using assms
proof (induction bs arbitrary: e)
  case (Cons b bs)
  obtain t height where b: "b = (t, height)" by (cases b)
  have lt: "CurrentEpoch e + 1 < 2 ^ 63" using Cons.prems(3) by simp
  note k = epoch_tick_inv [OF Cons.prems(1) lt, of t height]
  have "CurrentEpoch (epoch_tick t height e) + int (length bs) < 2 ^ 63"
    using k(2) Cons.prems(2,3) by auto
  from Cons.IH [OF k(1) _ this] k Cons.prems(2) show ?case by (auto simp: b)
qed simp

lemma epoch_run_waiting: "\<forall>(t, height) \<in> set bs. t < eStartTime e \<Longrightarrow> epoch_run bs e = e"
  by (induction bs e rule: epoch_run.induct) (auto simp: epoch_tick_def)

text \<open>
  Epochs are numbered and timed without drift: whatever the block times, as long as the
  counter fits 64 bits, an epoch of a fresh entry that has begun counting starts at the
  start time plus its number minus one times the duration, however late the blocks came;
  it counts at most one epoch per block, and has begun exactly when some block reached
  the start time.
\<close>

theorem epoch_numbering:
  assumes "\<not> EpochCountingStarted e" "int (length bs) < 2 ^ 63"
  shows "(EpochCountingStarted (epoch_run bs e) \<longleftrightarrow> (\<exists>(t, height) \<in> set bs. eStartTime e \<le> t))
    \<and> (EpochCountingStarted (epoch_run bs e) \<longrightarrow>
         CurrentEpochStartTime (epoch_run bs e) = eStartTime e + (CurrentEpoch (epoch_run bs e) - 1) * Duration e
         \<and> 1 \<le> CurrentEpoch (epoch_run bs e) \<and> CurrentEpoch (epoch_run bs e) \<le> int (length bs))"
  using assms
proof (induction bs)
  case (Cons b bs)
  obtain t height where b: "b = (t, height)" by (cases b)
  show ?case
  proof (cases "t < eStartTime e")
    case True
    then have "epoch_tick t height e = e" by (simp add: epoch_tick_def)
    with Cons True b show ?thesis by auto
  next
    case False
    let ?e = "epoch_tick t height e"
    have e: "?e = (StartInitialEpoch e)\<lparr>CurrentEpochStartHeight := height\<rparr>"
      using False Cons.prems(1) by (simp add: epoch_tick_def)
    then have "epoch_inv ?e" "EpochCountingStarted ?e" "CurrentEpoch ?e = 1" "eStartTime ?e = eStartTime e" "Duration ?e = Duration e"
      by (simp_all add: epoch_inv_def StartInitialEpoch_def)
    with epoch_run_started [of ?e bs] Cons.prems(2) False show ?thesis
      by (auto simp: b epoch_inv_def)
  qed
qed simp

theorem epoch_numbering_witness:
  "EpochCountingStarted (epoch_run [(50, 1), (100, 2), (500, 3), (501, 4)] (ex_epoch False 0))
   \<and> CurrentEpoch (epoch_run [(50, 1), (100, 2), (500, 3), (501, 4)] (ex_epoch False 0)) \<le> 4"
proof -
  have "\<not> EpochCountingStarted (ex_epoch False 0)" "int (length [(50 :: int, 1 :: int), (100, 2), (500, 3), (501, 4)]) < 2 ^ 63"
    by (simp_all add: ex_epoch_def)
  from epoch_numbering [OF this] show ?thesis by (simp add: ex_epoch_def)
qed

lemma epoch_tick_ends:
  assumes "EpochCountingStarted e" "eStartTime e \<le> t" "CurrentEpochStartTime e + Duration e < t" "CurrentEpoch e + 1 < 2 ^ 63" "1 \<le> CurrentEpoch e"
  shows "CurrentEpochStartTime (epoch_tick t height e) = CurrentEpochStartTime e + Duration e"
    "CurrentEpoch (epoch_tick t height e) = CurrentEpoch e + 1"
  using assms by (simp_all add: epoch_tick_def EndEpoch_def i64_id in_i64_def)



section \<open>Genesis\<close>

definition init_epoch :: "'h EpochCtx \<Rightarrow> EpochInfo \<Rightarrow> EpochInfo" where
  "init_epoch cx e = (if eStartTime e = zeroTime then e\<lparr>eStartTime := epBlockTime cx\<rparr> else e)
     \<lparr>CurrentEpochStartHeight := epBlockHeight cx\<rparr>"

lemma InitGenesis_store:
  "ep_InitGenesis cx gs = cx\<lparr>epochStore := fold (\<lambda>e s. kv_set s (Identifier e) (init_epoch cx e)) gs (epochStore cx)\<rparr>"
proof (induction gs arbitrary: cx)
  case (Cons e gs)
  have "init_epoch (SetEpochInfo cx (init_epoch cx e)) = init_epoch cx"
    "Identifier (init_epoch cx e) = Identifier e"
    by (simp_all add: fun_eq_iff init_epoch_def SetEpochInfo_def)
  then show ?case
    using Cons.IH [of "SetEpochInfo cx (init_epoch cx e)"]
    by (simp add: ep_InitGenesis_def init_epoch_def [symmetric] Let_def SetEpochInfo_def)
qed (simp add: ep_InitGenesis_def)

lemma AllEpochInfos_all: "AllEpochInfos cx = Inr (map snd (epochStore cx))"
proof -
  have "iterate_epochs (\<lambda>_ e es. Inr (es @ [e], False)) i xs acc = Inr (acc @ xs)" for i acc and xs :: "EpochInfo list"
    by (induction xs arbitrary: i acc) simp_all
  then show ?thesis by (simp add: AllEpochInfos_def IterateEpochInfo_def)
qed

lemma validate_epochs_iff:
  "validate_epochs seen es = Inr () \<longleftrightarrow>
     (\<forall>e \<in> set es. EpochInfo_Validate e = Inr () \<and> Identifier e \<notin> seen) \<and> distinct (map Identifier es)"
  by (induction seen es rule: validate_epochs.induct) (auto simp: rbind_Inr_iff image_iff)

lemma epochs_ok_put_all:
  assumes "epochs_ok s" "\<And>e. Identifier (g e) = Identifier e"
  shows "epochs_ok (fold (\<lambda>e s. kv_set s (Identifier e) (g e)) es s)"
proof -
  have "epochs_ok (kv_set s (Identifier e) (g e))" if "epochs_ok s" for s e
  proof -
    have ok: "kv_ok s" using that by (simp add: epochs_ok_def)
    have "k = Identifier v" if m: "(k, v) \<in> set (kv_set s (Identifier e) (g e))" for k v
    proof -
      have "kv_get (kv_set s (Identifier e) (g e)) k = Some v"
        using m kv_get_mem [OF kv_ok_set [OF ok]] by blast
      then show ?thesis
        using ok \<open>epochs_ok s\<close> assms(2)
        by (auto simp: kv_get_set kv_get_mem epochs_ok_def split: if_splits)
    qed
    then show ?thesis using kv_ok_set [OF ok] by (auto simp: epochs_ok_def)
  qed
  with assms(1) show ?thesis by (induction es arbitrary: s) auto
qed

text \<open>
  Genesis round trip: importing a valid genesis state into an empty store keeps every
  entry under its identifier, with the block's time for an unset start time and the
  block's height; the export lists the entries in the order of their identifiers; and
  importing the export again gives the same state.
\<close>

theorem epochs_genesis_roundtrip:
  assumes "GenesisState_Validate gs = Inr ()" "epochStore cx = []" "epBlockTime cx \<noteq> zeroTime"
  shows "\<exists>es. ep_ExportGenesis (ep_InitGenesis cx gs) = Inr es
      \<and> ep_InitGenesis cx es = ep_InitGenesis cx gs
      \<and> set es = init_epoch cx ` set gs \<and> sorted_wrt (<) (map Identifier es)
      \<and> epochs_ok (epochStore (ep_InitGenesis cx gs))"
proof -
  define s where "s = fold (\<lambda>e s. kv_set s (Identifier e) (init_epoch cx e)) gs []"
  define cx1 where "cx1 = ep_InitGenesis cx gs"
  have cx1: "cx1 = cx\<lparr>epochStore := s\<rparr>" using assms(2) by (simp add: cx1_def InitGenesis_store s_def)
  have id: "Identifier (init_epoch cx e) = Identifier e" for e by (simp add: init_epoch_def)
  have ok: "epochs_ok s" unfolding s_def by (rule epochs_ok_put_all) (simp_all add: epochs_ok_def id)
  have dist: "distinct (map Identifier gs)"
    using assms(1) by (simp add: GenesisState_Validate_def validate_epochs_iff)
  have get: "kv_get s k = map_of (map (\<lambda>e. (Identifier e, init_epoch cx e)) gs) k" for k
  proof -
    have "map_of (rev (map (\<lambda>e. (Identifier e, init_epoch cx e)) gs)) = map_of (map (\<lambda>e. (Identifier e, init_epoch cx e)) gs)"
      using dist by (subst map_of_inject_set) (simp_all add: comp_def flip: rev_map)
    then show ?thesis
      unfolding s_def by (subst kv.get_put_all) (simp_all add: kv_get_def split: option.split)
  qed
  have mem: "(k, v) \<in> set s \<longleftrightarrow> (\<exists>e \<in> set gs. k = Identifier e \<and> v = init_epoch cx e)" for k v
    using get [of k] kv_get_mem [of s k v] ok dist by (auto simp: epochs_ok_def comp_def)
  have fixed: "init_epoch cx v = v" if "(k, v) \<in> set s" for k v
    using that mem assms(3) by (auto simp: init_epoch_def)
  have "fold (\<lambda>e s. kv_set s (Identifier e) (init_epoch cx e)) (map snd xs) acc = fold (\<lambda>(k, v) s. kv_set s k v) xs acc"
    if "set xs \<subseteq> set s" for xs acc
    using that ok fixed by (induction xs arbitrary: acc) (auto simp: epochs_ok_def)
  then have re: "fold (\<lambda>e s. kv_set s (Identifier e) (init_epoch cx e)) (map snd s) [] = s"
    using kv_import [of "[]" s] ok by (simp add: epochs_ok_def)
  have "snd ` set s = init_epoch cx ` set gs" using mem by force
  moreover have "map Identifier (map snd s) = map fst s" using ok by (auto simp: epochs_ok_def)
  then have "sorted_wrt (<) (map Identifier (map snd s))" using ok by (simp only: epochs_ok_def kv_ok_def)
  ultimately show ?thesis
    using ok re assms(2)
    by (intro exI [of _ "map snd s"])
       (simp add: ep_ExportGenesis_def AllEpochInfos_all InitGenesis_store s_def [symmetric] epochs_ok_def kv_ok_def)
qed

definition ex_genesis_cx :: "unit EpochCtx" where
  "ex_genesis_cx = \<lparr>epochStore = [], hookState = (), epBlockTime = 5, epBlockHeight = 1, epEvents = []\<rparr>"

theorem epochs_genesis_roundtrip_witness:
  "\<exists>es. ep_ExportGenesis (ep_InitGenesis ex_genesis_cx DefaultGenesisState) = Inr es
     \<and> ep_InitGenesis ex_genesis_cx es = ep_InitGenesis ex_genesis_cx DefaultGenesisState"
proof -
  have "GenesisState_Validate DefaultGenesisState = Inr ()" "epochStore ex_genesis_cx = []"
    "epBlockTime ex_genesis_cx \<noteq> zeroTime"
    by (simp_all add: GenesisState_Validate_def DefaultGenesisState_def EpochInfo_Validate_def isSpace_def
        WeekEpochID_def DayEpochID_def ex_genesis_cx_def zeroTime_def)
  from epochs_genesis_roundtrip [OF this] show ?thesis by blast
qed

end
