(* ===== verification/Dec.thy ===== *)
theory Dec
  imports Prelude
begin

text \<open>
  Decimals. A \<^verbatim>\<open>math.LegacyDec\<close> is the integer of its 18-digit fixed-point representation.
  Adding, subtracting and comparing are those of the integers. Multiplication, division,
  powers and truncation round, and panic on overflow or a zero divisor: they are fields of
  \<open>dec_ops\<close>, and \<open>dec_laws\<close> is what their documentation promises.
\<close>

section \<open>Operations and laws\<close>

definition dec_one :: int where
  "dec_one = 10 ^ 18"

definition LegacyNewDec :: "int \<Rightarrow> int" where
  "LegacyNewDec i = i * dec_one"

definition LegacyNewDecWithPrec :: "int \<Rightarrow> nat \<Rightarrow> int" where
  "LegacyNewDecWithPrec i prec = i * 10 ^ (18 - prec)"

record dec_ops =
  decMul :: "int \<Rightarrow> int \<Rightarrow> int result"
  decQuo :: "int \<Rightarrow> int \<Rightarrow> int result"
  decQuoInt :: "int \<Rightarrow> int \<Rightarrow> int result"
  decPower :: "int \<Rightarrow> nat \<Rightarrow> int result"
  decTruncateInt :: "int \<Rightarrow> int"

text \<open>
  A product is rounded to the nearest decimal and does not overflow below \<open>2^315\<close> units; a
  quotient is off by at most one unit, keeps the sign and is at most one for a smaller dividend; division by zero panics; a power of a
  decimal between zero and one stays there; truncation drops the fraction.
\<close>

definition dec_laws :: "dec_ops \<Rightarrow> bool" where
  "dec_laws d \<longleftrightarrow>
     (\<forall>a b r. decMul d a b = Inr r \<longrightarrow> 2 * \<bar>r * dec_one - a * b\<bar> \<le> dec_one)
   \<and> (\<forall>a b. \<bar>a * b\<bar> < 2 ^ 315 \<longrightarrow> (\<exists>r. decMul d a b = Inr r))
   \<and> (\<forall>a b r. decQuo d a b = Inr r \<longrightarrow> \<bar>r * b - a * dec_one\<bar> \<le> \<bar>b\<bar> \<and> (0 \<le> a \<longrightarrow> 0 < b \<longrightarrow> 0 \<le> r)
        \<and> (0 \<le> a \<longrightarrow> a \<le> b \<longrightarrow> 0 < b \<longrightarrow> r \<le> dec_one))
   \<and> (\<forall>a. \<exists>m. decQuo d a 0 = Inl (Panic m))
   \<and> (\<forall>a b r. decQuoInt d a b = Inr r \<longrightarrow> \<bar>r * b - a\<bar> \<le> \<bar>b\<bar> \<and> (0 \<le> a \<longrightarrow> 0 < b \<longrightarrow> 0 \<le> r))
   \<and> (\<forall>x n r. 0 \<le> x \<longrightarrow> x \<le> dec_one \<longrightarrow> decPower d x n = Inr r \<longrightarrow> 0 \<le> r \<and> r \<le> dec_one)
   \<and> (\<forall>a. 0 \<le> a \<longrightarrow> decTruncateInt d a = a div dec_one)"

lemma dec_lawsD:
  assumes "dec_laws d"
  shows "decMul d a b = Inr r \<Longrightarrow> 2 * \<bar>r * dec_one - a * b\<bar> \<le> dec_one"
    and "\<bar>a * b\<bar> < 2 ^ 315 \<Longrightarrow> \<exists>r. decMul d a b = Inr r"
    and "decQuo d a b = Inr r \<Longrightarrow> \<bar>r * b - a * dec_one\<bar> \<le> \<bar>b\<bar>"
    and "decQuo d a b = Inr r \<Longrightarrow> 0 \<le> a \<Longrightarrow> 0 < b \<Longrightarrow> 0 \<le> r"
    and "\<exists>m. decQuo d a 0 = Inl (Panic m)"
    and "decQuoInt d a b = Inr r \<Longrightarrow> 0 \<le> a \<Longrightarrow> 0 < b \<Longrightarrow> 0 \<le> r"
    and "0 \<le> x \<Longrightarrow> x \<le> dec_one \<Longrightarrow> decPower d x n = Inr r \<Longrightarrow> 0 \<le> r \<and> r \<le> dec_one"
    and "0 \<le> a \<Longrightarrow> decTruncateInt d a = a div dec_one"
    and "decQuo d a b = Inr r \<Longrightarrow> 0 \<le> a \<Longrightarrow> a \<le> b \<Longrightarrow> 0 < b \<Longrightarrow> r \<le> dec_one"
proof -
  note l = assms [unfolded dec_laws_def]
  note l2 = conjunct2 [OF l] and l3 = conjunct2 [OF conjunct2 [OF l]]
  note l4 = conjunct2 [OF l3] and l5 = conjunct2 [OF conjunct2 [OF l3]]
  note l6 = conjunct2 [OF l5] and l7 = conjunct2 [OF conjunct2 [OF l5]]
  show "decMul d a b = Inr r \<Longrightarrow> 2 * \<bar>r * dec_one - a * b\<bar> \<le> dec_one" using conjunct1 [OF l] by blast
  show "\<bar>a * b\<bar> < 2 ^ 315 \<Longrightarrow> \<exists>r. decMul d a b = Inr r" using conjunct1 [OF l2] by blast
  show "decQuo d a b = Inr r \<Longrightarrow> \<bar>r * b - a * dec_one\<bar> \<le> \<bar>b\<bar>"
    "decQuo d a b = Inr r \<Longrightarrow> 0 \<le> a \<Longrightarrow> 0 < b \<Longrightarrow> 0 \<le> r"
    "decQuo d a b = Inr r \<Longrightarrow> 0 \<le> a \<Longrightarrow> a \<le> b \<Longrightarrow> 0 < b \<Longrightarrow> r \<le> dec_one"
    using conjunct1 [OF l3] by blast+
  show "\<exists>m. decQuo d a 0 = Inl (Panic m)" using conjunct1 [OF l4] by blast
  show "decQuoInt d a b = Inr r \<Longrightarrow> 0 \<le> a \<Longrightarrow> 0 < b \<Longrightarrow> 0 \<le> r" using conjunct1 [OF l5] by blast
  show "0 \<le> x \<Longrightarrow> x \<le> dec_one \<Longrightarrow> decPower d x n = Inr r \<Longrightarrow> 0 \<le> r \<and> r \<le> dec_one" using conjunct1 [OF l6] by blast
  show "0 \<le> a \<Longrightarrow> decTruncateInt d a = a div dec_one" using l7 by blast
qed

lemma dec_one_pos [simp]: "0 < dec_one" "dec_one \<noteq> 0" "0 \<le> dec_one"
  by (simp_all add: dec_one_def)

lemma decMul_bounds:
  assumes "dec_laws d" "decMul d a b = Inr r"
  shows "2 * (r * dec_one) \<le> 2 * (a * b) + dec_one" "2 * (a * b) \<le> 2 * (r * dec_one) + dec_one"
  using dec_lawsD(1) [OF assms] abs_ge_self [of "r * dec_one - a * b"] abs_ge_minus_self [of "r * dec_one - a * b"]
  by (simp_all add: algebra_simps)

text \<open>A product of non-negative decimals is non-negative, and exact when it is a multiple of the unit.\<close>

lemma decMul_nonneg:
  assumes "dec_laws d" "decMul d a b = Inr r" "0 \<le> a" "0 \<le> b"
  shows "0 \<le> r"
proof (rule ccontr)
  assume "\<not> 0 \<le> r"
  then have "r * dec_one \<le> (- 1) * dec_one" by (intro mult_right_mono) simp_all
  moreover have "0 \<le> a * b" using assms(3,4) by simp
  ultimately show False using decMul_bounds(2) [OF assms(1,2)] dec_one_pos(1) by linarith
qed

lemma decMul_exact:
  assumes "dec_laws d" "decMul d (LegacyNewDec i) b = Inr r"
  shows "r = i * b"
proof -
  have "(2 * r) * dec_one \<le> (2 * (i * b) + 1) * dec_one" "(2 * (i * b)) * dec_one \<le> (2 * r + 1) * dec_one"
    using decMul_bounds [OF assms] by (simp_all add: LegacyNewDec_def algebra_simps)
  then have "2 * r \<le> 2 * (i * b) + 1" "2 * (i * b) \<le> 2 * r + 1"
    using dec_one_pos(1) by (simp_all only: mult_le_cancel_right_pos)
  then show ?thesis by presburger
qed

lemma decMul_le_left:
  assumes "dec_laws d" "decMul d a b = Inr r" "0 \<le> a" "b \<le> dec_one"
  shows "r \<le> a"
proof (rule ccontr)
  assume "\<not> r \<le> a"
  then have "(a + 1) * dec_one \<le> r * dec_one" by (intro mult_right_mono) simp_all
  moreover have "a * b \<le> a * dec_one" using assms(3,4) by (simp add: mult_left_mono)
  moreover have "(a + 1) * dec_one = a * dec_one + dec_one" by (simp add: distrib_right)
  ultimately have "r * dec_one - a * b \<ge> dec_one" by linarith
  with decMul_bounds(1) [OF assms(1,2)] dec_one_pos(1) show False by linarith
qed

section \<open>A concrete arithmetic\<close>

text \<open>Rounding half up, and no overflow: an instance of the laws.\<close>

fun dec_power :: "int \<Rightarrow> nat \<Rightarrow> int" where
  "dec_power x 0 = dec_one"
| "dec_power x (Suc n) = x * dec_power x n div dec_one"

definition dec_impl :: dec_ops where
  "dec_impl = \<lparr>decMul = (\<lambda>a b. Inr ((2 * a * b + dec_one) div (2 * dec_one))),
     decQuo = (\<lambda>a b. if b = 0 then Inl (Panic ''division by zero'') else Inr (a * dec_one div b)),
     decQuoInt = (\<lambda>a b. if b = 0 then Inl (Panic ''division by zero'') else Inr (a div b)),
     decPower = (\<lambda>x n. Inr (dec_power x n)), decTruncateInt = (\<lambda>a. a div dec_one)\<rparr>"

lemma dec_power_bounds: "0 \<le> x \<Longrightarrow> x \<le> dec_one \<Longrightarrow> 0 \<le> dec_power x n \<and> dec_power x n \<le> dec_one"
proof (induction n)
  case (Suc n)
  then have "0 \<le> x * dec_power x n" "x * dec_power x n \<le> dec_one * dec_one"
    by (auto intro: mult_mono)
  then show ?case
    using zdiv_mono1 [of "x * dec_power x n" "dec_one * dec_one" dec_one] by (simp add: pos_imp_zdiv_nonneg_iff)
qed simp

lemma div_error: "b \<noteq> 0 \<Longrightarrow> \<bar>c div b * b - c\<bar> \<le> \<bar>b\<bar>" for b c :: int
proof -
  assume b: "b \<noteq> 0"
  have "c div b * b - c = - (c mod b)" using div_mult_mod_eq [of c b] by linarith
  with b abs_mod_less [of b c] show ?thesis by simp
qed

lemma round_error: "0 < p \<Longrightarrow> 2 * \<bar>(2 * c + p) div (2 * p) * p - c\<bar> \<le> p" for c p :: int
proof -
  assume p: "0 < p"
  define q m where "q = (2 * c + p) div (2 * p)" and "m = (2 * c + p) mod (2 * p)"
  have "q * (2 * p) + m = 2 * c + p" unfolding q_def m_def by (rule div_mult_mod_eq)
  then have e: "2 * (q * p) + m = 2 * c + p" by (simp only: mult.left_commute)
  have m: "0 \<le> m" "m < 2 * p" using p by (simp_all add: m_def)
  have "2 * (q * p - c) \<le> p" using e m by simp
  moreover have "- p \<le> 2 * (q * p - c)" using e m by simp
  ultimately show ?thesis unfolding q_def [symmetric] by (simp add: abs_if)
qed

lemma dec_impl_simps:
  "decMul dec_impl a b = Inr ((2 * (a * b) + dec_one) div (2 * dec_one))"
  "decQuo dec_impl a b = Inr r \<longleftrightarrow> b \<noteq> 0 \<and> r = a * dec_one div b"
  "decQuo dec_impl a 0 = Inl (Panic ''division by zero'')"
  "decQuoInt dec_impl a b = Inr r \<longleftrightarrow> b \<noteq> 0 \<and> r = a div b"
  "decPower dec_impl a n = Inr (dec_power a n)"
  "decTruncateInt dec_impl a = a div dec_one"
  by (auto simp: dec_impl_def mult.assoc)

lemma dec_impl_quo_le_one: "a \<le> b \<Longrightarrow> 0 < b \<Longrightarrow> a * dec_one div b \<le> dec_one"
  using zdiv_mono1 [of "a * dec_one" "b * dec_one" b] by simp

lemma dec_impl_laws: "dec_laws dec_impl"
  unfolding dec_laws_def dec_impl_simps
proof (intro conjI allI impI)
  fix a b r :: int
  show "2 * \<bar>r * dec_one - a * b\<bar> \<le> dec_one"
    if "Inr ((2 * (a * b) + dec_one) div (2 * dec_one)) = (Inr r :: int result)"
    using round_error [of dec_one "a * b"] that by simp
  show "\<exists>r. Inr ((2 * (a * b) + dec_one) div (2 * dec_one)) = (Inr r :: int result)" by blast
  show "\<bar>r * b - a * dec_one\<bar> \<le> \<bar>b\<bar>" if "b \<noteq> 0 \<and> r = a * dec_one div b"
    using that div_error [of b "a * dec_one"] by simp
  show "0 \<le> r" if "b \<noteq> 0 \<and> r = a * dec_one div b" "0 \<le> a" "0 < b"
    using that by (simp add: pos_imp_zdiv_nonneg_iff)
  show "r \<le> dec_one" if "b \<noteq> 0 \<and> r = a * dec_one div b" "a \<le> b" "0 < b"
    using that dec_impl_quo_le_one [of a b] by simp
  show "\<bar>r * b - a\<bar> \<le> \<bar>b\<bar>" if "b \<noteq> 0 \<and> r = a div b"
    using that div_error [of b a] by simp
  show "0 \<le> r" if "b \<noteq> 0 \<and> r = a div b" "0 \<le> a" "0 < b"
    using that by (simp add: pos_imp_zdiv_nonneg_iff)
next
  fix a :: int
  show "\<exists>m. Inl (Panic ''division by zero'') = (Inl (Panic m) :: int result)" by blast
next
  fix x r :: int and n
  assume "0 \<le> x" "x \<le> dec_one" "Inr (dec_power x n) = (Inr r :: int result)"
  with dec_power_bounds [of x n] show "0 \<le> r" "r \<le> dec_one" by simp_all
qed (rule refl)

end
