(* ===== verification/Inflation.thy ===== *)
theory Inflation
  imports Epochs Dec Coins
begin

text \<open>
  The \<^verbatim>\<open>x/inflation/v1\<close> module: the provision minted per epoch
  (\<^verbatim>\<open>types/inflation_calculation.go\<close>), minting and allocation (\<^verbatim>\<open>keeper/inflation.go\<close>), the
  hook at the end of an epoch (\<^verbatim>\<open>keeper/hooks.go\<close>), parameters, genesis and queries. The bank,
  distribution and staking keepers are fields of \<open>inflation_env\<close>; single coins stay pairs of
  denomination and amount, since \<^verbatim>\<open>sdk.Coins{coin}\<close> is not checked for a zero amount.
\<close>

section \<open>Parameters\<close>

record ExponentialCalculation =
  expA :: int
  expR :: int
  expC :: int
  BondingTarget :: int
  MaxVariance :: int

record InflationDistribution =
  StakingRewards :: int
  UsageIncentives :: int
  CommunityPool :: int

record InfParams =
  MintDenom :: string
  ipExponential :: ExponentialCalculation
  ipDistribution :: InflationDistribution
  EnableInflation :: bool

definition inf_NewParams :: "string \<Rightarrow> ExponentialCalculation \<Rightarrow> InflationDistribution \<Rightarrow> bool \<Rightarrow> InfParams" where
  "inf_NewParams mintDenom exponentialCalculation inflationDistribution enableInflation =
     \<lparr>MintDenom = mintDenom, ipExponential = exponentialCalculation, ipDistribution = inflationDistribution,
      EnableInflation = enableInflation\<rparr>"

definition inf_DefaultParams :: "string \<Rightarrow> InfParams" where
  "inf_DefaultParams denom =
     \<lparr>MintDenom = denom,
      ipExponential = \<lparr>expA = LegacyNewDec 300000000, expR = LegacyNewDecWithPrec 50 2, expC = LegacyNewDec 9375000,
        BondingTarget = LegacyNewDecWithPrec 66 2, MaxVariance = 0\<rparr>,
      ipDistribution = \<lparr>StakingRewards = LegacyNewDecWithPrec 533333334 9, UsageIncentives = 0,
        CommunityPool = LegacyNewDecWithPrec 466666666 9\<rparr>,
      EnableInflation = True\<rparr>"

text \<open>\<open>validateDenom\<close> is \<^verbatim>\<open>sdk.ValidateDenom\<close>.\<close>

definition validateMintDenom :: "(string \<Rightarrow> unit result) \<Rightarrow> string \<Rightarrow> unit result" where
  "validateMintDenom validateDenom v =
     (if list_all isSpace v then Inl (ErrText ''mint denom cannot be blank'') else validateDenom v)"

definition validateExponentialCalculation :: "ExponentialCalculation \<Rightarrow> unit result" where
  "validateExponentialCalculation v =
     (if expA v < 0 then Inl (ErrText ''initial value cannot be negative'')
      else if expR v > LegacyNewDec 1 then Inl (ErrText ''reduction factor cannot be greater than 1'')
      else if expR v < 0 then Inl (ErrText ''reduction factor cannot be negative'')
      else if expC v < 0 then Inl (ErrText ''long term inflation cannot be negative'')
      else if BondingTarget v > LegacyNewDec 1 then Inl (ErrText ''bonded target cannot be greater than 1'')
      else if \<not> BondingTarget v > 0 then Inl (ErrText ''bonded target cannot be zero or negative'')
      else if MaxVariance v < 0 then Inl (ErrText ''max variance cannot be negative'')
      else Inr ())"

definition validateInflationDistribution :: "InflationDistribution \<Rightarrow> unit result" where
  "validateInflationDistribution v =
     (if StakingRewards v < 0 then Inl (ErrText ''staking distribution ratio must not be negative'')
      else if UsageIncentives v \<noteq> 0 then Inl (ErrText ''incentives pool distribution is deprecated'')
      else if CommunityPool v < 0 then Inl (ErrText ''community pool distribution ratio must not be negative'')
      else if StakingRewards v + UsageIncentives v + CommunityPool v \<noteq> LegacyNewDec 1
      then Inl (ErrText ''total distributions ratio should be 1'')
      else Inr ())"

definition inf_Validate :: "(string \<Rightarrow> unit result) \<Rightarrow> InfParams \<Rightarrow> unit result" where
  "inf_Validate validateDenom p =
     rbind (validateMintDenom validateDenom (MintDenom p)) (\<lambda>_.
     rbind (validateExponentialCalculation (ipExponential p)) (\<lambda>_.
     rbind (validateInflationDistribution (ipDistribution p)) (\<lambda>_. Inr ())))"

section \<open>The provision of an epoch\<close>

text \<open>
  \<^verbatim>\<open>maxVariance != math.LegacyZeroDec()\<close> compares two structs that each hold a pointer to a
  freshly allocated integer, so it is true for every value.
\<close>

definition CalculateEpochMintProvision :: "dec_ops \<Rightarrow> InfParams \<Rightarrow> 64 word \<Rightarrow> int \<Rightarrow> int \<Rightarrow> int result" where
  "CalculateEpochMintProvision d params period epochsPerPeriod bondedRatio =
     (let e = ipExponential params;
          decay = dec_one - expR e
      in rbind (decPower d decay (unat period)) (\<lambda>power.
         rbind (decMul d (expA e) power) (\<lambda>exponentialDecay.
         let bondedRatio = (if bondedRatio \<ge> BondingTarget e then BondingTarget e else bondedRatio)
         in rbind (decQuo d bondedRatio (BondingTarget e)) (\<lambda>q.
            rbind (decMul d (MaxVariance e) q) (\<lambda>sub.
            let bondingIncentive = dec_one + MaxVariance e - sub
            in rbind (decMul d exponentialDecay bondingIncentive) (\<lambda>x.
               let periodProvision = x + expC e
               in rbind (decQuo d periodProvision (LegacyNewDec 3)) (\<lambda>reducedPeriodProvision.
                  rbind (decQuo d reducedPeriodProvision (LegacyNewDec epochsPerPeriod)) (\<lambda>epochProvision.
                  decMul d epochProvision (LegacyNewDec (10 ^ 18))))))))))"

section \<open>The keeper\<close>

record 'w inflation_env =
  ieDec :: dec_ops
  ieModuleAddress :: "string \<Rightarrow> 160 word"
  ieMintCoins :: "'w \<Rightarrow> string \<Rightarrow> string \<times> int \<Rightarrow> 'w result"
  ieSendCoinsFromModuleToModule :: "'w \<Rightarrow> string \<Rightarrow> string \<Rightarrow> string \<times> int \<Rightarrow> 'w result"
  ieGetAllBalances :: "'w \<Rightarrow> 160 word \<Rightarrow> Coins"
  ieGetSupply :: "'w \<Rightarrow> string \<Rightarrow> int"
  ieFundCommunityPool :: "'w \<Rightarrow> Coins \<Rightarrow> 160 word \<Rightarrow> 'w result"
  ieStakingTokenSupply :: "'w \<Rightarrow> int"
  ieTotalBondedTokens :: "'w \<Rightarrow> int"
  ieFeeCollectorName :: string
  ieAuthority :: string
  ieChainID :: string

record 'w InflationCtx =
  infSdk :: 'w
  infParams :: InfParams
  infPeriod :: "64 word"
  infEpochIdentifier :: string
  infEpochsPerPeriod :: int
  infSkippedEpochs :: "64 word"

definition inf_GetParams :: "'w InflationCtx \<Rightarrow> InfParams" where
  "inf_GetParams cx = infParams cx"

definition inf_SetParams :: "'w InflationCtx \<Rightarrow> InfParams \<Rightarrow> 'w InflationCtx" where
  "inf_SetParams cx params = cx\<lparr>infParams := params\<rparr>"

definition GetPeriod :: "'w InflationCtx \<Rightarrow> 64 word" where
  "GetPeriod cx = infPeriod cx"

definition SetPeriod :: "'w InflationCtx \<Rightarrow> 64 word \<Rightarrow> 'w InflationCtx" where
  "SetPeriod cx period = cx\<lparr>infPeriod := period\<rparr>"

definition GetEpochIdentifier :: "'w InflationCtx \<Rightarrow> string" where
  "GetEpochIdentifier cx = infEpochIdentifier cx"

definition SetEpochIdentifier :: "'w InflationCtx \<Rightarrow> string \<Rightarrow> 'w InflationCtx" where
  "SetEpochIdentifier cx epochIdentifier = cx\<lparr>infEpochIdentifier := epochIdentifier\<rparr>"

definition GetEpochsPerPeriod :: "'w InflationCtx \<Rightarrow> int" where
  "GetEpochsPerPeriod cx = infEpochsPerPeriod cx"

definition SetEpochsPerPeriod :: "'w InflationCtx \<Rightarrow> int \<Rightarrow> 'w InflationCtx" where
  "SetEpochsPerPeriod cx epochsPerPeriod = cx\<lparr>infEpochsPerPeriod := epochsPerPeriod\<rparr>"

definition GetSkippedEpochs :: "'w InflationCtx \<Rightarrow> 64 word" where
  "GetSkippedEpochs cx = infSkippedEpochs cx"

definition SetSkippedEpochs :: "'w InflationCtx \<Rightarrow> 64 word \<Rightarrow> 'w InflationCtx" where
  "SetSkippedEpochs cx skippedEpochs = cx\<lparr>infSkippedEpochs := skippedEpochs\<rparr>"

definition MainnetChainID :: string where
  "MainnetChainID = ''dhives_5439''"

definition IsMainnet :: "string \<Rightarrow> bool" where
  "IsMainnet chainID \<longleftrightarrow> take (length MainnetChainID) chainID = MainnetChainID"

definition teamAlloc :: int where
  "teamAlloc = 200000000 * 10 ^ 18"

definition BondedRatio :: "'w inflation_env \<Rightarrow> 'w InflationCtx \<Rightarrow> int result" where
  "BondedRatio e cx =
     (let stakeSupply = ieStakingTokenSupply e (infSdk cx);
          isMainnet = IsMainnet (ieChainID e)
      in if \<not> stakeSupply > 0 \<or> (isMainnet \<and> stakeSupply \<le> teamAlloc) then Inr 0
         else
           let stakeSupply = (if isMainnet then stakeSupply - teamAlloc else stakeSupply)
           in decQuoInt (ieDec e) (LegacyNewDec (ieTotalBondedTokens e (infSdk cx))) stakeSupply)"

definition GetCirculatingSupply :: "'w inflation_env \<Rightarrow> 'w InflationCtx \<Rightarrow> string \<Rightarrow> int" where
  "GetCirculatingSupply e cx mintDenom =
     (let circulatingSupply = LegacyNewDec (ieGetSupply e (infSdk cx) mintDenom)
      in if IsMainnet (ieChainID e) then circulatingSupply - LegacyNewDec teamAlloc else circulatingSupply)"

definition GetEpochMintProvision :: "'w inflation_env \<Rightarrow> 'w InflationCtx \<Rightarrow> int result" where
  "GetEpochMintProvision e cx =
     rbind (BondedRatio e cx) (\<lambda>bondedRatio.
     CalculateEpochMintProvision (ieDec e) (inf_GetParams cx) (GetPeriod cx) (GetEpochsPerPeriod cx) bondedRatio)"

definition GetInflationRate :: "'w inflation_env \<Rightarrow> 'w InflationCtx \<Rightarrow> string \<Rightarrow> int result" where
  "GetInflationRate e cx mintDenom =
     (let epp = GetEpochsPerPeriod cx
      in if epp = 0 then Inr 0
         else rbind (GetEpochMintProvision e cx) (\<lambda>epochMintProvision.
           if epochMintProvision = 0 then Inr 0
           else
             let circulatingSupply = GetCirculatingSupply e cx mintDenom
             in if circulatingSupply = 0 then Inr 0
                else rbind (decMul (ieDec e) epochMintProvision (LegacyNewDec epp)) (\<lambda>x.
                     rbind (decQuo (ieDec e) x circulatingSupply) (\<lambda>y.
                     decMul (ieDec e) y (LegacyNewDec 100)))))"

definition inf_ModuleName :: string where
  "inf_ModuleName = ''inflation''"

definition inf_MintCoins :: "'w inflation_env \<Rightarrow> 'w InflationCtx \<Rightarrow> string \<times> int \<Rightarrow> 'w InflationCtx result" where
  "inf_MintCoins e cx coin =
     rbind (ieMintCoins e (infSdk cx) inf_ModuleName coin) (\<lambda>w. Inr (cx\<lparr>infSdk := w\<rparr>))"

definition GetProportions :: "dec_ops \<Rightarrow> string \<times> int \<Rightarrow> int \<Rightarrow> (string \<times> int) result" where
  "GetProportions d coin distribution =
     rbind (decMul d (LegacyNewDec (snd coin)) distribution) (\<lambda>x. Inr (fst coin, decTruncateInt d x))"

text \<open>The second component of the result, the community pool's coins, is never assigned.\<close>

definition AllocateExponentialInflation ::
  "'w inflation_env \<Rightarrow> 'w InflationCtx \<Rightarrow> string \<times> int \<Rightarrow> InfParams
   \<Rightarrow> ('w InflationCtx \<times> (string \<times> int) option \<times> (string \<times> int) option) result" where
  "AllocateExponentialInflation e cx mintedCoin params =
     rbind (GetProportions (ieDec e) mintedCoin (StakingRewards (ipDistribution params))) (\<lambda>staking.
     rbind (ieSendCoinsFromModuleToModule e (infSdk cx) inf_ModuleName (ieFeeCollectorName e) staking) (\<lambda>w.
     let moduleAddr = ieModuleAddress e inf_ModuleName;
         inflationBalance = ieGetAllBalances e w moduleAddr
     in rbind (ieFundCommunityPool e w inflationBalance moduleAddr) (\<lambda>w.
        Inr (cx\<lparr>infSdk := w\<rparr>, Some staking, None))))"

definition MintAndAllocateInflation ::
  "'w inflation_env \<Rightarrow> 'w InflationCtx \<Rightarrow> string \<times> int \<Rightarrow> InfParams
   \<Rightarrow> ('w InflationCtx \<times> (string \<times> int) option \<times> (string \<times> int) option) result" where
  "MintAndAllocateInflation e cx coin params =
     (if \<not> snd coin > 0 then Inr (cx, None, None)
      else rbind (inf_MintCoins e cx coin) (\<lambda>cx. AllocateExponentialInflation e cx coin params))"

text \<open>An error of minting or allocating panics.\<close>

definition or_panic :: "'a result \<Rightarrow> 'a result" where
  "or_panic r = (case r of Inl (Panic m) \<Rightarrow> Inl (Panic m) | Inl _ \<Rightarrow> Inl (Panic ''panic(err)'') | Inr x \<Rightarrow> Inr x)"

definition inf_AfterEpochEnd ::
  "'w inflation_env \<Rightarrow> 'w InflationCtx \<Rightarrow> string \<Rightarrow> int \<Rightarrow> 'w InflationCtx result" where
  "inf_AfterEpochEnd e cx epochIdentifier epochNumber =
     (let params = inf_GetParams cx;
          skippedEpochs = GetSkippedEpochs cx
      in if \<not> EnableInflation params then
           if epochIdentifier \<noteq> DayEpochID then Inr cx else Inr (SetSkippedEpochs cx (skippedEpochs + 1))
         else if epochIdentifier \<noteq> GetEpochIdentifier cx then Inr cx
         else
           let period = GetPeriod cx;
               epochsPerPeriod = GetEpochsPerPeriod cx
           in rbind (BondedRatio e cx) (\<lambda>bondedRatio.
              rbind (CalculateEpochMintProvision (ieDec e) params period epochsPerPeriod bondedRatio) (\<lambda>epochMintProvision.
              if \<not> epochMintProvision > 0 then Inr cx
              else
                let mintedCoin = (MintDenom params, decTruncateInt (ieDec e) epochMintProvision)
                in rbind (or_panic (MintAndAllocateInflation e cx mintedCoin params)) (\<lambda>(cx, staking, communityPool).
                   if i64 (i64 (epochNumber - i64 (epochsPerPeriod * i64 (uint period))) - i64 (uint skippedEpochs))
                        > epochsPerPeriod
                   then Inr (SetPeriod cx (period + 1)) else Inr cx))))"

definition inf_BeforeEpochStart :: "'w InflationCtx \<Rightarrow> string \<Rightarrow> int \<Rightarrow> 'w InflationCtx result" where
  "inf_BeforeEpochStart cx epochIdentifier epochNumber = Inr cx"

definition inf_Hooks :: "'w inflation_env \<Rightarrow> 'w InflationCtx EpochHooks" where
  "inf_Hooks e = \<lparr>hkAfterEpochEnd = inf_AfterEpochEnd e, hkBeforeEpochStart = inf_BeforeEpochStart\<rparr>"

definition inf_UpdateParams ::
  "'w inflation_env \<Rightarrow> 'w InflationCtx \<Rightarrow> string \<Rightarrow> InfParams \<Rightarrow> 'w InflationCtx result" where
  "inf_UpdateParams e cx reqAuthority params =
     (if ieAuthority e \<noteq> reqAuthority then Inl ErrInvalidSigner else Inr (inf_SetParams cx params))"

section \<open>Genesis\<close>

record InfGenesis =
  igParams :: InfParams
  igPeriod :: "64 word"
  igEpochIdentifier :: string
  igEpochsPerPeriod :: int
  igSkippedEpochs :: "64 word"

definition inf_DefaultGenesisState :: "string \<Rightarrow> InfGenesis" where
  "inf_DefaultGenesisState denom =
     \<lparr>igParams = inf_DefaultParams denom, igPeriod = 0, igEpochIdentifier = DayEpochID, igEpochsPerPeriod = 365,
      igSkippedEpochs = 0\<rparr>"

definition validateEpochsPerPeriod :: "int \<Rightarrow> unit result" where
  "validateEpochsPerPeriod v =
     (if v \<le> 0 then Inl (ErrText ''epochs per period must be positive'') else Inr ())"

definition inf_Genesis_Validate :: "(string \<Rightarrow> unit result) \<Rightarrow> InfGenesis \<Rightarrow> unit result" where
  "inf_Genesis_Validate validateDenom gs =
     rbind (ValidateEpochIdentifierString (igEpochIdentifier gs)) (\<lambda>_.
     rbind (validateEpochsPerPeriod (igEpochsPerPeriod gs)) (\<lambda>_.
     inf_Validate validateDenom (igParams gs)))"

text \<open>\<open>hasAccount\<close> tells whether \<^verbatim>\<open>GetModuleAccount\<close> finds the module's account.\<close>

definition inf_InitGenesis :: "bool \<Rightarrow> 'w InflationCtx \<Rightarrow> InfGenesis \<Rightarrow> 'w InflationCtx result" where
  "inf_InitGenesis hasAccount cx data =
     (if \<not> hasAccount then Inl (Panic ''the inflation module account has not been set'')
      else
        let cx = inf_SetParams cx (igParams data);
            cx = SetPeriod cx (igPeriod data);
            cx = SetEpochIdentifier cx (igEpochIdentifier data);
            cx = SetEpochsPerPeriod cx (igEpochsPerPeriod data)
        in Inr (SetSkippedEpochs cx (igSkippedEpochs data)))"

definition inf_ExportGenesis :: "'w InflationCtx \<Rightarrow> InfGenesis" where
  "inf_ExportGenesis cx =
     \<lparr>igParams = inf_GetParams cx, igPeriod = GetPeriod cx, igEpochIdentifier = GetEpochIdentifier cx,
      igEpochsPerPeriod = GetEpochsPerPeriod cx, igSkippedEpochs = GetSkippedEpochs cx\<rparr>"

section \<open>How much an epoch mints\<close>

lemma validateExponentialCalculation_iff:
  "validateExponentialCalculation v = Inr () \<longleftrightarrow>
     0 \<le> expA v \<and> 0 \<le> expR v \<and> expR v \<le> dec_one \<and> 0 \<le> expC v \<and> 0 < BondingTarget v
   \<and> BondingTarget v \<le> dec_one \<and> 0 \<le> MaxVariance v"
  by (auto simp: validateExponentialCalculation_def LegacyNewDec_def)

lemma decMul_exact_right:
  assumes "dec_laws d" "decMul d a (LegacyNewDec i) = Inr r"
  shows "r = a * i"
proof -
  have "(2 * r) * dec_one \<le> (2 * (a * i) + 1) * dec_one" "(2 * (a * i)) * dec_one \<le> (2 * r + 1) * dec_one"
    using decMul_bounds [OF assms] by (simp_all add: LegacyNewDec_def algebra_simps)
  then have "2 * r \<le> 2 * (a * i) + 1" "2 * (a * i) \<le> 2 * r + 1"
    using dec_one_pos(1) by (simp_all only: mult_le_cancel_right_pos)
  then show ?thesis by presburger
qed

lemma decQuo_int_upper:
  assumes "dec_laws d" "decQuo d a (LegacyNewDec n) = Inr r" "0 < n"
  shows "n * r \<le> a + n"
proof -
  have "r * (n * dec_one) - a * dec_one \<le> n * dec_one"
    using dec_lawsD(3) [OF assms(1,2)] assms(3) abs_ge_self [of "r * (n * dec_one) - a * dec_one"]
    by (simp add: LegacyNewDec_def abs_mult)
  then have "(n * r) * dec_one \<le> (a + n) * dec_one" by (simp add: algebra_simps)
  then show ?thesis using dec_one_pos(1) by (simp only: mult_le_cancel_right_pos)
qed

lemma provision_steps:
  assumes laws: "dec_laws d" and valid: "validateExponentialCalculation (ipExponential p) = Inr ()"
    and ratio: "0 \<le> ratio" and epp: "0 < epp" and run: "CalculateEpochMintProvision d p x epp ratio = Inr v"
  obtains power decay q sub y red ep where
    "decPower d (dec_one - expR (ipExponential p)) (unat x) = Inr power"
    "decMul d (expA (ipExponential p)) power = Inr decay" "0 \<le> decay" "decay \<le> expA (ipExponential p)"
    "decMul d (MaxVariance (ipExponential p)) q = Inr sub" "0 \<le> sub" "sub \<le> MaxVariance (ipExponential p)"
    "decMul d decay (dec_one + MaxVariance (ipExponential p) - sub) = Inr y" "0 \<le> y"
    "decQuo d (y + expC (ipExponential p)) (LegacyNewDec 3) = Inr red" "0 \<le> red"
    "decQuo d red (LegacyNewDec epp) = Inr ep" "0 \<le> ep" "v = ep * 10 ^ 18"
proof -
  let ?e = "ipExponential p"
  let ?b = "if ratio \<ge> BondingTarget ?e then BondingTarget ?e else ratio"
  note v = valid [unfolded validateExponentialCalculation_iff]
  obtain power decay q sub y red ep where s:
    "decPower d (dec_one - expR ?e) (unat x) = Inr power" "decMul d (expA ?e) power = Inr decay"
    "decQuo d ?b (BondingTarget ?e) = Inr q" "decMul d (MaxVariance ?e) q = Inr sub"
    "decMul d decay (dec_one + MaxVariance ?e - sub) = Inr y"
    "decQuo d (y + expC ?e) (LegacyNewDec 3) = Inr red" "decQuo d red (LegacyNewDec epp) = Inr ep"
    "decMul d ep (LegacyNewDec (10 ^ 18)) = Inr v"
    using run unfolding CalculateEpochMintProvision_def Let_def rbind_Inr_iff by blast
  have power: "0 \<le> power" "power \<le> dec_one" using dec_lawsD(7) [OF laws _ _ s(1)] v by simp_all
  have decay: "0 \<le> decay" "decay \<le> expA ?e"
    using decMul_nonneg [OF laws s(2)] decMul_le_left [OF laws s(2)] v power by simp_all
  have b: "0 \<le> ?b" "?b \<le> BondingTarget ?e" using v ratio by auto
  have q: "0 \<le> q" "q \<le> dec_one" using dec_lawsD(4,9) [OF laws s(3)] b v by simp_all
  have sub: "0 \<le> sub" "sub \<le> MaxVariance ?e"
    using decMul_nonneg [OF laws s(4)] decMul_le_left [OF laws s(4)] v q by simp_all
  have y: "0 \<le> y" using decMul_nonneg [OF laws s(5) decay(1)] sub(2) dec_one_pos(3) by simp
  have red: "0 \<le> red" using dec_lawsD(4) [OF laws s(6)] y v by (simp add: LegacyNewDec_def)
  have ep: "0 \<le> ep" using dec_lawsD(4) [OF laws s(7) red] epp by (simp add: LegacyNewDec_def)
  show thesis
    by (rule that [OF s(1,2) decay s(4) sub s(5) y s(6) red s(7) ep decMul_exact_right [OF laws s(8)]])
qed

text \<open>
  The provision of an epoch is never negative and is bounded by the parameters: an epoch
  mints at most a third of its share of the initial value, increased by the maximal
  variance, plus the long-term inflation, up to the rounding of four units and one per
  epoch of the period.
\<close>

theorem provision_bounds:
  assumes "dec_laws d" "validateExponentialCalculation (ipExponential p) = Inr ()" "0 \<le> ratio" "0 < epp"
    "CalculateEpochMintProvision d p x epp ratio = Inr v"
  shows "0 \<le> v \<and> 3 * epp * v * dec_one
    \<le> (expA (ipExponential p) * (dec_one + MaxVariance (ipExponential p))
       + (expC (ipExponential p) + 4 + 3 * epp) * dec_one) * 10 ^ 18"
proof -
  let ?A = "expA (ipExponential p)" and ?M = "MaxVariance (ipExponential p)" and ?C = "expC (ipExponential p)"
  obtain power decay q sub y red ep where s: "0 \<le> decay" "decay \<le> ?A" "0 \<le> sub" "sub \<le> ?M"
    "decMul d decay (dec_one + ?M - sub) = Inr y" "decQuo d (y + ?C) (LegacyNewDec 3) = Inr red"
    "decQuo d red (LegacyNewDec epp) = Inr ep" "0 \<le> ep" "v = ep * 10 ^ 18"
    by (rule provision_steps [OF assms])
  have "decay * (dec_one + ?M - sub) \<le> ?A * (dec_one + ?M)"
    using s(1-4) dec_one_pos(3) by (intro mult_mono) linarith+
  then have y: "y * dec_one \<le> ?A * (dec_one + ?M) + dec_one"
    using decMul_bounds(1) [OF assms(1) s(5)] dec_one_pos(1) by linarith
  have "3 * red \<le> y + ?C + 3" using decQuo_int_upper [OF assms(1) s(6)] by simp
  moreover have "epp * ep \<le> red + epp" by (rule decQuo_int_upper [OF assms(1) s(7) assms(4)])
  ultimately have "3 * (epp * ep) \<le> y + ?C + 3 + 3 * epp" by linarith
  then have "3 * (epp * ep) * dec_one \<le> (y + ?C + 3 + 3 * epp) * dec_one" by (intro mult_right_mono) simp_all
  also have "\<dots> = y * dec_one + (?C + 3 + 3 * epp) * dec_one" by (simp add: algebra_simps)
  also have "\<dots> \<le> ?A * (dec_one + ?M) + (?C + 4 + 3 * epp) * dec_one" using y by (simp add: algebra_simps)
  finally have "3 * (epp * ep) * dec_one * 10 ^ 18 \<le> (?A * (dec_one + ?M) + (?C + 4 + 3 * epp) * dec_one) * 10 ^ 18"
    by (intro mult_right_mono) simp_all
  moreover have "3 * epp * v * dec_one = 3 * (epp * ep) * dec_one * 10 ^ 18" using s(9) by (simp add: algebra_simps)
  ultimately show ?thesis using s(8,9) by simp
qed

lemma default_calculation_valid: "validateExponentialCalculation (ipExponential (inf_DefaultParams denom)) = Inr ()"
  by (simp add: validateExponentialCalculation_iff inf_DefaultParams_def LegacyNewDec_def LegacyNewDecWithPrec_def dec_one_def)

lemma rbind_total: "\<exists>x. m = Inr x \<Longrightarrow> (\<And>x. \<exists>y. f x = Inr y) \<Longrightarrow> \<exists>y. rbind m f = Inr y"
  by (auto simp: rbind_Inr_iff)

lemma provision_dec_impl:
  assumes "BondingTarget (ipExponential p) \<noteq> 0" "epp \<noteq> 0"
  shows "\<exists>v. CalculateEpochMintProvision dec_impl p x epp ratio = Inr v"
proof -
  have quo: "\<exists>r. decQuo dec_impl a b = Inr r" if "b \<noteq> 0" for a b using that by (simp add: dec_impl_def)
  have mul: "\<exists>r. decMul dec_impl a b = Inr r" "\<exists>r. decPower dec_impl a n = Inr r" for a b n
    by (simp_all add: dec_impl_def)
  have "LegacyNewDec epp \<noteq> 0" "LegacyNewDec 3 \<noteq> 0" using assms(2) by (simp_all add: LegacyNewDec_def)
  then show ?thesis
    unfolding CalculateEpochMintProvision_def Let_def by (intro rbind_total mul quo assms(1))
qed

theorem provision_bounds_witness:
  "\<exists>v \<ge> 0. CalculateEpochMintProvision dec_impl (inf_DefaultParams ''a'') 0 365 dec_one = Inr v"
proof -
  have "BondingTarget (ipExponential (inf_DefaultParams ''a'')) \<noteq> 0"
    using default_calculation_valid [of "''a''"] by (simp add: validateExponentialCalculation_iff)
  then obtain v where v: "CalculateEpochMintProvision dec_impl (inf_DefaultParams ''a'') 0 365 dec_one = Inr v"
    using provision_dec_impl [of "inf_DefaultParams ''a''" 365 0 dec_one] by auto
  from provision_bounds [OF dec_impl_laws default_calculation_valid _ _ v] v show ?thesis by auto
qed

section \<open>Where the minted coins go\<close>

definition move_coins :: "160 word \<Rightarrow> 160 word \<Rightarrow> Coins \<Rightarrow> (160 word \<Rightarrow> Coins) \<Rightarrow> 160 word \<Rightarrow> Coins" where
  "move_coins a b cs bal = (let bal = bal(a := bal a - cs) in bal(b := bal b + cs))"

text \<open>
  What the module relies on: minting and transfers accept positive amounts only, transfers
  need the coins, and nothing but the named accounts changes.
\<close>

definition inflation_laws :: "'w inflation_env \<Rightarrow> bool" where
  "inflation_laws e \<longleftrightarrow>
     dec_laws (ieDec e)
   \<and> (\<forall>w m d n w'. ieMintCoins e w m (d, n) = Inr w' \<longrightarrow> 0 < n
        \<and> ieGetAllBalances e w' = (ieGetAllBalances e w)
            (ieModuleAddress e m := ieGetAllBalances e w (ieModuleAddress e m) + NewCoin d n))
   \<and> (\<forall>w m m' d n w'. ieSendCoinsFromModuleToModule e w m m' (d, n) = Inr w' \<longrightarrow> 0 < n
        \<and> NewCoin d n \<subseteq># ieGetAllBalances e w (ieModuleAddress e m)
        \<and> ieGetAllBalances e w' = move_coins (ieModuleAddress e m) (ieModuleAddress e m') (NewCoin d n) (ieGetAllBalances e w))
   \<and> (\<forall>w cs a w'. ieFundCommunityPool e w cs a = Inr w' \<longrightarrow> cs \<subseteq># ieGetAllBalances e w a
        \<and> ieGetAllBalances e w' = move_coins a (ieModuleAddress e ''distribution'') cs (ieGetAllBalances e w))"

lemma inflation_lawsD:
  assumes "inflation_laws e"
  shows "dec_laws (ieDec e)"
    and "ieMintCoins e w m (d, n) = Inr w' \<Longrightarrow> 0 < n
        \<and> ieGetAllBalances e w' = (ieGetAllBalances e w)
            (ieModuleAddress e m := ieGetAllBalances e w (ieModuleAddress e m) + NewCoin d n)"
    and "ieSendCoinsFromModuleToModule e w m m' (d, n) = Inr w' \<Longrightarrow> 0 < n
        \<and> NewCoin d n \<subseteq># ieGetAllBalances e w (ieModuleAddress e m)
        \<and> ieGetAllBalances e w' = move_coins (ieModuleAddress e m) (ieModuleAddress e m') (NewCoin d n) (ieGetAllBalances e w)"
    and "ieFundCommunityPool e w cs a = Inr w' \<Longrightarrow> cs \<subseteq># ieGetAllBalances e w a
        \<and> ieGetAllBalances e w' = move_coins a (ieModuleAddress e ''distribution'') cs (ieGetAllBalances e w)"
proof -
  note l = assms [unfolded inflation_laws_def]
  show "dec_laws (ieDec e)" by (rule conjunct1 [OF l])
  note l2 = conjunct2 [OF l] and l3 = conjunct2 [OF conjunct2 [OF l]]
  show "ieMintCoins e w m (d, n) = Inr w' \<Longrightarrow> 0 < n
        \<and> ieGetAllBalances e w' = (ieGetAllBalances e w)
            (ieModuleAddress e m := ieGetAllBalances e w (ieModuleAddress e m) + NewCoin d n)"
    using conjunct1 [OF l2] by blast
  show "ieSendCoinsFromModuleToModule e w m m' (d, n) = Inr w' \<Longrightarrow> 0 < n
        \<and> NewCoin d n \<subseteq># ieGetAllBalances e w (ieModuleAddress e m)
        \<and> ieGetAllBalances e w' = move_coins (ieModuleAddress e m) (ieModuleAddress e m') (NewCoin d n) (ieGetAllBalances e w)"
    using conjunct1 [OF l3] by blast
  show "ieFundCommunityPool e w cs a = Inr w' \<Longrightarrow> cs \<subseteq># ieGetAllBalances e w a
        \<and> ieGetAllBalances e w' = move_coins a (ieModuleAddress e ''distribution'') cs (ieGetAllBalances e w)"
    using conjunct2 [OF l3] by blast
qed

text \<open>The three accounts the allocation touches are different ones.\<close>

definition distinct_accounts :: "'w inflation_env \<Rightarrow> bool" where
  "distinct_accounts e \<longleftrightarrow> distinct [ieModuleAddress e inf_ModuleName, ieModuleAddress e (ieFeeCollectorName e),
     ieModuleAddress e ''distribution'']"

lemma NewCoin_split: "0 \<le> s \<Longrightarrow> s \<le> n \<Longrightarrow> NewCoin d n = NewCoin d s + NewCoin d (n - s)"
  by (auto simp: NewCoin_def multiset_eq_iff)

lemma MintAndAllocate_effect:
  assumes laws: "inflation_laws e" and dist: "distinct_accounts e"
    and valid: "validateInflationDistribution (ipDistribution params) = Inr ()"
    and run: "MintAndAllocateInflation e cx (d, n) params = Inr (cx', st, cp)" and n: "0 < n"
  defines "s \<equiv> n * StakingRewards (ipDistribution params) div dec_one"
  shows "0 < s" "s \<le> n" "st = Some (d, s)"
    "ieGetAllBalances e (infSdk cx') = (ieGetAllBalances e (infSdk cx))
       (ieModuleAddress e inf_ModuleName := {#},
        ieModuleAddress e (ieFeeCollectorName e) :=
          ieGetAllBalances e (infSdk cx) (ieModuleAddress e (ieFeeCollectorName e)) + NewCoin d s,
        ieModuleAddress e ''distribution'' :=
          ieGetAllBalances e (infSdk cx) (ieModuleAddress e ''distribution'')
          + (ieGetAllBalances e (infSdk cx) (ieModuleAddress e inf_ModuleName) + NewCoin d (n - s)))"
    "cx' = cx\<lparr>infSdk := infSdk cx'\<rparr>"
proof -
  let ?sr = "StakingRewards (ipDistribution params)"
  have sr: "0 \<le> ?sr" "?sr \<le> dec_one"
    using valid by (auto simp: validateInflationDistribution_def LegacyNewDec_def split: if_splits)
  obtain w1 x w2 w3 where w: "ieMintCoins e (infSdk cx) inf_ModuleName (d, n) = Inr w1"
    "decMul (ieDec e) (LegacyNewDec n) ?sr = Inr x"
    "ieSendCoinsFromModuleToModule e w1 inf_ModuleName (ieFeeCollectorName e) (d, decTruncateInt (ieDec e) x) = Inr w2"
    "ieFundCommunityPool e w2 (ieGetAllBalances e w2 (ieModuleAddress e inf_ModuleName)) (ieModuleAddress e inf_ModuleName) = Inr w3"
    "cx' = cx\<lparr>infSdk := w3\<rparr>" "st = Some (d, decTruncateInt (ieDec e) x)"
    using run n by (auto simp: MintAndAllocateInflation_def inf_MintCoins_def AllocateExponentialInflation_def
        GetProportions_def rbind_Inr_iff Let_def)
  have x: "x = n * ?sr" by (rule decMul_exact [OF inflation_lawsD(1) [OF laws] w(2)])
  have tr: "decTruncateInt (ieDec e) x = s"
    unfolding s_def x using dec_lawsD(8) [OF inflation_lawsD(1) [OF laws], of "n * ?sr"] n sr by simp
  show s: "s \<le> n"
    unfolding s_def using zdiv_mono1 [of "n * ?sr" "n * dec_one" dec_one] n sr by (simp add: mult_left_mono)
  note mint = inflation_lawsD(2) [OF laws w(1)] and send = inflation_lawsD(3) [OF laws w(3) [unfolded tr]]
    and fund = inflation_lawsD(4) [OF laws w(4)]
  show pos: "0 < s" using send by simp
  show "st = Some (d, s)" using w(6) tr by simp
  show "cx' = cx\<lparr>infSdk := infSdk cx'\<rparr>" using w(5) by simp
  note split = NewCoin_split [of s n d]
  show "ieGetAllBalances e (infSdk cx') = (ieGetAllBalances e (infSdk cx))
       (ieModuleAddress e inf_ModuleName := {#},
        ieModuleAddress e (ieFeeCollectorName e) :=
          ieGetAllBalances e (infSdk cx) (ieModuleAddress e (ieFeeCollectorName e)) + NewCoin d s,
        ieModuleAddress e ''distribution'' :=
          ieGetAllBalances e (infSdk cx) (ieModuleAddress e ''distribution'')
          + (ieGetAllBalances e (infSdk cx) (ieModuleAddress e inf_ModuleName) + NewCoin d (n - s)))"
    using mint send fund dist w(5) split s pos
    by (auto simp: move_coins_def Let_def distinct_accounts_def fun_eq_iff add.commute add.left_commute)
qed

lemma or_panic_Inr [simp]: "or_panic r = Inr x \<longleftrightarrow> r = Inr x"
  by (auto simp: or_panic_def split: sum.splits error.splits)

lemma AfterEpochEnd_enabled:
  assumes "EnableInflation (infParams cx)" "i = infEpochIdentifier cx"
  shows "inf_AfterEpochEnd e cx i n = rbind (GetEpochMintProvision e cx) (\<lambda>v.
     if \<not> v > 0 then Inr cx
     else rbind (or_panic (MintAndAllocateInflation e cx (MintDenom (infParams cx), decTruncateInt (ieDec e) v) (infParams cx)))
       (\<lambda>(cx1, st, cp). if i64 (i64 (n - i64 (infEpochsPerPeriod cx * i64 (uint (infPeriod cx)))) - i64 (uint (infSkippedEpochs cx)))
          > infEpochsPerPeriod cx then Inr (SetPeriod cx1 (infPeriod cx + 1)) else Inr cx1))"
  unfolding inf_AfterEpochEnd_def GetEpochMintProvision_def Let_def inf_GetParams_def GetEpochIdentifier_def
    GetPeriod_def GetEpochsPerPeriod_def GetSkippedEpochs_def rbind_assoc
  using assms by simp

lemma AfterEpochEnd_off:
  "\<not> EnableInflation (infParams cx) \<Longrightarrow> inf_AfterEpochEnd e cx i n
     = (if i = DayEpochID then Inr (SetSkippedEpochs cx (infSkippedEpochs cx + 1)) else Inr cx)"
  "EnableInflation (infParams cx) \<Longrightarrow> i \<noteq> infEpochIdentifier cx \<Longrightarrow> inf_AfterEpochEnd e cx i n = Inr cx"
  by (simp_all add: inf_AfterEpochEnd_def Let_def inf_GetParams_def GetSkippedEpochs_def GetEpochIdentifier_def)

lemma AfterEpochEnd_cases:
  assumes "inf_AfterEpochEnd e cx i n = Inr cx'"
  obtains (disabled) "\<not> EnableInflation (infParams cx)" "i = DayEpochID" "cx' = SetSkippedEpochs cx (infSkippedEpochs cx + 1)"
  | (other) "cx' = cx" "\<not> (EnableInflation (infParams cx) \<and> i = infEpochIdentifier cx)"
      "\<not> (\<not> EnableInflation (infParams cx) \<and> i = DayEpochID)"
  | (zero) v where "EnableInflation (infParams cx)" "i = infEpochIdentifier cx" "GetEpochMintProvision e cx = Inr v"
      "\<not> 0 < v" "cx' = cx"
  | (mint) v cx1 st cp where "EnableInflation (infParams cx)" "i = infEpochIdentifier cx"
      "GetEpochMintProvision e cx = Inr v" "0 < v"
      "MintAndAllocateInflation e cx (MintDenom (infParams cx), decTruncateInt (ieDec e) v) (infParams cx) = Inr (cx1, st, cp)"
      "cx' = (if i64 (i64 (n - i64 (infEpochsPerPeriod cx * i64 (uint (infPeriod cx)))) - i64 (uint (infSkippedEpochs cx)))
          > infEpochsPerPeriod cx then SetPeriod cx1 (infPeriod cx + 1) else cx1)"
proof (cases "EnableInflation (infParams cx)")
  case False
  show thesis
  proof (cases "i = DayEpochID")
    case True
    with assms AfterEpochEnd_off(1) [OF False] have "cx' = SetSkippedEpochs cx (infSkippedEpochs cx + 1)" by simp
    then show thesis by (rule disabled [OF False True])
  next
    case day: False
    with assms AfterEpochEnd_off(1) [OF False] have "cx' = cx" by simp
    then show thesis by (rule other) (use False day in simp_all)
  qed
next
  case True
  show thesis
  proof (cases "i = infEpochIdentifier cx")
    case False
    with assms AfterEpochEnd_off(2) [OF True] have "cx' = cx" by simp
    then show thesis by (rule other) (use False True in simp_all)
  next
    case id: True
    obtain v where v: "GetEpochMintProvision e cx = Inr v"
      and rest: "(if \<not> v > 0 then Inr cx else
          rbind (or_panic (MintAndAllocateInflation e cx (MintDenom (infParams cx), decTruncateInt (ieDec e) v) (infParams cx)))
            (\<lambda>(cx1, st, cp). if i64 (i64 (n - i64 (infEpochsPerPeriod cx * i64 (uint (infPeriod cx)))) - i64 (uint (infSkippedEpochs cx)))
               > infEpochsPerPeriod cx then Inr (SetPeriod cx1 (infPeriod cx + 1)) else Inr cx1)) = Inr cx'"
      using assms unfolding AfterEpochEnd_enabled [OF True id] by (elim rbind_InrE)
    show thesis
    proof (cases "0 < v")
      case False
      with rest have "cx' = cx" by simp
      then show thesis by (rule zero [OF True id v False])
    next
      case pos: True
      with rest have step: "rbind (or_panic (MintAndAllocateInflation e cx (MintDenom (infParams cx), decTruncateInt (ieDec e) v) (infParams cx)))
            (\<lambda>(cx1, st, cp). if i64 (i64 (n - i64 (infEpochsPerPeriod cx * i64 (uint (infPeriod cx)))) - i64 (uint (infSkippedEpochs cx)))
               > infEpochsPerPeriod cx then Inr (SetPeriod cx1 (infPeriod cx + 1)) else Inr cx1) = Inr cx'"
        by (simp only: if_True if_False not_not not_True_eq_False)
      obtain r where p: "or_panic (MintAndAllocateInflation e cx (MintDenom (infParams cx), decTruncateInt (ieDec e) v) (infParams cx)) = Inr r"
        and r: "(case r of (cx1, st, cp) \<Rightarrow> if i64 (i64 (n - i64 (infEpochsPerPeriod cx * i64 (uint (infPeriod cx)))) - i64 (uint (infSkippedEpochs cx)))
               > infEpochsPerPeriod cx then Inr (SetPeriod cx1 (infPeriod cx + 1)) else Inr cx1) = (Inr cx' :: 'a InflationCtx result)"
        using step by (rule rbind_InrE) (rule that)
      note m = p [unfolded or_panic_Inr]
      obtain cx1 st cp where "r = (cx1, st, cp)" by (metis prod_cases3)
      with m r show thesis by (intro mint [OF True id v pos, of cx1 st cp]) (simp_all split: if_splits)
    qed
  qed
qed

text \<open>
  C11. What an epoch mints is all handed out: at the end of an inflation epoch either nothing is
  minted and no balance changes, or the provision's whole units are minted, the staking share
  of them, rounded down and positive, goes to the fee collector, and everything else the
  module account holds goes to the community pool; the module account is left empty and no
  other account changes.
\<close>

theorem AfterEpochEnd_allocates:
  assumes "inflation_laws e" "distinct_accounts e"
    and "validateInflationDistribution (ipDistribution (infParams cx)) = Inr ()"
    and "inf_AfterEpochEnd e cx i n = Inr cx'"
  shows "infSdk cx' = infSdk cx \<or>
    (\<exists>v a s. GetEpochMintProvision e cx = Inr v \<and> a = v div dec_one \<and> 0 < a
       \<and> s = a * StakingRewards (ipDistribution (infParams cx)) div dec_one \<and> 0 < s \<and> s \<le> a
       \<and> ieGetAllBalances e (infSdk cx') = (ieGetAllBalances e (infSdk cx))
           (ieModuleAddress e inf_ModuleName := {#},
            ieModuleAddress e (ieFeeCollectorName e) :=
              ieGetAllBalances e (infSdk cx) (ieModuleAddress e (ieFeeCollectorName e)) + NewCoin (MintDenom (infParams cx)) s,
            ieModuleAddress e ''distribution'' :=
              ieGetAllBalances e (infSdk cx) (ieModuleAddress e ''distribution'')
              + (ieGetAllBalances e (infSdk cx) (ieModuleAddress e inf_ModuleName)
                 + NewCoin (MintDenom (infParams cx)) (a - s))))"
  using assms(4)
proof (cases rule: AfterEpochEnd_cases)
  case (mint v cx1 st cp)
  have tr: "decTruncateInt (ieDec e) v = v div dec_one"
    using dec_lawsD(8) [OF inflation_lawsD(1) [OF assms(1)], of v] mint(4) by simp
  have sdk: "infSdk cx' = infSdk cx1" using mint(6) by (simp add: SetPeriod_def)
  show ?thesis
  proof (cases "0 < v div dec_one")
    case True
    note m = MintAndAllocate_effect [OF assms(1-3) mint(5) [unfolded tr] True]
    show ?thesis using mint(3) True m(1,2,4) sdk by auto
  next
    case False
    then have "cx1 = cx" using mint(5) tr by (simp add: MintAndAllocateInflation_def)
    then show ?thesis using sdk by simp
  qed
qed (simp_all add: SetSkippedEpochs_def)

section \<open>A concrete environment\<close>

definition ex_ienv :: "(160 word \<Rightarrow> Coins) inflation_env" where
  "ex_ienv = \<lparr>ieDec = dec_impl, ieModuleAddress = (\<lambda>m. word_of_nat (length m)),
     ieMintCoins = (\<lambda>w m (d, n). if 0 < n then Inr (w(word_of_nat (length m) := w (word_of_nat (length m)) + NewCoin d n))
        else Inl ErrInvalidCoins),
     ieSendCoinsFromModuleToModule = (\<lambda>w m m' (d, n).
        if 0 < n \<and> NewCoin d n \<subseteq># w (word_of_nat (length m))
        then Inr (move_coins (word_of_nat (length m)) (word_of_nat (length m')) (NewCoin d n) w) else Inl ErrInvalidCoins),
     ieGetAllBalances = (\<lambda>w. w), ieGetSupply = (\<lambda>w d. 1000),
     ieFundCommunityPool = (\<lambda>w cs a. if cs \<subseteq># w a then Inr (move_coins a (word_of_nat (length ''distribution'')) cs w)
        else Inl ErrInvalidCoins),
     ieStakingTokenSupply = (\<lambda>w. 100), ieTotalBondedTokens = (\<lambda>w. 50), ieFeeCollectorName = ''fee_collector'',
     ieAuthority = ''gov'', ieChainID = ''dhives_5438-1''\<rparr>"

lemma ex_ienv_laws: "inflation_laws ex_ienv" "distinct_accounts ex_ienv"
  by (auto simp: inflation_laws_def ex_ienv_def dec_impl_laws distinct_accounts_def inf_ModuleName_def split: if_splits)

text \<open>Parameters that mint 365 whole coins in a period of 365 epochs.\<close>

definition ex_iparams :: "bool \<Rightarrow> int \<Rightarrow> InfParams" where
  "ex_iparams enabled staking = \<lparr>MintDenom = ''a'',
     ipExponential = \<lparr>expA = 0, expR = 0, expC = LegacyNewDec 1095, BondingTarget = dec_one, MaxVariance = 0\<rparr>,
     ipDistribution = \<lparr>StakingRewards = staking, UsageIncentives = 0, CommunityPool = dec_one - staking\<rparr>,
     EnableInflation = enabled\<rparr>"

definition ex_inf :: "bool \<Rightarrow> int \<Rightarrow> (160 word \<Rightarrow> Coins) InflationCtx" where
  "ex_inf enabled staking = \<lparr>infSdk = (\<lambda>_. {#}), infParams = ex_iparams enabled staking, infPeriod = 0,
     infEpochIdentifier = DayEpochID, infEpochsPerPeriod = 365, infSkippedEpochs = 0\<rparr>"

lemma ex_inf_distribution: "0 \<le> s \<Longrightarrow> s \<le> dec_one \<Longrightarrow> validateInflationDistribution (ipDistribution (infParams (ex_inf b s))) = Inr ()"
  by (simp add: ex_inf_def ex_iparams_def validateInflationDistribution_def LegacyNewDec_def)

lemma ex_ops:
  "decMul dec_impl 0 b = Inr 0" "decPower dec_impl a 0 = Inr dec_one"
  "decQuo dec_impl (LegacyNewDec (n * k)) (LegacyNewDec n) = Inr (LegacyNewDec k)" if "n \<noteq> 0"
  using that by (simp_all add: dec_impl_def dec_one_def LegacyNewDec_def)

lemma ex_inf_provision: "GetEpochMintProvision ex_ienv (ex_inf b s) = Inr (10 ^ 18 * dec_one)"
proof -
  have ratio: "BondedRatio ex_ienv (ex_inf b s) = Inr (dec_one div 2)"
    by (simp add: BondedRatio_def ex_ienv_def ex_inf_def IsMainnet_def MainnetChainID_def dec_impl_def LegacyNewDec_def dec_one_def)
  have q: "\<exists>q. decQuo dec_impl (dec_one div 2) dec_one = Inr q" by (simp add: dec_impl_def)
  have "decQuo dec_impl (LegacyNewDec 1095) (LegacyNewDec 3) = Inr (LegacyNewDec 365)"
    "decQuo dec_impl (LegacyNewDec 365) (LegacyNewDec 365) = Inr (LegacyNewDec 1)"
    using ex_ops(3) [of 3 365] ex_ops(3) [of 365 1] by simp_all
  moreover have "decMul dec_impl (LegacyNewDec 1) (LegacyNewDec (10 ^ 18)) = Inr (10 ^ 18 * dec_one)"
    by (simp add: dec_impl_def LegacyNewDec_def dec_one_def)
  moreover have "\<not> dec_one div 2 \<ge> dec_one" by (simp add: dec_one_def)
  ultimately show ?thesis
    using q ex_ops(1) [of 1] ex_ops(2) [of 1]
    unfolding GetEpochMintProvision_def ratio rbind_simps CalculateEpochMintProvision_def Let_def
    by (auto simp: ex_ienv_def ex_inf_def ex_iparams_def inf_GetParams_def GetPeriod_def GetEpochsPerPeriod_def)
qed

lemma NewCoin_mono: "s \<le> n \<Longrightarrow> NewCoin d s \<subseteq># NewCoin d n"
  by (simp add: NewCoin_def subseteq_mset_def nat_mono)

lemma ex_mint:
  "\<exists>w st. MintAndAllocateInflation ex_ienv (ex_inf True (dec_one div 2)) (''a'', 10 ^ 18) (ex_iparams True (dec_one div 2))
     = Inr ((ex_inf True (dec_one div 2))\<lparr>infSdk := w\<rparr>, Some st, None)"
proof -
  let ?cx = "ex_inf True (dec_one div 2)"
  have "decMul dec_impl (LegacyNewDec (10 ^ 18)) (dec_one div 2) = Inr (5 * 10 ^ 17 * dec_one)"
    "decTruncateInt dec_impl (5 * 10 ^ 17 * dec_one) = 5 * 10 ^ 17"
    by (simp_all add: dec_impl_def LegacyNewDec_def dec_one_def)
  then have share: "GetProportions (ieDec ex_ienv) (''a'', 10 ^ 18) (dec_one div 2) = Inr (''a'', 5 * 10 ^ 17)"
    by (simp add: GetProportions_def ex_ienv_def)
  have sub: "NewCoin ''a'' (5 * 10 ^ 17) \<subseteq># NewCoin ''a'' (10 ^ 18)" by (rule NewCoin_mono) simp
  have mint: "inf_MintCoins ex_ienv ?cx (''a'', 10 ^ 18) = Inr (?cx\<lparr>infSdk := (\<lambda>_. {#})(9 := NewCoin ''a'' (10 ^ 18))\<rparr>)"
    by (simp add: inf_MintCoins_def ex_ienv_def ex_inf_def inf_ModuleName_def)
  have send: "ieSendCoinsFromModuleToModule ex_ienv ((\<lambda>_. {#})(9 := NewCoin ''a'' (10 ^ 18))) inf_ModuleName (ieFeeCollectorName ex_ienv) (''a'', 5 * 10 ^ 17)
      = Inr (move_coins 9 13 (NewCoin ''a'' (5 * 10 ^ 17)) ((\<lambda>_. {#})(9 := NewCoin ''a'' (10 ^ 18))))"
    using sub by (simp add: ex_ienv_def inf_ModuleName_def)
  have "\<exists>w'. ieFundCommunityPool ex_ienv w (ieGetAllBalances ex_ienv w a) a = Inr w'" for w a by (simp add: ex_ienv_def)
  then obtain w' where "ieFundCommunityPool ex_ienv (move_coins 9 13 (NewCoin ''a'' (5 * 10 ^ 17)) ((\<lambda>_. {#})(9 := NewCoin ''a'' (10 ^ 18))))
      (ieGetAllBalances ex_ienv (move_coins 9 13 (NewCoin ''a'' (5 * 10 ^ 17)) ((\<lambda>_. {#})(9 := NewCoin ''a'' (10 ^ 18))))
        (ieModuleAddress ex_ienv inf_ModuleName)) (ieModuleAddress ex_ienv inf_ModuleName) = Inr w'" by blast
  then show ?thesis
    using share mint send
    by (intro exI [of _ w'] exI [of _ "(''a'', 5 * 10 ^ 17)"])
       (simp add: MintAndAllocateInflation_def AllocateExponentialInflation_def ex_iparams_def Let_def)
qed

lemma ex_inf_run: "\<exists>cx'. inf_AfterEpochEnd ex_ienv (ex_inf True (dec_one div 2)) DayEpochID 2 = Inr cx'"
proof -
  let ?cx = "ex_inf True (dec_one div 2)"
  have en: "EnableInflation (infParams ?cx)" "DayEpochID = infEpochIdentifier ?cx" by (simp_all add: ex_inf_def ex_iparams_def)
  have tr: "decTruncateInt (ieDec ex_ienv) (10 ^ 18 * dec_one) = 10 ^ 18" by (simp add: ex_ienv_def dec_impl_def)
  have par: "infParams ?cx = ex_iparams True (dec_one div 2)" and denom: "MintDenom (ex_iparams True (dec_one div 2)) = ''a''"
    by (simp_all add: ex_inf_def ex_iparams_def)
  obtain w st where m: "MintAndAllocateInflation ex_ienv ?cx (''a'', 10 ^ 18) (ex_iparams True (dec_one div 2)) = Inr (?cx\<lparr>infSdk := w\<rparr>, Some st, None)"
    using ex_mint by blast
  show ?thesis
    unfolding AfterEpochEnd_enabled [OF en] ex_inf_provision rbind_simps tr par denom m by (simp add: or_panic_def)
qed

theorem AfterEpochEnd_allocates_witness:
  "\<exists>cx'. inf_AfterEpochEnd ex_ienv (ex_inf True (dec_one div 2)) DayEpochID 2 = Inr cx'
     \<and> (infSdk cx' = (\<lambda>_. {#}) \<or> infSdk cx' 13 = NewCoin ''a'' (5 * 10 ^ 17) \<and> infSdk cx' 9 = {#})"
proof -
  let ?cx = "ex_inf True (dec_one div 2)"
  have par: "infParams ?cx = ex_iparams True (dec_one div 2)" and denom: "MintDenom (ex_iparams True (dec_one div 2)) = ''a''"
    by (simp_all add: ex_inf_def ex_iparams_def)
  obtain cx' where run: "inf_AfterEpochEnd ex_ienv ?cx DayEpochID 2 = Inr cx'" using ex_inf_run by blast
  have valid: "validateInflationDistribution (ipDistribution (infParams ?cx)) = Inr ()"
    by (rule ex_inf_distribution) (simp_all add: dec_one_def)
  have amt: "(10 :: int) ^ 18 * dec_one div dec_one * StakingRewards (ipDistribution (infParams ?cx)) div dec_one = 5 * 10 ^ 17"
    by (simp add: ex_inf_def ex_iparams_def dec_one_def)
  have env: "ieGetAllBalances ex_ienv = (\<lambda>w. w)" "ieModuleAddress ex_ienv inf_ModuleName = 9"
    "ieModuleAddress ex_ienv (ieFeeCollectorName ex_ienv) = 13" "ieModuleAddress ex_ienv ''distribution'' = 12"
    by (simp_all add: ex_ienv_def inf_ModuleName_def)
  from AfterEpochEnd_allocates [OF ex_ienv_laws valid run, unfolded ex_inf_provision env par denom] amt [unfolded par] run show ?thesis
    by (auto simp: ex_inf_def)
qed



section \<open>Periods\<close>

text \<open>
  After the end of the inflation epoch that makes the number \<open>n\<close>, with no wrap-around: the period
  counts the whole runs of \<open>epochsPerPeriod\<close> epochs in which inflation was not skipped.
\<close>

definition period_inv :: "int \<Rightarrow> 'w InflationCtx \<Rightarrow> bool" where
  "period_inv n cx \<longleftrightarrow> 0 < infEpochsPerPeriod cx \<and> infEpochsPerPeriod cx < 2 ^ 62 \<and> 1 \<le> n
     \<and> uint (infSkippedEpochs cx) \<le> n - 1
     \<and> uint (infPeriod cx) = (n - 1 - uint (infSkippedEpochs cx)) div infEpochsPerPeriod cx"

lemma next_period:
  fixes m epp :: int
  assumes "0 < epp" "0 \<le> m"
  shows "(m + 1) div epp = (if m + 2 - epp * (m div epp) > epp then m div epp + 1 else m div epp)"
proof -
  define k r where "k = m div epp" and "r = m mod epp"
  have m: "m = epp * k + r" "0 \<le> r" "r < epp" using assms by (simp_all add: k_def r_def)
  show ?thesis
  proof (cases "r + 1 = epp")
    case True
    then have "m + 1 = epp * (k + 1)" using m by (simp add: algebra_simps)
    then have "(m + 1) div epp = k + 1" using assms(1) by simp
    then show ?thesis using True m by (simp add: k_def [symmetric])
  next
    case False
    then have "(m + 1) div epp = k" using m assms(1) by (intro int_div_pos_eq [of _ _ _ "r + 1"]) simp_all
    then show ?thesis using False m by (simp add: k_def [symmetric])
  qed
qed

lemma uint_plus_1: "uint w + 1 < 2 ^ 64 \<Longrightarrow> uint (w + 1) = uint w + 1" for w :: "64 word"
  by (simp add: uint_word_ariths)

lemma MintAndAllocate_keeps:
  "MintAndAllocateInflation e cx c p = Inr (cx', st, cp) \<Longrightarrow> \<exists>w. cx' = cx\<lparr>infSdk := w\<rparr>"
  by (auto simp: MintAndAllocateInflation_def inf_MintCoins_def AllocateExponentialInflation_def rbind_Inr_iff Let_def
      split: if_splits intro: exI [of _ "infSdk cx"])

lemma AfterEpochEnd_period:
  assumes inv: "period_inv n cx" and lt: "n + 1 < 2 ^ 62" and day: "infEpochIdentifier cx = DayEpochID"
    and pos: "\<And>v. GetEpochMintProvision e cx = Inr v \<Longrightarrow> 0 < v"
    and run: "inf_AfterEpochEnd e cx DayEpochID (n + 1) = Inr cx'"
  shows "period_inv (n + 1) cx'"
  using run
proof (cases rule: AfterEpochEnd_cases)
  case disabled
  have "uint (infSkippedEpochs cx + 1) = uint (infSkippedEpochs cx) + 1"
    using inv lt by (intro uint_plus_1) (auto simp: period_inv_def)
  then show ?thesis using inv disabled by (simp add: period_inv_def SetSkippedEpochs_def algebra_simps)
next
  case (mint v cx1 st cp)
  let ?p = "uint (infPeriod cx)" and ?s = "uint (infSkippedEpochs cx)" and ?epp = "infEpochsPerPeriod cx"
  let ?m = "n - 1 - ?s"
  have b: "0 < ?epp" "0 \<le> ?m" "?p = ?m div ?epp" using inv by (simp_all add: period_inv_def)
  have nonneg: "0 \<le> ?p" "0 \<le> ?s" by simp_all
  have "?epp * ?p + ?m mod ?epp = ?m" unfolding b(3) by (rule mult_div_mod_eq)
  moreover have "0 \<le> ?m mod ?epp" using b(1) by simp
  ultimately have pe1: "?epp * ?p \<le> ?m" by linarith
  have pe2: "0 \<le> ?epp * ?p" using b(1) nonneg by simp
  note pe = pe1 pe2
  have "?p \<le> ?epp * ?p" using b(1) nonneg mult_right_mono [of 1 ?epp ?p] by simp
  then have p: "?p \<le> n" using pe nonneg by linarith
  have s: "?s \<le> n" using b nonneg by linarith
  have small: "i64 x = x" if "- n \<le> x" "x \<le> n + 1" for x
    using that lt by (intro i64_id) (simp add: in_i64_def)
  have w: "i64 ?p = ?p" "i64 ?s = ?s" "i64 (?epp * ?p) = ?epp * ?p"
    "i64 (n + 1 - ?epp * ?p) = n + 1 - ?epp * ?p" "i64 (n + 1 - ?epp * ?p - ?s) = n + 1 - ?epp * ?p - ?s"
    by (rule small; use p s pe b(2) nonneg in linarith)+
  obtain w1 where cx1: "cx1 = cx\<lparr>infSdk := w1\<rparr>" using MintAndAllocate_keeps [OF mint(5)] by blast
  have cond: "cx' = (if n + 1 - ?epp * ?p - ?s > ?epp then SetPeriod cx1 (infPeriod cx + 1) else cx1)"
    using mint(6) w by simp
  have up: "uint (infPeriod cx + 1) = ?p + 1" using p lt by (intro uint_plus_1) simp
  have step: "(n - ?s) div ?epp = (if n + 1 - ?epp * ?p - ?s > ?epp then ?p + 1 else ?p)"
    using next_period [OF b(1,2)] b(3) by (simp add: algebra_simps)
  show ?thesis
    using inv step up cond cx1 by (auto simp: period_inv_def SetPeriod_def)
next
  case (zero v)
  then show ?thesis using pos by blast
qed (use day in auto)

section \<open>Epochs drive inflation\<close>

lemma inf_Hooks_other:
  assumes "i \<noteq> DayEpochID" "infEpochIdentifier h = DayEpochID"
  shows "inf_AfterEpochEnd e h i n = Inr h"
  using assms by (cases "EnableInflation (infParams h)") (simp_all add: AfterEpochEnd_off)

lemma run_calls_other:
  assumes "\<forall>c \<in> set cs. fst (snd c) \<noteq> DayEpochID" "infEpochIdentifier h = DayEpochID"
  shows "run_calls [inf_Hooks e] cs h = Inr h"
  using assms(1)
proof (induction cs)
  case (Cons c cs)
  obtain b i n where c: "c = (b, i, n)" by (metis prod_cases3)
  show ?case using Cons c assms(2) by (simp add: inf_Hooks_def inf_Hooks_other inf_BeforeEpochStart_def)
qed simp

lemma epoch_calls_identifier: "c \<in> set (epoch_calls t e) \<Longrightarrow> fst (snd c) = Identifier e"
  by (auto simp: epoch_calls_def split: if_splits)

lemma run_calls_store:
  assumes "epochs_ok s" "kv_get s DayEpochID = Some de" "infEpochIdentifier h = DayEpochID"
    and "\<And>h'. run_calls [inf_Hooks e] (epoch_calls t de) h = Inr h' \<Longrightarrow> infEpochIdentifier h' = DayEpochID"
  shows "run_calls [inf_Hooks e] (concat (map (\<lambda>(k, e). epoch_calls t e) s)) h = run_calls [inf_Hooks e] (epoch_calls t de) h"
proof -
  have "(DayEpochID, de) \<in> set s" using assms(1,2) by (simp add: epochs_ok_def kv_get_mem)
  then obtain xs ys where s: "s = xs @ (DayEpochID, de) # ys" by (auto simp: in_set_conv_decomp)
  have d: "distinct (map fst s)" using assms(1) kv_ok_distinct [of s] by (simp add: epochs_ok_def)
  have other: "\<forall>c \<in> set (concat (map (\<lambda>(k, e). epoch_calls t e) zs)). fst (snd c) \<noteq> DayEpochID"
    if "set zs \<subseteq> set s" "DayEpochID \<notin> fst ` set zs" for zs
  proof
    fix c assume "c \<in> set (concat (map (\<lambda>(k, e). epoch_calls t e) zs))"
    then obtain k e where ke: "(k, e) \<in> set zs" "c \<in> set (epoch_calls t e)" by auto
    have "Identifier e = k" using ke(1) that(1) assms(1) by (auto simp: epochs_ok_def)
    moreover have "k \<noteq> DayEpochID" using ke(1) that(2) by force
    ultimately show "fst (snd c) \<noteq> DayEpochID" using epoch_calls_identifier [OF ke(2)] by simp
  qed
  have xs: "run_calls [inf_Hooks e] (concat (map (\<lambda>(k, e). epoch_calls t e) xs)) h = Inr h"
    using d s assms(3) by (intro run_calls_other other) auto
  have ys: "run_calls [inf_Hooks e] (concat (map (\<lambda>(k, e). epoch_calls t e) ys)) h' = Inr h'"
    if "infEpochIdentifier h' = DayEpochID" for h'
    using d s that by (intro run_calls_other other) auto
  show ?thesis
    using xs ys assms(4) by (simp add: s run_calls_append) (auto simp: rbind_def split: sum.split)
qed

lemma AfterEpochEnd_identifier: "inf_AfterEpochEnd e cx i n = Inr cx' \<Longrightarrow> infEpochIdentifier cx' = infEpochIdentifier cx"
  by (erule AfterEpochEnd_cases) (auto simp: SetSkippedEpochs_def SetPeriod_def dest!: MintAndAllocate_keeps)

text \<open>The daily epoch and the inflation state agree; an epoch that has not begun counts as the first.\<close>

definition in_step :: "EpochInfo \<Rightarrow> 'w InflationCtx \<Rightarrow> bool" where
  "in_step de h \<longleftrightarrow> infEpochIdentifier h = DayEpochID
     \<and> period_inv (if EpochCountingStarted de then CurrentEpoch de else 1) h"

text \<open>
  C12. The begin blocker of the epochs keeps inflation in step: as long as the provision is
  positive when it is minted, after every block the inflation period is the number of whole
  periods among the daily epochs that have ended and were not skipped, whether inflation is
  enabled or not, and whatever other epochs are in the store.
\<close>

theorem epochs_keep_inflation_in_step:
  assumes "epochs_ok (epochStore cx)" "kv_get (epochStore cx) DayEpochID = Some de" "in_step de (hookState cx)"
    and "CurrentEpoch de + 1 < 2 ^ 62"
    and "\<forall>v. GetEpochMintProvision e (hookState cx) = Inr v \<longrightarrow> 0 < v"
    and "ep_BeginBlocker [inf_Hooks e] cx = Inr cx'"
  shows "\<exists>de'. kv_get (epochStore cx') DayEpochID = Some de' \<and> in_step de' (hookState cx')
     \<and> de' = epoch_tick (epBlockTime cx) (epBlockHeight cx) de"
proof -
  let ?h = "hookState cx" and ?t = "epBlockTime cx"
  have id: "Identifier de = DayEpochID" "infEpochIdentifier ?h = DayEpochID"
    using assms(1-3) by (auto simp: epochs_ok_def kv_get_mem in_step_def)
  have keep: "infEpochIdentifier h' = DayEpochID" if "run_calls [inf_Hooks e] (epoch_calls ?t de) ?h = Inr h'" for h'
    using that id by (auto simp: epoch_calls_def inf_Hooks_def inf_BeforeEpochStart_def rbind_Inr_iff
        dest!: AfterEpochEnd_identifier split: if_splits)
  note calls = run_calls_store [OF assms(1,2) id(2) keep]
  obtain h' where h': "run_calls [inf_Hooks e] (epoch_calls ?t de) ?h = Inr h'" "hookState cx' = h'"
    "epochStore cx' = map (\<lambda>(k, e). (k, epoch_tick ?t (epBlockHeight cx) e)) (epochStore cx)"
    using assms(6) BeginBlocker_eq [OF assms(1), of "[inf_Hooks e]"] calls by (auto simp: rbind_Inr_iff)
  have get: "kv_get (epochStore cx') DayEpochID = Some (epoch_tick ?t (epBlockHeight cx) de)"
    using assms(2) by (simp add: h'(3) kv_get_map)
  have "in_step (epoch_tick ?t (epBlockHeight cx) de) h'"
  proof (cases "\<not> ?t < eStartTime de \<and> EpochCountingStarted de \<and> CurrentEpochStartTime de + Duration de < ?t")
    case True
    have pi: "period_inv (CurrentEpoch de) ?h" using assms(3) True by (simp add: in_step_def)
    then have n: "i64 (CurrentEpoch de + 1) = CurrentEpoch de + 1"
      using assms(4) by (intro i64_id) (simp add: in_i64_def period_inv_def)
    have run: "inf_AfterEpochEnd e ?h DayEpochID (CurrentEpoch de + 1) = Inr h'"
      using h'(1) True id n by (auto simp: epoch_calls_def inf_Hooks_def inf_BeforeEpochStart_def rbind_Inr_iff)
    have pos: "0 < v" if "GetEpochMintProvision e ?h = Inr v" for v using assms(5) that by blast
    have "period_inv (CurrentEpoch de + 1) h'" by (rule AfterEpochEnd_period [OF pi assms(4) id(2) pos run])
    then show ?thesis using True n keep [OF h'(1)] by (simp add: in_step_def epoch_tick_def EndEpoch_def)
  next
    case False
    then have "h' = ?h"
      using h'(1) by (auto simp: epoch_calls_def inf_Hooks_def inf_BeforeEpochStart_def split: if_splits)
    then show ?thesis
      using False assms(3) by (auto simp: in_step_def epoch_tick_def StartInitialEpoch_def)
  qed
  with get h'(2) show ?thesis by blast
qed

definition ex_day :: "(160 word \<Rightarrow> Coins) InflationCtx EpochCtx" where
  "ex_day = \<lparr>epochStore = [(''day'', ex_epoch True 1)], hookState = ex_inf True (dec_one div 2),
     epBlockTime = 131, epBlockHeight = 9, epEvents = []\<rparr>"

theorem epochs_keep_inflation_in_step_witness:
  "\<exists>cx'. ep_BeginBlocker [inf_Hooks ex_ienv] ex_day = Inr cx' \<and> in_step (epoch_tick 131 9 (ex_epoch True 1)) (hookState cx')"
proof -
  have ok: "epochs_ok (epochStore ex_day)" by (simp add: epochs_ok_def ex_day_def ex_epoch_def kv_ok_def)
  obtain h where "inf_AfterEpochEnd ex_ienv (ex_inf True (dec_one div 2)) DayEpochID 2 = Inr h" using ex_inf_run by blast
  then have "\<exists>cx'. ep_BeginBlocker [inf_Hooks ex_ienv] ex_day = Inr cx'"
    unfolding BeginBlocker_eq [OF ok]
    by (simp add: ex_day_def epoch_calls_def ex_epoch_def i64_id in_i64_def inf_Hooks_def inf_BeforeEpochStart_def DayEpochID_def)
  then obtain cx' where run: "ep_BeginBlocker [inf_Hooks ex_ienv] ex_day = Inr cx'" by blast
  have day: "kv_get (epochStore ex_day) DayEpochID = Some (ex_epoch True 1)" by (simp add: ex_day_def DayEpochID_def kv_get_def)
  have step: "in_step (ex_epoch True 1) (hookState ex_day)"
    by (simp add: in_step_def period_inv_def ex_day_def ex_inf_def ex_epoch_def)
  have num: "CurrentEpoch (ex_epoch True 1) + 1 < 2 ^ 62" by (simp add: ex_epoch_def)
  have pos: "\<forall>v. GetEpochMintProvision ex_ienv (hookState ex_day) = Inr v \<longrightarrow> 0 < v"
    using dec_one_pos by (simp add: ex_day_def ex_inf_provision)
  show ?thesis
    using epochs_keep_inflation_in_step [OF ok day step num pos run] run by (auto simp: ex_day_def)
qed

end
