(* ===== verification/Addresses.thy ===== *)
theory Addresses
  imports StateDB
begin

text \<open>
  Addresses as text: the SDK's bech32 codec and go-ethereum's hexadecimal one are fields of
  \<open>addr_codec\<close>, with the laws the modules rely on, and the checks of \<^verbatim>\<open>types/validation.go\<close>
  over them. An account address has the 20 bytes of an Ethereum address.
\<close>

section \<open>The codecs\<close>

text \<open>
  \<open>acFromBech32\<close> is \<^verbatim>\<open>AccAddressFromBech32\<close>, \<open>acToBech32\<close> is \<^verbatim>\<open>AccAddress.String\<close>,
  \<open>acIsHexAddress\<close>, \<open>acHexToAddress\<close> and \<open>acHex\<close> are \<^verbatim>\<open>common.IsHexAddress\<close>,
  \<^verbatim>\<open>common.HexToAddress\<close> and \<^verbatim>\<open>Address.String\<close>, and \<open>acCreateAddress\<close> is
  \<^verbatim>\<open>crypto.CreateAddress\<close>.
\<close>

record addr_codec =
  acFromBech32 :: "string \<Rightarrow> addr option"
  acToBech32 :: "addr \<Rightarrow> string"
  acIsHexAddress :: "string \<Rightarrow> bool"
  acHexToAddress :: "string \<Rightarrow> addr"
  acHex :: "addr \<Rightarrow> string"
  acCreateAddress :: "addr \<Rightarrow> u64 \<Rightarrow> addr"

definition codec_laws :: "addr_codec \<Rightarrow> bool" where
  "codec_laws ac \<longleftrightarrow>
     (\<forall>a. acFromBech32 ac (acToBech32 ac a) = Some a) \<and> acFromBech32 ac [] = None
   \<and> (\<forall>a. acHexToAddress ac (acHex ac a) = a) \<and> (\<forall>a. acIsHexAddress ac (acHex ac a))
   \<and> (\<forall>s. acIsHexAddress ac s \<longrightarrow> CHR ''|'' \<notin> set s \<and> CHR ''/'' \<notin> set s)"

lemma codec_lawsD:
  assumes "codec_laws ac"
  shows "acFromBech32 ac (acToBech32 ac a) = Some a" "acFromBech32 ac [] = None"
    "acHexToAddress ac (acHex ac a) = a" "acIsHexAddress ac (acHex ac a)"
    "acIsHexAddress ac s \<Longrightarrow> CHR ''|'' \<notin> set s" "acIsHexAddress ac s \<Longrightarrow> CHR ''/'' \<notin> set s"
  using assms by (simp_all add: codec_laws_def)

lemma acToBech32_nonempty: "codec_laws ac \<Longrightarrow> acToBech32 ac a \<noteq> []"
  by (metis codec_lawsD(1,2) option.distinct(1))

lemma acToBech32_inj: "codec_laws ac \<Longrightarrow> acToBech32 ac a = acToBech32 ac b \<longleftrightarrow> a = b"
  by (metis codec_lawsD(1) option.inject)

lemma acHex_inj: "codec_laws ac \<Longrightarrow> acHex ac a = acHex ac b \<longleftrightarrow> a = b"
  by (metis codec_lawsD(3))

definition must_bech32 :: "addr_codec \<Rightarrow> string \<Rightarrow> addr result" where
  "must_bech32 ac s =
     (case acFromBech32 ac s of Some a \<Rightarrow> Inr a | None \<Rightarrow> Inl (Panic ''decoding bech32 failed''))"

definition acc_bech32 :: "addr_codec \<Rightarrow> string \<Rightarrow> addr result" where
  "acc_bech32 ac s =
     (case acFromBech32 ac s of Some a \<Rightarrow> Inr a | None \<Rightarrow> Inl (ErrExternal ''decoding bech32 failed''))"

lemma bech32_Inr [simp]:
  "must_bech32 ac s = Inr a \<longleftrightarrow> acFromBech32 ac s = Some a"
  "acc_bech32 ac s = Inr a \<longleftrightarrow> acFromBech32 ac s = Some a"
  by (auto simp: must_bech32_def acc_bech32_def split: option.splits)

section \<open>Validation\<close>

definition IsZeroAddress :: "addr_codec \<Rightarrow> string \<Rightarrow> bool" where
  "IsZeroAddress ac s \<longleftrightarrow> acHexToAddress ac s = 0"

definition ValidateNonZeroAddress :: "addr_codec \<Rightarrow> string \<Rightarrow> unit result" where
  "ValidateNonZeroAddress ac s =
     (if IsZeroAddress ac s then Inl ErrInvalidAddress
      else if acIsHexAddress ac s then Inr () else Inl ErrInvalidAddress)"

lemma ValidateNonZeroAddress_Inr:
  "ValidateNonZeroAddress ac s = Inr u \<longleftrightarrow> acHexToAddress ac s \<noteq> 0 \<and> acIsHexAddress ac s"
  by (simp add: ValidateNonZeroAddress_def IsZeroAddress_def)

text \<open>A string that \<^verbatim>\<open>strings.TrimSpace\<close> makes empty.\<close>

definition blank :: "string \<Rightarrow> bool" where
  "blank s \<longleftrightarrow> list_all isSpace s"

text \<open>\<^verbatim>\<open>Account.IsContract\<close> on what \<^verbatim>\<open>GetAccountWithoutBalance\<close> returns.\<close>

definition raw_IsContract :: "(byte list \<Rightarrow> hash) \<Rightarrow> nilableAccount \<Rightarrow> bool" where
  "raw_IsContract kec acct \<longleftrightarrow> rawCodeHash acct \<noteq> Some (emptyCodeHash kec)"

section \<open>A concrete codec\<close>

text \<open>An address is written as as many letters as its number, with a prefix that tells the codecs apart.\<close>

definition ex_codec :: addr_codec where
  "ex_codec =
     \<lparr>acFromBech32 = (\<lambda>s. if s \<noteq> [] \<and> hd s = CHR ''b'' then Some (word_of_nat (length (tl s))) else None),
      acToBech32 = (\<lambda>a. CHR ''b'' # replicate (unat a) CHR ''1''),
      acIsHexAddress = (\<lambda>s. s \<noteq> [] \<and> hd s \<in> {CHR ''x'', CHR ''X''} \<and> set (tl s) \<subseteq> {CHR ''1''}),
      acHexToAddress = (\<lambda>s. word_of_nat (length (tl s))),
      acHex = (\<lambda>a. CHR ''x'' # replicate (unat a) CHR ''1''),
      acCreateAddress = (\<lambda>a n. a + 10 + ucast n)\<rparr>"

lemma ex_codec_laws: "codec_laws ex_codec"
proof -
  have "CHR ''|'' \<notin> set s \<and> CHR ''/'' \<notin> set s" if "acIsHexAddress ex_codec s" for s
    using that by (cases s) (auto simp: ex_codec_def)
  then show ?thesis by (auto simp: codec_laws_def ex_codec_def)
qed

end
