(* ===== verification/StateDB_Commit.thy ===== *)
theory StateDB_Commit
  imports StateDB_Spec
begin

text \<open>
  \<^verbatim>\<open>StateDB.Commit\<close> against the contract of the keeper behind it. The contract is a locale:
  what the getters return after each setter, on the addresses the keeper can write, and
  what stays unchanged. From it alone: a commit never dereferences a missing object, every
  dirty account is persisted as the database shows it, and nothing else changes.
\<close>

text \<open>The account as the keeper returns it, with Go's nil fields filled in.\<close>

definition acct_of :: "(byte list \<Rightarrow> hash) \<Rightarrow> nilableAccount \<Rightarrow> Account" where
  "acct_of kec acct =
     \<lparr>Nonce = rawNonce acct, Balance = (case rawBalance acct of None \<Rightarrow> 0 | Some b \<Rightarrow> b),
      CodeHash = (case rawCodeHash acct of None \<Rightarrow> emptyCodeHash kec | Some h \<Rightarrow> h)\<rparr>"

text \<open>The account at \<open>a\<close> holds what a write of \<open>acct\<close> leaves there.\<close>

definition holds_account ::
  "(byte list \<Rightarrow> hash) \<Rightarrow> 'k Keeper \<Rightarrow> 'k \<Rightarrow> addr \<Rightarrow> bool \<Rightarrow> Account \<Rightarrow> bool" where
  "holds_account kec k c a is_eth acct \<longleftrightarrow>
     map_option (acct_of kec) (kGetAccount k c a)
       = Some (if is_eth then acct else acct\<lparr>CodeHash := emptyCodeHash kec\<rparr>)"

locale statedb_keeper =
  fixes kec :: "byte list \<Rightarrow> hash"
    and k :: "'k Keeper"
    and inv :: "'k \<Rightarrow> bool"
    and writable :: "'k \<Rightarrow> addr \<Rightarrow> bool"
    and eth :: "'k \<Rightarrow> addr \<Rightarrow> bool"
  assumes SetAccount_inv: "inv c \<Longrightarrow> writable c a \<Longrightarrow> kSetAccount k c a acct = Inr c' \<Longrightarrow> inv c'"
    and SetAccount_same: "inv c \<Longrightarrow> writable c a \<Longrightarrow> kSetAccount k c a acct = Inr c' \<Longrightarrow>
      holds_account kec k c' a (eth c a) acct"
    and SetAccount_other: "inv c \<Longrightarrow> writable c a \<Longrightarrow> kSetAccount k c a acct = Inr c' \<Longrightarrow>
      writable c b \<Longrightarrow> b \<noteq> a \<Longrightarrow> kGetAccount k c' b = kGetAccount k c b \<and> eth c' b = eth c b"
    and SetAccount_store: "inv c \<Longrightarrow> kSetAccount k c a acct = Inr c' \<Longrightarrow>
      kGetState k c' = kGetState k c \<and> kGetCode k c' = kGetCode k c \<and> writable c' = writable c"
    and SetState_inv: "inv c \<Longrightarrow> inv (kSetState k c a key v)"
    and SetState_state: "inv c \<Longrightarrow> kGetState k (kSetState k c a key v) b key'
      = (if b = a \<and> key' = key then (case v of None \<Rightarrow> 0 | Some x \<Rightarrow> x) else kGetState k c b key')"
    and SetState_other: "inv c \<Longrightarrow> kGetAccount k (kSetState k c a key v) = kGetAccount k c
      \<and> kGetCode k (kSetState k c a key v) = kGetCode k c \<and> eth (kSetState k c a key v) = eth c
      \<and> writable (kSetState k c a key v) = writable c"
    and SetCode_inv: "inv c \<Longrightarrow> inv (kSetCode k c h bs)"
    and SetCode_code: "inv c \<Longrightarrow> kGetCode k (kSetCode k c h bs) h'
      = (if h' = h then (if bs = [] then None else Some bs) else kGetCode k c h')"
    and SetCode_other: "inv c \<Longrightarrow> kGetAccount k (kSetCode k c h bs) = kGetAccount k c
      \<and> kGetState k (kSetCode k c h bs) = kGetState k c \<and> eth (kSetCode k c h bs) = eth c
      \<and> writable (kSetCode k c h bs) = writable c"
    and DeleteAccount_inv: "inv c \<Longrightarrow> writable c a \<Longrightarrow> kDeleteAccount k c a = Inr c' \<Longrightarrow> inv c'"
    and DeleteAccount_same: "inv c \<Longrightarrow> writable c a \<Longrightarrow> kDeleteAccount k c a = Inr c' \<Longrightarrow>
      kGetAccount k c' a = None \<and> (kGetAccount k c a \<noteq> None \<longrightarrow> (\<forall>key. kGetState k c' a key = 0))"
    and DeleteAccount_other: "inv c \<Longrightarrow> writable c a \<Longrightarrow> kDeleteAccount k c a = Inr c' \<Longrightarrow>
      writable c b \<Longrightarrow> b \<noteq> a \<Longrightarrow>
      kGetAccount k c' b = kGetAccount k c b \<and> kGetState k c' b = kGetState k c b \<and> eth c' b = eth c b"
    and DeleteAccount_code: "inv c \<Longrightarrow> kDeleteAccount k c a = Inr c' \<Longrightarrow>
      kGetCode k c' = kGetCode k c \<and> writable c' = writable c"
begin

definition wanted :: "'k \<Rightarrow> stateObject \<Rightarrow> hash \<Rightarrow> hash" where
  "wanted c so key = (case dirtyStorage so key of
      Some v \<Rightarrow> if originStorage so key = Some v then kGetState k c (address so) key else v
    | None \<Rightarrow> kGetState k c (address so) key)"

text \<open>What committing the object \<open>so\<close> promises of the store \<open>c'\<close>, from the store \<open>c\<close>.\<close>

definition persisted :: "'k \<Rightarrow> 'k \<Rightarrow> stateObject \<Rightarrow> bool" where
  "persisted c c' so \<longleftrightarrow>
     (if suicided so
      then kGetAccount k c' (address so) = None
         \<and> (kGetAccount k c (address so) \<noteq> None \<longrightarrow> (\<forall>key. kGetState k c' (address so) key = 0))
      else holds_account kec k c' (address so) (eth c (address so)) (account so)
         \<and> (\<forall>key. kGetState k c' (address so) key = wanted c so key))"

text \<open>Nothing is changed at address \<open>b\<close>.\<close>

definition untouched :: "'k \<Rightarrow> 'k \<Rightarrow> addr \<Rightarrow> bool" where
  "untouched c c' b \<longleftrightarrow> kGetAccount k c' b = kGetAccount k c b \<and> kGetState k c' b = kGetState k c b
     \<and> eth c' b = eth c b"

lemma untouched_trans: "untouched c c1 b \<Longrightarrow> untouched c1 c2 b \<Longrightarrow> untouched c c2 b"
  by (simp add: untouched_def)

lemma commit_storage_frame:
  "inv c \<Longrightarrow> inv (commit_storage k c so keys)
     \<and> kGetAccount k (commit_storage k c so keys) = kGetAccount k c
     \<and> kGetCode k (commit_storage k c so keys) = kGetCode k c
     \<and> eth (commit_storage k c so keys) = eth c
     \<and> writable (commit_storage k c so keys) = writable c"
  by (induction keys arbitrary: c) (auto simp: Let_def SetState_inv SetState_other)

lemma commit_storage_state:
  assumes "inv c" "set keys \<subseteq> dom (dirtyStorage so)" "dom (dirtyStorage so) \<subseteq> dom (originStorage so)"
  shows "kGetState k (commit_storage k c so keys) b key
     = (if b = address so \<and> key \<in> set keys then wanted c so key else kGetState k c b key)"
  using assms
proof (induction keys arbitrary: c)
  case (Cons x keys)
  obtain v w where vw: "dirtyStorage so x = Some v" "originStorage so x = Some w"
    using Cons.prems by (meson domD list.set_intros(1) subsetD)
  let ?c1 = "if v = w then c else kSetState k c (address so) x (Some v)"
  have inv1: "inv ?c1" using Cons.prems(1) by (simp add: SetState_inv)
  have st: "kGetState k ?c1 b' key' = (if b' = address so \<and> key' = x \<and> v \<noteq> w then v else kGetState k c b' key')"
    for b' key' by (simp add: SetState_state [OF Cons.prems(1)])
  have want: "wanted ?c1 so key' = (if key' = x \<and> v \<noteq> w then v else wanted c so key')" for key'
    using vw by (auto simp: wanted_def SetState_state [OF Cons.prems(1)] split: option.splits)
  have "commit_storage k c so (x # keys) = commit_storage k ?c1 so keys"
    using vw by (simp add: Let_def)
  then have "kGetState k (commit_storage k c so (x # keys)) b key
      = (if b = address so \<and> key \<in> set keys then wanted ?c1 so key else kGetState k ?c1 b key)"
    using Cons.IH [OF inv1] Cons.prems by simp
  moreover have "wanted c so x = (if v \<noteq> w then v else kGetState k c (address so) x)"
    using vw by (simp add: wanted_def)
  ultimately show ?case unfolding st want by (cases "key = x") simp_all
qed simp

lemma set_SortedKeys [simp]: "set (SortedKeys st) = dom st"
  by (simp add: SortedKeys_def)

lemma commit_storage_wanted:
  assumes "inv c" "dom (dirtyStorage so) \<subseteq> dom (originStorage so)"
  shows "kGetState k (commit_storage k c so (SortedKeys (dirtyStorage so))) b key
     = (if b = address so then wanted c so key else kGetState k c b key)"
  using commit_storage_state [OF assms(1) _ assms(2), of "SortedKeys (dirtyStorage so)"]
  by (auto simp: wanted_def split: option.splits)

text \<open>The store after the code of an object has been written, if it has to be.\<close>

definition code_written :: "'k \<Rightarrow> stateObject \<Rightarrow> 'k" where
  "code_written c so = (case code so of
      Some bs \<Rightarrow> if dirtyCode so then kSetCode k c (CodeHash (account so)) bs else c
    | None \<Rightarrow> c)"

lemma code_written_frame:
  "inv c \<Longrightarrow> inv (code_written c so) \<and> kGetAccount k (code_written c so) = kGetAccount k c
     \<and> kGetState k (code_written c so) = kGetState k c \<and> eth (code_written c so) = eth c
     \<and> writable (code_written c so) = writable c"
  by (auto simp: code_written_def SetCode_inv SetCode_other split: option.splits)

lemma commit_object_live:
  assumes "\<not> suicided so" "commit_object k c so = Inr c'"
  obtains c2 where "kSetAccount k (code_written c so) (address so) (account so) = Inr c2"
    "c' = commit_storage k c2 so (SortedKeys (dirtyStorage so))"
  using assms by (auto simp: commit_object_def code_written_def Let_def)

lemma commit_object_effect:
  assumes inv: "inv c" and wr: "writable c (address so)"
    and wf: "dom (dirtyStorage so) \<subseteq> dom (originStorage so)"
    and step: "commit_object k c so = Inr c'"
  shows "inv c' \<and> persisted c c' so \<and> writable c' = writable c
    \<and> (\<forall>b. writable c b \<longrightarrow> b \<noteq> address so \<longrightarrow> untouched c c' b)"
proof (cases "suicided so")
  case True
  then have del: "kDeleteAccount k c (address so) = Inr c'"
    using step by (simp add: commit_object_def)
  show ?thesis
    using True DeleteAccount_inv [OF inv wr del] DeleteAccount_same [OF inv wr del]
      DeleteAccount_other [OF inv wr del] DeleteAccount_code [OF inv del]
    by (simp add: persisted_def untouched_def)
next
  case False
  note cw = code_written_frame [OF inv, of so]
  from commit_object_live [OF False step] obtain c2 where
    set: "kSetAccount k (code_written c so) (address so) (account so) = Inr c2"
    and c': "c' = commit_storage k c2 so (SortedKeys (dirtyStorage so))" by metis
  have inv1: "inv (code_written c so)" and wr1: "writable (code_written c so) (address so)"
    using cw wr by simp_all
  note inv2 = SetAccount_inv [OF inv1 wr1 set]
  note same = SetAccount_same [OF inv1 wr1 set] and other = SetAccount_other [OF inv1 wr1 set]
    and store = SetAccount_store [OF inv1 set]
  note st = commit_storage_frame [OF inv2, of so "SortedKeys (dirtyStorage so)"]
  have "kGetState k c2 = kGetState k c" using store cw by simp
  then have want: "wanted c2 so = wanted c so" by (intro ext) (simp add: wanted_def split: option.split)
  have "persisted c c' so"
    using False same st cw want
    by (simp add: persisted_def c' holds_account_def commit_storage_wanted [OF inv2 wf])
  moreover have "untouched c c' b" if "writable c b" "b \<noteq> address so" for b
    using other [of b] that st cw store
    by (auto simp: untouched_def c' fun_eq_iff commit_storage_wanted [OF inv2 wf])
  ultimately show ?thesis using st store cw by (simp add: c')
qed

lemma persisted_before: "untouched c c1 (address so) \<Longrightarrow> persisted c1 c' so \<Longrightarrow> persisted c c' so"
  by (simp add: persisted_def untouched_def wanted_def cong: if_cong option.case_cong)

lemma persisted_after: "persisted c c1 so \<Longrightarrow> untouched c1 c' (address so) \<Longrightarrow> persisted c c' so"
  by (cases "suicided so") (simp_all add: persisted_def untouched_def holds_account_def)

definition committable :: "'k \<Rightarrow> (addr \<rightharpoonup> stateObject) \<Rightarrow> addr \<Rightarrow> bool" where
  "committable c objs a \<longleftrightarrow> writable c a
     \<and> (\<forall>so. objs a = Some so \<longrightarrow> address so = a \<and> dom (dirtyStorage so) \<subseteq> dom (originStorage so))"

lemma commit_loop_effect:
  assumes "inv c" "distinct as" "\<forall>a \<in> set as. committable c objs a" "commit_loop k objs as c = Inr c'"
  shows "inv c' \<and> writable c' = writable c
    \<and> (\<forall>a \<in> set as. \<exists>so. objs a = Some so \<and> persisted c c' so)
    \<and> (\<forall>b. writable c b \<longrightarrow> b \<notin> set as \<longrightarrow> untouched c c' b)"
  using assms
proof (induction "as" arbitrary: c)
  case Nil
  then show ?case by (simp add: untouched_def)
next
  case (Cons a as)
  from Cons.prems(4) obtain so c1 where so: "objs a = Some so" and step: "commit_object k c so = Inr c1"
    and rest: "commit_loop k objs as c1 = Inr c'"
    by (auto split: option.splits)
  have a: "address so = a" "writable c a"
    "dom (dirtyStorage so) \<subseteq> dom (originStorage so)"
    using Cons.prems(3) so by (auto simp: committable_def)
  note one = commit_object_effect [OF Cons.prems(1) _ a(3) step, unfolded a(1), OF a(2)]
  have com: "\<forall>x \<in> set as. committable c1 objs x"
    using Cons.prems(3) one by (simp add: committable_def)
  have inv1: "inv c1" and dist: "distinct as" "a \<notin> set as" using one Cons.prems(2) by simp_all
  note tail = Cons.IH [OF inv1 dist(1) com rest]
  have wr1: "writable c1 = writable c" using one by blast
  have "untouched c1 c' (address so)" using tail dist(2) a(1,2) wr1 by simp
  moreover have "persisted c c1 so" using one by simp
  ultimately have pers: "persisted c c' so" by (rule persisted_after [rotated])
  have "\<exists>so. objs x = Some so \<and> persisted c c' so" if "x \<in> set as" for x
  proof -
    have "\<exists>so. objs x = Some so \<and> persisted c1 c' so" using tail that by simp
    then obtain so' where so': "objs x = Some so'" "persisted c1 c' so'" by (elim exE conjE)
    have "address so' = x" "writable c x" "x \<noteq> a"
      using Cons.prems(3) dist(2) that so'(1) by (auto simp: committable_def)
    then have "untouched c c1 (address so')" using one by simp
    then have "persisted c c' so'" using so'(2) by (rule persisted_before)
    then show ?thesis using so'(1) by simp
  qed
  moreover have "untouched c c' b" if "writable c b" "b \<notin> set (a # as)" for b
    using untouched_trans [of c c1 b c'] one tail that wr1 by simp
  ultimately show ?case using so pers tail wr1 by simp
qed

lemma Commit_persists:
  assumes "db_inv s" "keeper s = k" "inv (ctx s)" "Commit s = Inr s'"
    and wr: "\<forall>a \<in> dom (dirties (sjournal s)). writable (ctx s) a"
  shows "(\<forall>a \<in> dom (dirties (sjournal s)). \<exists>so. stateObjects s a = Some so \<and> persisted (ctx s) (ctx s') so)
    \<and> (\<forall>b. writable (ctx s) b \<longrightarrow> b \<notin> dom (dirties (sjournal s)) \<longrightarrow> untouched (ctx s) (ctx s') b)"
proof -
  have loop: "commit_loop k (stateObjects s) (sortedDirties (sjournal s)) (ctx s) = Inr (ctx s')"
    using assms(2,4) by (auto simp: Commit_def rbind_Inr_iff)
  have set: "set (sortedDirties (sjournal s)) = dom (dirties (sjournal s))"
    "distinct (sortedDirties (sjournal s))" by (simp_all add: sortedDirties_def)
  have "committable (ctx s) (stateObjects s) a" if "a \<in> dom (dirties (sjournal s))" for a
    using wr that db_invD(1) [OF assms(1)] assms(2)
    by (auto simp: committable_def objs_wf_def so_wf_def)
  then show ?thesis
    using commit_loop_effect [OF assms(3) set(2) _ loop] set(1) by simp
qed

text \<open>The storage that is persisted is the storage the database shows.\<close>

lemma wanted_vState:
  "so_wf k c so \<Longrightarrow> wanted c so = vState (obj_view kec k c so)"
  by (auto simp: wanted_def obj_view_def committed_view_def so_wf_def fun_eq_iff split: option.splits)

end

section \<open>Commit returns\<close>

text \<open>
  A commit never dereferences a missing object: on a reachable database, if the keeper's
  writes succeed then \<^verbatim>\<open>Commit\<close> succeeds.
\<close>

theorem Commit_total:
  assumes "reachable kec s"
    and "\<forall>c a acct. \<exists>c'. kSetAccount (keeper s) c a acct = Inr c'"
    and "\<forall>c a. \<exists>c'. kDeleteAccount (keeper s) c a = Inr c'"
  shows "\<exists>s'. Commit s = Inr s'"
proof -
  note inv = reachable_inv [OF assms(1)]
  have live: "stateObjects s a \<noteq> None" if "a \<in> dom (dirties (sjournal s))" for a
    using that dirties_ok_iff [OF db_invD(3) [OF inv], of a] jok_dirty_live [OF db_invD(2) [OF inv]]
    by auto
  have obj: "\<exists>c'. commit_object (keeper s) c so = Inr c'" for c so
    using assms(2,3) by (auto simp: commit_object_def Let_def rbind_Inr_iff)
  have "\<exists>c'. commit_loop (keeper s) (stateObjects s) as c = Inr c'"
    if "set as \<subseteq> dom (dirties (sjournal s))" for "as" c
    using that
  proof (induction "as" arbitrary: c)
    case (Cons a as)
    then obtain so where "stateObjects s a = Some so" using live [of a] by auto
    moreover obtain c1 where "commit_object (keeper s) c so = Inr c1" using obj by blast
    ultimately show ?case using Cons by simp
  qed simp
  then obtain c' where "commit_loop (keeper s) (stateObjects s) (sortedDirties (sjournal s)) (ctx s) = Inr c'"
    by (metis finite sortedDirties_def set_sorted_list_of_set order_refl)
  then show ?thesis by (simp add: Commit_def)
qed

theorem Commit_total_witness: "\<exists>s'. Commit (AddBalance (\<lambda>_. 0) ex_db 1 5) = Inr s'"
proof -
  have "reachable (\<lambda>_. 0) (AddBalance (\<lambda>_. 0) ex_db 1 5)"
    unfolding ex_db_def by (rule reach_op [OF reach_New, where op = "OpAddBalance 1 5"]) simp
  moreover have "keeper (AddBalance (\<lambda>_. 0) ex_db 1 5) = empty_Keeper"
    by (simp add: AddBalance_def getOrNewStateObject_def getStateObject_def createObject_def so_AddBalance_def
        so_SetBalance_def ex_db_def NewStateDB_def empty_Keeper_def Let_def)
  ultimately show ?thesis
    using Commit_total [of "\<lambda>_. 0" "AddBalance (\<lambda>_. 0) ex_db 1 5"] by (simp add: empty_Keeper_def)
qed

end
