(* ===== verification/EvmParams.thy ===== *)
theory EvmParams
  imports Prelude "HOL-Library.List_Lexorder" "HOL-Library.Char_ord"
begin

text \<open>
  The parameters of the EVM module: \<^verbatim>\<open>x/evm/types/params.go\<close>, \<^verbatim>\<open>chain_config.go\<close> and the
  parameter functions of \<^verbatim>\<open>x/evm/keeper/params.go\<close>. Checks that belong to the SDK, ibc-go
  and go-ethereum are the fields of \<open>evm_lib\<close>. Active precompiles are looked up with
  \<^verbatim>\<open>sort.Find\<close>, which is right because \<^verbatim>\<open>SetParams\<close> keeps the list sorted.
\<close>

section \<open>Chain configuration\<close>

record ChainConfig =
  HomesteadBlock :: "int option"
  DAOForkBlock :: "int option"
  DAOForkSupport :: bool
  EIP150Block :: "int option"
  EIP150Hash :: string
  EIP155Block :: "int option"
  EIP158Block :: "int option"
  ByzantiumBlock :: "int option"
  ConstantinopleBlock :: "int option"
  PetersburgBlock :: "int option"
  IstanbulBlock :: "int option"
  MuirGlacierBlock :: "int option"
  BerlinBlock :: "int option"
  LondonBlock :: "int option"
  ArrowGlacierBlock :: "int option"
  GrayGlacierBlock :: "int option"
  MergeNetsplitBlock :: "int option"
  ShanghaiBlock :: "int option"
  CancunBlock :: "int option"

text \<open>The result of \<^verbatim>\<open>EthereumConfig\<close>: the chain id and the block of each fork, in order.\<close>

record ethConfig =
  cfgChainID :: "int option"
  cfgDAOForkSupport :: bool
  cfgEIP150Hash :: string
  cfgHomestead :: "int option"
  cfgDAOFork :: "int option"
  cfgEIP150 :: "int option"
  cfgEIP155 :: "int option"
  cfgEIP158 :: "int option"
  cfgByzantium :: "int option"
  cfgConstantinople :: "int option"
  cfgPetersburg :: "int option"
  cfgIstanbul :: "int option"
  cfgMuirGlacier :: "int option"
  cfgBerlin :: "int option"
  cfgLondon :: "int option"
  cfgArrowGlacier :: "int option"
  cfgGrayGlacier :: "int option"
  cfgMergeNetsplit :: "int option"
  cfgShanghai :: "int option"
  cfgCancun :: "int option"

record evm_lib =
  libValidateDenom :: "string \<Rightarrow> bool"
  libValidEip :: "int \<Rightarrow> bool"
  libIsHexAddress :: "string \<Rightarrow> bool"
  libChannelIdentifierValidator :: "string \<Rightarrow> bool"
  libCheckConfigForkOrder :: "ethConfig \<Rightarrow> bool"

definition getBlockValue :: "int option \<Rightarrow> int option" where
  "getBlockValue block = (case block of None \<Rightarrow> None | Some b \<Rightarrow> if b < 0 then None else Some b)"

definition EthereumConfig :: "ChainConfig \<Rightarrow> int option \<Rightarrow> ethConfig" where
  "EthereumConfig cc chainID =
     \<lparr>cfgChainID = chainID,
      cfgDAOForkSupport = DAOForkSupport cc,
      cfgEIP150Hash = EIP150Hash cc,
      cfgHomestead = getBlockValue (HomesteadBlock cc),
      cfgDAOFork = getBlockValue (DAOForkBlock cc),
      cfgEIP150 = getBlockValue (EIP150Block cc),
      cfgEIP155 = getBlockValue (EIP155Block cc),
      cfgEIP158 = getBlockValue (EIP158Block cc),
      cfgByzantium = getBlockValue (ByzantiumBlock cc),
      cfgConstantinople = getBlockValue (ConstantinopleBlock cc),
      cfgPetersburg = getBlockValue (PetersburgBlock cc),
      cfgIstanbul = getBlockValue (IstanbulBlock cc),
      cfgMuirGlacier = getBlockValue (MuirGlacierBlock cc),
      cfgBerlin = getBlockValue (BerlinBlock cc),
      cfgLondon = getBlockValue (LondonBlock cc),
      cfgArrowGlacier = getBlockValue (ArrowGlacierBlock cc),
      cfgGrayGlacier = getBlockValue (GrayGlacierBlock cc),
      cfgMergeNetsplit = getBlockValue (MergeNetsplitBlock cc),
      cfgShanghai = getBlockValue (ShanghaiBlock cc),
      cfgCancun = getBlockValue (CancunBlock cc)\<rparr>"

definition DefaultChainConfig :: ChainConfig where
  "DefaultChainConfig =
     \<lparr>HomesteadBlock = Some 0, DAOForkBlock = Some 0, DAOForkSupport = True,
      EIP150Block = Some 0,
      EIP150Hash = ''0x0000000000000000000000000000000000000000000000000000000000000000'',
      EIP155Block = Some 0, EIP158Block = Some 0, ByzantiumBlock = Some 0,
      ConstantinopleBlock = Some 0, PetersburgBlock = Some 0, IstanbulBlock = Some 0,
      MuirGlacierBlock = Some 0, BerlinBlock = Some 0, LondonBlock = Some 0,
      ArrowGlacierBlock = Some 0, GrayGlacierBlock = Some 0, MergeNetsplitBlock = Some 0,
      ShanghaiBlock = Some 0, CancunBlock = Some 0\<rparr>"

definition validateBlock :: "int option \<Rightarrow> unit result" where
  "validateBlock block =
     (case block of
        None \<Rightarrow> Inr ()
      | Some b \<Rightarrow> if b < 0 then Inl (ErrText ''block value cannot be negative'') else Inr ())"

definition validateHash :: "string \<Rightarrow> unit result" where
  "validateHash hex =
     (if hex \<noteq> '''' \<and> list_all isSpace hex then Inl (ErrText ''hash cannot be blank'') else Inr ())"

definition rthen :: "'a result \<Rightarrow> 'b result \<Rightarrow> 'b result" where
  "rthen m n = rbind m (\<lambda>_. n)"

definition ChainConfig_Validate :: "evm_lib \<Rightarrow> ChainConfig \<Rightarrow> unit result" where
  "ChainConfig_Validate lib cc =
     rthen (validateBlock (HomesteadBlock cc)) (
     rthen (validateBlock (DAOForkBlock cc)) (
     rthen (validateBlock (EIP150Block cc)) (
     rthen (validateHash (EIP150Hash cc)) (
     rthen (validateBlock (EIP155Block cc)) (
     rthen (validateBlock (EIP158Block cc)) (
     rthen (validateBlock (ByzantiumBlock cc)) (
     rthen (validateBlock (ConstantinopleBlock cc)) (
     rthen (validateBlock (PetersburgBlock cc)) (
     rthen (validateBlock (IstanbulBlock cc)) (
     rthen (validateBlock (MuirGlacierBlock cc)) (
     rthen (validateBlock (BerlinBlock cc)) (
     rthen (validateBlock (LondonBlock cc)) (
     rthen (validateBlock (ArrowGlacierBlock cc)) (
     rthen (validateBlock (GrayGlacierBlock cc)) (
     rthen (validateBlock (MergeNetsplitBlock cc)) (
     rthen (validateBlock (ShanghaiBlock cc)) (
     rthen (validateBlock (CancunBlock cc)) (
     if libCheckConfigForkOrder lib (EthereumConfig cc None) then Inr ()
     else Inl (ErrText ''invalid config fork order'')))))))))))))))))))"

section \<open>Parameters\<close>

record Params =
  EvmDenom :: string
  EnableCreate :: bool
  EnableCall :: bool
  ExtraEIPs :: "int list"
  ChainCfg :: ChainConfig
  AllowUnprotectedTxs :: bool
  ActivePrecompiles :: "string list"
  EVMChannels :: "string list"

definition AvailableEVMExtensions :: "string list" where
  "AvailableEVMExtensions =
     [''0x0000000000000000000000000000000000000100'', ''0x0000000000000000000000000000000000000400'',
      ''0x0000000000000000000000000000000000000800'', ''0x0000000000000000000000000000000000000801'',
      ''0x0000000000000000000000000000000000000802'', ''0x0000000000000000000000000000000000000803'',
      ''0x0000000000000000000000000000000000000804'', ''0x0000000000000000000000000000000000000900'',
      ''0x0000000000000000000000000000000000000901'']"

definition NewParams ::
  "string \<Rightarrow> bool \<Rightarrow> bool \<Rightarrow> bool \<Rightarrow> ChainConfig \<Rightarrow> int list \<Rightarrow> string list \<Rightarrow> string list \<Rightarrow> Params" where
  "NewParams evmDenom allowUnprotectedTxs enableCreate enableCall config extraEIPs activePrecompiles evmChannels =
     \<lparr>EvmDenom = evmDenom, EnableCreate = enableCreate, EnableCall = enableCall, ExtraEIPs = extraEIPs,
      ChainCfg = config, AllowUnprotectedTxs = allowUnprotectedTxs,
      ActivePrecompiles = activePrecompiles, EVMChannels = evmChannels\<rparr>"

definition DefaultParams :: "string \<Rightarrow> Params" where
  "DefaultParams baseDenom =
     \<lparr>EvmDenom = baseDenom, EnableCreate = True, EnableCall = True, ExtraEIPs = [3855],
      ChainCfg = DefaultChainConfig, AllowUnprotectedTxs = False,
      ActivePrecompiles = AvailableEVMExtensions,
      EVMChannels = [''channel-10'', ''channel-31'', ''channel-83'']\<rparr>"

definition validateEVMDenom :: "evm_lib \<Rightarrow> string \<Rightarrow> unit result" where
  "validateEVMDenom lib denom =
     (if libValidateDenom lib denom then Inr () else Inl (ErrText ''invalid denom''))"

fun validateChannels :: "evm_lib \<Rightarrow> string list \<Rightarrow> unit result" where
  "validateChannels lib [] = Inr ()"
| "validateChannels lib (channel # channels) =
     (if libChannelIdentifierValidator lib channel then validateChannels lib channels
      else Inl (ErrText ''invalid channel identifier''))"

fun check_eips :: "evm_lib \<Rightarrow> int list \<Rightarrow> int set \<Rightarrow> unit result" where
  "check_eips lib [] uniqueEIPs = Inr ()"
| "check_eips lib (eip # eips) uniqueEIPs =
     (if \<not> libValidEip lib eip then Inl (ErrText ''EIP is not activateable'')
      else if eip \<in> uniqueEIPs then Inl (ErrText ''found duplicate EIP'')
      else check_eips lib eips (insert eip uniqueEIPs))"

definition validateEIPs :: "evm_lib \<Rightarrow> int list \<Rightarrow> unit result" where
  "validateEIPs lib eips = check_eips lib eips {}"

definition ValidateAddress :: "evm_lib \<Rightarrow> string \<Rightarrow> unit result" where
  "ValidateAddress lib address = (if libIsHexAddress lib address then Inr () else Inl ErrInvalidAddress)"

fun check_precompiles :: "evm_lib \<Rightarrow> string list \<Rightarrow> string set \<Rightarrow> unit result" where
  "check_precompiles lib [] seen = Inr ()"
| "check_precompiles lib (p # ps) seen =
     (if p \<in> seen then Inl (ErrText ''duplicate precompile'')
      else case ValidateAddress lib p of
        Inl _ \<Rightarrow> Inl (ErrText ''invalid precompile'')
      | Inr _ \<Rightarrow> check_precompiles lib ps (insert p seen))"

definition ValidatePrecompiles :: "evm_lib \<Rightarrow> string list \<Rightarrow> unit result" where
  "ValidatePrecompiles lib precompiles =
     rthen (check_precompiles lib precompiles {})
       (if sorted precompiles then Inr () else Inl (ErrText ''precompiles need to be sorted''))"

definition Params_Validate :: "evm_lib \<Rightarrow> Params \<Rightarrow> unit result" where
  "Params_Validate lib p =
     rthen (validateEVMDenom lib (EvmDenom p)) (
     rthen (validateEIPs lib (ExtraEIPs p)) (
     rthen (ChainConfig_Validate lib (ChainCfg p)) (
     rthen (ValidatePrecompiles lib (ActivePrecompiles p)) (
     validateChannels lib (EVMChannels p)))))"

definition HasCustomPrecompiles :: "Params \<Rightarrow> bool" where
  "HasCustomPrecompiles p = (ActivePrecompiles p \<noteq> [])"

definition IsEVMChannel :: "Params \<Rightarrow> string \<Rightarrow> bool" where
  "IsEVMChannel p channel = (channel \<in> set (EVMChannels p))"

definition strings_Compare :: "string \<Rightarrow> string \<Rightarrow> int" where
  "strings_Compare a b = (if a = b then 0 else if a < b then -1 else 1)"

definition sort_Find :: "nat \<Rightarrow> (nat \<Rightarrow> int) \<Rightarrow> nat \<times> bool" where
  "sort_Find n cmp = (let i = search_loop (\<lambda>h. \<not> cmp h > 0) 0 n in (i, i < n \<and> cmp i = 0))"

definition IsActivePrecompile :: "Params \<Rightarrow> string \<Rightarrow> bool" where
  "IsActivePrecompile p address =
     snd (sort_Find (length (ActivePrecompiles p))
            (\<lambda>i. strings_Compare address (ActivePrecompiles p ! i)))"

section \<open>The parameter store\<close>

text \<open>The value under the parameter key, if any, and the legacy subspace read without one.\<close>

record param_store =
  stored :: "Params option"
  legacy :: Params

definition evm_GetParams :: "param_store \<Rightarrow> Params" where
  "evm_GetParams st = (case stored st of None \<Rightarrow> legacy st | Some p \<Rightarrow> p)"

definition evm_SetParams :: "evm_lib \<Rightarrow> param_store \<Rightarrow> Params \<Rightarrow> param_store result" where
  "evm_SetParams lib st params =
     (let p = params\<lparr>ActivePrecompiles := sort (ActivePrecompiles params)\<rparr>
      in rthen (Params_Validate lib p) (Inr (st\<lparr>stored := Some p\<rparr>)))"

definition EnablePrecompiles :: "evm_lib \<Rightarrow> param_store \<Rightarrow> string list \<Rightarrow> param_store result" where
  "EnablePrecompiles lib st addresses =
     (let params = evm_GetParams st
      in evm_SetParams lib st
           (params\<lparr>ActivePrecompiles := sort (ActivePrecompiles params @ addresses)\<rparr>))"

definition EnableEIPs :: "evm_lib \<Rightarrow> param_store \<Rightarrow> int list \<Rightarrow> param_store result" where
  "EnableEIPs lib st eips =
     (let evmParams = evm_GetParams st
      in evm_SetParams lib st (evmParams\<lparr>ExtraEIPs := sort (ExtraEIPs evmParams @ eips)\<rparr>))"

section \<open>Validation\<close>

lemma rthen_Inr [simp]: "rthen m n = Inr y \<longleftrightarrow> (\<exists>x. m = Inr x) \<and> n = Inr y"
  by (cases m) (auto simp: rthen_def)

lemma validateBlock_Inr [simp]: "validateBlock b = Inr x \<longleftrightarrow> (\<forall>n. b = Some n \<longrightarrow> 0 \<le> n)"
  by (auto simp: validateBlock_def split: option.splits)

lemma getBlockValue_valid: "(\<forall>n. b = Some n \<longrightarrow> 0 \<le> n) \<Longrightarrow> getBlockValue b = b"
  by (auto simp: getBlockValue_def split: option.splits)

lemma check_eips_Inr:
  "check_eips lib eips seen = Inr x \<longleftrightarrow> (\<forall>e \<in> set eips. libValidEip lib e) \<and> distinct eips \<and> set eips \<inter> seen = {}"
  by (induction lib eips seen rule: check_eips.induct) auto

lemma check_precompiles_Inr:
  "check_precompiles lib ps seen = Inr x \<longleftrightarrow>
     (\<forall>p \<in> set ps. libIsHexAddress lib p) \<and> distinct ps \<and> set ps \<inter> seen = {}"
  by (induction lib ps seen rule: check_precompiles.induct) (auto simp: ValidateAddress_def)

lemma validateChannels_Inr:
  "validateChannels lib cs = Inr x \<longleftrightarrow> (\<forall>c \<in> set cs. libChannelIdentifierValidator lib c)"
  by (induction lib cs rule: validateChannels.induct) auto

lemma ValidatePrecompiles_Inr:
  "ValidatePrecompiles lib ps = Inr x \<longleftrightarrow>
     (\<forall>p \<in> set ps. libIsHexAddress lib p) \<and> distinct ps \<and> sorted ps"
  by (auto simp: ValidatePrecompiles_def check_precompiles_Inr)

lemma Params_Validate_precompiles:
  "Params_Validate lib p = Inr x \<Longrightarrow> distinct (ActivePrecompiles p) \<and> sorted (ActivePrecompiles p)"
  by (auto simp: Params_Validate_def ValidatePrecompiles_Inr)

lemma Params_Validate_iff:
  "Params_Validate lib p = Inr () \<longleftrightarrow>
     libValidateDenom lib (EvmDenom p)
   \<and> (\<forall>e \<in> set (ExtraEIPs p). libValidEip lib e) \<and> distinct (ExtraEIPs p)
   \<and> ChainConfig_Validate lib (ChainCfg p) = Inr ()
   \<and> (\<forall>a \<in> set (ActivePrecompiles p). libIsHexAddress lib a)
   \<and> sorted_wrt (<) (ActivePrecompiles p)
   \<and> (\<forall>c \<in> set (EVMChannels p). libChannelIdentifierValidator lib c)"
  by (auto simp: Params_Validate_def validateEVMDenom_def validateEIPs_def check_eips_Inr
      ValidatePrecompiles_Inr validateChannels_Inr strict_sorted_iff)

definition permissive_lib :: evm_lib where
  "permissive_lib =
     \<lparr>libValidateDenom = (\<lambda>d. d \<noteq> ''''), libValidEip = (\<lambda>e. e > 0), libIsHexAddress = (\<lambda>a. length a \<ge> 4),
      libChannelIdentifierValidator = (\<lambda>c. c \<noteq> ''''), libCheckConfigForkOrder = (\<lambda>_. True)\<rparr>"

text \<open>
  A chain configuration that passes validation is used as it stands: no fork block is
  negative, so the conversion to go-ethereum's configuration drops none of them.
\<close>

theorem ChainConfig_Validate_keeps:
  assumes "ChainConfig_Validate lib cc = Inr ()"
  shows "EthereumConfig cc chainID =
     \<lparr>cfgChainID = chainID, cfgDAOForkSupport = DAOForkSupport cc, cfgEIP150Hash = EIP150Hash cc,
      cfgHomestead = HomesteadBlock cc, cfgDAOFork = DAOForkBlock cc, cfgEIP150 = EIP150Block cc,
      cfgEIP155 = EIP155Block cc, cfgEIP158 = EIP158Block cc, cfgByzantium = ByzantiumBlock cc,
      cfgConstantinople = ConstantinopleBlock cc, cfgPetersburg = PetersburgBlock cc,
      cfgIstanbul = IstanbulBlock cc, cfgMuirGlacier = MuirGlacierBlock cc, cfgBerlin = BerlinBlock cc,
      cfgLondon = LondonBlock cc, cfgArrowGlacier = ArrowGlacierBlock cc,
      cfgGrayGlacier = GrayGlacierBlock cc, cfgMergeNetsplit = MergeNetsplitBlock cc,
      cfgShanghai = ShanghaiBlock cc, cfgCancun = CancunBlock cc\<rparr>"
  using assms by (simp add: ChainConfig_Validate_def EthereumConfig_def getBlockValue_valid)

theorem ChainConfig_Validate_keeps_witness:
  "ChainConfig_Validate permissive_lib DefaultChainConfig = Inr ()
   \<and> cfgLondon (EthereumConfig DefaultChainConfig (Some 5438)) = LondonBlock DefaultChainConfig"
proof -
  have ok: "ChainConfig_Validate permissive_lib DefaultChainConfig = Inr ()" by code_simp
  show ?thesis using ok ChainConfig_Validate_keeps [OF ok, of "Some 5438"] by simp
qed

section \<open>Looking up precompiles\<close>

lemma sort_Find_sorted:
  assumes "sorted ps"
  shows "snd (sort_Find (length ps) (\<lambda>i. strings_Compare a (ps ! i))) \<longleftrightarrow> a \<in> set ps"
proof -
  let ?f = "\<lambda>h. a \<le> ps ! h"
  define i where "i = sort_Search (length ps) ?f"
  have "stays_true (length ps) ?f"
    unfolding stays_true_def using assms by (meson order_trans sorted_nth_mono)
  then have ft: "first_true (length ps) ?f i"
    unfolding i_def by (rule sort_Search_correct)
  have "(\<lambda>h. \<not> strings_Compare a (ps ! h) > 0) = ?f"
    by (auto simp: strings_Compare_def fun_eq_iff)
  then have found: "snd (sort_Find (length ps) (\<lambda>i. strings_Compare a (ps ! i))) \<longleftrightarrow> i < length ps \<and> a = ps ! i"
    by (auto simp: sort_Find_def i_def sort_Search_def Let_def strings_Compare_def)
  have "i < length ps \<and> a = ps ! i" if h: "h < length ps" "a = ps ! h" for h
  proof -
    have "i \<le> h" using ft h unfolding first_true_def by (metis linorder_not_le order_refl)
    moreover have "a \<le> ps ! i" using ft h \<open>i \<le> h\<close> by (simp add: first_true_def)
    ultimately show ?thesis using h assms by (simp add: sorted_nth_mono order_antisym)
  qed
  then show ?thesis unfolding found by (auto simp: in_set_conv_nth)
qed

lemma evm_SetParams_stored:
  assumes "evm_SetParams lib st p = Inr st'"
  shows "evm_GetParams st' = p\<lparr>ActivePrecompiles := sort (ActivePrecompiles p)\<rparr>"
    and "Params_Validate lib (p\<lparr>ActivePrecompiles := sort (ActivePrecompiles p)\<rparr>) = Inr ()"
  using assms by (auto simp: evm_SetParams_def evm_GetParams_def Let_def)

text \<open>
  Once parameters have been set, \<^verbatim>\<open>IsActivePrecompile\<close> (a binary search) finds exactly
  the precompiles of the list that was given, in whatever order it was given, and the
  parameters read back are the ones set with that list sorted.
\<close>

theorem SetParams_IsActivePrecompile:
  assumes "evm_SetParams lib st p = Inr st'"
  shows "(IsActivePrecompile (evm_GetParams st') a \<longleftrightarrow> a \<in> set (ActivePrecompiles p))
    \<and> evm_GetParams st' = p\<lparr>ActivePrecompiles := sort (ActivePrecompiles p)\<rparr>"
  using evm_SetParams_stored [OF assms] sort_Find_sorted [of "sort (ActivePrecompiles p)" a]
  by (simp add: IsActivePrecompile_def)

definition ex_store :: param_store where
  "ex_store = \<lparr>stored = None, legacy = DefaultParams ''aegax''\<rparr>"

definition ex_params :: Params where
  "ex_params = (DefaultParams ''aegax'')\<lparr>ActivePrecompiles :=
     [''0x801'', ''0x800'']\<rparr>"

lemma ex_params_set: "\<not> isl (evm_SetParams permissive_lib ex_store ex_params)"
  by code_simp

theorem SetParams_IsActivePrecompile_witness:
  "\<exists>st'. evm_SetParams permissive_lib ex_store ex_params = Inr st'
     \<and> IsActivePrecompile (evm_GetParams st') ''0x800''
     \<and> \<not> IsActivePrecompile (evm_GetParams st') ''0x804''"
proof -
  obtain st' where st': "evm_SetParams permissive_lib ex_store ex_params = Inr st'"
    using not_isl_Inr [OF ex_params_set] ..
  note active = conjunct1 [OF SetParams_IsActivePrecompile [OF st']]
  have "''0x800'' \<in> set (ActivePrecompiles ex_params)" "''0x804'' \<notin> set (ActivePrecompiles ex_params)"
    by (simp_all add: ex_params_def)
  then show ?thesis using st' active [of "''0x800''"] active [of "''0x804''"] by blast
qed

text \<open>
  Enabling precompiles either fails and leaves the parameters alone, or none of the new
  addresses was active before, no address is listed twice, and afterwards exactly the old
  and the new addresses are active; the other parameters are unchanged.
\<close>

theorem EnablePrecompiles_active:
  assumes "EnablePrecompiles lib st as = Inr st'"
  shows "(IsActivePrecompile (evm_GetParams st') a
      \<longleftrightarrow> a \<in> set (ActivePrecompiles (evm_GetParams st)) \<union> set as)
    \<and> distinct (ActivePrecompiles (evm_GetParams st) @ as)
    \<and> (evm_GetParams st')\<lparr>ActivePrecompiles := []\<rparr> = (evm_GetParams st)\<lparr>ActivePrecompiles := []\<rparr>"
proof -
  define ps where "ps = ActivePrecompiles (evm_GetParams st) @ as"
  have set: "evm_SetParams lib st ((evm_GetParams st)\<lparr>ActivePrecompiles := sort ps\<rparr>) = Inr st'"
    using assms by (simp add: EnablePrecompiles_def ps_def Let_def)
  note st = evm_SetParams_stored [OF set]
  have "distinct (sort (sort ps))" using Params_Validate_precompiles [OF st(2)] by simp
  then have "distinct ps" by (simp only: distinct_sort)
  moreover have "IsActivePrecompile (evm_GetParams st') a \<longleftrightarrow> a \<in> set ps"
    using st(1) sort_Find_sorted [of "sort (sort ps)" a] by (simp add: IsActivePrecompile_def)
  ultimately show ?thesis using st(1) by (simp add: ps_def)
qed

lemma ex_enable: "\<not> isl (EnablePrecompiles permissive_lib ex_store [''0x500''])"
  by code_simp

theorem EnablePrecompiles_active_witness:
  "\<exists>st'. EnablePrecompiles permissive_lib ex_store [''0x500''] = Inr st'
     \<and> IsActivePrecompile (evm_GetParams st') ''0x500''"
proof -
  obtain st' where st': "EnablePrecompiles permissive_lib ex_store [''0x500''] = Inr st'"
    using not_isl_Inr [OF ex_enable] ..
  have "IsActivePrecompile (evm_GetParams st') ''0x500''"
    unfolding conjunct1 [OF EnablePrecompiles_active [OF st']] by simp
  then show ?thesis using st' by blast
qed

end
