(* ===== verification/EvmKeeper.thy ===== *)
theory EvmKeeper
  imports StateDB_Commit Sdk EvmParams
begin

text \<open>
  The EVM module's keeper, \<^verbatim>\<open>x/evm/keeper/statedb.go\<close> and \<^verbatim>\<open>keeper.go\<close>: accounts, balances,
  code and storage behind the state database, and the transient counters of a block. The
  module's stores are fields of \<open>EvmCtx\<close>; accounts and balances live in the SDK state
  behind the account and bank keepers. The keeper is an instance of the contract that
  \<^verbatim>\<open>StateDB.Commit\<close> relies on.
\<close>

section \<open>The keeper\<close>

text \<open>
  Storage is a map per address from slots to values; a stored value has 32 bytes, since
  \<^verbatim>\<open>SetState\<close> is called with the bytes of a hash or with nil.
\<close>

record 'w EvmCtx =
  evmParams :: param_store
  evmStorage :: "addr \<Rightarrow> hash \<rightharpoonup> hash"
  evmCode :: "hash \<rightharpoonup> byte list"
  sdkState :: 'w
  blockHeight :: int
  tBloom :: "int \<rightharpoonup> int"
  tTxIndex :: "u64 option"
  tLogSize :: "u64 option"
  tGasUsed :: "u64 option"

definition ModuleName :: string where
  "ModuleName = ''evm''"

definition ek_GetAccountWithoutBalance ::
  "(byte list \<Rightarrow> hash) \<Rightarrow> 'w AccountKeeper \<Rightarrow> 'w EvmCtx \<Rightarrow> addr \<Rightarrow> nilableAccount option" where
  "ek_GetAccountWithoutBalance kec ak c a =
     (case akGetAccount ak (sdkState c) a of
        None \<Rightarrow> None
      | Some acct \<Rightarrow>
          let codeHash = (case GetCodeHashI acct of Some h \<Rightarrow> h | None \<Rightarrow> emptyCodeHash kec)
          in Some \<lparr>rawNonce = GetSequence acct, rawBalance = None, rawCodeHash = Some codeHash\<rparr>)"

definition ek_GetBalance :: "'w BankKeeper \<Rightarrow> 'w EvmCtx \<Rightarrow> addr \<Rightarrow> int" where
  "ek_GetBalance bk c a =
     (let evmDenom = EvmDenom (evm_GetParams (evmParams c))
      in if evmDenom = '''' then -1 else bkGetBalance bk (sdkState c) a evmDenom)"

definition ek_GetAccount ::
  "(byte list \<Rightarrow> hash) \<Rightarrow> 'w AccountKeeper \<Rightarrow> 'w BankKeeper \<Rightarrow> 'w EvmCtx \<Rightarrow> addr \<Rightarrow> nilableAccount option" where
  "ek_GetAccount kec ak bk c a =
     (case ek_GetAccountWithoutBalance kec ak c a of
        None \<Rightarrow> None
      | Some acct \<Rightarrow> Some (acct\<lparr>rawBalance := Some (ek_GetBalance bk c a)\<rparr>))"

definition ek_GetAccountOrEmpty ::
  "(byte list \<Rightarrow> hash) \<Rightarrow> 'w AccountKeeper \<Rightarrow> 'w BankKeeper \<Rightarrow> 'w EvmCtx \<Rightarrow> addr \<Rightarrow> nilableAccount" where
  "ek_GetAccountOrEmpty kec ak bk c a =
     (case ek_GetAccount kec ak bk c a of
        Some acct \<Rightarrow> acct
      | None \<Rightarrow> \<lparr>rawNonce = 0, rawBalance = Some 0, rawCodeHash = Some (emptyCodeHash kec)\<rparr>)"

definition ek_GetNonce :: "'w AccountKeeper \<Rightarrow> 'w EvmCtx \<Rightarrow> addr \<Rightarrow> u64" where
  "ek_GetNonce ak c a =
     (case akGetAccount ak (sdkState c) a of None \<Rightarrow> 0 | Some acct \<Rightarrow> GetSequence acct)"

definition ek_GetState :: "'w EvmCtx \<Rightarrow> addr \<Rightarrow> hash \<Rightarrow> hash" where
  "ek_GetState c a key = (case evmStorage c a key of None \<Rightarrow> 0 | Some v \<Rightarrow> v)"

definition ek_GetCode :: "'w EvmCtx \<Rightarrow> hash \<Rightarrow> byte list option" where
  "ek_GetCode c codeHash = evmCode c codeHash"

text \<open>The pairs \<^verbatim>\<open>ForEachStorage\<close> hands to its callback, in key order, up to a stop.\<close>

definition storage_pairs :: "'w EvmCtx \<Rightarrow> addr \<Rightarrow> (hash \<times> hash) list" where
  "storage_pairs c a = map (\<lambda>key. (key, ek_GetState c a key)) (sorted_list_of_set (dom (evmStorage c a)))"

fun until_stop :: "(hash \<Rightarrow> hash \<Rightarrow> bool) \<Rightarrow> (hash \<times> hash) list \<Rightarrow> (hash \<times> hash) list" where
  "until_stop cb [] = []"
| "until_stop cb ((key, value) # kvs) = (key, value) # (if cb key value then until_stop cb kvs else [])"

definition ek_ForEachStorage ::
  "'w EvmCtx \<Rightarrow> addr \<Rightarrow> (hash \<Rightarrow> hash \<Rightarrow> bool) \<Rightarrow> (hash \<times> hash) list" where
  "ek_ForEachStorage c a cb = until_stop cb (storage_pairs c a)"

definition GetAccountStorage :: "'w EvmCtx \<Rightarrow> addr \<Rightarrow> (hash \<times> hash) list" where
  "GetAccountStorage c a = ek_ForEachStorage c a (\<lambda>_ _. True)"

definition set_sdk :: "'w EvmCtx \<Rightarrow> 'w \<Rightarrow> 'w EvmCtx" where
  "set_sdk c w = c\<lparr>sdkState := w\<rparr>"

definition ek_SetBalance :: "'w BankKeeper \<Rightarrow> 'w EvmCtx \<Rightarrow> addr \<Rightarrow> int \<Rightarrow> 'w EvmCtx result" where
  "ek_SetBalance bk c a amount =
     (let denom = EvmDenom (evm_GetParams (evmParams c));
          balance = bkGetBalance bk (sdkState c) a denom;
          delta = amount - balance
      in if delta > 0 then
           rbind (NewIntFromBigInt delta) (\<lambda>n.
           rbind (bkMintCoins bk (sdkState c) ModuleName (NewCoin denom n)) (\<lambda>w1.
           rbind (bkSendCoinsFromModuleToAccount bk w1 ModuleName a (NewCoin denom n)) (\<lambda>w2.
           Inr (set_sdk c w2))))
         else if delta < 0 then
           rbind (NewIntFromBigInt (- delta)) (\<lambda>n.
           rbind (bkSendCoinsFromAccountToModule bk (sdkState c) a ModuleName (NewCoin denom n)) (\<lambda>w1.
           rbind (bkBurnCoins bk w1 ModuleName (NewCoin denom n)) (\<lambda>w2.
           Inr (set_sdk c w2))))
         else Inr c)"

definition ek_SetAccount ::
  "'w AccountKeeper \<Rightarrow> 'w BankKeeper \<Rightarrow> 'w EvmCtx \<Rightarrow> addr \<Rightarrow> Account \<Rightarrow> 'w EvmCtx result" where
  "ek_SetAccount ak bk c a acc =
     (let (w1, acct) = (case akGetAccount ak (sdkState c) a of
                          Some acct \<Rightarrow> (sdkState c, acct)
                        | None \<Rightarrow> akNewAccountWithAddress ak (sdkState c) a);
          acct1 = SetSequence acct (Nonce acc);
          acct2 = (if isEthAccountI acct1 then SetCodeHash acct1 (CodeHash acc) else acct1)
      in ek_SetBalance bk (set_sdk c (akSetAccount ak w1 acct2)) a (Balance acc))"

definition ek_SetState :: "'w EvmCtx \<Rightarrow> addr \<Rightarrow> hash \<Rightarrow> hash option \<Rightarrow> 'w EvmCtx" where
  "ek_SetState c a key value = c\<lparr>evmStorage := (evmStorage c)(a := (evmStorage c a)(key := value))\<rparr>"

definition ek_SetCode :: "'w EvmCtx \<Rightarrow> hash \<Rightarrow> byte list \<Rightarrow> 'w EvmCtx" where
  "ek_SetCode c codeHash bs =
     c\<lparr>evmCode := (evmCode c)(codeHash := (if bs = [] then None else Some bs))\<rparr>"

definition ek_DeleteAccount ::
  "'w AccountKeeper \<Rightarrow> 'w BankKeeper \<Rightarrow> 'w EvmCtx \<Rightarrow> addr \<Rightarrow> 'w EvmCtx result" where
  "ek_DeleteAccount ak bk c a =
     (case akGetAccount ak (sdkState c) a of
        None \<Rightarrow> Inr c
      | Some acct \<Rightarrow>
          if \<not> isEthAccountI acct then Inl ErrInvalidAccount
          else rbind (ek_SetBalance bk c a 0) (\<lambda>c1.
            let c2 = fold (\<lambda>(key, _) c. ek_SetState c a key None) (ek_ForEachStorage c1 a (\<lambda>_ _. True)) c1
            in Inr (set_sdk c2 (akRemoveAccount ak (sdkState c2) acct))))"

text \<open>The keeper as the interface that the state database takes.\<close>

definition evm_Keeper ::
  "(byte list \<Rightarrow> hash) \<Rightarrow> 'w AccountKeeper \<Rightarrow> 'w BankKeeper \<Rightarrow> 'w EvmCtx Keeper" where
  "evm_Keeper kec ak bk =
     \<lparr>kGetAccount = ek_GetAccount kec ak bk, kGetState = ek_GetState, kGetCode = ek_GetCode,
      kStorage = storage_pairs, kSetAccount = ek_SetAccount ak bk, kSetState = ek_SetState,
      kSetCode = ek_SetCode, kDeleteAccount = ek_DeleteAccount ak bk\<rparr>"

section \<open>Transient counters\<close>

definition GetBlockBloomTransient :: "'w EvmCtx \<Rightarrow> int" where
  "GetBlockBloomTransient c = (case tBloom c (blockHeight c) of None \<Rightarrow> 0 | Some b \<Rightarrow> b)"

definition SetBlockBloomTransient :: "'w EvmCtx \<Rightarrow> int \<Rightarrow> 'w EvmCtx" where
  "SetBlockBloomTransient c bloom = c\<lparr>tBloom := (tBloom c)(blockHeight c \<mapsto> bloom)\<rparr>"

definition SetTxIndexTransient :: "'w EvmCtx \<Rightarrow> u64 \<Rightarrow> 'w EvmCtx" where
  "SetTxIndexTransient c index = c\<lparr>tTxIndex := Some index\<rparr>"

definition GetTxIndexTransient :: "'w EvmCtx \<Rightarrow> u64" where
  "GetTxIndexTransient c = (case tTxIndex c of None \<Rightarrow> 0 | Some i \<Rightarrow> i)"

definition GetLogSizeTransient :: "'w EvmCtx \<Rightarrow> u64" where
  "GetLogSizeTransient c = (case tLogSize c of None \<Rightarrow> 0 | Some i \<Rightarrow> i)"

definition SetLogSizeTransient :: "'w EvmCtx \<Rightarrow> u64 \<Rightarrow> 'w EvmCtx" where
  "SetLogSizeTransient c n = c\<lparr>tLogSize := Some n\<rparr>"

definition ResetTransientGasUsed :: "'w EvmCtx \<Rightarrow> 'w EvmCtx" where
  "ResetTransientGasUsed c = c\<lparr>tGasUsed := None\<rparr>"

definition GetTransientGasUsed :: "'w EvmCtx \<Rightarrow> u64" where
  "GetTransientGasUsed c = (case tGasUsed c of None \<Rightarrow> 0 | Some g \<Rightarrow> g)"

definition SetTransientGasUsed :: "'w EvmCtx \<Rightarrow> u64 \<Rightarrow> 'w EvmCtx" where
  "SetTransientGasUsed c gasUsed = c\<lparr>tGasUsed := Some gasUsed\<rparr>"

definition AddTransientGasUsed :: "'w EvmCtx \<Rightarrow> u64 \<Rightarrow> ('w EvmCtx \<times> u64) result" where
  "AddTransientGasUsed c gasUsed =
     (let result = GetTransientGasUsed c + gasUsed
      in if result < gasUsed then Inl (ErrText ''gas computation overflow'')
         else Inr (SetTransientGasUsed c result, result))"

text \<open>\<^verbatim>\<open>GetBaseFee\<close>: \<open>feemarket\<close> is what the fee market keeper returns, \<open>None\<close> for nil.\<close>

definition evm_getBaseFee :: "int option \<Rightarrow> bool \<Rightarrow> int option" where
  "evm_getBaseFee feemarket london =
     (if \<not> london then None else Some (case feemarket of None \<Rightarrow> 0 | Some f \<Rightarrow> f))"

lemma evm_Keeper_sel [simp]:
  "kGetAccount (evm_Keeper kec ak bk) = ek_GetAccount kec ak bk"
  "kGetState (evm_Keeper kec ak bk) = ek_GetState" "kGetCode (evm_Keeper kec ak bk) = ek_GetCode"
  by (simp_all add: evm_Keeper_def)

section \<open>Balances\<close>

lemma set_sdk_sel [simp]:
  "sdkState (set_sdk c w) = w" "evmParams (set_sdk c w) = evmParams c"
  "evmStorage (set_sdk c w) = evmStorage c" "evmCode (set_sdk c w) = evmCode c"
  "set_sdk (set_sdk c w) w' = set_sdk c w'"
  by (simp_all add: set_sdk_def)

abbreviation evm_denom :: "'w EvmCtx \<Rightarrow> string" where
  "evm_denom c \<equiv> EvmDenom (evm_GetParams (evmParams c))"

text \<open>
  Setting a balance writes it at that address and nowhere else, whatever the other
  denominations, by minting or burning the difference through the module account.
\<close>

lemma ek_SetBalance_effect:
  assumes laws: "bank_laws ak bk" and not_module: "a \<noteq> akGetModuleAddress ak ModuleName"
    and step: "ek_SetBalance bk c a n = Inr c'"
  shows "\<exists>w'. c' = set_sdk c w'
    \<and> bkGetBalance bk w' = (\<lambda>b d. if b = a \<and> d = evm_denom c then n else bkGetBalance bk (sdkState c) b d)
    \<and> keeps_accounts ak {akGetModuleAddress ak ModuleName, a} (sdkState c) w'"
proof -
  define delta where "delta = n - bkGetBalance bk (sdkState c) a (evm_denom c)"
  note up = bank_lawsD(1,3) [OF laws] and down = bank_lawsD(4,2) [OF laws]
  consider "delta > 0" | "delta < 0" | "delta = 0" by linarith
  then show ?thesis
  proof cases
    case 1
    with step obtain w1 w2 where
      w: "bkMintCoins bk (sdkState c) ModuleName (NewCoin (evm_denom c) delta) = Inr w1"
      "bkSendCoinsFromModuleToAccount bk w1 ModuleName a (NewCoin (evm_denom c) delta) = Inr w2" "c' = set_sdk c w2"
      by (auto simp: ek_SetBalance_def Let_def delta_def rbind_Inr_iff dest!: NewIntFromBigInt_Inr)
    have "bkGetBalance bk w2 = (\<lambda>b d. if b = a \<and> d = evm_denom c then n else bkGetBalance bk (sdkState c) b d)"
      using up(1) [OF w(1)] up(2) [OF w(2)] not_module 1
      by (auto simp: fun_eq_iff credit_def debit_def delta_def)
    moreover have "keeps_accounts ak {akGetModuleAddress ak ModuleName, a} (sdkState c) w2"
      using keeps_accounts_trans [OF conjunct2 [OF up(1) [OF w(1)]] conjunct2 [OF up(2) [OF w(2)]]]
      by (simp add: insert_commute)
    ultimately show ?thesis using w(3) by blast
  next
    case 2
    with step obtain w1 w2 where
      w: "bkSendCoinsFromAccountToModule bk (sdkState c) a ModuleName (NewCoin (evm_denom c) (- delta)) = Inr w1"
      "bkBurnCoins bk w1 ModuleName (NewCoin (evm_denom c) (- delta)) = Inr w2" "c' = set_sdk c w2"
      by (auto simp: ek_SetBalance_def Let_def delta_def rbind_Inr_iff dest!: NewIntFromBigInt_Inr)
    have "bkGetBalance bk w2 = (\<lambda>b d. if b = a \<and> d = evm_denom c then n else bkGetBalance bk (sdkState c) b d)"
      using down(1) [OF w(1)] down(2) [OF w(2)] not_module 2
      by (auto simp: fun_eq_iff credit_def debit_def delta_def)
    moreover have "keeps_accounts ak {akGetModuleAddress ak ModuleName} (sdkState c) w2"
      using keeps_accounts_trans [OF conjunct2 [OF down(1) [OF w(1)]] conjunct2 [OF down(2) [OF w(2)]]] by simp
    then have "keeps_accounts ak {akGetModuleAddress ak ModuleName, a} (sdkState c) w2"
      by (rule keeps_accounts_mono) auto
    ultimately show ?thesis using w(3) by blast
  next
    case 3
    then have "c' = set_sdk c (sdkState c)" using step
      by (simp add: ek_SetBalance_def Let_def delta_def set_sdk_def)
    then show ?thesis using 3 by (auto simp: delta_def keeps_accounts_refl fun_eq_iff)
  qed
qed

lemma ek_SetBalance_shape: "ek_SetBalance bk c a n = Inr c' \<Longrightarrow> \<exists>w'. c' = set_sdk c w'"
proof -
  assume "ek_SetBalance bk c a n = Inr c'"
  moreover have "c = set_sdk c (sdkState c)" by (simp add: set_sdk_def)
  ultimately show ?thesis
    by (fastforce simp: ek_SetBalance_def Let_def rbind_Inr_iff split: if_splits)
qed

section \<open>The keeper meets the contract of the state database\<close>

definition evm_laws :: "(byte list \<Rightarrow> hash) \<Rightarrow> 'w AccountKeeper \<Rightarrow> 'w BankKeeper \<Rightarrow> 'w EvmCtx \<Rightarrow> bool" where
  "evm_laws kec ak bk c \<longleftrightarrow> account_laws kec ak bk \<and> bank_laws ak bk \<and> evm_denom c \<noteq> ''''"

definition evm_writable :: "'w AccountKeeper \<Rightarrow> 'w EvmCtx \<Rightarrow> addr \<Rightarrow> bool" where
  "evm_writable ak c a \<longleftrightarrow> a \<noteq> akGetModuleAddress ak ModuleName"

definition evm_eth :: "'w AccountKeeper \<Rightarrow> 'w EvmCtx \<Rightarrow> addr \<Rightarrow> bool" where
  "evm_eth ak c a \<longleftrightarrow> (case akGetAccount ak (sdkState c) a of None \<Rightarrow> True | Some acct \<Rightarrow> isEthAccountI acct)"

text \<open>The account that \<^verbatim>\<open>SetAccount\<close> stores before it sets the balance.\<close>

lemma ek_SetAccount_stored:
  assumes laws: "account_laws kec ak bk" and step: "ek_SetAccount ak bk c a acc = Inr c'"
  obtains w2 acct2 where "ek_SetBalance bk (set_sdk c w2) a (Balance acc) = Inr c'"
    "bkGetBalance bk w2 = bkGetBalance bk (sdkState c)"
    "akGetAccount ak w2 = (akGetAccount ak (sdkState c))(a \<mapsto> acct2)"
    "GetSequence acct2 = Nonce acc"
    "GetCodeHashI acct2 = (if evm_eth ak c a then Some (CodeHash acc) else None)"
proof (cases "akGetAccount ak (sdkState c) a")
  case None
  obtain n w1 where new: "akNewAccountWithAddress ak (sdkState c) a
      = (w1, EthAccount \<lparr>accAddress = a, accNumber = n, accSequence = 0\<rparr> (kec []))"
    using account_lawsD(4) [OF laws, of "sdkState c" a] by (metis prod.collapse)
  have w1: "akGetAccount ak w1 = akGetAccount ak (sdkState c)" "bkGetBalance bk w1 = bkGetBalance bk (sdkState c)"
    using account_lawsD(5,6) [OF laws, of "sdkState c" a] new by simp_all
  let ?acct = "EthAccount \<lparr>accAddress = a, accNumber = n, accSequence = Nonce acc\<rparr> (CodeHash acc)"
  show ?thesis
  proof (rule that [of "akSetAccount ak w1 ?acct" ?acct])
    show "ek_SetBalance bk (set_sdk c (akSetAccount ak w1 ?acct)) a (Balance acc) = Inr c'"
      using step None new by (simp add: ek_SetAccount_def Let_def)
    show "akGetAccount ak (akSetAccount ak w1 ?acct) = (akGetAccount ak (sdkState c))(a \<mapsto> ?acct)"
      using account_lawsD(2) [OF laws] w1 by (auto simp: fun_eq_iff)
  qed (use None w1 account_lawsD(7) [OF laws] in \<open>simp_all add: GetSequence_def evm_eth_def\<close>)
next
  case (Some acct)
  let ?acct1 = "SetSequence acct (Nonce acc)"
  let ?acct = "if isEthAccountI ?acct1 then SetCodeHash ?acct1 (CodeHash acc) else ?acct1"
  have addr: "accAddress (baseAcc ?acct) = a" using account_lawsD(1) [OF laws Some] by simp
  show ?thesis
  proof (rule that [of "akSetAccount ak (sdkState c) ?acct" ?acct])
    show "ek_SetBalance bk (set_sdk c (akSetAccount ak (sdkState c) ?acct)) a (Balance acc) = Inr c'"
      using step Some by (auto simp: ek_SetAccount_def Let_def)
    show "akGetAccount ak (akSetAccount ak (sdkState c) ?acct) = (akGetAccount ak (sdkState c))(a \<mapsto> ?acct)"
      unfolding fun_eq_iff account_lawsD(2) [OF laws] addr by auto
  qed (use Some account_lawsD(7) [OF laws] in \<open>auto simp: GetSequence_def evm_eth_def\<close>)
qed

lemma ek_GetAccount_cong:
  assumes "akGetAccount ak (sdkState c') b = akGetAccount ak (sdkState c) b" "evmParams c' = evmParams c"
    and "bkGetBalance bk (sdkState c') b (evm_denom c) = bkGetBalance bk (sdkState c) b (evm_denom c)"
  shows "ek_GetAccount kec ak bk c' b = ek_GetAccount kec ak bk c b"
proof -
  have "ek_GetBalance bk c' b = ek_GetBalance bk c b" using assms(2,3) by (simp add: ek_GetBalance_def Let_def)
  then show ?thesis
    using assms(1) by (simp add: ek_GetAccount_def ek_GetAccountWithoutBalance_def split: option.split)
qed

lemma ek_SetAccount_effect:
  assumes laws: "evm_laws kec ak bk c" and wr: "evm_writable ak c a"
    and step: "ek_SetAccount ak bk c a acc = Inr c'"
  shows "evm_laws kec ak bk c'"
    and "holds_account kec (evm_Keeper kec ak bk) c' a (evm_eth ak c a) acc"
    and "evm_writable ak c b \<Longrightarrow> b \<noteq> a \<Longrightarrow>
      ek_GetAccount kec ak bk c' b = ek_GetAccount kec ak bk c b \<and> evm_eth ak c' b = evm_eth ak c b"
proof -
  have al: "account_laws kec ak bk" and bl: "bank_laws ak bk" and dn: "evm_denom c \<noteq> ''''"
    using laws by (simp_all add: evm_laws_def)
  obtain w2 acct2 where w2: "ek_SetBalance bk (set_sdk c w2) a (Balance acc) = Inr c'"
    "bkGetBalance bk w2 = bkGetBalance bk (sdkState c)"
    "akGetAccount ak w2 = (akGetAccount ak (sdkState c))(a \<mapsto> acct2)" "GetSequence acct2 = Nonce acc"
    "GetCodeHashI acct2 = (if evm_eth ak c a then Some (CodeHash acc) else None)"
    by (rule ek_SetAccount_stored [OF al step])
  obtain w' where w': "c' = set_sdk c w'"
    "bkGetBalance bk w' = (\<lambda>b d. if b = a \<and> d = evm_denom c then Balance acc else bkGetBalance bk w2 b d)"
    "keeps_accounts ak {akGetModuleAddress ak ModuleName, a} w2 w'"
    using ek_SetBalance_effect [OF bl wr [unfolded evm_writable_def] w2(1), unfolded set_sdk_sel] by blast
  show "evm_laws kec ak bk c'" using laws w'(1) by (simp add: evm_laws_def)
  have "akGetAccount ak w' a = Some acct2" using keeps_accountsD(1) [OF w'(3), of a] w2(3) by simp
  then show "holds_account kec (evm_Keeper kec ak bk) c' a (evm_eth ak c a) acc"
    using w' w2(4,5) dn
    by (simp add: holds_account_def evm_Keeper_def ek_GetAccount_def ek_GetAccountWithoutBalance_def
        ek_GetBalance_def acct_of_def Let_def)
  assume b: "evm_writable ak c b" "b \<noteq> a"
  then have "akGetAccount ak w' b = akGetAccount ak (sdkState c) b"
    using keeps_accountsD(1) [OF w'(3), of b] w2(3) by (simp add: evm_writable_def)
  then show "ek_GetAccount kec ak bk c' b = ek_GetAccount kec ak bk c b \<and> evm_eth ak c' b = evm_eth ak c b"
    using w' w2(2) b by (intro conjI ek_GetAccount_cong) (simp_all add: evm_eth_def)
qed

lemma until_stop_True [simp]: "until_stop (\<lambda>_ _. True) kvs = kvs"
  by (induction kvs) auto

lemma clear_storage:
  "fold (\<lambda>(key, _) c. ek_SetState c a key None) kvs c
     = c\<lparr>evmStorage := (evmStorage c)(a := (\<lambda>key. if key \<in> fst ` set kvs then None else evmStorage c a key))\<rparr>"
proof (induction kvs arbitrary: c)
  case (Cons kv kvs)
  then show ?case by (cases kv) (auto simp: ek_SetState_def fun_eq_iff)
qed (simp add: fun_upd_idem)

lemma ek_DeleteAccount_effect:
  assumes laws: "evm_laws kec ak bk c" and wr: "evm_writable ak c a"
    and step: "ek_DeleteAccount ak bk c a = Inr c'"
  shows "evm_laws kec ak bk c' \<and> ek_GetAccount kec ak bk c' a = None
    \<and> (ek_GetAccount kec ak bk c a \<noteq> None \<longrightarrow> (\<forall>key. ek_GetState c' a key = 0))
    \<and> evmCode c' = evmCode c
    \<and> (\<forall>b. evm_writable ak c b \<longrightarrow> b \<noteq> a \<longrightarrow> ek_GetAccount kec ak bk c' b = ek_GetAccount kec ak bk c b
        \<and> ek_GetState c' b = ek_GetState c b \<and> evm_eth ak c' b = evm_eth ak c b)"
proof (cases "akGetAccount ak (sdkState c) a")
  case None
  then show ?thesis
    using step laws by (simp add: ek_DeleteAccount_def ek_GetAccount_def ek_GetAccountWithoutBalance_def)
next
  case (Some acct)
  have al: "account_laws kec ak bk" and bl: "bank_laws ak bk" using laws by (simp_all add: evm_laws_def)
  from step Some obtain c1 where c1: "ek_SetBalance bk c a 0 = Inr c1"
    by (auto simp: ek_DeleteAccount_def rbind_Inr_iff split: if_splits)
  obtain w1 where w1: "c1 = set_sdk c w1"
    "bkGetBalance bk w1 = (\<lambda>b d. if b = a \<and> d = evm_denom c then 0 else bkGetBalance bk (sdkState c) b d)"
    "keeps_accounts ak {akGetModuleAddress ak ModuleName, a} (sdkState c) w1"
    using ek_SetBalance_effect [OF bl wr [unfolded evm_writable_def] c1] by blast
  let ?c2 = "fold (\<lambda>(key, _) c. ek_SetState c a key None) (storage_pairs c1 a) c1"
  have "fst ` set (storage_pairs c1 a) = dom (evmStorage c1 a)"
    by (simp add: storage_pairs_def image_image)
  then have c2: "?c2 = c1\<lparr>evmStorage := (evmStorage c1)(a := Map.empty)\<rparr>"
    unfolding clear_storage by (auto simp: fun_eq_iff intro!: arg_cong [where f = "\<lambda>x. c1\<lparr>evmStorage := x\<rparr>"])
  have c': "c' = set_sdk ?c2 (akRemoveAccount ak w1 acct)"
    using step Some c1 w1(1)
    by (auto simp: ek_DeleteAccount_def ek_ForEachStorage_def Let_def clear_storage split: if_splits)
  have addr: "accAddress (baseAcc acct) = a" by (rule account_lawsD(1) [OF al Some])
  have acc: "akGetAccount ak (sdkState c') b = (if b = a then None else akGetAccount ak w1 b)" for b
    unfolding c' using account_lawsD(3) [OF al] addr by simp
  have bal: "bkGetBalance bk (sdkState c') = bkGetBalance bk w1"
    unfolding c' using account_lawsD(8) [OF al] by simp
  have "ek_GetAccount kec ak bk c' b = ek_GetAccount kec ak bk c b \<and> ek_GetState c' b = ek_GetState c b
      \<and> evm_eth ak c' b = evm_eth ak c b" if "evm_writable ak c b" "b \<noteq> a" for b
  proof -
    have "akGetAccount ak (sdkState c') b = akGetAccount ak (sdkState c) b"
      using acc that keeps_accountsD(1) [OF w1(3), of b] by (simp add: evm_writable_def)
    moreover have "evmParams c' = evmParams c" "evmStorage c' b = evmStorage c b"
      unfolding c' c2 using that by (simp_all add: w1(1))
    ultimately show ?thesis
      using that bal w1(2) by (intro conjI ek_GetAccount_cong) (simp_all add: evm_eth_def ek_GetState_def fun_eq_iff)
  qed
  moreover have "evm_laws kec ak bk c'" "evmCode c' = evmCode c" "\<forall>key. ek_GetState c' a key = 0"
    unfolding c' c2 using laws by (simp_all add: w1(1) evm_laws_def ek_GetState_def)
  moreover have "ek_GetAccount kec ak bk c' a = None"
    using acc by (simp add: ek_GetAccount_def ek_GetAccountWithoutBalance_def)
  ultimately show ?thesis by blast
qed

interpretation evmk: statedb_keeper kec "evm_Keeper kec ak bk" "evm_laws kec ak bk" "evm_writable ak" "evm_eth ak"
  for kec ak bk
proof
  fix c c' :: "'a EvmCtx" and a b acct
  assume laws: "evm_laws kec ak bk c"
  {
    assume "evm_writable ak c a" "kSetAccount (evm_Keeper kec ak bk) c a acct = Inr c'"
    then have set: "evm_writable ak c a" "ek_SetAccount ak bk c a acct = Inr c'" by (simp_all add: evm_Keeper_def)
    note eff = ek_SetAccount_effect [OF laws set]
    show "evm_laws kec ak bk c'" "holds_account kec (evm_Keeper kec ak bk) c' a (evm_eth ak c a) acct"
      by (fact eff(1), fact eff(2))
    assume "evm_writable ak c b" "b \<noteq> a"
    then show "kGetAccount (evm_Keeper kec ak bk) c' b = kGetAccount (evm_Keeper kec ak bk) c b
        \<and> evm_eth ak c' b = evm_eth ak c b"
      using eff(3) by (simp add: evm_Keeper_def)
  next
    assume "kSetAccount (evm_Keeper kec ak bk) c a acct = Inr c'"
    then obtain w1 w' where "c' = set_sdk (set_sdk c w1) w'"
      by (auto simp: evm_Keeper_def ek_SetAccount_def Let_def split: prod.splits dest!: ek_SetBalance_shape)
    then show "kGetState (evm_Keeper kec ak bk) c' = kGetState (evm_Keeper kec ak bk) c
        \<and> kGetCode (evm_Keeper kec ak bk) c' = kGetCode (evm_Keeper kec ak bk) c \<and> evm_writable ak c' = evm_writable ak c"
      by (simp add: evm_Keeper_def ek_GetState_def ek_GetCode_def evm_writable_def fun_eq_iff)
  next
    assume "evm_writable ak c a" "kDeleteAccount (evm_Keeper kec ak bk) c a = Inr c'"
    then have del: "evm_writable ak c a" "ek_DeleteAccount ak bk c a = Inr c'" by (simp_all add: evm_Keeper_def)
    note eff = ek_DeleteAccount_effect [OF laws del]
    show "evm_laws kec ak bk c'" using eff by blast
    show "kGetAccount (evm_Keeper kec ak bk) c' a = None \<and> (kGetAccount (evm_Keeper kec ak bk) c a \<noteq> None
        \<longrightarrow> (\<forall>key. kGetState (evm_Keeper kec ak bk) c' a key = 0))"
      using eff by (simp add: evm_Keeper_def)
    assume "evm_writable ak c b" "b \<noteq> a"
    then show "kGetAccount (evm_Keeper kec ak bk) c' b = kGetAccount (evm_Keeper kec ak bk) c b
        \<and> kGetState (evm_Keeper kec ak bk) c' b = kGetState (evm_Keeper kec ak bk) c b \<and> evm_eth ak c' b = evm_eth ak c b"
      using eff by (simp add: evm_Keeper_def)
  }
qed (auto simp: evm_Keeper_def ek_SetState_def ek_SetCode_def ek_GetState_def ek_GetCode_def evm_laws_def
    ek_GetAccount_def ek_GetAccountWithoutBalance_def ek_GetBalance_def evm_eth_def evm_writable_def fun_eq_iff Let_def
    ek_DeleteAccount_def ek_ForEachStorage_def clear_storage [unfolded ek_SetState_def] rbind_Inr_iff
    split: option.splits if_splits dest!: ek_SetBalance_shape)


definition ex_ctx :: "ledger EvmCtx" where
  "ex_ctx = \<lparr>evmParams = ex_store, evmStorage = (\<lambda>_. Map.empty), evmCode = Map.empty,
     sdkState = (Map.empty, \<lambda>_ _. 0), blockHeight = 1, tBloom = Map.empty, tTxIndex = None,
     tLogSize = None, tGasUsed = None\<rparr>"

abbreviation zkec :: "byte list \<Rightarrow> hash" where
  "zkec \<equiv> \<lambda>_. 0"

definition ex_evm_db :: "ledger EvmCtx StateDB" where
  "ex_evm_db = AddBalance zkec
     (NewStateDB ex_ctx (evm_Keeper zkec (ledger_ak zkec) ledger_bk) (NewEmptyTxConfig 0)) 1 5"

lemma ex_evm_db_sel:
  "keeper ex_evm_db = evm_Keeper zkec (ledger_ak zkec) ledger_bk" "ctx ex_evm_db = ex_ctx"
  "dirties (sjournal ex_evm_db) = [1 \<mapsto> 2]"
  "stateObjects ex_evm_db = [1 \<mapsto> setBalance (newObject zkec 1 zeroAccount) 5]"
  by (simp_all add: ex_evm_db_def AddBalance_def getOrNewStateObject_def getStateObject_def createObject_def
      so_AddBalance_def so_SetBalance_def NewStateDB_def evm_Keeper_def ex_ctx_def ek_GetAccount_def
      ek_GetAccountWithoutBalance_def ledger_ak_def appendJ_def setStateObject_def newJournal_def
      journal_append_def inc_dirty_def Let_def newObject_def zeroAccount_def setBalance_def)

lemma ex_commits: "\<exists>s'. Commit ex_evm_db = Inr s'"
  by (simp add: Commit_def ex_evm_db_sel sortedDirties_def commit_object_def evm_Keeper_def ek_SetAccount_def
      ek_SetBalance_def ledger_ak_def ledger_bk_def ex_ctx_def ex_store_def evm_GetParams_def DefaultParams_def
      setBalance_def newObject_def zeroAccount_def NewIntFromBigInt_def receive_def pay_def credit_def Let_def
      SortedKeys_def isEthAccountI_def set_sdk_def)


section \<open>The gas counter of a transaction\<close>

text \<open>
  The gas counter of a transaction never wraps around: adding to it gives the exact sum,
  stored and returned, as long as the sum fits 64 bits, and fails with the overflow error
  exactly when it does not.
\<close>

theorem AddTransientGasUsed_exact:
  "AddTransientGasUsed c g =
     (if unat (GetTransientGasUsed c) + unat g < 2 ^ 64
      then Inr (c\<lparr>tGasUsed := Some (word_of_nat (unat (GetTransientGasUsed c) + unat g))\<rparr>,
                word_of_nat (unat (GetTransientGasUsed c) + unat g))
      else Inl (ErrText ''gas computation overflow''))"
proof -
  have wrap: "(x + y) mod M < y \<longleftrightarrow> \<not> x + y < M" if "x < M" "y < M" for x y M :: nat
  proof (cases "x + y < M")
    case False
    then have "(x + y) mod M = x + y - M" using that by (simp add: le_mod_geq)
    then show ?thesis using False that by linarith
  qed simp
  define x where "x = GetTransientGasUsed c"
  have lt: "unat x < 2 ^ 64" "unat g < 2 ^ 64"
    using unsigned_less [where w = x and 'a = nat] unsigned_less [where w = g and 'a = nat] by simp_all
  have "unat (x + g) = (unat x + unat g) mod 2 ^ 64" by (simp add: unat_word_ariths)
  then have "x + g < g \<longleftrightarrow> \<not> unat x + unat g < 2 ^ 64"
    unfolding word_less_nat_alt using wrap [OF lt] by (simp only:)
  moreover have "x + g = word_of_nat (unat x + unat g)"
    by simp
  ultimately show ?thesis
    unfolding AddTransientGasUsed_def SetTransientGasUsed_def Let_def x_def [symmetric] by (simp only: if_not_P if_P)
       (cases "unat x + unat g < 2 ^ 64"; simp only: if_True if_False not_True_eq_False not_False_eq_True)
qed

end
