(* ===== verification/Revenue.thy ===== *)
theory Revenue
  imports Addresses EvmKeeper KVStore Dec "HOL-Library.Product_Lexorder"
begin

text \<open>
  The \<^verbatim>\<open>x/revenue/v1\<close> module: contracts registered by their deployers for a share of the
  transaction fees (\<^verbatim>\<open>types/revenue.go\<close>, \<^verbatim>\<open>keeper/revenues.go\<close>), the messages and their
  handlers (\<^verbatim>\<open>types/msg.go\<close>, \<^verbatim>\<open>keeper/msg_server.go\<close>), genesis, queries and the hook that
  pays the share after a transaction (\<^verbatim>\<open>keeper/evm_hooks.go\<close>). Accounts and parameters of
  the EVM are those of the modelled EVM keeper.
\<close>

section \<open>Revenues and parameters\<close>

record Revenue =
  rContractAddress :: string
  rDeployerAddress :: string
  rWithdrawerAddress :: string

definition NewRevenue :: "addr_codec \<Rightarrow> addr \<Rightarrow> addr \<Rightarrow> addr option \<Rightarrow> Revenue" where
  "NewRevenue ac contract deployer withdrawer =
     \<lparr>rContractAddress = acHex ac contract, rDeployerAddress = acToBech32 ac deployer,
      rWithdrawerAddress = (case withdrawer of None \<Rightarrow> [] | Some w \<Rightarrow> acToBech32 ac w)\<rparr>"

definition GetContractAddr :: "addr_codec \<Rightarrow> Revenue \<Rightarrow> addr" where
  "GetContractAddr ac fs = acHexToAddress ac (rContractAddress fs)"

definition GetDeployerAddr :: "addr_codec \<Rightarrow> Revenue \<Rightarrow> addr result" where
  "GetDeployerAddr ac fs = must_bech32 ac (rDeployerAddress fs)"

definition GetWithdrawerAddr :: "addr_codec \<Rightarrow> Revenue \<Rightarrow> addr option result" where
  "GetWithdrawerAddr ac fs =
     (if rWithdrawerAddress fs = [] then Inr None
      else rbind (must_bech32 ac (rWithdrawerAddress fs)) (\<lambda>w. Inr (Some w)))"

definition Revenue_Validate :: "addr_codec \<Rightarrow> Revenue \<Rightarrow> unit result" where
  "Revenue_Validate ac fs =
     rbind (ValidateNonZeroAddress ac (rContractAddress fs)) (\<lambda>_.
     rbind (acc_bech32 ac (rDeployerAddress fs)) (\<lambda>_.
     if rWithdrawerAddress fs \<noteq> [] then rbind (acc_bech32 ac (rWithdrawerAddress fs)) (\<lambda>_. Inr ())
     else Inr ()))"

record RevParams =
  EnableRevenue :: bool
  DeveloperShares :: int
  AddrDerivationCostCreate :: u64

definition rev_NewParams :: "bool \<Rightarrow> int \<Rightarrow> u64 \<Rightarrow> RevParams" where
  "rev_NewParams enableRevenue developerShares addrDerivationCostCreate =
     \<lparr>EnableRevenue = enableRevenue, DeveloperShares = developerShares,
      AddrDerivationCostCreate = addrDerivationCostCreate\<rparr>"

definition rev_DefaultParams :: RevParams where
  "rev_DefaultParams =
     \<lparr>EnableRevenue = True, DeveloperShares = LegacyNewDecWithPrec 50 2, AddrDerivationCostCreate = 50\<rparr>"

definition validateShares :: "int \<Rightarrow> unit result" where
  "validateShares v =
     (if v < 0 then Inl (ErrText ''value cannot be negative'')
      else if v > dec_one then Inl (ErrText ''value cannot be greater than 1'')
      else Inr ())"

definition rev_Validate :: "RevParams \<Rightarrow> unit result" where
  "rev_Validate p = validateShares (DeveloperShares p)"

section \<open>Errors\<close>

abbreviation "ErrRevenueDisabled \<equiv> ErrModule ''revenue'' 3"
abbreviation "ErrRevenueAlreadyRegistered \<equiv> ErrModule ''revenue'' 4"
abbreviation "ErrRevenueNoContractDeployed \<equiv> ErrModule ''revenue'' 5"
abbreviation "ErrRevenueContractNotRegistered \<equiv> ErrModule ''revenue'' 6"
abbreviation "ErrRevenueDeployerIsNotEOA \<equiv> ErrModule ''revenue'' 7"

section \<open>Messages\<close>

record MsgRegisterRevenue =
  mrContractAddress :: string
  mrDeployerAddress :: string
  mrWithdrawerAddress :: string
  mrNonces :: "u64 list"

record MsgUpdateRevenue =
  mwContractAddress :: string
  mwDeployerAddress :: string
  mwWithdrawerAddress :: string

record MsgCancelRevenue =
  mxContractAddress :: string
  mxDeployerAddress :: string

definition NewMsgRegisterRevenue :: "addr_codec \<Rightarrow> addr \<Rightarrow> addr \<Rightarrow> addr option \<Rightarrow> u64 list \<Rightarrow> MsgRegisterRevenue" where
  "NewMsgRegisterRevenue ac contract deployer withdrawer nonces =
     \<lparr>mrContractAddress = acHex ac contract, mrDeployerAddress = acToBech32 ac deployer,
      mrWithdrawerAddress = (case withdrawer of None \<Rightarrow> [] | Some w \<Rightarrow> acToBech32 ac w), mrNonces = nonces\<rparr>"

definition NewMsgCancelRevenue :: "addr_codec \<Rightarrow> addr \<Rightarrow> addr \<Rightarrow> MsgCancelRevenue" where
  "NewMsgCancelRevenue ac contract deployer =
     \<lparr>mxContractAddress = acHex ac contract, mxDeployerAddress = acToBech32 ac deployer\<rparr>"

definition NewMsgUpdateRevenue :: "addr_codec \<Rightarrow> addr \<Rightarrow> addr \<Rightarrow> addr \<Rightarrow> MsgUpdateRevenue" where
  "NewMsgUpdateRevenue ac contract deployer withdraw =
     \<lparr>mwContractAddress = acHex ac contract, mwDeployerAddress = acToBech32 ac deployer,
      mwWithdrawerAddress = acToBech32 ac withdraw\<rparr>"

definition RevMsgRegister_ValidateBasic :: "addr_codec \<Rightarrow> MsgRegisterRevenue \<Rightarrow> unit result" where
  "RevMsgRegister_ValidateBasic ac msg =
     rbind (acc_bech32 ac (mrDeployerAddress msg)) (\<lambda>_.
     rbind (ValidateNonZeroAddress ac (mrContractAddress msg)) (\<lambda>_.
     rbind (if mrWithdrawerAddress msg \<noteq> [] then rbind (acc_bech32 ac (mrWithdrawerAddress msg)) (\<lambda>_. Inr ()) else Inr ()) (\<lambda>_.
     if length (mrNonces msg) < 1 then Inl ErrInvalidRequest
     else if length (mrNonces msg) > 20 then Inl ErrInvalidRequest
     else Inr ())))"

definition RevMsgCancel_ValidateBasic :: "addr_codec \<Rightarrow> MsgCancelRevenue \<Rightarrow> unit result" where
  "RevMsgCancel_ValidateBasic ac msg =
     rbind (acc_bech32 ac (mxDeployerAddress msg)) (\<lambda>_.
     rbind (ValidateNonZeroAddress ac (mxContractAddress msg)) (\<lambda>_. Inr ()))"

definition RevMsgUpdate_ValidateBasic :: "addr_codec \<Rightarrow> MsgUpdateRevenue \<Rightarrow> unit result" where
  "RevMsgUpdate_ValidateBasic ac msg =
     rbind (acc_bech32 ac (mwDeployerAddress msg)) (\<lambda>_.
     rbind (ValidateNonZeroAddress ac (mwContractAddress msg)) (\<lambda>_.
     rbind (acc_bech32 ac (mwWithdrawerAddress msg)) (\<lambda>_. Inr ())))"

definition RevMsgRegister_GetSigners :: "addr_codec \<Rightarrow> MsgRegisterRevenue \<Rightarrow> addr list result" where
  "RevMsgRegister_GetSigners ac msg = rbind (must_bech32 ac (mrDeployerAddress msg)) (\<lambda>from. Inr [from])"

definition RevMsgCancel_GetSigners :: "addr_codec \<Rightarrow> MsgCancelRevenue \<Rightarrow> addr list result" where
  "RevMsgCancel_GetSigners ac msg = rbind (must_bech32 ac (mxDeployerAddress msg)) (\<lambda>funder. Inr [funder])"

definition RevMsgUpdate_GetSigners :: "addr_codec \<Rightarrow> MsgUpdateRevenue \<Rightarrow> addr list result" where
  "RevMsgUpdate_GetSigners ac msg = rbind (must_bech32 ac (mwDeployerAddress msg)) (\<lambda>from. Inr [from])"

section \<open>The keeper\<close>

text \<open>
  The environment: address codecs, the account keeper and Keccak-256 behind the EVM keeper's
  accounts, the gas meter, and the bank and distribution keepers, which take the single
  coin the hook builds as a pair of denomination and amount.
\<close>

record 'w revenue_env =
  reCodec :: addr_codec
  reKec :: "byte list \<Rightarrow> hash"
  reAk :: "'w AccountKeeper"
  reBalance :: "'w \<Rightarrow> addr \<Rightarrow> string \<Rightarrow> int"
  reConsumeGas :: "'w \<Rightarrow> u64 \<Rightarrow> 'w result"
  reSendCoinsFromModuleToAccount :: "'w \<Rightarrow> string \<Rightarrow> addr \<Rightarrow> string \<times> int \<Rightarrow> 'w result"
  reFundCommunityPool :: "'w \<Rightarrow> string \<times> int \<Rightarrow> addr \<Rightarrow> 'w result"
  reIntMul :: "int \<Rightarrow> int \<Rightarrow> int result"
  reDecMulInt :: "int \<Rightarrow> int \<Rightarrow> int result"
  reDecTruncateInt :: "int \<Rightarrow> int"
  reFeeCollectorName :: string
  reAuthority :: addr

text \<open>Events carry their attributes as text; the gas price and amounts as integers.\<close>

datatype rev_event =
    EventRegisterRevenue string string string
  | EventUpdateRevenue string string string
  | EventCancelRevenue string string
  | EventDistributeDevRevenue addr string string int

text \<open>
  The stores: revenues by contract, and the entries of the deployer and withdrawer indexes,
  whose keys are an address followed by a contract and whose values are one constant byte.
\<close>

record 'w RevenueCtx =
  rvEvm :: "'w EvmCtx"
  rvParams :: RevParams
  revStore :: "(addr \<times> Revenue) list"
  deployerStore :: "((addr \<times> addr) \<times> unit) list"
  withdrawerStore :: "((addr \<times> addr) \<times> unit) list"
  rvEvents :: "rev_event list"

definition rev_GetParams :: "'w RevenueCtx \<Rightarrow> RevParams" where
  "rev_GetParams cx = rvParams cx"

definition rev_SetParams :: "'w RevenueCtx \<Rightarrow> RevParams \<Rightarrow> 'w RevenueCtx" where
  "rev_SetParams cx params = cx\<lparr>rvParams := params\<rparr>"

definition GetRevenues :: "'w RevenueCtx \<Rightarrow> Revenue list" where
  "GetRevenues cx = map snd (revStore cx)"

fun until_handled :: "(Revenue \<Rightarrow> 's \<Rightarrow> bool \<times> 's) \<Rightarrow> Revenue list \<Rightarrow> 's \<Rightarrow> 's" where
  "until_handled handlerFn [] st = st"
| "until_handled handlerFn (fee # fees) st =
     (case handlerFn fee st of (stop, st) \<Rightarrow> if stop then st else until_handled handlerFn fees st)"

definition IterateRevenues :: "'w RevenueCtx \<Rightarrow> (Revenue \<Rightarrow> 's \<Rightarrow> bool \<times> 's) \<Rightarrow> 's \<Rightarrow> 's" where
  "IterateRevenues cx handlerFn st = until_handled handlerFn (GetRevenues cx) st"

definition GetRevenue :: "'w RevenueCtx \<Rightarrow> addr \<Rightarrow> Revenue option" where
  "GetRevenue cx contract = kv_get (revStore cx) contract"

definition SetRevenue :: "addr_codec \<Rightarrow> 'w RevenueCtx \<Rightarrow> Revenue \<Rightarrow> 'w RevenueCtx" where
  "SetRevenue ac cx revenue = cx\<lparr>revStore := kv_set (revStore cx) (GetContractAddr ac revenue) revenue\<rparr>"

definition DeleteRevenue :: "addr_codec \<Rightarrow> 'w RevenueCtx \<Rightarrow> Revenue \<Rightarrow> 'w RevenueCtx" where
  "DeleteRevenue ac cx fee = cx\<lparr>revStore := kv_delete (revStore cx) (GetContractAddr ac fee)\<rparr>"

definition SetDeployerMap :: "'w RevenueCtx \<Rightarrow> addr \<Rightarrow> addr \<Rightarrow> 'w RevenueCtx" where
  "SetDeployerMap cx deployer contract = cx\<lparr>deployerStore := kv_set (deployerStore cx) (deployer, contract) ()\<rparr>"

definition DeleteDeployerMap :: "'w RevenueCtx \<Rightarrow> addr \<Rightarrow> addr \<Rightarrow> 'w RevenueCtx" where
  "DeleteDeployerMap cx deployer contract = cx\<lparr>deployerStore := kv_delete (deployerStore cx) (deployer, contract)\<rparr>"

definition SetWithdrawerMap :: "'w RevenueCtx \<Rightarrow> addr \<Rightarrow> addr \<Rightarrow> 'w RevenueCtx" where
  "SetWithdrawerMap cx withdrawer contract = cx\<lparr>withdrawerStore := kv_set (withdrawerStore cx) (withdrawer, contract) ()\<rparr>"

definition DeleteWithdrawerMap :: "'w RevenueCtx \<Rightarrow> addr \<Rightarrow> addr \<Rightarrow> 'w RevenueCtx" where
  "DeleteWithdrawerMap cx withdrawer contract = cx\<lparr>withdrawerStore := kv_delete (withdrawerStore cx) (withdrawer, contract)\<rparr>"

definition IsRevenueRegistered :: "'w RevenueCtx \<Rightarrow> addr \<Rightarrow> bool" where
  "IsRevenueRegistered cx contract \<longleftrightarrow> kv_get (revStore cx) contract \<noteq> None"

definition IsDeployerMapSet :: "'w RevenueCtx \<Rightarrow> addr \<Rightarrow> addr \<Rightarrow> bool" where
  "IsDeployerMapSet cx deployer contract \<longleftrightarrow> kv_get (deployerStore cx) (deployer, contract) \<noteq> None"

definition IsWithdrawerMapSet :: "'w RevenueCtx \<Rightarrow> addr \<Rightarrow> addr \<Rightarrow> bool" where
  "IsWithdrawerMapSet cx withdrawer contract \<longleftrightarrow> kv_get (withdrawerStore cx) (withdrawer, contract) \<noteq> None"

definition rev_emit :: "'w RevenueCtx \<Rightarrow> rev_event \<Rightarrow> 'w RevenueCtx" where
  "rev_emit cx ev = cx\<lparr>rvEvents := rvEvents cx @ [ev]\<rparr>"

section \<open>Handlers\<close>

definition rev_account :: "'w revenue_env \<Rightarrow> 'w RevenueCtx \<Rightarrow> addr \<Rightarrow> nilableAccount option" where
  "rev_account e cx a = ek_GetAccountWithoutBalance (reKec e) (reAk e) (rvEvm cx) a"

text \<open>The loop over the nonces: gas for every derivation, then the derived address.\<close>

fun derive_contract :: "'w revenue_env \<Rightarrow> u64 \<Rightarrow> 'w \<Rightarrow> addr \<Rightarrow> u64 list \<Rightarrow> ('w \<times> addr) result" where
  "derive_contract e cost w derived [] = Inr (w, derived)"
| "derive_contract e cost w derived (nonce # nonces) =
     rbind (reConsumeGas e w cost) (\<lambda>w.
     derive_contract e cost w (acCreateAddress (reCodec e) derived nonce) nonces)"

definition RegisterRevenue :: "'w revenue_env \<Rightarrow> 'w RevenueCtx \<Rightarrow> MsgRegisterRevenue \<Rightarrow> 'w RevenueCtx result" where
  "RegisterRevenue e cx msg =
     (let ac = reCodec e;
          params = rev_GetParams cx;
          contract = acHexToAddress ac (mrContractAddress msg)
      in if \<not> EnableRevenue params then Inl ErrRevenueDisabled
         else if IsRevenueRegistered cx contract then Inl ErrRevenueAlreadyRegistered
         else rbind (must_bech32 ac (mrDeployerAddress msg)) (\<lambda>deployer.
           case rev_account e cx deployer of
             None \<Rightarrow> Inl (ErrExternal ''ErrNotFound'')
           | Some deployerAccount \<Rightarrow>
               if raw_IsContract (reKec e) deployerAccount then Inl ErrRevenueDeployerIsNotEOA
               else (case rev_account e cx contract of
                  None \<Rightarrow> Inl ErrRevenueNoContractDeployed
                | Some contractAccount \<Rightarrow>
                    if \<not> raw_IsContract (reKec e) contractAccount then Inl ErrRevenueNoContractDeployed
                    else rbind (if mrWithdrawerAddress msg \<noteq> [] \<and> mrWithdrawerAddress msg \<noteq> mrDeployerAddress msg
                                then rbind (must_bech32 ac (mrWithdrawerAddress msg)) (\<lambda>w. Inr (Some w))
                                else Inr None) (\<lambda>withdrawer.
                      rbind (derive_contract e (AddrDerivationCostCreate params) (sdkState (rvEvm cx)) deployer (mrNonces msg)) (\<lambda>(w, derivedContract).
                      let cx = cx\<lparr>rvEvm := set_sdk (rvEvm cx) w\<rparr>
                      in if contract \<noteq> derivedContract then Inl (ErrExternal ''ErrorInvalidSigner'')
                         else
                           let revenue = NewRevenue ac contract deployer withdrawer;
                               cx = SetRevenue ac cx revenue;
                               cx = SetDeployerMap cx deployer contract;
                               (cx, effectiveWithdrawer) =
                                 (case withdrawer of
                                    Some w \<Rightarrow> (SetWithdrawerMap cx w contract, mrWithdrawerAddress msg)
                                  | None \<Rightarrow> (cx, mrDeployerAddress msg))
                           in Inr (rev_emit cx (EventRegisterRevenue (mrDeployerAddress msg) (mrContractAddress msg)
                                effectiveWithdrawer)))))))"

definition UpdateRevenue :: "'w revenue_env \<Rightarrow> 'w RevenueCtx \<Rightarrow> MsgUpdateRevenue \<Rightarrow> 'w RevenueCtx result" where
  "UpdateRevenue e cx msg =
     (let ac = reCodec e;
          contract = acHexToAddress ac (mwContractAddress msg)
      in if \<not> EnableRevenue (rev_GetParams cx) then Inl ErrRevenueDisabled
         else case GetRevenue cx contract of
             None \<Rightarrow> Inl ErrRevenueContractNotRegistered
           | Some revenue \<Rightarrow>
               if mwDeployerAddress msg \<noteq> rDeployerAddress revenue then Inl ErrUnauthorized
               else
                 let withdrawer = (if mwWithdrawerAddress msg = rDeployerAddress revenue then [] else mwWithdrawerAddress msg)
                 in if withdrawer = rWithdrawerAddress revenue then Inl ErrRevenueAlreadyRegistered
                    else rbind (if rWithdrawerAddress revenue \<noteq> []
                                then rbind (must_bech32 ac (rWithdrawerAddress revenue)) (\<lambda>w. Inr (DeleteWithdrawerMap cx w contract))
                                else Inr cx) (\<lambda>cx.
                         rbind (if withdrawer \<noteq> []
                                then rbind (must_bech32 ac withdrawer) (\<lambda>w. Inr (SetWithdrawerMap cx w contract))
                                else Inr cx) (\<lambda>cx.
                         let cx = SetRevenue ac cx (revenue\<lparr>rWithdrawerAddress := withdrawer\<rparr>)
                         in Inr (rev_emit cx (EventUpdateRevenue (mwContractAddress msg) (mwDeployerAddress msg) withdrawer)))))"

definition CancelRevenue :: "'w revenue_env \<Rightarrow> 'w RevenueCtx \<Rightarrow> MsgCancelRevenue \<Rightarrow> 'w RevenueCtx result" where
  "CancelRevenue e cx msg =
     (let ac = reCodec e;
          contract = acHexToAddress ac (mxContractAddress msg)
      in if \<not> EnableRevenue (rev_GetParams cx) then Inl ErrRevenueDisabled
         else case GetRevenue cx contract of
             None \<Rightarrow> Inl ErrRevenueContractNotRegistered
           | Some fee \<Rightarrow>
               if mxDeployerAddress msg \<noteq> rDeployerAddress fee then Inl ErrUnauthorized
               else
                 let cx = DeleteRevenue ac cx fee
                 in rbind (GetDeployerAddr ac fee) (\<lambda>deployer.
                    let cx = DeleteDeployerMap cx deployer contract
                    in rbind (GetWithdrawerAddr ac fee) (\<lambda>withdrawer.
                       let cx = (case withdrawer of Some w \<Rightarrow> DeleteWithdrawerMap cx w contract | None \<Rightarrow> cx)
                       in Inr (rev_emit cx (EventCancelRevenue (mxDeployerAddress msg) (mxContractAddress msg))))))"

definition rev_UpdateParams :: "'w revenue_env \<Rightarrow> 'w RevenueCtx \<Rightarrow> string \<Rightarrow> RevParams \<Rightarrow> 'w RevenueCtx result" where
  "rev_UpdateParams e cx reqAuthority params =
     (if acToBech32 (reCodec e) (reAuthority e) \<noteq> reqAuthority then Inl ErrInvalidSigner
      else Inr (rev_SetParams cx params))"

datatype rev_msg =
    RMsgRegister MsgRegisterRevenue
  | RMsgUpdate MsgUpdateRevenue
  | RMsgCancel MsgCancelRevenue
  | RMsgUpdateParams string RevParams
  | RMsgUnrecognized

text \<open>The handler starts each message with a fresh event manager.\<close>

definition rev_NewHandler :: "'w revenue_env \<Rightarrow> 'w RevenueCtx \<Rightarrow> rev_msg \<Rightarrow> 'w RevenueCtx result" where
  "rev_NewHandler e cx msg =
     (let cx = cx\<lparr>rvEvents := []\<rparr>
      in case msg of
           RMsgRegister m \<Rightarrow> RegisterRevenue e cx m
         | RMsgUpdate m \<Rightarrow> UpdateRevenue e cx m
         | RMsgCancel m \<Rightarrow> CancelRevenue e cx m
         | RMsgUpdateParams a p \<Rightarrow> rev_UpdateParams e cx a p
         | RMsgUnrecognized \<Rightarrow> Inl ErrUnknownRequest)"

section \<open>The hook\<close>

record rev_tx =
  txTo :: "addr option"
  txGasPrice :: int
  txFrom :: addr

text \<open>The second half: the share of the fee goes to the community pool, or to the given account.\<close>

definition pay_share :: "'w revenue_env \<Rightarrow> 'w RevenueCtx \<Rightarrow> rev_tx \<Rightarrow> u64 \<Rightarrow> addr \<Rightarrow> addr option \<Rightarrow> 'w RevenueCtx result" where
  "pay_share e cx msg gasUsed contract withdrawer =
     (let ac = reCodec e;
          evmPs = evm_GetParams (evmParams (rvEvm cx));
          w = sdkState (rvEvm cx)
      in rbind (NewIntFromBigInt (txGasPrice msg)) (\<lambda>price.
         rbind (reIntMul e (uint gasUsed) price) (\<lambda>txFee.
         rbind (reDecMulInt e (DeveloperShares (rev_GetParams cx)) txFee) (\<lambda>share.
         let developerFee = reDecTruncateInt e share;
             fees = (EvmDenom evmPs, developerFee)
         in rbind (case withdrawer of
                     None \<Rightarrow> reFundCommunityPool e w fees (akGetModuleAddress (reAk e) (reFeeCollectorName e))
                   | Some to \<Rightarrow> reSendCoinsFromModuleToAccount e w (reFeeCollectorName e) to fees) (\<lambda>w.
            Inr (rev_emit (cx\<lparr>rvEvm := set_sdk (rvEvm cx) w\<rparr>)
              (EventDistributeDevRevenue (txFrom msg) (acHex ac contract)
                (case withdrawer of None \<Rightarrow> [] | Some to \<Rightarrow> acToBech32 ac to) developerFee)))))))"

definition rev_PostTxProcessing :: "'w revenue_env \<Rightarrow> 'w RevenueCtx \<Rightarrow> rev_tx \<Rightarrow> u64 \<Rightarrow> 'w RevenueCtx result" where
  "rev_PostTxProcessing e cx msg gasUsed =
     (let ac = reCodec e;
          params = rev_GetParams cx;
          evmPs = evm_GetParams (evmParams (rvEvm cx))
      in case txTo msg of None \<Rightarrow> Inr cx | Some contract \<Rightarrow>
         if txGasPrice msg \<le> 0 then Inr cx
         else if \<not> EnableRevenue params \<or> DeveloperShares params = 0 then Inr cx
         else
           let containsPrecompile = acHex ac contract \<in> set (ActivePrecompiles evmPs)
           in if containsPrecompile then pay_share e cx msg gasUsed contract None
              else (case GetRevenue cx contract of
                  None \<Rightarrow> Inr cx
                | Some revenue \<Rightarrow>
                    rbind (GetWithdrawerAddr ac revenue) (\<lambda>withdrawer.
                    case withdrawer of
                      Some w \<Rightarrow> pay_share e cx msg gasUsed contract (Some w)
                    | None \<Rightarrow> rbind (GetDeployerAddr ac revenue) (\<lambda>deployer.
                        pay_share e cx msg gasUsed contract (Some deployer)))))"

section \<open>Genesis and queries\<close>

record RevGenesis =
  rgParams :: RevParams
  rgRevenues :: "Revenue list"

definition rev_DefaultGenesisState :: RevGenesis where
  "rev_DefaultGenesisState = \<lparr>rgParams = rev_DefaultParams, rgRevenues = []\<rparr>"

fun validate_revenues :: "addr_codec \<Rightarrow> string set \<Rightarrow> Revenue list \<Rightarrow> unit result" where
  "validate_revenues ac seenContract [] = Inr ()"
| "validate_revenues ac seenContract (fs # fss) =
     (if rContractAddress fs \<in> seenContract then Inl (ErrText ''contract duplicated on genesis'')
      else rbind (Revenue_Validate ac fs) (\<lambda>_.
        validate_revenues ac (insert (rContractAddress fs) seenContract) fss))"

definition rev_Genesis_Validate :: "addr_codec \<Rightarrow> RevGenesis \<Rightarrow> unit result" where
  "rev_Genesis_Validate ac gs =
     rbind (validate_revenues ac {} (rgRevenues gs)) (\<lambda>_. rev_Validate (rgParams gs))"

fun import_revenues :: "addr_codec \<Rightarrow> Revenue list \<Rightarrow> 'w RevenueCtx \<Rightarrow> 'w RevenueCtx result" where
  "import_revenues ac [] cx = Inr cx"
| "import_revenues ac (revenue # rs) cx =
     (let contract = GetContractAddr ac revenue
      in rbind (GetDeployerAddr ac revenue) (\<lambda>deployer.
         rbind (GetWithdrawerAddr ac revenue) (\<lambda>withdrawer.
         let cx = SetRevenue ac cx revenue;
             cx = SetDeployerMap cx deployer contract;
             cx = (case withdrawer of Some w \<Rightarrow> SetWithdrawerMap cx w contract | None \<Rightarrow> cx)
         in import_revenues ac rs cx)))"

definition rev_InitGenesis :: "addr_codec \<Rightarrow> 'w RevenueCtx \<Rightarrow> RevGenesis \<Rightarrow> 'w RevenueCtx result" where
  "rev_InitGenesis ac cx gs = import_revenues ac (rgRevenues gs) (rev_SetParams cx (rgParams gs))"

definition rev_ExportGenesis :: "'w RevenueCtx \<Rightarrow> RevGenesis" where
  "rev_ExportGenesis cx = \<lparr>rgParams = rev_GetParams cx, rgRevenues = GetRevenues cx\<rparr>"

text \<open>
  Queries. The SDK's \<^verbatim>\<open>query.Paginate\<close> is an argument that picks the page out of the entries
  under the prefix; in the index stores these are the entries of one address.
\<close>

definition q_Revenues ::
  "((addr \<times> Revenue) list \<Rightarrow> (addr \<times> Revenue) list result) \<Rightarrow> 'w RevenueCtx \<Rightarrow> Revenue list result" where
  "q_Revenues paginate cx = rbind (paginate (revStore cx)) (\<lambda>page. Inr (map snd page))"

definition q_Revenue :: "addr_codec \<Rightarrow> 'w RevenueCtx \<Rightarrow> string \<Rightarrow> Revenue result" where
  "q_Revenue ac cx contractAddress =
     (if blank contractAddress then Inl (ErrText ''contract address is empty'')
      else case ValidateNonZeroAddress ac contractAddress of
          Inl _ \<Rightarrow> Inl (ErrText ''invalid format for contract'')
        | Inr _ \<Rightarrow> (case GetRevenue cx (acHexToAddress ac contractAddress) of
              None \<Rightarrow> Inl (ErrText ''fees registered contract'')
            | Some revenue \<Rightarrow> Inr revenue))"

definition index_of :: "addr \<Rightarrow> ((addr \<times> addr) \<times> unit) list \<Rightarrow> (addr \<times> unit) list" where
  "index_of a s = map (\<lambda>((b, c), u). (c, u)) (filter (\<lambda>((b, c), u). b = a) s)"

definition q_DeployerRevenues ::
  "addr_codec \<Rightarrow> ((addr \<times> unit) list \<Rightarrow> (addr \<times> unit) list result) \<Rightarrow> 'w RevenueCtx \<Rightarrow> string \<Rightarrow> string list result" where
  "q_DeployerRevenues ac paginate cx deployerAddress =
     (if blank deployerAddress then Inl (ErrText ''deployer address is empty'')
      else case acFromBech32 ac deployerAddress of
          None \<Rightarrow> Inl (ErrText ''invalid format for deployer'')
        | Some deployer \<Rightarrow> rbind (paginate (index_of deployer (deployerStore cx))) (\<lambda>page.
            Inr (map (\<lambda>(c, _). acHex ac c) page)))"

definition q_WithdrawerRevenues ::
  "addr_codec \<Rightarrow> ((addr \<times> unit) list \<Rightarrow> (addr \<times> unit) list result) \<Rightarrow> 'w RevenueCtx \<Rightarrow> string \<Rightarrow> string list result" where
  "q_WithdrawerRevenues ac paginate cx withdrawerAddress =
     (if blank withdrawerAddress then Inl (ErrText ''withdraw address is empty'')
      else case acFromBech32 ac withdrawerAddress of
          None \<Rightarrow> Inl (ErrText ''invalid format for withdraw addr'')
        | Some withdrawer \<Rightarrow> rbind (paginate (index_of withdrawer (withdrawerStore cx))) (\<lambda>page.
            Inr (map (\<lambda>(c, _). acHex ac c) page)))"

section \<open>What the module relies on\<close>

definition revenue_laws :: "'w revenue_env \<Rightarrow> bool" where
  "revenue_laws e \<longleftrightarrow>
     codec_laws (reCodec e)
   \<and> (\<forall>w m a d n w'. reSendCoinsFromModuleToAccount e w m a (d, n) = Inr w' \<longrightarrow> 0 < n
        \<and> reBalance e w' = credit a (NewCoin d n) (debit (akGetModuleAddress (reAk e) m) (NewCoin d n) (reBalance e w)))
   \<and> (\<forall>w a d n w'. reFundCommunityPool e w (d, n) a = Inr w' \<longrightarrow> 0 < n
        \<and> reBalance e w' = credit (akGetModuleAddress (reAk e) ''distribution'') (NewCoin d n)
            (debit a (NewCoin d n) (reBalance e w)))
   \<and> (\<forall>a b r. reIntMul e a b = Inr r \<longrightarrow> r = a * b)
   \<and> (\<forall>a b r. reDecMulInt e a b = Inr r \<longrightarrow> r = a * b)
   \<and> (\<forall>a. 0 \<le> a \<longrightarrow> reDecTruncateInt e a = a div dec_one)"

lemma revenue_lawsD:
  assumes "revenue_laws e"
  shows "codec_laws (reCodec e)"
    and "reSendCoinsFromModuleToAccount e w m a (d, n) = Inr w' \<Longrightarrow> 0 < n
        \<and> reBalance e w' = credit a (NewCoin d n) (debit (akGetModuleAddress (reAk e) m) (NewCoin d n) (reBalance e w))"
    and "reFundCommunityPool e w (d, n) a = Inr w' \<Longrightarrow> 0 < n
        \<and> reBalance e w' = credit (akGetModuleAddress (reAk e) ''distribution'') (NewCoin d n)
            (debit a (NewCoin d n) (reBalance e w))"
    and "reIntMul e i j = Inr r \<Longrightarrow> r = i * j"
    and "reDecMulInt e i j = Inr r \<Longrightarrow> r = i * j"
    and "0 \<le> i \<Longrightarrow> reDecTruncateInt e i = i div dec_one"
  using assms unfolding revenue_laws_def by blast+

section \<open>The indexes follow the registrations\<close>

text \<open>What the three stores hold for one contract.\<close>

fun rev_entry :: "addr_codec \<Rightarrow> addr \<Rightarrow> Revenue option \<Rightarrow> (addr \<Rightarrow> bool) \<Rightarrow> (addr \<Rightarrow> bool) \<Rightarrow> bool" where
  "rev_entry ac c None D W \<longleftrightarrow> D = (\<lambda>_. False) \<and> W = (\<lambda>_. False)"
| "rev_entry ac c (Some r) D W \<longleftrightarrow> GetContractAddr ac r = c
     \<and> (\<exists>d. acFromBech32 ac (rDeployerAddress r) = Some d \<and> D = (\<lambda>d'. d' = d))
     \<and> (if rWithdrawerAddress r = [] then W = (\<lambda>_. False)
        else \<exists>w. acFromBech32 ac (rWithdrawerAddress r) = Some w \<and> W = (\<lambda>w'. w' = w))"

definition rev_inv :: "addr_codec \<Rightarrow> 'w RevenueCtx \<Rightarrow> bool" where
  "rev_inv ac cx \<longleftrightarrow> kv_ok (revStore cx) \<and> kv_ok (deployerStore cx) \<and> kv_ok (withdrawerStore cx)
     \<and> (\<forall>c. rev_entry ac c (GetRevenue cx c) (\<lambda>d. IsDeployerMapSet cx d c) (\<lambda>w. IsWithdrawerMapSet cx w c))"

lemma rev_invD:
  assumes "rev_inv ac cx"
  shows "kv_ok (revStore cx)" "kv_ok (deployerStore cx)" "kv_ok (withdrawerStore cx)"
    "rev_entry ac c (GetRevenue cx c) (\<lambda>d. IsDeployerMapSet cx d c) (\<lambda>w. IsWithdrawerMapSet cx w c)"
  using assms by (simp_all add: rev_inv_def)

lemma rev_inv_stores:
  "rev_inv ac cx \<Longrightarrow> revStore cx' = revStore cx \<Longrightarrow> deployerStore cx' = deployerStore cx
   \<Longrightarrow> withdrawerStore cx' = withdrawerStore cx \<Longrightarrow> rev_inv ac cx'"
  by (simp add: rev_inv_def GetRevenue_def IsDeployerMapSet_def IsWithdrawerMapSet_def)

text \<open>A handler that touches the entries of one contract only has to get those right.\<close>

lemma rev_inv_update:
  assumes "rev_inv ac cx" "kv_ok (revStore cx')" "kv_ok (deployerStore cx')" "kv_ok (withdrawerStore cx')"
    and "\<And>c'. c' \<noteq> c \<Longrightarrow> GetRevenue cx' c' = GetRevenue cx c'"
    and "\<And>d c'. c' \<noteq> c \<Longrightarrow> IsDeployerMapSet cx' d c' = IsDeployerMapSet cx d c'"
    and "\<And>w c'. c' \<noteq> c \<Longrightarrow> IsWithdrawerMapSet cx' w c' = IsWithdrawerMapSet cx w c'"
    and "rev_entry ac c (GetRevenue cx' c) (\<lambda>d. IsDeployerMapSet cx' d c) (\<lambda>w. IsWithdrawerMapSet cx' w c)"
  shows "rev_inv ac cx'"
proof -
  have "rev_entry ac c' (GetRevenue cx' c') (\<lambda>d. IsDeployerMapSet cx' d c') (\<lambda>w. IsWithdrawerMapSet cx' w c')" for c'
    using assms(8) rev_invD(4) [OF assms(1), of c'] assms(5-7) by (cases "c' = c") simp_all
  then show ?thesis using assms(2-4) by (simp add: rev_inv_def)
qed

lemmas rev_store_defs = SetRevenue_def DeleteRevenue_def SetDeployerMap_def DeleteDeployerMap_def
  SetWithdrawerMap_def DeleteWithdrawerMap_def GetRevenue_def IsDeployerMapSet_def IsWithdrawerMapSet_def
  IsRevenueRegistered_def rev_emit_def rev_GetParams_def rev_SetParams_def

lemmas kv_simps = kv_ok_set kv_ok_delete kv_get_set kv_get_delete

lemma NewRevenue_sel:
  "codec_laws ac \<Longrightarrow> GetContractAddr ac (NewRevenue ac c d w) = c"
  "codec_laws ac \<Longrightarrow> acFromBech32 ac (rDeployerAddress (NewRevenue ac c d w)) = Some d"
  "rDeployerAddress (NewRevenue ac c d w) = acToBech32 ac d"
  "rWithdrawerAddress (NewRevenue ac c d w) = (case w of None \<Rightarrow> [] | Some w \<Rightarrow> acToBech32 ac w)"
  by (simp_all add: NewRevenue_def GetContractAddr_def codec_lawsD)

text \<open>The inversion of a successful registration.\<close>

lemma derive_contract_Inr:
  "derive_contract e cost w d ns = Inr (w', c) \<Longrightarrow> c = foldl (acCreateAddress (reCodec e)) d ns"
  by (induction ns arbitrary: w d) (auto simp: rbind_Inr_iff)

lemma RegisterRevenue_Inr:
  assumes "RegisterRevenue e cx msg = Inr cx'"
  obtains d w w' dacc cacc where
    "EnableRevenue (rvParams cx)" "GetRevenue cx (acHexToAddress (reCodec e) (mrContractAddress msg)) = None"
    "acFromBech32 (reCodec e) (mrDeployerAddress msg) = Some d"
    "rev_account e cx d = Some dacc" "\<not> raw_IsContract (reKec e) dacc"
    "rev_account e cx (acHexToAddress (reCodec e) (mrContractAddress msg)) = Some cacc" "raw_IsContract (reKec e) cacc"
    "acHexToAddress (reCodec e) (mrContractAddress msg) = foldl (acCreateAddress (reCodec e)) d (mrNonces msg)"
    "revStore cx' = kv_set (revStore cx)
       (GetContractAddr (reCodec e) (NewRevenue (reCodec e) (acHexToAddress (reCodec e) (mrContractAddress msg)) d w))
       (NewRevenue (reCodec e) (acHexToAddress (reCodec e) (mrContractAddress msg)) d w)"
    "deployerStore cx' = kv_set (deployerStore cx) (d, acHexToAddress (reCodec e) (mrContractAddress msg)) ()"
    "withdrawerStore cx' = (case w of None \<Rightarrow> withdrawerStore cx
       | Some a \<Rightarrow> kv_set (withdrawerStore cx) (a, acHexToAddress (reCodec e) (mrContractAddress msg)) ())"
    "rvParams cx' = rvParams cx" "rvEvm cx' = set_sdk (rvEvm cx) w'"
    "w = (if mrWithdrawerAddress msg = [] \<or> mrWithdrawerAddress msg = mrDeployerAddress msg then None
          else acFromBech32 (reCodec e) (mrWithdrawerAddress msg))"
proof -
  let ?ac = "reCodec e" and ?c = "acHexToAddress (reCodec e) (mrContractAddress msg)"
  note run = assms [unfolded RegisterRevenue_def Let_def]
  obtain d where d: "EnableRevenue (rvParams cx)" "GetRevenue cx ?c = None" "acFromBech32 ?ac (mrDeployerAddress msg) = Some d"
    using run by (auto simp: rbind_Inr_iff rev_store_defs split: if_splits)
  obtain dacc where dacc: "rev_account e cx d = Some dacc" "\<not> raw_IsContract (reKec e) dacc"
    using run d by (auto simp: rbind_Inr_iff rev_store_defs must_bech32_def split: if_splits option.splits)
  obtain cacc where cacc: "rev_account e cx ?c = Some cacc" "raw_IsContract (reKec e) cacc"
    using run d dacc by (auto simp: rbind_Inr_iff rev_store_defs must_bech32_def split: if_splits option.splits)
  obtain w w' c' where w: "(if mrWithdrawerAddress msg \<noteq> [] \<and> mrWithdrawerAddress msg \<noteq> mrDeployerAddress msg
        then rbind (must_bech32 ?ac (mrWithdrawerAddress msg)) (\<lambda>w. Inr (Some w)) else Inr None) = Inr w"
      "derive_contract e (AddrDerivationCostCreate (rvParams cx)) (sdkState (rvEvm cx)) d (mrNonces msg) = Inr (w', c')"
      "c' = ?c"
    and cx': "Inr (let (cx, ew) = (case w of
            Some a \<Rightarrow> (SetWithdrawerMap (SetDeployerMap (SetRevenue ?ac (cx\<lparr>rvEvm := set_sdk (rvEvm cx) w'\<rparr>) (NewRevenue ?ac ?c d w)) d ?c) a ?c, mrWithdrawerAddress msg)
          | None \<Rightarrow> (SetDeployerMap (SetRevenue ?ac (cx\<lparr>rvEvm := set_sdk (rvEvm cx) w'\<rparr>) (NewRevenue ?ac ?c d w)) d ?c, mrDeployerAddress msg))
        in rev_emit cx (EventRegisterRevenue (mrDeployerAddress msg) (mrContractAddress msg) ew)) = (Inr cx' :: 'a RevenueCtx result)"
    using run d dacc cacc
    by (auto simp: rbind_Inr_iff rev_GetParams_def IsRevenueRegistered_def GetRevenue_def must_bech32_def Let_def
        split: if_splits option.splits)
  note c = derive_contract_Inr [OF w(2), unfolded w(3)]
  have ww: "w = (if mrWithdrawerAddress msg = [] \<or> mrWithdrawerAddress msg = mrDeployerAddress msg then None
          else acFromBech32 ?ac (mrWithdrawerAddress msg))"
    using w(1) by (auto simp: rbind_Inr_iff split: if_splits)
  show thesis
    by (rule that [OF d dacc cacc c _ _ _ _ _ ww, of w'])
       (use cx' in \<open>auto simp: rev_store_defs split: option.splits\<close>)
qed

lemma RegisterRevenue_inv:
  assumes "codec_laws (reCodec e)" "rev_inv (reCodec e) cx" "RegisterRevenue e cx msg = Inr cx'"
  shows "rev_inv (reCodec e) cx'"
  using assms(3)
proof (rule RegisterRevenue_Inr)
  let ?ac = "reCodec e" and ?c = "acHexToAddress (reCodec e) (mrContractAddress msg)"
  fix d w w' dacc cacc
  assume s: "GetRevenue cx ?c = None"
    "revStore cx' = kv_set (revStore cx) (GetContractAddr ?ac (NewRevenue ?ac ?c d w)) (NewRevenue ?ac ?c d w)"
    "deployerStore cx' = kv_set (deployerStore cx) (d, ?c) ()"
    "withdrawerStore cx' = (case w of None \<Rightarrow> withdrawerStore cx | Some a \<Rightarrow> kv_set (withdrawerStore cx) (a, ?c) ())"
  note i = rev_invD [OF assms(2)]
  have none: "\<not> IsDeployerMapSet cx a ?c" "\<not> IsWithdrawerMapSet cx a ?c" for a
    using i(4) [of ?c] s(1) by (simp_all add: fun_eq_iff)
  show ?thesis
  proof (rule rev_inv_update [OF assms(2), where c = ?c])
    show "rev_entry ?ac ?c (GetRevenue cx' ?c) (\<lambda>d. IsDeployerMapSet cx' d ?c) (\<lambda>w. IsWithdrawerMapSet cx' w ?c)"
      using none i s assms(1)
      by (auto simp: rev_store_defs kv_simps NewRevenue_sel codec_lawsD acToBech32_nonempty fun_eq_iff split: option.split)
  qed (use s i assms(1) in \<open>auto simp: rev_store_defs kv_simps NewRevenue_sel split: option.split\<close>)
qed

lemma UpdateRevenue_Inr:
  assumes "UpdateRevenue e cx msg = Inr cx'"
  obtains r w ws where "EnableRevenue (rvParams cx)"
    "GetRevenue cx (acHexToAddress (reCodec e) (mwContractAddress msg)) = Some r"
    "mwDeployerAddress msg = rDeployerAddress r"
    "w = (if mwWithdrawerAddress msg = rDeployerAddress r then [] else mwWithdrawerAddress msg)"
    "w \<noteq> rWithdrawerAddress r" "w \<noteq> [] \<longrightarrow> acFromBech32 (reCodec e) w \<noteq> None"
    "revStore cx' = kv_set (revStore cx) (GetContractAddr (reCodec e) (r\<lparr>rWithdrawerAddress := w\<rparr>)) (r\<lparr>rWithdrawerAddress := w\<rparr>)"
    "deployerStore cx' = deployerStore cx" "rvParams cx' = rvParams cx" "rvEvm cx' = rvEvm cx"
    "ws = (if rWithdrawerAddress r = [] then withdrawerStore cx
       else kv_delete (withdrawerStore cx) (the (acFromBech32 (reCodec e) (rWithdrawerAddress r)), acHexToAddress (reCodec e) (mwContractAddress msg)))"
    "withdrawerStore cx' = (if w = [] then ws
       else kv_set (ws) (the (acFromBech32 (reCodec e) w), acHexToAddress (reCodec e) (mwContractAddress msg)) ())"
proof -
  let ?c = "acHexToAddress (reCodec e) (mwContractAddress msg)"
  note run = assms [unfolded UpdateRevenue_def Let_def]
  obtain r where r: "EnableRevenue (rvParams cx)" "GetRevenue cx ?c = Some r" "mwDeployerAddress msg = rDeployerAddress r"
    using run by (auto simp: rev_GetParams_def split: if_splits option.splits)
  define w where "w = (if mwWithdrawerAddress msg = rDeployerAddress r then [] else mwWithdrawerAddress msg)"
  have w: "w \<noteq> rWithdrawerAddress r" using run r by (auto simp: rev_GetParams_def w_def split: if_splits)
  obtain cx1 cx2 where s:
    "(if rWithdrawerAddress r \<noteq> [] then rbind (must_bech32 (reCodec e) (rWithdrawerAddress r)) (\<lambda>w. Inr (DeleteWithdrawerMap cx w ?c)) else Inr cx) = Inr cx1"
    "(if w \<noteq> [] then rbind (must_bech32 (reCodec e) w) (\<lambda>w. Inr (SetWithdrawerMap cx1 w ?c)) else Inr cx1) = Inr cx2"
    "cx' = rev_emit (SetRevenue (reCodec e) cx2 (r\<lparr>rWithdrawerAddress := w\<rparr>)) (EventUpdateRevenue (mwContractAddress msg) (mwDeployerAddress msg) w)"
    using run r w unfolding rev_GetParams_def
    by (simp only: if_False not_True_eq_False not_not if_True option.case w_def [symmetric] simp_thms rbind_Inr_iff) (use that in blast)
  have w2: "w \<noteq> [] \<longrightarrow> acFromBech32 (reCodec e) w \<noteq> None" using s(2) by (auto simp: rbind_Inr_iff)
  show thesis
    by (rule that [OF r w_def w w2, of "withdrawerStore cx1"]) (use s in \<open>auto simp: rev_store_defs rbind_Inr_iff split: if_splits\<close>)
qed

lemma UpdateRevenue_inv:
  assumes "rev_inv (reCodec e) cx" "UpdateRevenue e cx msg = Inr cx'"
  shows "rev_inv (reCodec e) cx'"
  using assms(2)
proof (rule UpdateRevenue_Inr)
  let ?ac = "reCodec e" and ?c = "acHexToAddress (reCodec e) (mwContractAddress msg)"
  fix r w ws
  assume s: "GetRevenue cx ?c = Some r" "w \<noteq> [] \<longrightarrow> acFromBech32 ?ac w \<noteq> None"
    "revStore cx' = kv_set (revStore cx) (GetContractAddr ?ac (r\<lparr>rWithdrawerAddress := w\<rparr>)) (r\<lparr>rWithdrawerAddress := w\<rparr>)"
    "deployerStore cx' = deployerStore cx"
    "ws = (if rWithdrawerAddress r = [] then withdrawerStore cx
       else kv_delete (withdrawerStore cx) (the (acFromBech32 ?ac (rWithdrawerAddress r)), ?c))"
    "withdrawerStore cx' = (if w = [] then ws
       else kv_set (ws) (the (acFromBech32 ?ac w), ?c) ())"
  note i = rev_invD [OF assms(1)]
  note at = i(4) [of ?c, unfolded s(1) rev_entry.simps]
  have key: "GetContractAddr ?ac (r\<lparr>rWithdrawerAddress := w\<rparr>) = ?c" using at by (simp add: GetContractAddr_def)
  have ok1: "kv_ok (ws)" using s(5) i(3) by (simp add: kv_ok_delete)
  have cleared: "kv_get (ws) (a, ?c) = None" for a
    using at s(5) by (cases "rWithdrawerAddress r = []") (auto simp: fun_eq_iff IsWithdrawerMapSet_def kv_get_delete simp del: not_None_eq)
  have other: "kv_get (ws) (a, c') = kv_get (withdrawerStore cx) (a, c')" if "c' \<noteq> ?c" for a c'
    using that s(5) by (simp add: kv_get_delete)
  show ?thesis
  proof (rule rev_inv_update [OF assms(1), where c = ?c])
    show "rev_entry ?ac ?c (GetRevenue cx' ?c) (\<lambda>d. IsDeployerMapSet cx' d ?c) (\<lambda>w. IsWithdrawerMapSet cx' w ?c)"
      using at i s(2-4,6) key cleared ok1 by (auto simp: rev_store_defs kv_simps fun_eq_iff)
  qed (use s(3,4,6) i key other ok1 in \<open>auto simp: rev_store_defs kv_simps\<close>)
qed

lemma CancelRevenue_Inr:
  assumes "CancelRevenue e cx msg = Inr cx'"
  obtains r d w where "EnableRevenue (rvParams cx)"
    "GetRevenue cx (acHexToAddress (reCodec e) (mxContractAddress msg)) = Some r"
    "mxDeployerAddress msg = rDeployerAddress r" "acFromBech32 (reCodec e) (rDeployerAddress r) = Some d"
    "GetWithdrawerAddr (reCodec e) r = Inr w"
    "revStore cx' = kv_delete (revStore cx) (GetContractAddr (reCodec e) r)"
    "deployerStore cx' = kv_delete (deployerStore cx) (d, acHexToAddress (reCodec e) (mxContractAddress msg))"
    "withdrawerStore cx' = (case w of None \<Rightarrow> withdrawerStore cx
       | Some a \<Rightarrow> kv_delete (withdrawerStore cx) (a, acHexToAddress (reCodec e) (mxContractAddress msg)))"
    "rvParams cx' = rvParams cx" "rvEvm cx' = rvEvm cx"
proof -
  let ?c = "acHexToAddress (reCodec e) (mxContractAddress msg)"
  note run = assms [unfolded CancelRevenue_def Let_def]
  obtain r where r: "EnableRevenue (rvParams cx)" "GetRevenue cx ?c = Some r" "mxDeployerAddress msg = rDeployerAddress r"
    using run by (auto simp: rev_GetParams_def split: if_splits option.splits)
  then obtain d w where d: "acFromBech32 (reCodec e) (rDeployerAddress r) = Some d" "GetWithdrawerAddr (reCodec e) r = Inr w"
    and cx': "cx' = rev_emit (case w of Some w \<Rightarrow> DeleteWithdrawerMap (DeleteDeployerMap (DeleteRevenue (reCodec e) cx r) d ?c) w ?c
        | None \<Rightarrow> DeleteDeployerMap (DeleteRevenue (reCodec e) cx r) d ?c)
        (EventCancelRevenue (mxDeployerAddress msg) (mxContractAddress msg))"
    using run by (auto simp: rev_GetParams_def GetDeployerAddr_def rbind_Inr_iff)
  show thesis
    by (rule that [OF r d]) (use cx' in \<open>auto simp: rev_store_defs split: option.splits\<close>)
qed

lemma CancelRevenue_inv:
  assumes "rev_inv (reCodec e) cx" "CancelRevenue e cx msg = Inr cx'"
  shows "rev_inv (reCodec e) cx'"
  using assms(2)
proof (rule CancelRevenue_Inr)
  let ?ac = "reCodec e" and ?c = "acHexToAddress (reCodec e) (mxContractAddress msg)"
  fix r d w
  assume s: "GetRevenue cx ?c = Some r" "acFromBech32 ?ac (rDeployerAddress r) = Some d" "GetWithdrawerAddr ?ac r = Inr w"
    "revStore cx' = kv_delete (revStore cx) (GetContractAddr ?ac r)"
    "deployerStore cx' = kv_delete (deployerStore cx) (d, ?c)"
    "withdrawerStore cx' = (case w of None \<Rightarrow> withdrawerStore cx | Some a \<Rightarrow> kv_delete (withdrawerStore cx) (a, ?c))"
  note i = rev_invD [OF assms(1)]
  note at = i(4) [of ?c, unfolded s(1) rev_entry.simps]
  have W: "(\<lambda>a. IsWithdrawerMapSet cx a ?c) = (\<lambda>a. w = Some a)"
    using at s(3) by (auto simp: GetWithdrawerAddr_def rbind_Inr_iff split: if_splits)
  have D: "(\<lambda>a. IsDeployerMapSet cx a ?c) = (\<lambda>a. a = d)" using at s(2) by simp
  show ?thesis
  proof (rule rev_inv_update [OF assms(1), where c = ?c])
    show "rev_entry ?ac ?c (GetRevenue cx' ?c) (\<lambda>d. IsDeployerMapSet cx' d ?c) (\<lambda>w. IsWithdrawerMapSet cx' w ?c)"
      using at D W s(4-6) by (cases w) (auto simp: rev_store_defs kv_simps fun_eq_iff)
  qed (use s(4-6) i at in \<open>auto simp: rev_store_defs kv_simps split: option.split\<close>)
qed

text \<open>The hook writes to no store of the module.\<close>

lemma PostTx_stores:
  assumes "rev_PostTxProcessing e cx msg gas = Inr cx'"
  shows "revStore cx' = revStore cx \<and> deployerStore cx' = deployerStore cx \<and> withdrawerStore cx' = withdrawerStore cx
     \<and> rvParams cx' = rvParams cx"
  using assms unfolding rev_PostTxProcessing_def pay_share_def Let_def
  by (auto simp: rbind_Inr_iff rev_emit_def split: option.splits if_splits)

lemma rev_Handler_inv:
  assumes "codec_laws (reCodec e)" "rev_inv (reCodec e) cx" "rev_NewHandler e cx m = Inr cx'"
  shows "rev_inv (reCodec e) cx'"
proof -
  have i: "rev_inv (reCodec e) (cx\<lparr>rvEvents := []\<rparr>)" by (rule rev_inv_stores [OF assms(2)]) simp_all
  show ?thesis
  proof (cases m)
    case (RMsgRegister x)
    then show ?thesis using assms(3) RegisterRevenue_inv [OF assms(1) i] by (simp add: rev_NewHandler_def)
  next
    case (RMsgUpdate x)
    then show ?thesis using assms(3) UpdateRevenue_inv [OF i] by (simp add: rev_NewHandler_def)
  next
    case (RMsgCancel x)
    then show ?thesis using assms(3) CancelRevenue_inv [OF i] by (simp add: rev_NewHandler_def)
  next
    case (RMsgUpdateParams a p)
    then have "cx' = rev_SetParams (cx\<lparr>rvEvents := []\<rparr>) p"
      using assms(3) by (simp add: rev_NewHandler_def rev_UpdateParams_def split: if_splits)
    then show ?thesis using rev_inv_stores [OF i, of cx'] by (simp add: rev_SetParams_def)
  qed (use assms(3) in \<open>simp add: rev_NewHandler_def\<close>)
qed

lemma import_inv:
  assumes "rev_inv ac cx" "distinct (map (GetContractAddr ac) rs)"
    and "\<forall>r \<in> set rs. GetRevenue cx (GetContractAddr ac r) = None" "import_revenues ac rs cx = Inr cx'"
  shows "rev_inv ac cx'"
  using assms
proof (induction rs arbitrary: cx)
  case (Cons r rs)
  let ?c = "GetContractAddr ac r"
  obtain d w where d: "acFromBech32 ac (rDeployerAddress r) = Some d" "GetWithdrawerAddr ac r = Inr w"
    and run: "import_revenues ac rs (case w of Some a \<Rightarrow> SetWithdrawerMap (SetDeployerMap (SetRevenue ac cx r) d ?c) a ?c
        | None \<Rightarrow> SetDeployerMap (SetRevenue ac cx r) d ?c) = Inr cx'"
    using Cons.prems(4) by (auto simp: GetDeployerAddr_def rbind_Inr_iff Let_def)
  define cx1 where "cx1 = (case w of Some a \<Rightarrow> SetWithdrawerMap (SetDeployerMap (SetRevenue ac cx r) d ?c) a ?c
        | None \<Rightarrow> SetDeployerMap (SetRevenue ac cx r) d ?c)"
  have s: "revStore cx1 = kv_set (revStore cx) ?c r" "deployerStore cx1 = kv_set (deployerStore cx) (d, ?c) ()"
    "withdrawerStore cx1 = (case w of None \<Rightarrow> withdrawerStore cx | Some a \<Rightarrow> kv_set (withdrawerStore cx) (a, ?c) ())"
    by (auto simp: cx1_def rev_store_defs split: option.split)
  note i = rev_invD [OF Cons.prems(1)]
  have none: "\<not> IsDeployerMapSet cx a ?c" "\<not> IsWithdrawerMapSet cx a ?c" for a
    using i(4) [of ?c] Cons.prems(3) by (simp_all add: fun_eq_iff)
  have "rev_inv ac cx1"
  proof (rule rev_inv_update [OF Cons.prems(1), where c = ?c])
    show "rev_entry ac ?c (GetRevenue cx1 ?c) (\<lambda>d. IsDeployerMapSet cx1 d ?c) (\<lambda>w. IsWithdrawerMapSet cx1 w ?c)"
      using none i s d by (auto simp: rev_store_defs kv_simps GetWithdrawerAddr_def rbind_Inr_iff fun_eq_iff split: if_splits)
  qed (use s i in \<open>auto simp: rev_store_defs kv_simps split: option.split\<close>)
  moreover have "\<forall>r' \<in> set rs. GetRevenue cx1 (GetContractAddr ac r') = None"
    using Cons.prems(2,3) s(1) i(1) by (auto simp: GetRevenue_def kv_simps image_iff)
  ultimately show ?case using Cons.IH [of cx1] Cons.prems(2) run by (simp add: cx1_def)
qed simp

text \<open>
  The module's transitions: a message, the hook after a transaction, and anything the rest of
  the chain does to the EVM state, the bank and the events.
\<close>

inductive rev_step :: "'w revenue_env \<Rightarrow> 'w RevenueCtx \<Rightarrow> 'w RevenueCtx \<Rightarrow> bool" for e where
  message: "rev_NewHandler e cx m = Inr cx' \<Longrightarrow> rev_step e cx cx'"
| hook: "rev_PostTxProcessing e cx tx gas = Inr cx' \<Longrightarrow> rev_step e cx cx'"
| others: "rev_step e cx (cx\<lparr>rvEvm := evm', rvEvents := evs\<rparr>)"

lemma rev_step_inv:
  assumes "codec_laws (reCodec e)" "rev_inv (reCodec e) cx" "rev_step e cx cx'"
  shows "rev_inv (reCodec e) cx'"
  using assms(3)
proof cases
  case (message m)
  then show ?thesis using rev_Handler_inv [OF assms(1,2)] by simp
next
  case (hook tx gas)
  then show ?thesis using PostTx_stores [of e cx tx gas cx'] rev_inv_stores [OF assms(2), of cx'] by simp
next
  case (others evm' evs)
  then show ?thesis using rev_inv_stores [OF assms(2), of cx'] by simp
qed


section \<open>Who can change a registration\<close>

fun msg_contract :: "rev_msg \<Rightarrow> string" where
  "msg_contract (RMsgRegister m) = mrContractAddress m"
| "msg_contract (RMsgUpdate m) = mwContractAddress m"
| "msg_contract (RMsgCancel m) = mxContractAddress m"
| "msg_contract (RMsgUpdateParams a p) = []"
| "msg_contract RMsgUnrecognized = []"

fun msg_deployer :: "rev_msg \<Rightarrow> string" where
  "msg_deployer (RMsgRegister m) = mrDeployerAddress m"
| "msg_deployer (RMsgUpdate m) = mwDeployerAddress m"
| "msg_deployer (RMsgCancel m) = mxDeployerAddress m"
| "msg_deployer (RMsgUpdateParams a p) = a"
| "msg_deployer RMsgUnrecognized = []"

text \<open>An account without code, and a contract that a chain of creations from it leads to.\<close>

definition deployed_by :: "'w revenue_env \<Rightarrow> 'w RevenueCtx \<Rightarrow> addr \<Rightarrow> addr \<Rightarrow> bool" where
  "deployed_by e cx d c \<longleftrightarrow> (\<exists>nonces. c = foldl (acCreateAddress (reCodec e)) d nonces)
     \<and> (\<exists>acct. rev_account e cx d = Some acct \<and> \<not> raw_IsContract (reKec e) acct)
     \<and> (\<exists>acct. rev_account e cx c = Some acct \<and> raw_IsContract (reKec e) acct)"

text \<open>
  C16. A message changes the registration of a contract only while the module is enabled, only
  if it names that contract, and only in one of two ways: a registered contract's entry is
  changed by a message of the deployer in the entry, and a new entry is made by an account
  without code from which a chain of contract creations leads to the contract, which has
  code; the entry then names that account as deployer.
\<close>

theorem revenue_changes_authorised:
  assumes "codec_laws (reCodec e)" "rev_inv (reCodec e) cx" "rev_NewHandler e cx m = Inr cx'"
    and "GetRevenue cx' c \<noteq> GetRevenue cx c"
  shows "EnableRevenue (rvParams cx) \<and> acHexToAddress (reCodec e) (msg_contract m) = c
     \<and> (case GetRevenue cx c of
          Some r \<Rightarrow> msg_deployer m = rDeployerAddress r
        | None \<Rightarrow> (\<exists>d r. acFromBech32 (reCodec e) (msg_deployer m) = Some d \<and> deployed_by e cx d c
            \<and> GetRevenue cx' c = Some r \<and> rDeployerAddress r = acToBech32 (reCodec e) d))"
proof (cases m)
  let ?cx = "cx\<lparr>rvEvents := []\<rparr>" and ?ac = "reCodec e"
  note ok = rev_invD(1) [OF assms(2)]
  have g: "GetRevenue ?cx a = GetRevenue cx a" "rev_account e ?cx a = rev_account e cx a" for a
    by (simp_all add: GetRevenue_def rev_account_def)
  have key: "GetContractAddr ?ac r = a" if "GetRevenue cx a = Some r" for a r
    using rev_invD(4) [OF assms(2), of a] that by simp
  {
    case (RMsgRegister x)
    then have run: "RegisterRevenue e ?cx x = Inr cx'" using assms(3) by (simp add: rev_NewHandler_def)
    show ?thesis
      by (rule RegisterRevenue_Inr [OF run])
         (use assms(1,4) RMsgRegister ok g in \<open>auto simp: deployed_by_def GetRevenue_def kv_get_set NewRevenue_sel split: if_splits\<close>)
  next
    case (RMsgUpdate x)
    then have run: "UpdateRevenue e ?cx x = Inr cx'" using assms(3) by (simp add: rev_NewHandler_def)
    have key': "GetContractAddr ?ac (r\<lparr>rWithdrawerAddress := w\<rparr>) = GetContractAddr ?ac r" for r w by (simp add: GetContractAddr_def)
    show ?thesis
      by (rule UpdateRevenue_Inr [OF run])
         (use assms(4) RMsgUpdate ok g key key' in \<open>auto simp: GetRevenue_def kv_get_set split: if_splits\<close>)
  next
    case (RMsgCancel x)
    then have run: "CancelRevenue e ?cx x = Inr cx'" using assms(3) by (simp add: rev_NewHandler_def)
    show ?thesis
      by (rule CancelRevenue_Inr [OF run])
         (use assms(4) RMsgCancel g key in \<open>auto simp: GetRevenue_def kv_get_delete split: if_splits\<close>)
  next
    case (RMsgUpdateParams a p)
    then show ?thesis
      using assms(3,4) by (auto simp: rev_NewHandler_def rev_UpdateParams_def rev_SetParams_def GetRevenue_def split: if_splits)
  next
    case RMsgUnrecognized
    then show ?thesis using assms(3) by (simp add: rev_NewHandler_def)
  }
qed

section \<open>What the hook pays\<close>

text \<open>
  The recipient of the share of a transaction to \<open>c\<close>: the community pool for an active
  precompile; else the withdrawer of the registration, or its deployer.
\<close>

definition revenue_recipient :: "'w revenue_env \<Rightarrow> 'w RevenueCtx \<Rightarrow> addr \<Rightarrow> addr option" where
  "revenue_recipient e cx c =
     (if acHex (reCodec e) c \<in> set (ActivePrecompiles (evm_GetParams (evmParams (rvEvm cx))))
      then Some (akGetModuleAddress (reAk e) ''distribution'')
      else case GetRevenue cx c of
          None \<Rightarrow> None
        | Some r \<Rightarrow> acFromBech32 (reCodec e) (if rWithdrawerAddress r = [] then rDeployerAddress r else rWithdrawerAddress r))"

definition pays_share :: "'w RevenueCtx \<Rightarrow> rev_tx \<Rightarrow> bool" where
  "pays_share cx tx \<longleftrightarrow> 0 < txGasPrice tx \<and> EnableRevenue (rvParams cx) \<and> DeveloperShares (rvParams cx) \<noteq> 0"

definition share_to :: "'w revenue_env \<Rightarrow> addr option \<Rightarrow> addr" where
  "share_to e wd = (case wd of None \<Rightarrow> akGetModuleAddress (reAk e) ''distribution'' | Some a \<Rightarrow> a)"

lemma pay_share_effect:
  assumes laws: "revenue_laws e" and sh: "0 \<le> DeveloperShares (rvParams cx)" "DeveloperShares (rvParams cx) \<le> dec_one"
    and price: "0 \<le> txGasPrice tx" and run: "pay_share e cx tx gasUsed c wd = Inr cx'"
  defines "fee \<equiv> DeveloperShares (rvParams cx) * (uint gasUsed * txGasPrice tx) div dec_one"
  defines "coin \<equiv> NewCoin (EvmDenom (evm_GetParams (evmParams (rvEvm cx)))) fee"
  shows "0 < fee" "fee \<le> uint gasUsed * txGasPrice tx"
    "reBalance e (sdkState (rvEvm cx')) = credit (share_to e wd) coin
       (debit (akGetModuleAddress (reAk e) (reFeeCollectorName e)) coin (reBalance e (sdkState (rvEvm cx))))"
proof -
  let ?w = "sdkState (rvEvm cx)" and ?f = "uint gasUsed * txGasPrice tx"
  note l = revenue_lawsD [OF laws]
  obtain price' fee0 share w where s: "NewIntFromBigInt (txGasPrice tx) = Inr price'" "reIntMul e (uint gasUsed) price' = Inr fee0"
    "reDecMulInt e (DeveloperShares (rvParams cx)) fee0 = Inr share"
    and send: "(case wd of None \<Rightarrow> reFundCommunityPool e ?w (EvmDenom (evm_GetParams (evmParams (rvEvm cx))), reDecTruncateInt e share)
         (akGetModuleAddress (reAk e) (reFeeCollectorName e))
       | Some to \<Rightarrow> reSendCoinsFromModuleToAccount e ?w (reFeeCollectorName e) to
         (EvmDenom (evm_GetParams (evmParams (rvEvm cx))), reDecTruncateInt e share)) = Inr w"
    and w: "sdkState (rvEvm cx') = w"
    using run unfolding pay_share_def Let_def rev_GetParams_def by (auto simp: rbind_Inr_iff rev_emit_def set_sdk_def)
  have f0: "0 \<le> ?f" using price by simp
  have share: "share = DeveloperShares (rvParams cx) * ?f"
    using l(5) [OF s(3)] l(4) [OF s(2)] NewIntFromBigInt_Inr [OF s(1)] by simp
  then have tr: "reDecTruncateInt e share = fee" using l(6) [of share] sh(1) f0 by (simp add: fee_def)
  have "0 < fee \<and> reBalance e w = credit (share_to e wd) coin
       (debit (akGetModuleAddress (reAk e) (reFeeCollectorName e)) coin (reBalance e ?w))"
  proof (cases wd)
    case None
    then show ?thesis using send l(3) [of ?w _ _ _ w] by (simp add: tr coin_def share_to_def)
  next
    case (Some a)
    then show ?thesis using send l(2) [of ?w _ _ _ _ w] by (simp add: tr coin_def share_to_def)
  qed
  then show "0 < fee" "reBalance e (sdkState (rvEvm cx')) = credit (share_to e wd) coin
       (debit (akGetModuleAddress (reAk e) (reFeeCollectorName e)) coin (reBalance e (sdkState (rvEvm cx))))"
    using w by simp_all
  have "DeveloperShares (rvParams cx) * ?f div dec_one \<le> dec_one * ?f div dec_one"
    using sh f0 by (intro zdiv_mono1 mult_right_mono) simp_all
  then show "fee \<le> ?f" by (simp add: fee_def)
qed

text \<open>
  C18. The hook pays nothing for a creation, for a free transaction, while it is disabled or its
  share is zero, and for a contract that is neither registered nor a precompile. Otherwise
  the developers' share of the fee, rounded down, positive and at most the fee, moves from
  the fee collector to the recipient and no other balance changes. The registrations stay as
  they are in every case.
\<close>

theorem PostTxProcessing_pays_share:
  assumes "revenue_laws e" "rev_Validate (rvParams cx) = Inr ()" "rev_PostTxProcessing e cx tx gasUsed = Inr cx'"
  shows "revStore cx' = revStore cx \<and> deployerStore cx' = deployerStore cx \<and> withdrawerStore cx' = withdrawerStore cx
     \<and> (case Option.bind (txTo tx) (revenue_recipient e cx) of
          None \<Rightarrow> cx' = cx
        | Some to \<Rightarrow>
            if \<not> pays_share cx tx then cx' = cx
            else \<exists>fee. fee = DeveloperShares (rvParams cx) * (uint gasUsed * txGasPrice tx) div dec_one
               \<and> 0 < fee \<and> fee \<le> uint gasUsed * txGasPrice tx
               \<and> (let coin = NewCoin (EvmDenom (evm_GetParams (evmParams (rvEvm cx)))) fee
                  in reBalance e (sdkState (rvEvm cx')) = credit to coin
                       (debit (akGetModuleAddress (reAk e) (reFeeCollectorName e)) coin (reBalance e (sdkState (rvEvm cx))))))"
proof -
  note stores = PostTx_stores [OF assms(3)]
  note run = assms(3) [unfolded rev_PostTxProcessing_def Let_def]
  have sh: "0 \<le> DeveloperShares (rvParams cx)" "DeveloperShares (rvParams cx) \<le> dec_one"
    using assms(2) by (auto simp: rev_Validate_def validateShares_def split: if_splits)
  show ?thesis
  proof (cases "Option.bind (txTo tx) (revenue_recipient e cx)")
    case None
    then have "cx' = cx"
      using run by (auto simp: revenue_recipient_def GetWithdrawerAddr_def GetDeployerAddr_def rbind_Inr_iff bind_eq_None_conv
          split: option.splits if_splits)
    then show ?thesis using None by simp
  next
    case (Some to)
    show ?thesis
    proof (cases "pays_share cx tx")
      case False
      then have "cx' = cx" using run by (auto simp: pays_share_def rev_GetParams_def split: option.splits if_splits)
      then show ?thesis using Some False by simp
    next
      case True
      obtain c where c: "txTo tx = Some c" "revenue_recipient e cx c = Some to" using Some by (auto simp: bind_eq_Some_conv)
      have "\<exists>wd. pay_share e cx tx gasUsed c wd = Inr cx' \<and> to = share_to e wd"
        using run True c by (auto simp: pays_share_def rev_GetParams_def revenue_recipient_def share_to_def
            GetWithdrawerAddr_def GetDeployerAddr_def rbind_Inr_iff split: option.splits if_splits)
      then obtain wd where "pay_share e cx tx gasUsed c wd = Inr cx'" "to = share_to e wd" by blast
      note fee = pay_share_effect [OF assms(1) sh _ this(1), folded this(2)]
      have p: "0 \<le> txGasPrice tx" using True by (simp add: pays_share_def)
      show ?thesis using Some True stores fee(1-3) [OF p] by (simp add: Let_def)
    qed
  qed
qed

section \<open>Genesis\<close>

text \<open>
  The validation of a genesis compares contracts as text, so a contract in two spellings
  passes it. The import then keeps the later registration, but the deployer index keeps the
  deployer of the earlier one as well.
\<close>

theorem genesis_spellings_stale_index:
  assumes "Revenue_Validate ac r1 = Inr ()" "Revenue_Validate ac r2 = Inr ()" "rev_Validate p = Inr ()"
    and "rContractAddress r1 \<noteq> rContractAddress r2" "GetContractAddr ac r1 = c" "GetContractAddr ac r2 = c"
    and "acFromBech32 ac (rDeployerAddress r1) = Some d1" "acFromBech32 ac (rDeployerAddress r2) = Some d2" "d1 \<noteq> d2"
    and "revStore cx0 = [] \<and> deployerStore cx0 = [] \<and> withdrawerStore cx0 = []"
  shows "rev_Genesis_Validate ac \<lparr>rgParams = p, rgRevenues = [r1, r2]\<rparr> = Inr ()
     \<and> (\<exists>cx. rev_InitGenesis ac cx0 \<lparr>rgParams = p, rgRevenues = [r1, r2]\<rparr> = Inr cx
          \<and> GetRevenue cx c = Some r2 \<and> IsDeployerMapSet cx d1 c)"
proof -
  have v: "rev_Genesis_Validate ac \<lparr>rgParams = p, rgRevenues = [r1, r2]\<rparr> = Inr ()"
    using assms(1-4) by (simp add: rev_Genesis_Validate_def)
  have wd: "\<exists>w. GetWithdrawerAddr ac r1 = Inr w" "\<exists>w. GetWithdrawerAddr ac r2 = Inr w"
    using assms(1,2) by (auto simp: Revenue_Validate_def GetWithdrawerAddr_def rbind_Inr_iff split: if_splits)
  then obtain w1 w2 where w: "GetWithdrawerAddr ac r1 = Inr w1" "GetWithdrawerAddr ac r2 = Inr w2" by blast
  have "\<exists>cx. rev_InitGenesis ac cx0 \<lparr>rgParams = p, rgRevenues = [r1, r2]\<rparr> = Inr cx
          \<and> GetRevenue cx c = Some r2 \<and> IsDeployerMapSet cx d1 c"
    using assms(5-10) w
    by (cases w1; cases w2) (auto simp: rev_InitGenesis_def rev_store_defs GetDeployerAddr_def must_bech32_def Let_def
        kv_get_def)
  with v show ?thesis by blast
qed

section \<open>A concrete environment\<close>

definition ex_transfer :: "addr \<Rightarrow> addr \<Rightarrow> string \<times> int \<Rightarrow> ledger \<Rightarrow> ledger result" where
  "ex_transfer a b coin w =
     (if 0 < snd coin then rbind (pay a (NewCoin (fst coin) (snd coin)) w) (receive b (NewCoin (fst coin) (snd coin)))
      else Inl ErrInvalidCoins)"

definition ex_kec :: "byte list \<Rightarrow> hash" where
  "ex_kec bs = word_of_nat (length bs)"

definition ex_renv :: "ledger revenue_env" where
  "ex_renv =
     \<lparr>reCodec = ex_codec, reKec = ex_kec, reAk = ledger_ak ex_kec, reBalance = snd,
      reConsumeGas = (\<lambda>w n. Inr w),
      reSendCoinsFromModuleToAccount = (\<lambda>w m a coin. ex_transfer (module_address m) a coin w),
      reFundCommunityPool = (\<lambda>w coin a. ex_transfer a (module_address ''distribution'') coin w),
      reIntMul = (\<lambda>a b. if \<bar>a * b\<bar> < 2 ^ 256 then Inr (a * b) else Inl (Panic ''overflow'')),
      reDecMulInt = (\<lambda>a b. if \<bar>a * b\<bar> < 2 ^ 315 then Inr (a * b) else Inl (Panic ''overflow'')),
      reDecTruncateInt = (\<lambda>a. a div dec_one), reFeeCollectorName = ''fee_collector'', reAuthority = 9\<rparr>"

lemma ex_transfer_Inr:
  "ex_transfer a b (d, n) w = Inr w' \<Longrightarrow> 0 < n \<and> snd w' = credit b (NewCoin d n) (debit a (NewCoin d n) (snd w))"
  by (auto simp: ex_transfer_def rbind_Inr_iff dest!: ledger_transfers split: if_splits)

lemma ex_renv_laws: "revenue_laws ex_renv"
  by (auto simp: revenue_laws_def ex_renv_def ex_codec_laws ledger_ak_def dest: ex_transfer_Inr split: if_splits)

text \<open>Account 1 has no code; the contract 11, its first creation, has.\<close>

definition ex_accounts :: "addr \<rightharpoonup> AccountI" where
  "ex_accounts = [1 \<mapsto> EthAccount \<lparr>accAddress = 1, accNumber = 0, accSequence = 1\<rparr> 0,
     11 \<mapsto> EthAccount \<lparr>accAddress = 11, accNumber = 1, accSequence = 1\<rparr> 5]"

definition ex_rcx :: "ledger RevenueCtx" where
  "ex_rcx =
     \<lparr>rvEvm = \<lparr>evmParams = \<lparr>stored = None, legacy = DefaultParams ''a''\<rparr>, evmStorage = (\<lambda>_ _. None), evmCode = (\<lambda>_. None),
        sdkState = (ex_accounts, \<lambda>_ _. 1000), blockHeight = 1, tBloom = (\<lambda>_. None), tTxIndex = None, tLogSize = None, tGasUsed = None\<rparr>,
      rvParams = rev_DefaultParams, revStore = [], deployerStore = [], withdrawerStore = [], rvEvents = []\<rparr>"

definition ex_register :: MsgRegisterRevenue where
  "ex_register = NewMsgRegisterRevenue ex_codec 11 1 (Some 2) [0]"

definition ex_registered :: "ledger RevenueCtx" where
  "ex_registered = ex_rcx\<lparr>revStore := [(11, NewRevenue ex_codec 11 1 (Some 2))], deployerStore := [((1, 11), ())],
     withdrawerStore := [((2, 11), ())],
     rvEvents := [EventRegisterRevenue (acToBech32 ex_codec 1) (acHex ex_codec 11) (acToBech32 ex_codec 2)]\<rparr>"

lemma ex_create [simp]: "acCreateAddress ex_codec 1 0 = 11"
  by (simp add: ex_codec_def)

lemma ex_register_runs: "rev_NewHandler ex_renv ex_rcx (RMsgRegister ex_register) = Inr ex_registered"
  by (simp add: rev_NewHandler_def RegisterRevenue_def ex_register_def NewMsgRegisterRevenue_def ex_registered_def ex_rcx_def
      ex_renv_def rev_store_defs rev_account_def ek_GetAccountWithoutBalance_def ledger_ak_def ex_accounts_def ex_codec_laws
      codec_lawsD acToBech32_inj acToBech32_nonempty raw_IsContract_def emptyCodeHash_def ex_kec_def rev_DefaultParams_def
      must_bech32_def kv_get_def Let_def GetSequence_def set_sdk_def NewRevenue_def GetContractAddr_def)

lemma ex_renv_codec [simp]: "reCodec ex_renv = ex_codec"
  by (simp add: ex_renv_def)

lemma ex_rcx_inv: "rev_inv ex_codec ex_rcx"
  by (simp add: rev_inv_def ex_rcx_def rev_store_defs kv_get_def)


theorem revenue_changes_authorised_witness:
  "EnableRevenue (rvParams ex_rcx) \<and> deployed_by ex_renv ex_rcx 1 11"
proof -
  have c: "GetRevenue ex_registered 11 \<noteq> GetRevenue ex_rcx 11" "GetRevenue ex_rcx 11 = None"
    by (simp_all add: ex_registered_def ex_rcx_def GetRevenue_def kv_get_def)
  have dep: "acFromBech32 ex_codec (msg_deployer (RMsgRegister ex_register)) = Some 1"
    by (simp add: ex_register_def NewMsgRegisterRevenue_def codec_lawsD ex_codec_laws)
  show ?thesis
    using revenue_changes_authorised [OF _ _ ex_register_runs c(1)] c(2) dep ex_codec_laws ex_rcx_inv by auto
qed

definition ex_tx :: rev_tx where
  "ex_tx = \<lparr>txTo = Some 11, txGasPrice = 2, txFrom = 3\<rparr>"

lemma ex_recipient: "revenue_recipient ex_renv ex_registered 11 = Some 2"
  by (simp add: revenue_recipient_def ex_registered_def ex_rcx_def evm_GetParams_def DefaultParams_def AvailableEVMExtensions_def
      GetRevenue_def kv_get_def ex_codec_def NewRevenue_def)

theorem PostTxProcessing_pays_share_witness:
  "\<exists>cx'. rev_PostTxProcessing ex_renv ex_registered ex_tx 100 = Inr cx'
     \<and> reBalance ex_renv (sdkState (rvEvm cx')) 2 ''a'' = 1100"
proof -
  have valid: "rev_Validate (rvParams ex_registered) = Inr ()"
    by (simp add: ex_registered_def ex_rcx_def rev_DefaultParams_def rev_Validate_def validateShares_def LegacyNewDecWithPrec_def dec_one_def)
  have wd: "GetWithdrawerAddr ex_codec (NewRevenue ex_codec 11 1 (Some 2)) = Inr (Some 2)"
    by (simp add: GetWithdrawerAddr_def NewRevenue_sel must_bech32_def codec_lawsD ex_codec_laws acToBech32_nonempty)
  have send: "reSendCoinsFromModuleToAccount ex_renv (ex_accounts, \<lambda>_ _. 1000) ''fee_collector'' 2 (''a'', 100)
      = Inr (ex_accounts, credit 2 (NewCoin ''a'' 100) (debit (module_address ''fee_collector'') (NewCoin ''a'' 100) (\<lambda>_ _. 1000)))"
    by (simp add: ex_renv_def ex_transfer_def pay_def receive_def NewCoin_def AmountOf_def)
  have "acHex ex_codec 11 \<notin> set (ActivePrecompiles (evm_GetParams (evmParams (rvEvm ex_registered))))"
    by (simp add: ex_registered_def ex_rcx_def evm_GetParams_def DefaultParams_def AvailableEVMExtensions_def ex_codec_def)
  then have "\<exists>cx'. rev_PostTxProcessing ex_renv ex_registered ex_tx 100 = Inr cx'"
    using wd send
    by (simp add: rev_PostTxProcessing_def pay_share_def ex_tx_def ex_registered_def ex_rcx_def rev_DefaultParams_def rev_GetParams_def
        GetRevenue_def kv_get_def NewIntFromBigInt_def evm_GetParams_def DefaultParams_def ex_renv_def LegacyNewDecWithPrec_def dec_one_def)
  then obtain cx' where run: "rev_PostTxProcessing ex_renv ex_registered ex_tx 100 = Inr cx'" by blast
  have pays: "pays_share ex_registered ex_tx"
    by (simp add: pays_share_def ex_tx_def ex_registered_def ex_rcx_def rev_DefaultParams_def LegacyNewDecWithPrec_def)
  have fee: "DeveloperShares (rvParams ex_registered) * (uint (100 :: u64) * txGasPrice ex_tx) div dec_one = 100"
    by (simp add: ex_tx_def ex_registered_def ex_rcx_def rev_DefaultParams_def LegacyNewDecWithPrec_def dec_one_def)
  have denom: "EvmDenom (evm_GetParams (evmParams (rvEvm ex_registered))) = ''a''"
    by (simp add: ex_registered_def ex_rcx_def evm_GetParams_def DefaultParams_def)
  have "2 \<noteq> module_address ''fee_collector''" by (simp add: module_address_def)
  then show ?thesis
    using PostTxProcessing_pays_share [OF ex_renv_laws valid run] run pays fee denom ex_recipient
    by (simp add: ex_tx_def Let_def ex_renv_def credit_def debit_def ledger_ak_def ex_registered_def ex_rcx_def)
qed

theorem genesis_spellings_stale_index_witness:
  "\<exists>gs cx. rev_Genesis_Validate ex_codec gs = Inr () \<and> rev_InitGenesis ex_codec ex_rcx gs = Inr cx
     \<and> rDeployerAddress (the (GetRevenue cx 5)) = ''b11'' \<and> IsDeployerMapSet cx 1 5"
proof -
  let ?r1 = "\<lparr>rContractAddress = ''x11111'', rDeployerAddress = ''b1'', rWithdrawerAddress = []\<rparr>"
  let ?r2 = "\<lparr>rContractAddress = ''X11111'', rDeployerAddress = ''b11'', rWithdrawerAddress = []\<rparr>"
  have v: "Revenue_Validate ex_codec ?r1 = Inr ()" "Revenue_Validate ex_codec ?r2 = Inr ()"
    "rev_Validate rev_DefaultParams = Inr ()"
    by (simp_all add: Revenue_Validate_def ValidateNonZeroAddress_def IsZeroAddress_def acc_bech32_def ex_codec_def
        rev_Validate_def rev_DefaultParams_def validateShares_def LegacyNewDecWithPrec_def dec_one_def)
  have k: "GetContractAddr ex_codec ?r1 = 5" "GetContractAddr ex_codec ?r2 = 5"
    "acFromBech32 ex_codec (rDeployerAddress ?r1) = Some 1" "acFromBech32 ex_codec (rDeployerAddress ?r2) = Some 2"
    by (simp_all add: GetContractAddr_def ex_codec_def)
  have "rContractAddress ?r1 \<noteq> rContractAddress ?r2" "(1 :: addr) \<noteq> 2"
    "revStore ex_rcx = [] \<and> deployerStore ex_rcx = [] \<and> withdrawerStore ex_rcx = []" by (simp_all add: ex_rcx_def)
  from genesis_spellings_stale_index [OF v this(1) k this(2,3)] obtain cx where
    "rev_Genesis_Validate ex_codec \<lparr>rgParams = rev_DefaultParams, rgRevenues = [?r1, ?r2]\<rparr> = Inr ()"
    "rev_InitGenesis ex_codec ex_rcx \<lparr>rgParams = rev_DefaultParams, rgRevenues = [?r1, ?r2]\<rparr> = Inr cx"
    "GetRevenue cx 5 = Some ?r2" "IsDeployerMapSet cx 1 5" by blast
  then show ?thesis by fastforce
qed

end
