(* ===== verification/Erc20Keeper.thy ===== *)
theory Erc20Keeper
  imports Addresses EvmKeeper KVStore
begin

text \<open>
  The \<^verbatim>\<open>x/erc20\<close> module: token pairs and their stores (\<^verbatim>\<open>types/token_pair.go\<close>,
  \<^verbatim>\<open>keeper/token_pairs.go\<close>), names and metadata (\<^verbatim>\<open>types/utils.go\<close>, \<^verbatim>\<open>types/proposal.go\<close>),
  calls into the EVM (\<^verbatim>\<open>keeper/evm.go\<close>), registration (\<^verbatim>\<open>keeper/proposals.go\<close>,
  \<^verbatim>\<open>proposal_handler.go\<close>), the conversions (\<^verbatim>\<open>keeper/msg_server.go\<close>, \<^verbatim>\<open>keeper/mint.go\<close>) and
  genesis. The EVM, the ABI codec, the bank and SHA-256 are fields of \<open>erc20_env\<close>; an
  identifier of a pair is a value of the type \<open>'i\<close> of that hash.
\<close>

section \<open>Errors\<close>

abbreviation "ErrERC20Disabled \<equiv> ErrModule ''erc20'' 2"
abbreviation "ErrInternalTokenPair \<equiv> ErrModule ''erc20'' 3"
abbreviation "ErrTokenPairNotFound \<equiv> ErrModule ''erc20'' 4"
abbreviation "ErrTokenPairAlreadyExists \<equiv> ErrModule ''erc20'' 5"
abbreviation "ErrUndefinedOwner \<equiv> ErrModule ''erc20'' 6"
abbreviation "ErrBalanceInvariance \<equiv> ErrModule ''erc20'' 7"
abbreviation "ErrUnexpectedEvent \<equiv> ErrModule ''erc20'' 8"
abbreviation "ErrABIPack \<equiv> ErrModule ''erc20'' 9"
abbreviation "ErrABIUnpack \<equiv> ErrModule ''erc20'' 10"
abbreviation "ErrEVMCall \<equiv> ErrModule ''erc20'' 12"
abbreviation "ErrERC20TokenPairDisabled \<equiv> ErrModule ''erc20'' 13"

section \<open>Token pairs\<close>

datatype Owner = OWNER_UNSPECIFIED | OWNER_MODULE | OWNER_EXTERNAL

record TokenPair =
  Erc20Address :: string
  tpDenom :: string
  tpEnabled :: bool
  ContractOwner :: Owner

definition NewTokenPair :: "addr_codec \<Rightarrow> addr \<Rightarrow> string \<Rightarrow> Owner \<Rightarrow> TokenPair" where
  "NewTokenPair ac erc20Address denom contractOwner =
     \<lparr>Erc20Address = acHex ac erc20Address, tpDenom = denom, tpEnabled = True, ContractOwner = contractOwner\<rparr>"

definition GetID :: "(string \<Rightarrow> 'i) \<Rightarrow> TokenPair \<Rightarrow> 'i" where
  "GetID tmhash tp = tmhash (Erc20Address tp @ ''|'' @ tpDenom tp)"

definition GetERC20Contract :: "addr_codec \<Rightarrow> TokenPair \<Rightarrow> addr" where
  "GetERC20Contract ac tp = acHexToAddress ac (Erc20Address tp)"

definition TokenPair_Validate :: "addr_codec \<Rightarrow> (string \<Rightarrow> unit result) \<Rightarrow> TokenPair \<Rightarrow> unit result" where
  "TokenPair_Validate ac validateDenom tp =
     rbind (validateDenom (tpDenom tp)) (\<lambda>_.
     if acIsHexAddress ac (Erc20Address tp) then Inr () else Inl ErrInvalidAddress)"

definition IsNativeCoin :: "TokenPair \<Rightarrow> bool" where
  "IsNativeCoin tp \<longleftrightarrow> ContractOwner tp = OWNER_MODULE"

definition IsNativeERC20 :: "TokenPair \<Rightarrow> bool" where
  "IsNativeERC20 tp \<longleftrightarrow> ContractOwner tp = OWNER_EXTERNAL"

section \<open>Names and metadata\<close>

definition is_digit :: "char \<Rightarrow> bool" where
  "is_digit c \<longleftrightarrow> c \<in> set ''0123456789''"

definition is_letter :: "char \<Rightarrow> bool" where
  "is_letter c \<longleftrightarrow> c \<in> set ''ABCDEFGHIJKLMNOPQRSTUVWXYZabcdefghijklmnopqrstuvwxyz''"

text \<open>
  The pattern \<^verbatim>\<open>(?m)^(\d+)\<close> matches the digits at the start of every line; the flag tells
  whether the rest is at the start of one.
\<close>

fun strip_digits :: "bool \<Rightarrow> string \<Rightarrow> string" where
  "strip_digits start [] = []"
| "strip_digits start (c # cs) =
     (if start \<and> is_digit c then strip_digits True cs else c # strip_digits (c = CHR 0x0A) cs)"

definition removeLeadingNumbers :: "string \<Rightarrow> string" where
  "removeLeadingNumbers str = strip_digits True str"

text \<open>
  The pattern \<^verbatim>\<open>^[^A-Za-z]|[^a-zA-Z0-9/-]\<close> matches a first character that is no letter, and
  every special character.
\<close>

definition removeSpecialChars :: "string \<Rightarrow> string" where
  "removeSpecialChars str =
     (case str of [] \<Rightarrow> []
      | c # cs \<Rightarrow> (if is_letter c then [c] else [])
          @ filter (\<lambda>x. is_letter x \<or> is_digit x \<or> x = CHR ''/'' \<or> x = CHR ''-'') cs)"

function removeInvalidPrefixes :: "string \<Rightarrow> string" where
  "removeInvalidPrefixes str =
     (if take 4 str = ''ibc/'' then removeInvalidPrefixes (drop 4 str)
      else if take 6 str = ''erc20/'' then removeInvalidPrefixes (drop 6 str)
      else str)"
  by pat_completeness auto
termination
proof (relation "measure length")
  show "wf (measure (length :: string \<Rightarrow> nat))" by simp
  fix str :: string
  show "(drop 4 str, str) \<in> measure length" if "take 4 str = ''ibc/''" using that by (cases str) auto
  show "(drop 6 str, str) \<in> measure length" if "take 6 str = ''erc20/''" using that by (cases str) auto
qed

declare removeInvalidPrefixes.simps [simp del]

definition SanitizeERC20Name :: "string \<Rightarrow> string" where
  "SanitizeERC20Name name =
     (let name = removeLeadingNumbers name;
          name = removeSpecialChars name;
          name = (if length name > 128 then take 128 name else name)
      in removeInvalidPrefixes name)"

record DenomUnit =
  duDenom :: string
  duExponent :: "32 word"
  duAliases :: "string list"

record Metadata =
  mdDescription :: string
  mdDenomUnits :: "DenomUnit list"
  mdBase :: string
  mdDisplay :: string
  mdName :: string
  mdSymbol :: string

fun EqualStringSlice :: "string list \<Rightarrow> string list \<Rightarrow> bool" where
  "EqualStringSlice [] [] = True"
| "EqualStringSlice (a # as) (b # bs) = (a = b \<and> EqualStringSlice as bs)"
| "EqualStringSlice as bs = False"

fun equal_units :: "DenomUnit list \<Rightarrow> DenomUnit list \<Rightarrow> bool" where
  "equal_units (v # vs) (u # us) =
     (duExponent v = duExponent u \<and> duDenom v = duDenom u \<and> EqualStringSlice (duAliases v) (duAliases u) \<and> equal_units vs us)"
| "equal_units vs us = True"

definition EqualMetadata :: "Metadata \<Rightarrow> Metadata \<Rightarrow> unit result" where
  "EqualMetadata a b =
     (if mdBase a = mdBase b \<and> mdDescription a = mdDescription b \<and> mdDisplay a = mdDisplay b \<and> mdName a = mdName b
         \<and> mdSymbol a = mdSymbol b then
        if length (mdDenomUnits a) \<noteq> length (mdDenomUnits b) then Inl (ErrText ''metadata provided has different denom units from stored'')
        else if \<not> equal_units (mdDenomUnits a) (mdDenomUnits b) then Inl (ErrText ''metadata provided has different denom unit from stored'')
        else Inr ()
      else Inl (ErrText ''metadata provided is different from stored''))"

definition CreateDenomDescription :: "string \<Rightarrow> string" where
  "CreateDenomDescription s = ''Cosmos coin token representation of '' @ s"

definition CreateDenom :: "string \<Rightarrow> string" where
  "CreateDenom s = ''erc20'' @ ''/'' @ s"

definition ValidateErc20Denom :: "addr_codec \<Rightarrow> string \<Rightarrow> unit result" where
  "ValidateErc20Denom ac denom =
     (if CHR ''/'' \<notin> set denom \<or> takeWhile (\<lambda>c. c \<noteq> CHR ''/'') denom \<noteq> ''erc20'' then Inl (ErrText ''invalid denom'')
      else if acIsHexAddress ac (tl (dropWhile (\<lambda>c. c \<noteq> CHR ''/'') denom)) then Inr ()
      else Inl ErrInvalidAddress)"

section \<open>Messages\<close>

type_synonym coin = "string \<times> int"

record MsgConvertCoin =
  ccCoin :: coin
  ccReceiver :: string
  ccSender :: string

record MsgConvertERC20 =
  ceContractAddress :: string
  ceAmount :: int
  ceReceiver :: string
  ceSender :: string

definition NewMsgConvertCoin :: "addr_codec \<Rightarrow> coin \<Rightarrow> addr \<Rightarrow> addr \<Rightarrow> MsgConvertCoin" where
  "NewMsgConvertCoin ac c receiver sender =
     \<lparr>ccCoin = c, ccReceiver = acHex ac receiver, ccSender = acToBech32 ac sender\<rparr>"

definition NewMsgConvertERC20 :: "addr_codec \<Rightarrow> int \<Rightarrow> addr \<Rightarrow> addr \<Rightarrow> addr \<Rightarrow> MsgConvertERC20" where
  "NewMsgConvertERC20 ac amount receiver contract sender =
     \<lparr>ceContractAddress = acHex ac contract, ceAmount = amount, ceReceiver = acToBech32 ac receiver, ceSender = acHex ac sender\<rparr>"

definition MsgConvertCoin_ValidateBasic ::
  "addr_codec \<Rightarrow> (string \<Rightarrow> unit result) \<Rightarrow> MsgConvertCoin \<Rightarrow> unit result" where
  "MsgConvertCoin_ValidateBasic ac validateIBCDenom msg =
     rbind (case ValidateErc20Denom ac (fst (ccCoin msg)) of
              Inr _ \<Rightarrow> Inr ()
            | Inl _ \<Rightarrow> validateIBCDenom (fst (ccCoin msg))) (\<lambda>_.
     if \<not> snd (ccCoin msg) > 0 then Inl ErrInvalidCoins
     else rbind (acc_bech32 ac (ccSender msg)) (\<lambda>_.
       if \<not> acIsHexAddress ac (ccReceiver msg) then Inl ErrInvalidAddress else Inr ()))"

definition MsgConvertERC20_ValidateBasic :: "addr_codec \<Rightarrow> MsgConvertERC20 \<Rightarrow> unit result" where
  "MsgConvertERC20_ValidateBasic ac msg =
     (if \<not> acIsHexAddress ac (ceContractAddress msg) then Inl ErrInvalidAddress
      else if \<not> ceAmount msg > 0 then Inl ErrInvalidCoins
      else rbind (acc_bech32 ac (ceReceiver msg)) (\<lambda>_.
        if \<not> acIsHexAddress ac (ceSender msg) then Inl ErrInvalidAddress else Inr ()))"

definition MsgConvertCoin_GetSigners :: "addr_codec \<Rightarrow> MsgConvertCoin \<Rightarrow> addr list result" where
  "MsgConvertCoin_GetSigners ac msg = rbind (must_bech32 ac (ccSender msg)) (\<lambda>a. Inr [a])"

definition MsgConvertERC20_GetSigners :: "addr_codec \<Rightarrow> MsgConvertERC20 \<Rightarrow> addr list" where
  "MsgConvertERC20_GetSigners ac msg = [acHexToAddress ac (ceSender msg)]"

section \<open>The environment and the stores\<close>

datatype abi_arg = AAddr addr | AInt int

record evm_log =
  lgTopics :: "string list"

record evm_resp =
  rspRet :: "byte list"
  rspVmError :: string
  rspLogs :: "evm_log list"

text \<open>The fields of the message handed to the EVM that are not constant zero or empty.\<close>

record evm_message =
  emFrom :: addr
  emTo :: "addr option"
  emNonce :: u64
  emGas :: u64
  emData :: "byte list"
  emFake :: bool

text \<open>
  \<open>eeApplyMessage\<close> is the EVM; its flag is \<^verbatim>\<open>commit\<close>. \<open>ePack\<close> and the unpacking functions are
  the ABI codec of the module's ERC-20 contract, \<open>eBin\<close> that contract's byte code. The bank
  operations take the single coin the module passes.
\<close>

record ('w, 'i) erc20_env =
  eCodec :: addr_codec
  eHash :: "string \<Rightarrow> 'i"
  eKec :: "byte list \<Rightarrow> hash"
  eApprovalTopic :: string
  eModule :: addr
  eAuthority :: addr
  eGetAccount :: "'w \<Rightarrow> addr \<Rightarrow> nilableAccount option"
  eGetSequence :: "'w \<Rightarrow> addr \<Rightarrow> u64 result"
  eEstimateGas :: "'w \<Rightarrow> addr \<Rightarrow> addr option \<Rightarrow> byte list \<Rightarrow> u64 \<Rightarrow> u64 result"
  eApplyMessage :: "'w \<Rightarrow> evm_message \<Rightarrow> bool \<Rightarrow> ('w \<times> evm_resp) result"
  ePack :: "string \<Rightarrow> abi_arg list \<Rightarrow> byte list result"
  eCtorPack :: "string \<Rightarrow> string \<Rightarrow> byte \<Rightarrow> byte list result"
  eBin :: "byte list"
  eUnpackInt :: "byte list \<Rightarrow> int option"
  eUnpackBool :: "byte list \<Rightarrow> bool result"
  eUnpackString :: "string \<Rightarrow> byte list \<Rightarrow> string result"
  eUnpackUint8 :: "byte list \<Rightarrow> byte result"
  eGetBalance :: "'w \<Rightarrow> addr \<Rightarrow> string \<Rightarrow> int"
  eBlockedAddr :: "addr \<Rightarrow> bool"
  eIsSendEnabled :: "'w \<Rightarrow> string \<Rightarrow> bool"
  eHasSupply :: "'w \<Rightarrow> string \<Rightarrow> bool"
  eGetDenomMetaData :: "'w \<Rightarrow> string \<Rightarrow> Metadata option"
  eSetDenomMetaData :: "'w \<Rightarrow> Metadata \<Rightarrow> 'w"
  eMetadata_Validate :: "Metadata \<Rightarrow> unit result"
  eValidateDenom :: "string \<Rightarrow> unit result"
  eSendCoinsFromAccountToModule :: "'w \<Rightarrow> addr \<Rightarrow> coin \<Rightarrow> 'w result"
  eSendCoinsFromModuleToAccount :: "'w \<Rightarrow> addr \<Rightarrow> coin \<Rightarrow> 'w result"
  eMintCoins :: "'w \<Rightarrow> coin \<Rightarrow> 'w result"
  eBurnCoins :: "'w \<Rightarrow> coin \<Rightarrow> 'w result"

datatype erc20_event =
    EventConvertCoin string string int string string
  | EventConvertERC20 string string int string string
  | EventRegisterERC20 string string
  | EventToggleTokenConversion string string

record ('w, 'i) Erc20Ctx =
  erSdk :: 'w
  erEnableErc20 :: bool
  erEnableEVMHook :: bool
  erPairs :: "('i \<times> TokenPair) list"
  erByERC20 :: "(addr \<times> 'i) list"
  erByDenom :: "(string \<times> 'i) list"
  erEvents :: "erc20_event list"

definition IsERC20Enabled :: "('w, 'i) Erc20Ctx \<Rightarrow> bool" where
  "IsERC20Enabled cx = erEnableErc20 cx"

definition GetEnableEVMHook :: "('w, 'i) Erc20Ctx \<Rightarrow> bool" where
  "GetEnableEVMHook cx = erEnableEVMHook cx"

definition setERC20Enabled :: "('w, 'i) Erc20Ctx \<Rightarrow> bool \<Rightarrow> ('w, 'i) Erc20Ctx" where
  "setERC20Enabled cx enable = cx\<lparr>erEnableErc20 := enable\<rparr>"

definition setEnableEVMHook :: "('w, 'i) Erc20Ctx \<Rightarrow> bool \<Rightarrow> ('w, 'i) Erc20Ctx" where
  "setEnableEVMHook cx enable = cx\<lparr>erEnableEVMHook := enable\<rparr>"

definition erc20_GetParams :: "('w, 'i) Erc20Ctx \<Rightarrow> bool \<times> bool" where
  "erc20_GetParams cx = (IsERC20Enabled cx, GetEnableEVMHook cx)"

definition erc20_SetParams :: "('w, 'i) Erc20Ctx \<Rightarrow> bool \<times> bool \<Rightarrow> ('w, 'i) Erc20Ctx" where
  "erc20_SetParams cx params = setEnableEVMHook (setERC20Enabled cx (fst params)) (snd params)"

fun iterate_pairs :: "(TokenPair \<Rightarrow> 's \<Rightarrow> bool \<times> 's) \<Rightarrow> TokenPair list \<Rightarrow> 's \<Rightarrow> 's" where
  "iterate_pairs cb [] st = st"
| "iterate_pairs cb (p # ps) st = (case cb p st of (stop, st) \<Rightarrow> if stop then st else iterate_pairs cb ps st)"

definition IterateTokenPairs :: "('w, 'i) Erc20Ctx \<Rightarrow> (TokenPair \<Rightarrow> 's \<Rightarrow> bool \<times> 's) \<Rightarrow> 's \<Rightarrow> 's" where
  "IterateTokenPairs cx cb st = iterate_pairs cb (map snd (erPairs cx)) st"

definition GetTokenPairs :: "('w, 'i) Erc20Ctx \<Rightarrow> TokenPair list" where
  "GetTokenPairs cx = IterateTokenPairs cx (\<lambda>p ps. (False, ps @ [p])) []"

definition GetERC20Map :: "('w, 'i) Erc20Ctx \<Rightarrow> addr \<Rightarrow> 'i option" where
  "GetERC20Map cx erc20 = kv_get (erByERC20 cx) erc20"

definition GetDenomMap :: "('w, 'i) Erc20Ctx \<Rightarrow> string \<Rightarrow> 'i option" where
  "GetDenomMap cx denom = kv_get (erByDenom cx) denom"

definition GetTokenPairID :: "addr_codec \<Rightarrow> ('w, 'i) Erc20Ctx \<Rightarrow> string \<Rightarrow> 'i option" where
  "GetTokenPairID ac cx token =
     (if acIsHexAddress ac token then GetERC20Map cx (acHexToAddress ac token) else GetDenomMap cx token)"

definition GetTokenPair :: "('w, 'i) Erc20Ctx \<Rightarrow> 'i option \<Rightarrow> TokenPair option" where
  "GetTokenPair cx id' = (case id' of None \<Rightarrow> None | Some i \<Rightarrow> kv_get (erPairs cx) i)"

definition SetTokenPair :: "(string \<Rightarrow> 'i :: linorder) \<Rightarrow> ('w, 'i) Erc20Ctx \<Rightarrow> TokenPair \<Rightarrow> ('w, 'i) Erc20Ctx" where
  "SetTokenPair h cx tokenPair = cx\<lparr>erPairs := kv_set (erPairs cx) (GetID h tokenPair) tokenPair\<rparr>"

definition deleteTokenPair :: "('w, 'i) Erc20Ctx \<Rightarrow> 'i \<Rightarrow> ('w, 'i) Erc20Ctx" where
  "deleteTokenPair cx i = cx\<lparr>erPairs := kv_delete (erPairs cx) i\<rparr>"

definition SetERC20Map :: "('w, 'i) Erc20Ctx \<Rightarrow> addr \<Rightarrow> 'i \<Rightarrow> ('w, 'i) Erc20Ctx" where
  "SetERC20Map cx erc20 i = cx\<lparr>erByERC20 := kv_set (erByERC20 cx) erc20 i\<rparr>"

definition deleteERC20Map :: "('w, 'i) Erc20Ctx \<Rightarrow> addr \<Rightarrow> ('w, 'i) Erc20Ctx" where
  "deleteERC20Map cx erc20 = cx\<lparr>erByERC20 := kv_delete (erByERC20 cx) erc20\<rparr>"

definition SetDenomMap :: "('w, 'i) Erc20Ctx \<Rightarrow> string \<Rightarrow> 'i \<Rightarrow> ('w, 'i) Erc20Ctx" where
  "SetDenomMap cx denom i = cx\<lparr>erByDenom := kv_set (erByDenom cx) denom i\<rparr>"

definition deleteDenomMap :: "('w, 'i) Erc20Ctx \<Rightarrow> string \<Rightarrow> ('w, 'i) Erc20Ctx" where
  "deleteDenomMap cx denom = cx\<lparr>erByDenom := kv_delete (erByDenom cx) denom\<rparr>"

definition DeleteTokenPair :: "addr_codec \<Rightarrow> (string \<Rightarrow> 'i) \<Rightarrow> ('w, 'i) Erc20Ctx \<Rightarrow> TokenPair \<Rightarrow> ('w, 'i) Erc20Ctx" where
  "DeleteTokenPair ac h cx tokenPair =
     deleteDenomMap (deleteERC20Map (deleteTokenPair cx (GetID h tokenPair)) (GetERC20Contract ac tokenPair)) (tpDenom tokenPair)"

definition IsTokenPairRegistered :: "('w, 'i) Erc20Ctx \<Rightarrow> 'i \<Rightarrow> bool" where
  "IsTokenPairRegistered cx i \<longleftrightarrow> kv_get (erPairs cx) i \<noteq> None"

definition IsERC20Registered :: "('w, 'i) Erc20Ctx \<Rightarrow> addr \<Rightarrow> bool" where
  "IsERC20Registered cx erc20 \<longleftrightarrow> kv_get (erByERC20 cx) erc20 \<noteq> None"

definition IsDenomRegistered :: "('w, 'i) Erc20Ctx \<Rightarrow> string \<Rightarrow> bool" where
  "IsDenomRegistered cx denom \<longleftrightarrow> kv_get (erByDenom cx) denom \<noteq> None"

text \<open>\<open>parseHexHash\<close> is the IBC module's parser of a voucher hash, read as an address.\<close>

definition GetIBCDenomAddress :: "(string \<Rightarrow> addr option) \<Rightarrow> string \<Rightarrow> addr result" where
  "GetIBCDenomAddress parseHexHash denom =
     (if take 4 denom \<noteq> ''ibc/'' then Inl (ErrExternal ''ErrInvalidDenomForTransfer'')
      else if length denom < 5 \<or> blank (drop 4 denom) then Inl (ErrExternal ''ErrInvalidDenomForTransfer'')
      else case parseHexHash (drop 4 denom) of
          None \<Rightarrow> Inl (ErrExternal ''ErrInvalidDenomForTransfer'')
        | Some a \<Rightarrow> Inr a)"

definition GetCoinAddress ::
  "addr_codec \<Rightarrow> (string \<Rightarrow> addr option) \<Rightarrow> ('w, 'i) Erc20Ctx \<Rightarrow> string \<Rightarrow> addr result" where
  "GetCoinAddress ac parseHexHash cx denom =
     (case GetDenomMap cx denom of
        None \<Rightarrow> GetIBCDenomAddress parseHexHash denom
      | Some i \<Rightarrow> (case GetTokenPair cx (Some i) of
            None \<Rightarrow> Inl ErrTokenPairNotFound
          | Some tokenPair \<Rightarrow> Inr (GetERC20Contract ac tokenPair)))"

definition GetTokenDenom :: "('w, 'i) Erc20Ctx \<Rightarrow> addr \<Rightarrow> string result" where
  "GetTokenDenom cx tokenAddress =
     (case GetERC20Map cx tokenAddress of
        None \<Rightarrow> Inl ErrTokenPairNotFound
      | Some i \<Rightarrow> (case GetTokenPair cx (Some i) of
            None \<Rightarrow> Inl ErrTokenPairNotFound
          | Some tokenPair \<Rightarrow> Inr (tpDenom tokenPair)))"

definition erc20_emit :: "('w, 'i) Erc20Ctx \<Rightarrow> erc20_event \<Rightarrow> ('w, 'i) Erc20Ctx" where
  "erc20_emit cx ev = cx\<lparr>erEvents := erEvents cx @ [ev]\<rparr>"

section \<open>Calls into the EVM\<close>

definition DefaultGasCap :: u64 where
  "DefaultGasCap = 25000000"

definition rspFailed :: "evm_resp \<Rightarrow> bool" where
  "rspFailed r \<longleftrightarrow> rspVmError r \<noteq> []"

definition CallEVMWithData ::
  "('w, 'i) erc20_env \<Rightarrow> 'w \<Rightarrow> addr \<Rightarrow> addr option \<Rightarrow> byte list \<Rightarrow> bool \<Rightarrow> ('w \<times> evm_resp) result" where
  "CallEVMWithData e w from contract data commit =
     rbind (eGetSequence e w from) (\<lambda>nonce.
     rbind (if commit then eEstimateGas e w from contract data DefaultGasCap else Inr DefaultGasCap) (\<lambda>gasCap.
     rbind (eApplyMessage e w \<lparr>emFrom = from, emTo = contract, emNonce = nonce, emGas = gasCap, emData = data, emFake = \<not> commit\<rparr> commit)
       (\<lambda>(w, res). if rspFailed res then Inl (ErrExternal ''ErrVMExecution'') else Inr (w, res))))"

definition CallEVM ::
  "('w, 'i) erc20_env \<Rightarrow> 'w \<Rightarrow> addr \<Rightarrow> addr \<Rightarrow> bool \<Rightarrow> string \<Rightarrow> abi_arg list \<Rightarrow> ('w \<times> evm_resp) result" where
  "CallEVM e w from contract commit method' args =
     (case ePack e method' args of
        Inl _ \<Rightarrow> Inl ErrABIPack
      | Inr data \<Rightarrow> CallEVMWithData e w from (Some contract) data commit)"

text \<open>The balance, and the state after the call that reads it.\<close>

definition BalanceOf :: "('w, 'i) erc20_env \<Rightarrow> 'w \<Rightarrow> addr \<Rightarrow> addr \<Rightarrow> ('w \<times> int) option" where
  "BalanceOf e w contract acct =
     (case CallEVM e w (eModule e) contract False ''balanceOf'' [AAddr acct] of
        Inl _ \<Rightarrow> None
      | Inr (w, res) \<Rightarrow> (case eUnpackInt e (rspRet res) of None \<Rightarrow> None | Some b \<Rightarrow> Some (w, b)))"

record ERC20Data =
  edName :: string
  edSymbol :: string
  edDecimals :: byte

definition QueryERC20 :: "('w, 'i) erc20_env \<Rightarrow> 'w \<Rightarrow> addr \<Rightarrow> ('w \<times> ERC20Data) result" where
  "QueryERC20 e w contract =
     rbind (CallEVM e w (eModule e) contract False ''name'' []) (\<lambda>(w, res).
     case eUnpackString e ''name'' (rspRet res) of Inl _ \<Rightarrow> Inl ErrABIUnpack | Inr name \<Rightarrow>
     rbind (CallEVM e w (eModule e) contract False ''symbol'' []) (\<lambda>(w, res).
     case eUnpackString e ''symbol'' (rspRet res) of Inl _ \<Rightarrow> Inl ErrABIUnpack | Inr symbol \<Rightarrow>
     rbind (CallEVM e w (eModule e) contract False ''decimals'' []) (\<lambda>(w, res).
     case eUnpackUint8 e (rspRet res) of Inl _ \<Rightarrow> Inl ErrABIUnpack | Inr decimals \<Rightarrow>
     Inr (w, \<lparr>edName = name, edSymbol = symbol, edDecimals = decimals\<rparr>))))"

definition DeployERC20Contract :: "('w, 'i) erc20_env \<Rightarrow> 'w \<Rightarrow> Metadata \<Rightarrow> ('w \<times> addr) result" where
  "DeployERC20Contract e w coinMetadata =
     (let decimals = (if length (mdDenomUnits coinMetadata) > 0 then ucast (duExponent (last (mdDenomUnits coinMetadata))) else 0)
      in case eCtorPack e (mdName coinMetadata) (mdSymbol coinMetadata) decimals of
           Inl _ \<Rightarrow> Inl ErrABIPack
         | Inr ctorArgs \<Rightarrow>
             rbind (eGetSequence e w (eModule e)) (\<lambda>nonce.
             let contractAddr = acCreateAddress (eCodec e) (eModule e) nonce
             in rbind (CallEVMWithData e w (eModule e) None (eBin e @ ctorArgs) True) (\<lambda>(w, _).
                Inr (w, contractAddr))))"

text \<open>A log without topics makes the index \<^verbatim>\<open>Topics[0]\<close> panic.\<close>

fun monitor_logs :: "string \<Rightarrow> evm_log list \<Rightarrow> unit result" where
  "monitor_logs sig [] = Inr ()"
| "monitor_logs sig (l # ls) =
     (case lgTopics l of
        [] \<Rightarrow> Inl (Panic ''index out of range'')
      | t # ts \<Rightarrow> if t = sig then Inl ErrUnexpectedEvent else monitor_logs sig ls)"

definition monitorApprovalEvent :: "('w, 'i) erc20_env \<Rightarrow> evm_resp \<Rightarrow> unit result" where
  "monitorApprovalEvent e res = monitor_logs (eApprovalTopic e) (rspLogs res)"

section \<open>Registration\<close>

definition verifyMetadata :: "('w, 'i) erc20_env \<Rightarrow> 'w \<Rightarrow> Metadata \<Rightarrow> 'w result" where
  "verifyMetadata e w coinMetadata =
     (case eGetDenomMetaData e w (mdBase coinMetadata) of
        None \<Rightarrow> Inr (eSetDenomMetaData e w coinMetadata)
      | Some meta \<Rightarrow> rbind (EqualMetadata meta coinMetadata) (\<lambda>_. Inr w))"

definition store_pair :: "('w, 'i :: linorder) erc20_env \<Rightarrow> ('w, 'i) Erc20Ctx \<Rightarrow> TokenPair \<Rightarrow> ('w, 'i) Erc20Ctx" where
  "store_pair e cx pair =
     (let cx = SetTokenPair (eHash e) cx pair;
          cx = SetDenomMap cx (tpDenom pair) (GetID (eHash e) pair)
      in SetERC20Map cx (acHexToAddress (eCodec e) (Erc20Address pair)) (GetID (eHash e) pair))"

definition RegisterCoin ::
  "('w, 'i :: linorder) erc20_env \<Rightarrow> ('w, 'i) Erc20Ctx \<Rightarrow> Metadata \<Rightarrow> (('w, 'i) Erc20Ctx \<times> TokenPair) result" where
  "RegisterCoin e cx coinMetadata =
     (if IsDenomRegistered cx (mdName coinMetadata) then Inl ErrTokenPairAlreadyExists
      else if \<not> eHasSupply e (erSdk cx) (mdBase coinMetadata) then Inl ErrInvalidCoins
      else case verifyMetadata e (erSdk cx) coinMetadata of
          Inl _ \<Rightarrow> Inl ErrInternalTokenPair
        | Inr w \<Rightarrow>
            rbind (DeployERC20Contract e w coinMetadata) (\<lambda>(w, addr).
            let pair = NewTokenPair (eCodec e) addr (mdBase coinMetadata) OWNER_MODULE
            in Inr (store_pair e (cx\<lparr>erSdk := w\<rparr>) pair, pair)))"

definition coin_metadata :: "string \<Rightarrow> ERC20Data \<Rightarrow> Metadata" where
  "coin_metadata strContract erc20Data =
     (let base = CreateDenom strContract;
          unit = \<lparr>duDenom = base, duExponent = 0, duAliases = []\<rparr>;
          nameSanitized = SanitizeERC20Name (edName erc20Data)
      in if edDecimals erc20Data > 0 then
           \<lparr>mdDescription = CreateDenomDescription strContract,
            mdDenomUnits = [unit, \<lparr>duDenom = nameSanitized, duExponent = ucast (edDecimals erc20Data), duAliases = []\<rparr>],
            mdBase = base, mdDisplay = nameSanitized, mdName = CreateDenom strContract, mdSymbol = edSymbol erc20Data\<rparr>
         else
           \<lparr>mdDescription = CreateDenomDescription strContract, mdDenomUnits = [unit], mdBase = base, mdDisplay = base,
            mdName = CreateDenom strContract, mdSymbol = edSymbol erc20Data\<rparr>)"

definition CreateCoinMetadata ::
  "('w, 'i) erc20_env \<Rightarrow> ('w, 'i) Erc20Ctx \<Rightarrow> addr \<Rightarrow> (('w, 'i) Erc20Ctx \<times> Metadata) result" where
  "CreateCoinMetadata e cx contract =
     (let strContract = acHex (eCodec e) contract
      in rbind (QueryERC20 e (erSdk cx) contract) (\<lambda>(w, erc20Data).
         let cx = cx\<lparr>erSdk := w\<rparr>
         in if eGetDenomMetaData e w (CreateDenom strContract) \<noteq> None then Inl ErrInternalTokenPair
            else if IsDenomRegistered cx (CreateDenom strContract) then Inl ErrInternalTokenPair
            else
              let metadata = coin_metadata strContract erc20Data
              in rbind (eMetadata_Validate e metadata) (\<lambda>_.
                 Inr (cx\<lparr>erSdk := eSetDenomMetaData e w metadata\<rparr>, metadata))))"

definition RegisterERC20 ::
  "('w, 'i :: linorder) erc20_env \<Rightarrow> ('w, 'i) Erc20Ctx \<Rightarrow> addr \<Rightarrow> (('w, 'i) Erc20Ctx \<times> TokenPair) result" where
  "RegisterERC20 e cx contract =
     (if IsERC20Registered cx contract then Inl ErrTokenPairAlreadyExists
      else rbind (CreateCoinMetadata e cx contract) (\<lambda>(cx, metadata).
        let pair = NewTokenPair (eCodec e) contract (mdName metadata) OWNER_EXTERNAL
        in Inr (store_pair e cx pair, pair)))"

definition ToggleConversion ::
  "('w, 'i :: linorder) erc20_env \<Rightarrow> ('w, 'i) Erc20Ctx \<Rightarrow> string \<Rightarrow> (('w, 'i) Erc20Ctx \<times> TokenPair) result" where
  "ToggleConversion e cx token =
     (case GetTokenPairID (eCodec e) cx token of
        None \<Rightarrow> Inl ErrTokenPairNotFound
      | Some i \<Rightarrow> (case GetTokenPair cx (Some i) of
            None \<Rightarrow> Inl ErrTokenPairNotFound
          | Some pair \<Rightarrow>
              let pair = pair\<lparr>tpEnabled := \<not> tpEnabled pair\<rparr>
              in Inr (SetTokenPair (eHash e) cx pair, pair)))"

datatype erc20_content =
    RegisterERC20Proposal "string list"
  | ToggleTokenConversionProposal string
  | OtherErc20Content

fun handleRegisterERC20Proposal ::
  "('w, 'i :: linorder) erc20_env \<Rightarrow> ('w, 'i) Erc20Ctx \<Rightarrow> string list \<Rightarrow> ('w, 'i) Erc20Ctx result" where
  "handleRegisterERC20Proposal e cx [] = Inr cx"
| "handleRegisterERC20Proposal e cx (a # as) =
     rbind (RegisterERC20 e cx (acHexToAddress (eCodec e) a)) (\<lambda>(cx, pair).
     handleRegisterERC20Proposal e (erc20_emit cx (EventRegisterERC20 (tpDenom pair) (Erc20Address pair))) as)"

definition handleToggleConversionProposal ::
  "('w, 'i :: linorder) erc20_env \<Rightarrow> ('w, 'i) Erc20Ctx \<Rightarrow> string \<Rightarrow> ('w, 'i) Erc20Ctx result" where
  "handleToggleConversionProposal e cx token =
     rbind (ToggleConversion e cx token) (\<lambda>(cx, pair).
     Inr (erc20_emit cx (EventToggleTokenConversion (tpDenom pair) (Erc20Address pair))))"

definition NewErc20ProposalHandler ::
  "('w, 'i :: linorder) erc20_env \<Rightarrow> ('w, 'i) Erc20Ctx \<Rightarrow> erc20_content \<Rightarrow> ('w, 'i) Erc20Ctx result" where
  "NewErc20ProposalHandler e cx content =
     (if \<not> IsERC20Enabled cx then Inl ErrERC20Disabled
      else case content of
          RegisterERC20Proposal as \<Rightarrow> handleRegisterERC20Proposal e cx as
        | ToggleTokenConversionProposal token \<Rightarrow> handleToggleConversionProposal e cx token
        | OtherErc20Content \<Rightarrow> Inl ErrUnknownRequest)"

section \<open>Conversions\<close>

definition MintingEnabled :: "('w, 'i) erc20_env \<Rightarrow> ('w, 'i) Erc20Ctx \<Rightarrow> addr \<Rightarrow> addr \<Rightarrow> string \<Rightarrow> TokenPair result" where
  "MintingEnabled e cx sender receiver token =
     (if \<not> IsERC20Enabled cx then Inl ErrERC20Disabled
      else case GetTokenPairID (eCodec e) cx token of
          None \<Rightarrow> Inl ErrTokenPairNotFound
        | Some i \<Rightarrow> (case GetTokenPair cx (Some i) of
              None \<Rightarrow> Inl ErrTokenPairNotFound
            | Some pair \<Rightarrow>
                if \<not> tpEnabled pair then Inl ErrERC20TokenPairDisabled
                else if eBlockedAddr e receiver then Inl ErrUnauthorized
                else if sender \<noteq> receiver \<and> \<not> eIsSendEnabled e (erSdk cx) (tpDenom pair) then Inl (ErrExternal ''ErrSendDisabled'')
                else Inr pair))"

definition bal :: "('w \<times> int) option \<Rightarrow> ('w \<times> int) result" where
  "bal r = (case r of None \<Rightarrow> Inl ErrEVMCall | Some x \<Rightarrow> Inr x)"

definition convertCoinNativeCoin ::
  "('w, 'i) erc20_env \<Rightarrow> ('w, 'i) Erc20Ctx \<Rightarrow> TokenPair \<Rightarrow> MsgConvertCoin \<Rightarrow> addr \<Rightarrow> addr \<Rightarrow> ('w, 'i) Erc20Ctx result" where
  "convertCoinNativeCoin e cx pair msg receiver sender =
     (let contract = GetERC20Contract (eCodec e) pair;
          tokens = snd (ccCoin msg)
      in rbind (bal (BalanceOf e (erSdk cx) contract receiver)) (\<lambda>(w, balanceToken).
         rbind (eSendCoinsFromAccountToModule e w sender (ccCoin msg)) (\<lambda>w.
         rbind (CallEVM e w (eModule e) contract True ''mint'' [AAddr receiver, AInt tokens]) (\<lambda>(w, _).
         rbind (bal (BalanceOf e w contract receiver)) (\<lambda>(w, balanceTokenAfter).
         if balanceTokenAfter \<noteq> balanceToken + tokens then Inl ErrBalanceInvariance
         else Inr (erc20_emit (cx\<lparr>erSdk := w\<rparr>)
                (EventConvertCoin (ccSender msg) (ccReceiver msg) tokens (fst (ccCoin msg)) (Erc20Address pair))))))))"

definition convertERC20NativeCoin ::
  "('w, 'i) erc20_env \<Rightarrow> ('w, 'i) Erc20Ctx \<Rightarrow> TokenPair \<Rightarrow> MsgConvertERC20 \<Rightarrow> addr \<Rightarrow> addr \<Rightarrow> ('w, 'i) Erc20Ctx result" where
  "convertERC20NativeCoin e cx pair msg receiver sender =
     (let contract = GetERC20Contract (eCodec e) pair;
          tokens = ceAmount msg;
          balanceCoin = eGetBalance e (erSdk cx) receiver (tpDenom pair)
      in rbind (bal (BalanceOf e (erSdk cx) contract sender)) (\<lambda>(w, balanceToken).
         rbind (CallEVM e w (eModule e) contract True ''burnCoins'' [AAddr sender, AInt tokens]) (\<lambda>(w, _).
         rbind (eSendCoinsFromModuleToAccount e w receiver (tpDenom pair, tokens)) (\<lambda>w.
         rbind (NewIntFromBigInt (balanceCoin + tokens)) (\<lambda>expCoin.
         if eGetBalance e w receiver (tpDenom pair) \<noteq> expCoin then Inl ErrBalanceInvariance
         else rbind (bal (BalanceOf e w contract sender)) (\<lambda>(w, balanceTokenAfter).
           if balanceTokenAfter \<noteq> balanceToken - tokens then Inl ErrBalanceInvariance
           else Inr (erc20_emit (cx\<lparr>erSdk := w\<rparr>)
                  (EventConvertERC20 (ceSender msg) (ceReceiver msg) tokens (tpDenom pair) (ceContractAddress msg)))))))))"

definition convertERC20NativeToken ::
  "('w, 'i) erc20_env \<Rightarrow> ('w, 'i) Erc20Ctx \<Rightarrow> TokenPair \<Rightarrow> MsgConvertERC20 \<Rightarrow> addr \<Rightarrow> addr \<Rightarrow> ('w, 'i) Erc20Ctx result" where
  "convertERC20NativeToken e cx pair msg receiver sender =
     (let contract = GetERC20Contract (eCodec e) pair;
          tokens = ceAmount msg;
          balanceCoin = eGetBalance e (erSdk cx) receiver (tpDenom pair)
      in rbind (bal (BalanceOf e (erSdk cx) contract (eModule e))) (\<lambda>(w, balanceToken).
         rbind (ePack e ''transfer'' [AAddr (eModule e), AInt tokens]) (\<lambda>transferData.
         rbind (CallEVMWithData e w sender (Some contract) transferData True) (\<lambda>(w, res).
         rbind (eUnpackBool e (rspRet res)) (\<lambda>unpackedRet.
         if \<not> unpackedRet then Inl (ErrExternal ''ErrLogic'')
         else rbind (bal (BalanceOf e w contract (eModule e))) (\<lambda>(w, balanceTokenAfter).
           if balanceTokenAfter \<noteq> balanceToken + tokens then Inl ErrBalanceInvariance
           else rbind (eMintCoins e w (tpDenom pair, tokens)) (\<lambda>w.
             rbind (eSendCoinsFromModuleToAccount e w receiver (tpDenom pair, tokens)) (\<lambda>w.
             rbind (NewIntFromBigInt (balanceCoin + tokens)) (\<lambda>expCoin.
             if eGetBalance e w receiver (tpDenom pair) \<noteq> expCoin then Inl ErrBalanceInvariance
             else rbind (monitorApprovalEvent e res) (\<lambda>_.
               Inr (erc20_emit (cx\<lparr>erSdk := w\<rparr>)
                 (EventConvertERC20 (ceSender msg) (ceReceiver msg) tokens (tpDenom pair) (ceContractAddress msg)))))))))))))"

definition convertCoinNativeERC20 ::
  "('w, 'i) erc20_env \<Rightarrow> ('w, 'i) Erc20Ctx \<Rightarrow> TokenPair \<Rightarrow> MsgConvertCoin \<Rightarrow> addr \<Rightarrow> addr \<Rightarrow> ('w, 'i) Erc20Ctx result" where
  "convertCoinNativeERC20 e cx pair msg receiver sender =
     (let contract = GetERC20Contract (eCodec e) pair;
          tokens = snd (ccCoin msg)
      in rbind (bal (BalanceOf e (erSdk cx) contract receiver)) (\<lambda>(w, balanceToken).
         rbind (eSendCoinsFromAccountToModule e w sender (ccCoin msg)) (\<lambda>w.
         rbind (CallEVM e w (eModule e) contract True ''transfer'' [AAddr receiver, AInt tokens]) (\<lambda>(w, res).
         rbind (eUnpackBool e (rspRet res)) (\<lambda>unpackedRet.
         if \<not> unpackedRet then Inl (ErrExternal ''ErrLogic'')
         else rbind (bal (BalanceOf e w contract receiver)) (\<lambda>(w, balanceTokenAfter).
           if balanceTokenAfter \<noteq> balanceToken + tokens then Inl ErrBalanceInvariance
           else rbind (eBurnCoins e w (ccCoin msg)) (\<lambda>w.
             rbind (monitorApprovalEvent e res) (\<lambda>_.
             Inr (erc20_emit (cx\<lparr>erSdk := w\<rparr>)
               (EventConvertCoin (ccSender msg) (ccReceiver msg) tokens (fst (ccCoin msg)) (Erc20Address pair)))))))))))"

text \<open>A pair whose contract has no code is deleted, and the message succeeds without converting.\<close>

definition contract_gone :: "('w, 'i) erc20_env \<Rightarrow> 'w \<Rightarrow> TokenPair \<Rightarrow> bool" where
  "contract_gone e w pair \<longleftrightarrow>
     (case eGetAccount e w (acHexToAddress (eCodec e) (Erc20Address pair)) of
        None \<Rightarrow> True
      | Some acc \<Rightarrow> \<not> raw_IsContract (eKec e) acc)"

definition ConvertCoin :: "('w, 'i) erc20_env \<Rightarrow> ('w, 'i) Erc20Ctx \<Rightarrow> MsgConvertCoin \<Rightarrow> ('w, 'i) Erc20Ctx result" where
  "ConvertCoin e cx msg =
     (let receiver = acHexToAddress (eCodec e) (ccReceiver msg)
      in rbind (must_bech32 (eCodec e) (ccSender msg)) (\<lambda>sender.
         rbind (MintingEnabled e cx sender receiver (fst (ccCoin msg))) (\<lambda>pair.
         if contract_gone e (erSdk cx) pair then Inr (DeleteTokenPair (eCodec e) (eHash e) cx pair)
         else if IsNativeCoin pair then convertCoinNativeCoin e cx pair msg receiver sender
         else if IsNativeERC20 pair then convertCoinNativeERC20 e cx pair msg receiver sender
         else Inl ErrUndefinedOwner)))"

definition ConvertERC20 :: "('w, 'i) erc20_env \<Rightarrow> ('w, 'i) Erc20Ctx \<Rightarrow> MsgConvertERC20 \<Rightarrow> ('w, 'i) Erc20Ctx result" where
  "ConvertERC20 e cx msg =
     rbind (must_bech32 (eCodec e) (ceReceiver msg)) (\<lambda>receiver.
     let sender = acHexToAddress (eCodec e) (ceSender msg)
     in rbind (MintingEnabled e cx sender receiver (ceContractAddress msg)) (\<lambda>pair.
        if contract_gone e (erSdk cx) pair then Inr (DeleteTokenPair (eCodec e) (eHash e) cx pair)
        else if IsNativeCoin pair then convertERC20NativeCoin e cx pair msg receiver sender
        else if IsNativeERC20 pair then convertERC20NativeToken e cx pair msg receiver sender
        else Inl ErrUndefinedOwner))"

definition erc20_UpdateParams ::
  "('w, 'i) erc20_env \<Rightarrow> ('w, 'i) Erc20Ctx \<Rightarrow> string \<Rightarrow> bool \<times> bool \<Rightarrow> ('w, 'i) Erc20Ctx result" where
  "erc20_UpdateParams e cx reqAuthority params =
     (if acToBech32 (eCodec e) (eAuthority e) \<noteq> reqAuthority then Inl ErrInvalidSigner
      else Inr (erc20_SetParams cx params))"

datatype erc20_msg =
    EMsgConvertCoin MsgConvertCoin
  | EMsgConvertERC20 MsgConvertERC20
  | EMsgUpdateParams string "bool \<times> bool"
  | EMsgUnrecognized

definition erc20_NewHandler :: "('w, 'i) erc20_env \<Rightarrow> ('w, 'i) Erc20Ctx \<Rightarrow> erc20_msg \<Rightarrow> ('w, 'i) Erc20Ctx result" where
  "erc20_NewHandler e cx msg =
     (let cx = cx\<lparr>erEvents := []\<rparr>
      in case msg of
           EMsgConvertCoin m \<Rightarrow> ConvertCoin e cx m
         | EMsgConvertERC20 m \<Rightarrow> ConvertERC20 e cx m
         | EMsgUpdateParams a p \<Rightarrow> erc20_UpdateParams e cx a p
         | EMsgUnrecognized \<Rightarrow> Inl ErrUnknownRequest)"

section \<open>Genesis and queries\<close>

record Erc20Genesis =
  egParams :: "bool \<times> bool"
  egTokenPairs :: "TokenPair list"

definition erc20_DefaultParams :: "bool \<times> bool" where
  "erc20_DefaultParams = (True, True)"

definition erc20_DefaultGenesisState :: Erc20Genesis where
  "erc20_DefaultGenesisState = \<lparr>egParams = erc20_DefaultParams, egTokenPairs = []\<rparr>"

fun validate_pairs :: "('w, 'i) erc20_env \<Rightarrow> string set \<Rightarrow> string set \<Rightarrow> TokenPair list \<Rightarrow> unit result" where
  "validate_pairs e seenErc20 seenDenom [] = Inr ()"
| "validate_pairs e seenErc20 seenDenom (b # bs) =
     (if Erc20Address b \<in> seenErc20 then Inl (ErrText ''token ERC20 contract duplicated on genesis'')
      else if tpDenom b \<in> seenDenom then Inl (ErrText ''coin denomination duplicated on genesis'')
      else rbind (TokenPair_Validate (eCodec e) (eValidateDenom e) b) (\<lambda>_.
        validate_pairs e (insert (Erc20Address b) seenErc20) (insert (tpDenom b) seenDenom) bs))"

definition erc20_Genesis_Validate :: "('w, 'i) erc20_env \<Rightarrow> Erc20Genesis \<Rightarrow> unit result" where
  "erc20_Genesis_Validate e gs = validate_pairs e {} {} (egTokenPairs gs)"

text \<open>\<open>hasAccount\<close> tells whether \<^verbatim>\<open>GetModuleAccount\<close> finds the module's account.\<close>

definition erc20_InitGenesis ::
  "('w, 'i :: linorder) erc20_env \<Rightarrow> bool \<Rightarrow> ('w, 'i) Erc20Ctx \<Rightarrow> Erc20Genesis \<Rightarrow> ('w, 'i) Erc20Ctx result" where
  "erc20_InitGenesis e hasAccount cx gs =
     (let cx = erc20_SetParams cx (egParams gs)
      in if \<not> hasAccount then Inl (Panic ''the erc20 module account has not been set'')
         else Inr (foldl (store_pair e) cx (egTokenPairs gs)))"

definition erc20_ExportGenesis :: "('w, 'i) Erc20Ctx \<Rightarrow> Erc20Genesis" where
  "erc20_ExportGenesis cx = \<lparr>egParams = erc20_GetParams cx, egTokenPairs = GetTokenPairs cx\<rparr>"

definition q_TokenPairs ::
  "(('i \<times> TokenPair) list \<Rightarrow> ('i \<times> TokenPair) list result) \<Rightarrow> ('w, 'i) Erc20Ctx \<Rightarrow> TokenPair list result" where
  "q_TokenPairs paginate cx = rbind (paginate (erPairs cx)) (\<lambda>page. Inr (map snd page))"

definition q_TokenPair :: "('w, 'i) erc20_env \<Rightarrow> ('w, 'i) Erc20Ctx \<Rightarrow> string \<Rightarrow> TokenPair result" where
  "q_TokenPair e cx token =
     (if \<not> acIsHexAddress (eCodec e) token \<and> isl (eValidateDenom e token) then Inl (ErrText ''invalid format for token'')
      else case GetTokenPairID (eCodec e) cx token of
          None \<Rightarrow> Inl (ErrText ''token pair not found'')
        | Some i \<Rightarrow> (case GetTokenPair cx (Some i) of
              None \<Rightarrow> Inl (ErrText ''token pair not found'')
            | Some pair \<Rightarrow> Inr pair))"

end
