(* ===== verification/Erc20.thy ===== *)
theory Erc20
  imports Erc20Keeper
begin

text \<open>
  What the \<^verbatim>\<open>x/erc20\<close> module guarantees: the pairs and the two indexes of its store stay in
  step, and conversions of a coin whose contract the module owns keep the contract's supply
  backed by escrowed coins; and two ways in which registration and conversion take a token
  for another.
\<close>

section \<open>Pairs and indexes\<close>

definition erc20_inv :: "('w, 'i :: linorder) erc20_env \<Rightarrow> ('w, 'i) Erc20Ctx \<Rightarrow> bool" where
  "erc20_inv e cx \<longleftrightarrow> kv_ok (erPairs cx) \<and> kv_ok (erByERC20 cx) \<and> kv_ok (erByDenom cx)
     \<and> (\<forall>i p. kv_get (erPairs cx) i = Some p \<longrightarrow> i = GetID (eHash e) p \<and> acIsHexAddress (eCodec e) (Erc20Address p)
          \<and> GetERC20Map cx (GetERC20Contract (eCodec e) p) = Some i \<and> GetDenomMap cx (tpDenom p) = Some i)
     \<and> (\<forall>c i. GetERC20Map cx c = Some i \<longrightarrow> (\<exists>p. kv_get (erPairs cx) i = Some p \<and> GetERC20Contract (eCodec e) p = c))
     \<and> (\<forall>d i. GetDenomMap cx d = Some i \<longrightarrow> (\<exists>p. kv_get (erPairs cx) i = Some p \<and> tpDenom p = d))"

lemma erc20_invD:
  assumes "erc20_inv e cx"
  shows "kv_ok (erPairs cx)" "kv_ok (erByERC20 cx)" "kv_ok (erByDenom cx)"
    "kv_get (erPairs cx) i = Some p \<Longrightarrow> i = GetID (eHash e) p"
    "kv_get (erPairs cx) i = Some p \<Longrightarrow> acIsHexAddress (eCodec e) (Erc20Address p)"
    "kv_get (erPairs cx) i = Some p \<Longrightarrow> GetERC20Map cx (GetERC20Contract (eCodec e) p) = Some i"
    "kv_get (erPairs cx) i = Some p \<Longrightarrow> GetDenomMap cx (tpDenom p) = Some i"
    "GetERC20Map cx c = Some i \<Longrightarrow> \<exists>p. kv_get (erPairs cx) i = Some p \<and> GetERC20Contract (eCodec e) p = c"
    "GetDenomMap cx d = Some i \<Longrightarrow> \<exists>p. kv_get (erPairs cx) i = Some p \<and> tpDenom p = d"
  using assms unfolding erc20_inv_def by blast+

lemma erc20_inv_stores:
  "erc20_inv e cx \<Longrightarrow> erPairs cx' = erPairs cx \<Longrightarrow> erByERC20 cx' = erByERC20 cx \<Longrightarrow> erByDenom cx' = erByDenom cx \<Longrightarrow> erc20_inv e cx'"
  by (simp add: erc20_inv_def GetERC20Map_def GetDenomMap_def)

text \<open>Identifiers of pairs with valid addresses are as good as the address and the denomination.\<close>

lemma split_at_bar: "x @ c # y = x' @ c # y' \<Longrightarrow> c \<notin> set x \<Longrightarrow> c \<notin> set x' \<Longrightarrow> x = x' \<and> y = y'"
  by (induction x arbitrary: x') (auto simp: append_eq_Cons_conv Cons_eq_append_conv)

lemma GetID_inj:
  assumes "inj h" "codec_laws ac" "acIsHexAddress ac (Erc20Address p)" "acIsHexAddress ac (Erc20Address q)" "GetID h p = GetID h q"
  shows "Erc20Address p = Erc20Address q \<and> tpDenom p = tpDenom q"
proof -
  have "Erc20Address p @ CHR ''|'' # tpDenom p = Erc20Address q @ CHR ''|'' # tpDenom q"
    using injD [OF assms(1) assms(5) [unfolded GetID_def]] by simp
  then show ?thesis using codec_lawsD(5) [OF assms(2)] assms(3,4) by (intro split_at_bar) auto
qed

lemma store_pair_sel:
  "erPairs (store_pair e cx p) = kv_set (erPairs cx) (GetID (eHash e) p) p"
  "erByDenom (store_pair e cx p) = kv_set (erByDenom cx) (tpDenom p) (GetID (eHash e) p)"
  "erByERC20 (store_pair e cx p) = kv_set (erByERC20 cx) (GetERC20Contract (eCodec e) p) (GetID (eHash e) p)"
  "erSdk (store_pair e cx p) = erSdk cx"
  by (simp_all add: store_pair_def SetTokenPair_def SetDenomMap_def SetERC20Map_def GetERC20Contract_def)

lemma store_pair_inv:
  assumes "inj (eHash e)" "codec_laws (eCodec e)" "erc20_inv e cx" "acIsHexAddress (eCodec e) (Erc20Address p)"
    and "GetERC20Map cx (GetERC20Contract (eCodec e) p) = None" "GetDenomMap cx (tpDenom p) = None"
  shows "erc20_inv e (store_pair e cx p)"
proof -
  note i = erc20_invD [OF assms(3)]
  let ?i = "GetID (eHash e) p"
  have fresh: "kv_get (erPairs cx) ?i = None"
  proof (rule ccontr)
    assume "kv_get (erPairs cx) ?i \<noteq> None"
    then obtain q where q: "kv_get (erPairs cx) ?i = Some q" by auto
    have "Erc20Address p = Erc20Address q"
      using GetID_inj [OF assms(1,2,4) i(5) [OF q] i(4) [OF q]] by simp
    then show False using i(6) [OF q] assms(5) by (simp add: GetERC20Contract_def)
  qed
  note sel = store_pair_sel [of e cx p]
  have c: "GetERC20Map (store_pair e cx p) c = (if c = GetERC20Contract (eCodec e) p then Some ?i else GetERC20Map cx c)" for c
    using i(2) by (simp add: GetERC20Map_def sel kv_get_set)
  have d: "GetDenomMap (store_pair e cx p) d = (if d = tpDenom p then Some ?i else GetDenomMap cx d)" for d
    using i(3) by (simp add: GetDenomMap_def sel kv_get_set)
  have g: "kv_get (erPairs (store_pair e cx p)) j = (if j = ?i then Some p else kv_get (erPairs cx) j)" for j
    using i(1) by (simp add: sel kv_get_set)
  have old: "GetERC20Contract (eCodec e) q \<noteq> GetERC20Contract (eCodec e) p \<and> tpDenom q \<noteq> tpDenom p \<and> j \<noteq> ?i"
    if "kv_get (erPairs cx) j = Some q" for j q
    using i(6,7) [OF that] assms(5,6) fresh that by auto
  have "kv_ok (erPairs (store_pair e cx p)) \<and> kv_ok (erByERC20 (store_pair e cx p)) \<and> kv_ok (erByDenom (store_pair e cx p))"
    using i(1-3) by (simp add: sel kv_ok_set)
  moreover have "j = GetID (eHash e) q \<and> acIsHexAddress (eCodec e) (Erc20Address q)
      \<and> GetERC20Map (store_pair e cx p) (GetERC20Contract (eCodec e) q) = Some j
      \<and> GetDenomMap (store_pair e cx p) (tpDenom q) = Some j"
    if "kv_get (erPairs (store_pair e cx p)) j = Some q" for j q
    using that i(4-7) [of j q] old [of j q] assms(4) by (auto simp: g c d split: if_splits)
  moreover have "\<exists>q. kv_get (erPairs (store_pair e cx p)) j = Some q \<and> GetERC20Contract (eCodec e) q = a"
    if "GetERC20Map (store_pair e cx p) a = Some j" for a j
    using that i(8) [of a j] fresh by (auto simp: g c split: if_splits)
  moreover have "\<exists>q. kv_get (erPairs (store_pair e cx p)) j = Some q \<and> tpDenom q = a"
    if "GetDenomMap (store_pair e cx p) a = Some j" for a j
    using that i(9) [of a j] fresh by (auto simp: g d split: if_splits)
  ultimately show ?thesis unfolding erc20_inv_def by blast
qed

lemma DeleteTokenPair_inv:
  assumes "erc20_inv e cx" "kv_get (erPairs cx) i = Some p"
  shows "erc20_inv e (DeleteTokenPair (eCodec e) (eHash e) cx p)"
proof -
  note inv = erc20_invD [OF assms(1)]
  let ?cx = "DeleteTokenPair (eCodec e) (eHash e) cx p"
  note defs = DeleteTokenPair_def deleteDenomMap_def deleteERC20Map_def deleteTokenPair_def
  have i: "i = GetID (eHash e) p" "GetERC20Map cx (GetERC20Contract (eCodec e) p) = Some i" "GetDenomMap cx (tpDenom p) = Some i"
    using inv(4,6,7) [OF assms(2)] by simp_all
  have g: "kv_get (erPairs ?cx) j = (if j = i then None else kv_get (erPairs cx) j)"
    "GetERC20Map ?cx c = (if c = GetERC20Contract (eCodec e) p then None else GetERC20Map cx c)"
    "GetDenomMap ?cx d = (if d = tpDenom p then None else GetDenomMap cx d)" for j c d
    by (simp_all add: defs kv_get_delete GetERC20Map_def GetDenomMap_def i(1))
  have "kv_ok (erPairs ?cx) \<and> kv_ok (erByERC20 ?cx) \<and> kv_ok (erByDenom ?cx)" using inv(1-3) by (simp add: defs kv_ok_delete)
  moreover have "j = GetID (eHash e) q \<and> acIsHexAddress (eCodec e) (Erc20Address q)
      \<and> GetERC20Map ?cx (GetERC20Contract (eCodec e) q) = Some j \<and> GetDenomMap ?cx (tpDenom q) = Some j"
    if "kv_get (erPairs ?cx) j = Some q" for j q
    using that inv(4-7) [of j q] i by (auto simp: g split: if_splits)
  moreover have "\<exists>q. kv_get (erPairs ?cx) j = Some q \<and> GetERC20Contract (eCodec e) q = a" if "GetERC20Map ?cx a = Some j" for a j
    using that inv(8) [of a j] i assms(2) by (auto simp: g split: if_splits)
  moreover have "\<exists>q. kv_get (erPairs ?cx) j = Some q \<and> tpDenom q = a" if "GetDenomMap ?cx a = Some j" for a j
    using that inv(9) [of a j] i assms(2) by (auto simp: g split: if_splits)
  ultimately show ?thesis unfolding erc20_inv_def by blast
qed

text \<open>Replacing a pair by one with the same address and denomination.\<close>

lemma SetTokenPair_inv:
  assumes "erc20_inv e cx" "kv_get (erPairs cx) i = Some p" "Erc20Address q = Erc20Address p" "tpDenom q = tpDenom p"
  shows "erc20_inv e (SetTokenPair (eHash e) cx q)"
proof -
  note inv = erc20_invD [OF assms(1)]
  have i: "GetID (eHash e) q = i" "GetERC20Contract (eCodec e) q = GetERC20Contract (eCodec e) p"
    using inv(4) [OF assms(2)] assms(3,4) by (simp_all add: GetID_def GetERC20Contract_def)
  have g: "kv_get (erPairs (SetTokenPair (eHash e) cx q)) j = (if j = i then Some q else kv_get (erPairs cx) j)"
    "GetERC20Map (SetTokenPair (eHash e) cx q) c = GetERC20Map cx c" "GetDenomMap (SetTokenPair (eHash e) cx q) d = GetDenomMap cx d" for j c d
    using inv(1) by (simp_all add: SetTokenPair_def i kv_get_set GetERC20Map_def GetDenomMap_def)
  have ok: "kv_ok (erPairs (SetTokenPair (eHash e) cx q)) \<and> kv_ok (erByERC20 (SetTokenPair (eHash e) cx q)) \<and> kv_ok (erByDenom (SetTokenPair (eHash e) cx q))"
    using inv(1-3) by (simp add: SetTokenPair_def kv_ok_set)
  have a: "j = GetID (eHash e) r \<and> acIsHexAddress (eCodec e) (Erc20Address r)
      \<and> GetERC20Map cx (GetERC20Contract (eCodec e) r) = Some j \<and> GetDenomMap cx (tpDenom r) = Some j"
    if "(if j = i then Some q else kv_get (erPairs cx) j) = Some r" for j r
    using that inv(4-7) [of j] assms(2-4) i by (auto split: if_splits)
  have b: "\<exists>r. (if j = i then Some q else kv_get (erPairs cx) j) = Some r \<and> GetERC20Contract (eCodec e) r = c"
    if "GetERC20Map cx c = Some j" for c j
    using inv(8) [OF that] assms(2) i by auto
  have c: "\<exists>r. (if j = i then Some q else kv_get (erPairs cx) j) = Some r \<and> tpDenom r = d"
    if "GetDenomMap cx d = Some j" for d j
    using inv(9) [OF that] assms(2,4) by auto
  show ?thesis unfolding erc20_inv_def g using ok a b c by blast
qed

section \<open>Every operation keeps them in step\<close>

text \<open>A conversion touches the SDK's state and the events only.\<close>

definition same_stores :: "('w, 'i) Erc20Ctx \<Rightarrow> ('w, 'i) Erc20Ctx \<Rightarrow> bool" where
  "same_stores cx cx' \<longleftrightarrow> erPairs cx' = erPairs cx \<and> erByERC20 cx' = erByERC20 cx \<and> erByDenom cx' = erByDenom cx"

lemma convert_same_stores:
  "convertCoinNativeCoin e cx p m r s = Inr cx' \<Longrightarrow> same_stores cx cx'"
  "convertCoinNativeERC20 e cx p m r s = Inr cx' \<Longrightarrow> same_stores cx cx'"
  "convertERC20NativeCoin e cx p m' r s = Inr cx' \<Longrightarrow> same_stores cx cx'"
  "convertERC20NativeToken e cx p m' r s = Inr cx' \<Longrightarrow> same_stores cx cx'"
  unfolding convertCoinNativeCoin_def convertCoinNativeERC20_def convertERC20NativeCoin_def convertERC20NativeToken_def Let_def
  by (auto simp: rbind_Inr_iff same_stores_def erc20_emit_def split: if_splits)

lemma MintingEnabled_Inr:
  "MintingEnabled e cx s r token = Inr p \<longleftrightarrow> IsERC20Enabled cx
     \<and> (\<exists>i. GetTokenPairID (eCodec e) cx token = Some i \<and> kv_get (erPairs cx) i = Some p)
     \<and> tpEnabled p \<and> \<not> eBlockedAddr e r \<and> (s = r \<or> eIsSendEnabled e (erSdk cx) (tpDenom p))"
  by (auto simp: MintingEnabled_def GetTokenPair_def split: option.splits if_splits)

lemma ConvertCoin_stores:
  assumes "ConvertCoin e cx msg = Inr cx'"
  shows "same_stores cx cx' \<or> (\<exists>i p. kv_get (erPairs cx) i = Some p \<and> cx' = DeleteTokenPair (eCodec e) (eHash e) cx p)"
  using assms unfolding ConvertCoin_def Let_def
  by (auto simp: rbind_Inr_iff MintingEnabled_Inr dest: convert_same_stores split: if_splits)

lemma ConvertERC20_stores:
  assumes "ConvertERC20 e cx msg = Inr cx'"
  shows "same_stores cx cx' \<or> (\<exists>i p. kv_get (erPairs cx) i = Some p \<and> cx' = DeleteTokenPair (eCodec e) (eHash e) cx p)"
  using assms unfolding ConvertERC20_def Let_def
  by (auto simp: rbind_Inr_iff MintingEnabled_Inr dest: convert_same_stores split: if_splits)

lemma stores_inv:
  assumes "erc20_inv e cx"
    and "same_stores cx cx' \<or> (\<exists>i p. kv_get (erPairs cx) i = Some p \<and> cx' = DeleteTokenPair (eCodec e) (eHash e) cx p)"
  shows "erc20_inv e cx'"
  using assms(2)
proof (elim disjE exE conjE)
  assume "same_stores cx cx'"
  then show ?thesis using erc20_inv_stores [OF assms(1), of cx'] by (simp add: same_stores_def)
next
  fix i p assume "kv_get (erPairs cx) i = Some p" "cx' = DeleteTokenPair (eCodec e) (eHash e) cx p"
  then show ?thesis using DeleteTokenPair_inv [OF assms(1)] by simp
qed

lemma erc20_handler_inv:
  assumes "erc20_inv e cx" "erc20_NewHandler e cx m = Inr cx'"
  shows "erc20_inv e cx'"
proof -
  have i: "erc20_inv e (cx\<lparr>erEvents := []\<rparr>)" using erc20_inv_stores [OF assms(1), of "cx\<lparr>erEvents := []\<rparr>"] by simp
  show ?thesis
  proof (cases m)
    case (EMsgConvertCoin x)
    then show ?thesis using assms(2) stores_inv [OF i ConvertCoin_stores] by (simp add: erc20_NewHandler_def)
  next
    case (EMsgConvertERC20 x)
    then show ?thesis using assms(2) stores_inv [OF i ConvertERC20_stores] by (simp add: erc20_NewHandler_def)
  next
    case (EMsgUpdateParams a p)
    then have "same_stores (cx\<lparr>erEvents := []\<rparr>) cx'"
      using assms(2) by (auto simp: erc20_NewHandler_def erc20_UpdateParams_def erc20_SetParams_def setERC20Enabled_def
          setEnableEVMHook_def same_stores_def split: if_splits)
    then show ?thesis by (intro stores_inv [OF i] disjI1)
  qed (use assms(2) in \<open>simp add: erc20_NewHandler_def\<close>)
qed

lemma RegisterERC20_inv:
  assumes "inj (eHash e)" "codec_laws (eCodec e)" "erc20_inv e cx" "RegisterERC20 e cx c = Inr (cx', p)"
  shows "erc20_inv e cx'"
proof -
  obtain w d cx1 md where s: "\<not> IsERC20Registered cx c" "QueryERC20 e (erSdk cx) c = Inr (w, d)"
    "\<not> IsDenomRegistered cx (CreateDenom (acHex (eCodec e) c))" "md = coin_metadata (acHex (eCodec e) c) d"
    "cx1 = cx\<lparr>erSdk := eSetDenomMetaData e w md\<rparr>"
    and p: "p = NewTokenPair (eCodec e) c (mdName md) OWNER_EXTERNAL" "cx' = store_pair e cx1 p"
    using assms(4) unfolding RegisterERC20_def CreateCoinMetadata_def Let_def
    by (auto simp: rbind_Inr_iff IsDenomRegistered_def split: if_splits)
  have i: "erc20_inv e cx1" using erc20_inv_stores [OF assms(3), of cx1] s(5) by simp
  have name: "mdName md = CreateDenom (acHex (eCodec e) c)" by (simp add: s(4) coin_metadata_def Let_def)
  show ?thesis
    unfolding p(2)
    by (rule store_pair_inv [OF assms(1,2) i])
       (use s(1,3,5) p(1) name assms(2) in \<open>simp_all add: NewTokenPair_def codec_lawsD GetERC20Contract_def
          IsERC20Registered_def IsDenomRegistered_def GetERC20Map_def GetDenomMap_def\<close>)
qed

lemma erc20_proposal_inv:
  assumes "inj (eHash e)" "codec_laws (eCodec e)" "erc20_inv e cx" "NewErc20ProposalHandler e cx content = Inr cx'"
  shows "erc20_inv e cx'"
proof (cases content)
  case (RegisterERC20Proposal as)
  have "handleRegisterERC20Proposal e cx as = Inr cx'"
    using assms(4) RegisterERC20Proposal by (simp add: NewErc20ProposalHandler_def split: if_splits)
  then show ?thesis using assms(3)
  proof (induction as arbitrary: cx)
    case (Cons a as)
    obtain cx1 p where r: "RegisterERC20 e cx (acHexToAddress (eCodec e) a) = Inr (cx1, p)"
      "handleRegisterERC20Proposal e (erc20_emit cx1 (EventRegisterERC20 (tpDenom p) (Erc20Address p))) as = Inr cx'"
      using Cons.prems(1) by (auto simp: rbind_Inr_iff)
    have "erc20_inv e (erc20_emit cx1 (EventRegisterERC20 (tpDenom p) (Erc20Address p)))"
      by (rule erc20_inv_stores [OF RegisterERC20_inv [OF assms(1,2) Cons.prems(2) r(1)]]) (simp_all add: erc20_emit_def)
    then show ?case by (rule Cons.IH [OF r(2)])
  qed simp
next
  case (ToggleTokenConversionProposal token)
  then obtain i p where p: "kv_get (erPairs cx) i = Some p"
    "cx' = erc20_emit (SetTokenPair (eHash e) cx (p\<lparr>tpEnabled := \<not> tpEnabled p\<rparr>)) (EventToggleTokenConversion (tpDenom p) (Erc20Address p))"
    using assms(4) by (auto simp: NewErc20ProposalHandler_def handleToggleConversionProposal_def ToggleConversion_def GetTokenPair_def
        Let_def split: if_splits option.splits)
  have "erc20_inv e (SetTokenPair (eHash e) cx (p\<lparr>tpEnabled := \<not> tpEnabled p\<rparr>))"
    by (rule SetTokenPair_inv [OF assms(3) p(1)]) simp_all
  then show ?thesis by (rule erc20_inv_stores) (simp_all add: p(2) erc20_emit_def)
qed (use assms(4) in \<open>simp add: NewErc20ProposalHandler_def split: if_splits\<close>)

lemma import_pairs_inv:
  assumes "inj (eHash e)" "codec_laws (eCodec e)" "erc20_inv e cx" "\<forall>p \<in> set ps. acIsHexAddress (eCodec e) (Erc20Address p)"
    and "distinct (map (GetERC20Contract (eCodec e)) ps)" "distinct (map tpDenom ps)"
    and "\<forall>p \<in> set ps. GetERC20Map cx (GetERC20Contract (eCodec e) p) = None \<and> GetDenomMap cx (tpDenom p) = None"
  shows "erc20_inv e (foldl (store_pair e) cx ps)"
  using assms(3-)
proof (induction ps arbitrary: cx)
  case (Cons p ps)
  have "erc20_inv e (store_pair e cx p)" using Cons.prems by (intro store_pair_inv [OF assms(1,2)]) simp_all
  moreover have "GetERC20Map (store_pair e cx p) (GetERC20Contract (eCodec e) q) = None \<and> GetDenomMap (store_pair e cx p) (tpDenom q) = None"
    if "q \<in> set ps" for q
    using that Cons.prems erc20_invD(2,3) [OF Cons.prems(1)]
    by (auto simp: GetERC20Map_def GetDenomMap_def store_pair_sel kv_get_set image_iff)
  ultimately show ?case using Cons.IH [of "store_pair e cx p"] Cons.prems by simp
qed simp

lemma validate_pairs_Inr:
  "validate_pairs e A D ps = Inr () \<Longrightarrow> (\<forall>p \<in> set ps. acIsHexAddress (eCodec e) (Erc20Address p)) \<and> distinct (map tpDenom ps) \<and> D \<inter> set (map tpDenom ps) = {}"
proof (induction ps arbitrary: A D)
  case (Cons p ps)
  have "validate_pairs e (insert (Erc20Address p) A) (insert (tpDenom p) D) ps = Inr ()" "tpDenom p \<notin> D"
    "acIsHexAddress (eCodec e) (Erc20Address p)"
    using Cons.prems by (auto simp: TokenPair_Validate_def rbind_Inr_iff split: if_splits)
  with Cons.IH show ?case by fastforce
qed simp

text \<open>The transitions: messages, governance proposals, and what the rest of the chain does.\<close>

inductive erc20_step :: "('w, 'i :: linorder) erc20_env \<Rightarrow> ('w, 'i) Erc20Ctx \<Rightarrow> ('w, 'i) Erc20Ctx \<Rightarrow> bool" for e where
  message: "erc20_NewHandler e cx m = Inr cx' \<Longrightarrow> erc20_step e cx cx'"
| proposal: "NewErc20ProposalHandler e cx content = Inr cx' \<Longrightarrow> erc20_step e cx cx'"
| others: "erc20_step e cx (cx\<lparr>erSdk := w, erEvents := evs\<rparr>)"

lemma erc20_step_inv:
  assumes "inj (eHash e)" "codec_laws (eCodec e)" "erc20_inv e cx" "erc20_step e cx cx'"
  shows "erc20_inv e cx'"
  using assms(4)
proof cases
  case (message m)
  then show ?thesis using erc20_handler_inv [OF assms(3)] by simp
next
  case (proposal content)
  then show ?thesis using erc20_proposal_inv [OF assms(1-3)] by simp
next
  case (others w evs)
  then show ?thesis using erc20_inv_stores [OF assms(3), of cx'] by simp
qed


section \<open>The bank and the module's contract\<close>

definition move_coin :: "addr \<Rightarrow> addr \<Rightarrow> coin \<Rightarrow> (addr \<Rightarrow> string \<Rightarrow> int) \<Rightarrow> addr \<Rightarrow> string \<Rightarrow> int" where
  "move_coin a b c bl = credit b (NewCoin (fst c) (snd c)) (debit a (NewCoin (fst c) (snd c)) bl)"

text \<open>
  The bank moves positive amounts and leaves token balances and supplies alone; a call that
  does not commit leaves the state as it is. For the contract \<open>c\<close>, which is the module's
  \<^verbatim>\<open>ERC20MinterBurnerDecimals\<close>: \<^verbatim>\<open>balanceOf\<close> answers the balance, \<^verbatim>\<open>mint\<close> and \<^verbatim>\<open>burnCoins\<close> change
  the balance of one account and the supply by the amount, and neither moves coins.
\<close>

definition minter_laws ::
  "('w, 'i) erc20_env \<Rightarrow> ('w \<Rightarrow> addr \<Rightarrow> addr \<Rightarrow> int) \<Rightarrow> ('w \<Rightarrow> addr \<Rightarrow> int) \<Rightarrow> addr \<Rightarrow> bool" where
  "minter_laws e tok supply c \<longleftrightarrow>
     (\<forall>w a d n w'. eSendCoinsFromAccountToModule e w a (d, n) = Inr w' \<longrightarrow> 0 < n
        \<and> eGetBalance e w' = move_coin a (eModule e) (d, n) (eGetBalance e w) \<and> tok w' = tok w \<and> supply w' = supply w)
   \<and> (\<forall>w a d n w'. eSendCoinsFromModuleToAccount e w a (d, n) = Inr w' \<longrightarrow> 0 < n
        \<and> eGetBalance e w' = move_coin (eModule e) a (d, n) (eGetBalance e w) \<and> tok w' = tok w \<and> supply w' = supply w)
   \<and> (\<forall>w a w' r. CallEVM e w (eModule e) c False ''balanceOf'' [AAddr a] = Inr (w', r) \<longrightarrow>
        w' = w \<and> eUnpackInt e (rspRet r) = Some (tok w c a))
   \<and> (\<forall>w a n w' r. CallEVM e w (eModule e) c True ''mint'' [AAddr a, AInt n] = Inr (w', r) \<longrightarrow>
        eGetBalance e w' = eGetBalance e w \<and> tok w' c = (tok w c)(a := tok w c a + n) \<and> supply w' c = supply w c + n)
   \<and> (\<forall>w a n w' r. CallEVM e w (eModule e) c True ''burnCoins'' [AAddr a, AInt n] = Inr (w', r) \<longrightarrow>
        eGetBalance e w' = eGetBalance e w \<and> tok w' c = (tok w c)(a := tok w c a - n) \<and> supply w' c = supply w c - n)"

lemma minter_lawsD:
  assumes "minter_laws e tok supply c"
  shows "eSendCoinsFromAccountToModule e w a k = Inr w' \<Longrightarrow> 0 < snd k
        \<and> eGetBalance e w' = move_coin a (eModule e) k (eGetBalance e w) \<and> tok w' = tok w \<and> supply w' = supply w"
    and "eSendCoinsFromModuleToAccount e w a k = Inr w' \<Longrightarrow> 0 < snd k
        \<and> eGetBalance e w' = move_coin (eModule e) a k (eGetBalance e w) \<and> tok w' = tok w \<and> supply w' = supply w"
    and "BalanceOf e w c a = Some (w', b) \<Longrightarrow> w' = w \<and> b = tok w c a"
    and "CallEVM e w (eModule e) c True ''mint'' [AAddr a, AInt n] = Inr (w', r) \<Longrightarrow>
        eGetBalance e w' = eGetBalance e w \<and> tok w' c = (tok w c)(a := tok w c a + n) \<and> supply w' c = supply w c + n"
    and "CallEVM e w (eModule e) c True ''burnCoins'' [AAddr a, AInt n] = Inr (w', r) \<Longrightarrow>
        eGetBalance e w' = eGetBalance e w \<and> tok w' c = (tok w c)(a := tok w c a - n) \<and> supply w' c = supply w c - n"
proof -
  note l = assms [unfolded minter_laws_def]
  note l2 = conjunct2 [OF l] and l3 = conjunct2 [OF conjunct2 [OF l]]
  note l4 = conjunct2 [OF l3] and l5 = conjunct2 [OF conjunct2 [OF l3]]
  show "eSendCoinsFromAccountToModule e w a k = Inr w' \<Longrightarrow> 0 < snd k
        \<and> eGetBalance e w' = move_coin a (eModule e) k (eGetBalance e w) \<and> tok w' = tok w \<and> supply w' = supply w"
    using conjunct1 [OF l] by (cases k) auto
  show "eSendCoinsFromModuleToAccount e w a k = Inr w' \<Longrightarrow> 0 < snd k
        \<and> eGetBalance e w' = move_coin (eModule e) a k (eGetBalance e w) \<and> tok w' = tok w \<and> supply w' = supply w"
    using conjunct1 [OF l2] by (cases k) auto
  show "BalanceOf e w c a = Some (w', b) \<Longrightarrow> w' = w \<and> b = tok w c a"
    using conjunct1 [OF l3] by (force simp: BalanceOf_def split: sum.splits option.splits prod.splits)
  show "CallEVM e w (eModule e) c True ''mint'' [AAddr a, AInt n] = Inr (w', r) \<Longrightarrow>
        eGetBalance e w' = eGetBalance e w \<and> tok w' c = (tok w c)(a := tok w c a + n) \<and> supply w' c = supply w c + n"
    using conjunct1 [OF l4] by blast
  show "CallEVM e w (eModule e) c True ''burnCoins'' [AAddr a, AInt n] = Inr (w', r) \<Longrightarrow>
        eGetBalance e w' = eGetBalance e w \<and> tok w' c = (tok w c)(a := tok w c a - n) \<and> supply w' c = supply w c - n"
    using l5 by blast
qed

lemma bal_Inr [simp]: "bal r = Inr x \<longleftrightarrow> r = Some x"
  by (simp add: bal_def split: option.split)

lemma convertCoinNativeCoin_effect:
  assumes "minter_laws e tok supply (GetERC20Contract (eCodec e) p)" "convertCoinNativeCoin e cx p msg r s = Inr cx'"
  defines "c \<equiv> GetERC20Contract (eCodec e) p" and "n \<equiv> snd (ccCoin msg)"
  shows "0 < n \<and> eGetBalance e (erSdk cx') = move_coin s (eModule e) (ccCoin msg) (eGetBalance e (erSdk cx))
     \<and> tok (erSdk cx') c = (tok (erSdk cx) c)(r := tok (erSdk cx) c r + n) \<and> supply (erSdk cx') c = supply (erSdk cx) c + n"
proof -
  note l = minter_lawsD [OF assms(1), folded c_def]
  obtain w1 b w2 w3 res w4 b' where s: "BalanceOf e (erSdk cx) c r = Some (w1, b)"
    "eSendCoinsFromAccountToModule e w1 s (ccCoin msg) = Inr w2"
    "CallEVM e w2 (eModule e) c True ''mint'' [AAddr r, AInt n] = Inr (w3, res)"
    "BalanceOf e w3 c r = Some (w4, b')" "erSdk cx' = w4"
    using assms(2) unfolding convertCoinNativeCoin_def Let_def c_def n_def
    by (auto simp: rbind_Inr_iff erc20_emit_def split: if_splits)
  show ?thesis using l(3) [OF s(1)] l(1) [OF s(2)] l(4) [OF s(3)] l(3) [OF s(4)] s(5) by (simp add: n_def)
qed

lemma convertERC20NativeCoin_effect:
  assumes "minter_laws e tok supply (GetERC20Contract (eCodec e) p)" "convertERC20NativeCoin e cx p msg r s = Inr cx'"
  defines "c \<equiv> GetERC20Contract (eCodec e) p" and "n \<equiv> ceAmount msg"
  shows "0 < n \<and> eGetBalance e (erSdk cx') = move_coin (eModule e) r (tpDenom p, n) (eGetBalance e (erSdk cx))
     \<and> tok (erSdk cx') c = (tok (erSdk cx) c)(s := tok (erSdk cx) c s - n) \<and> supply (erSdk cx') c = supply (erSdk cx) c - n"
proof -
  note l = minter_lawsD [OF assms(1), folded c_def]
  obtain w1 b w2 res w3 w4 b' where s: "BalanceOf e (erSdk cx) c s = Some (w1, b)"
    "CallEVM e w1 (eModule e) c True ''burnCoins'' [AAddr s, AInt n] = Inr (w2, res)"
    "eSendCoinsFromModuleToAccount e w2 r (tpDenom p, n) = Inr w3"
    "BalanceOf e w3 c s = Some (w4, b')" "erSdk cx' = w4"
    using assms(2) unfolding convertERC20NativeCoin_def Let_def c_def n_def
    by (auto simp: rbind_Inr_iff erc20_emit_def split: if_splits)
  show ?thesis using l(3) [OF s(1)] l(5) [OF s(2)] l(2) [OF s(3)] l(3) [OF s(4)] s(5) by simp
qed

text \<open>The pair a message finds.\<close>

lemma pair_by_denom:
  assumes "erc20_inv e cx" "kv_get (erPairs cx) i = Some p" "\<not> acIsHexAddress (eCodec e) (tpDenom p)"
    and "MintingEnabled e cx s r (tpDenom p) = Inr q"
  shows "q = p"
  using assms erc20_invD(7) [OF assms(1,2)] by (auto simp: MintingEnabled_Inr GetTokenPairID_def)

lemma pair_by_contract:
  assumes "erc20_inv e cx" "kv_get (erPairs cx) i = Some p" "acIsHexAddress (eCodec e) token"
    and "acHexToAddress (eCodec e) token = GetERC20Contract (eCodec e) p" "MintingEnabled e cx s r token = Inr q"
  shows "q = p"
  using assms erc20_invD(6) [OF assms(1,2)] by (auto simp: MintingEnabled_Inr GetTokenPairID_def)

definition backing :: "('w, 'i) erc20_env \<Rightarrow> ('w \<Rightarrow> addr \<Rightarrow> int) \<Rightarrow> TokenPair \<Rightarrow> 'w \<Rightarrow> int" where
  "backing e supply p w = eGetBalance e w (eModule e) (tpDenom p) - supply w (GetERC20Contract (eCodec e) p)"

lemma move_coin_simps:
  "a \<noteq> m \<Longrightarrow> 0 \<le> n \<Longrightarrow> move_coin a m (d, n) bl m d = bl m d + n"
  "a \<noteq> m \<Longrightarrow> 0 \<le> n \<Longrightarrow> move_coin m a (d, n) bl m d = bl m d - n"
  "d' \<noteq> d \<Longrightarrow> move_coin a b (d, n) bl m d' = bl m d'"
  by (simp_all add: move_coin_def credit_def debit_def)

text \<open>
  C14. For a coin whose contract the module owns, conversion keeps the tokens backed: converting
  coins moves exactly the amount from the sender into the module's escrow and gives the
  receiver as many new tokens; converting tokens burns exactly the amount of the sender's
  tokens and releases as many coins from escrow to the receiver. The escrowed coins minus the
  supply of tokens stay the same.
\<close>

theorem native_conversions_backed:
  assumes "erc20_inv e cx" "kv_get (erPairs cx) i = Some p" "IsNativeCoin p" "\<not> contract_gone e (erSdk cx) p"
    and "minter_laws e tok supply (GetERC20Contract (eCodec e) p)" "eBlockedAddr e (eModule e)"
  defines "c \<equiv> GetERC20Contract (eCodec e) p"
  shows "(\<forall>msg cx' s. ConvertCoin e cx msg = Inr cx' \<and> fst (ccCoin msg) = tpDenom p \<and> \<not> acIsHexAddress (eCodec e) (tpDenom p)
            \<and> acFromBech32 (eCodec e) (ccSender msg) = Some s \<and> s \<noteq> eModule e
          \<longrightarrow> (let n = snd (ccCoin msg); r = acHexToAddress (eCodec e) (ccReceiver msg)
               in 0 < n \<and> eGetBalance e (erSdk cx') = move_coin s (eModule e) (tpDenom p, n) (eGetBalance e (erSdk cx))
                  \<and> tok (erSdk cx') c = (tok (erSdk cx) c)(r := tok (erSdk cx) c r + n)
                  \<and> backing e supply p (erSdk cx') = backing e supply p (erSdk cx)))
     \<and> (\<forall>msg cx' r. ConvertERC20 e cx msg = Inr cx' \<and> acIsHexAddress (eCodec e) (ceContractAddress msg)
            \<and> acHexToAddress (eCodec e) (ceContractAddress msg) = c \<and> acFromBech32 (eCodec e) (ceReceiver msg) = Some r
          \<longrightarrow> (let n = ceAmount msg; s = acHexToAddress (eCodec e) (ceSender msg)
               in 0 < n \<and> eGetBalance e (erSdk cx') = move_coin (eModule e) r (tpDenom p, n) (eGetBalance e (erSdk cx))
                  \<and> tok (erSdk cx') c = (tok (erSdk cx) c)(s := tok (erSdk cx) c s - n)
                  \<and> backing e supply p (erSdk cx') = backing e supply p (erSdk cx)))"
proof (intro conjI allI impI; elim conjE)
  fix msg cx' s
  assume run: "ConvertCoin e cx msg = Inr cx'" "fst (ccCoin msg) = tpDenom p" "\<not> acIsHexAddress (eCodec e) (tpDenom p)"
    and s: "acFromBech32 (eCodec e) (ccSender msg) = Some s" "s \<noteq> eModule e"
  let ?r = "acHexToAddress (eCodec e) (ccReceiver msg)"
  obtain q where q: "MintingEnabled e cx s ?r (tpDenom p) = Inr q"
    using run(1,2) s(1) unfolding ConvertCoin_def Let_def by (auto simp: rbind_Inr_iff)
  have "q = p" by (rule pair_by_denom [OF assms(1,2) run(3) q])
  then have "convertCoinNativeCoin e cx p msg ?r s = Inr cx'"
    using run(1,2) s(1) q assms(3,4) unfolding ConvertCoin_def Let_def by (auto simp: rbind_Inr_iff must_bech32_def)
  note eff = convertCoinNativeCoin_effect [OF assms(5) this]
  obtain n where k: "ccCoin msg = (tpDenom p, n)" using run(2) by (cases "ccCoin msg") simp
  show "let n = snd (ccCoin msg); r = ?r in 0 < n
      \<and> eGetBalance e (erSdk cx') = move_coin s (eModule e) (tpDenom p, n) (eGetBalance e (erSdk cx))
      \<and> tok (erSdk cx') c = (tok (erSdk cx) c)(r := tok (erSdk cx) c r + n)
      \<and> backing e supply p (erSdk cx') = backing e supply p (erSdk cx)"
    using eff k s(2) by (simp add: Let_def c_def backing_def move_coin_simps)
next
  fix msg cx' r
  assume run: "ConvertERC20 e cx msg = Inr cx'" and t: "acIsHexAddress (eCodec e) (ceContractAddress msg)"
    "acHexToAddress (eCodec e) (ceContractAddress msg) = c" and r: "acFromBech32 (eCodec e) (ceReceiver msg) = Some r"
  let ?s = "acHexToAddress (eCodec e) (ceSender msg)"
  obtain q where q: "MintingEnabled e cx ?s r (ceContractAddress msg) = Inr q"
    using run r unfolding ConvertERC20_def Let_def by (auto simp: rbind_Inr_iff)
  have "q = p" by (rule pair_by_contract [OF assms(1,2) t [unfolded c_def] q])
  then have run': "convertERC20NativeCoin e cx p msg r ?s = Inr cx'"
    using run r q assms(3,4) unfolding ConvertERC20_def Let_def by (auto simp: rbind_Inr_iff must_bech32_def)
  have rm: "r \<noteq> eModule e" using q assms(6) by (auto simp: MintingEnabled_Inr)
  show "let n = ceAmount msg; s = ?s in 0 < n
      \<and> eGetBalance e (erSdk cx') = move_coin (eModule e) r (tpDenom p, n) (eGetBalance e (erSdk cx))
      \<and> tok (erSdk cx') c = (tok (erSdk cx) c)(s := tok (erSdk cx) c s - n)
      \<and> backing e supply p (erSdk cx') = backing e supply p (erSdk cx)"
    using convertERC20NativeCoin_effect [OF assms(5) run'] rm by (simp add: Let_def c_def backing_def move_coin_simps)
qed

text \<open>
  C37. The token of a conversion is looked up by its name, and a denomination that reads as a
  hexadecimal address is taken for a contract. A coin whose denomination spells the contract
  of a pair is therefore converted into that pair's tokens: they are minted, while nothing of
  the pair's own denomination goes into escrow, so the backing of the tokens falls by the
  amount.
\<close>

theorem hex_denom_unbacked:
  assumes "erc20_inv e cx" "kv_get (erPairs cx) i = Some p" "IsNativeCoin p" "\<not> contract_gone e (erSdk cx) p"
    and "minter_laws e tok supply (GetERC20Contract (eCodec e) p)" "ConvertCoin e cx msg = Inr cx'"
    and "acIsHexAddress (eCodec e) (fst (ccCoin msg))" "acHexToAddress (eCodec e) (fst (ccCoin msg)) = GetERC20Contract (eCodec e) p"
    and "fst (ccCoin msg) \<noteq> tpDenom p"
  shows "0 < snd (ccCoin msg)
     \<and> supply (erSdk cx') (GetERC20Contract (eCodec e) p) = supply (erSdk cx) (GetERC20Contract (eCodec e) p) + snd (ccCoin msg)
     \<and> backing e supply p (erSdk cx') = backing e supply p (erSdk cx) - snd (ccCoin msg)"
proof -
  let ?r = "acHexToAddress (eCodec e) (ccReceiver msg)"
  obtain s q where q: "acFromBech32 (eCodec e) (ccSender msg) = Some s" "MintingEnabled e cx s ?r (fst (ccCoin msg)) = Inr q"
    using assms(6) unfolding ConvertCoin_def Let_def by (auto simp: rbind_Inr_iff)
  have "q = p" by (rule pair_by_contract [OF assms(1,2,7,8) q(2)])
  then have "convertCoinNativeCoin e cx p msg ?r s = Inr cx'"
    using assms(3,4,6) q unfolding ConvertCoin_def Let_def by (auto simp: rbind_Inr_iff must_bech32_def)
  note eff = convertCoinNativeCoin_effect [OF assms(5) this]
  have k: "ccCoin msg = (fst (ccCoin msg), snd (ccCoin msg))" by simp
  show ?thesis
    using eff assms(9) move_coin_simps(3) [of "tpDenom p" "fst (ccCoin msg)" s "eModule e" "snd (ccCoin msg)"]
    by (simp add: backing_def)
qed

section \<open>Registration of a coin\<close>

text \<open>
  C38. \<^verbatim>\<open>RegisterCoin\<close> checks that the metadata's name is not registered, but registers the base
  denomination. When the two differ, a denomination that already has a pair is registered
  again: the denomination then leads to the new pair only, while the old pair stays in the
  store, enabled, and is still found by its contract.
\<close>

theorem RegisterCoin_shadows_pair:
  assumes "inj (eHash e)" "codec_laws (eCodec e)" "erc20_inv e cx" "GetDenomMap cx (mdBase md) = Some i" "kv_get (erPairs cx) i = Some p"
    and "\<not> IsDenomRegistered cx (mdName md)" "eHasSupply e (erSdk cx) (mdBase md)"
    and "verifyMetadata e (erSdk cx) md = Inr w" "DeployERC20Contract e w md = Inr (w', a)" "\<not> IsERC20Registered cx a"
  shows "\<exists>cx' q. RegisterCoin e cx md = Inr (cx', q) \<and> tpDenom q = tpDenom p
     \<and> GetDenomMap cx' (tpDenom p) = Some (GetID (eHash e) q) \<and> GetID (eHash e) q \<noteq> i
     \<and> GetTokenPair cx' (Some i) = Some p \<and> GetERC20Map cx' (GetERC20Contract (eCodec e) p) = Some i"
proof -
  note inv = erc20_invD [OF assms(3)]
  let ?q = "NewTokenPair (eCodec e) a (mdBase md) OWNER_MODULE" and ?cx = "cx\<lparr>erSdk := w'\<rparr>"
  let ?j = "GetID (eHash e) ?q"
  have run: "RegisterCoin e cx md = Inr (store_pair e ?cx ?q, ?q)"
    using assms(6-9) by (simp add: RegisterCoin_def Let_def)
  have d: "tpDenom p = mdBase md" using inv(9) [OF assms(4)] assms(5) by auto
  have cq: "GetERC20Contract (eCodec e) ?q = a" using assms(2) by (simp add: NewTokenPair_def GetERC20Contract_def codec_lawsD)
  have old: "GetERC20Contract (eCodec e) p \<noteq> a" using inv(6) [OF assms(5)] assms(10) by (auto simp: IsERC20Registered_def GetERC20Map_def)
  have ne: "?j \<noteq> i"
  proof
    assume "?j = i"
    then have "GetID (eHash e) ?q = GetID (eHash e) p" using inv(4) [OF assms(5)] by simp
    from GetID_inj [OF assms(1,2) _ inv(5) [OF assms(5)] this] have "Erc20Address ?q = Erc20Address p"
      using assms(2) by (simp add: NewTokenPair_def codec_lawsD)
    then show False using old cq by (simp add: GetERC20Contract_def)
  qed
  have "tpDenom ?q = mdBase md" by (simp add: NewTokenPair_def)
  then show ?thesis
    using run d ne old cq inv(1-3) inv(6) [OF assms(5)] assms(5)
    by (auto simp: GetDenomMap_def GetTokenPair_def GetERC20Map_def store_pair_sel kv_get_set)
qed

section \<open>A concrete environment\<close>

text \<open>
  A chain with a bank, the module's token contracts and nothing else. Call data starts with a
  code for the method; an argument is as many zero bytes as its number, closed by a one.
\<close>

record tok_chain =
  tcBank :: "addr \<Rightarrow> string \<Rightarrow> int"
  tcTok :: "addr \<Rightarrow> addr \<Rightarrow> nat"
  tcSupply :: "addr \<Rightarrow> int"
  tcNonce :: u64

definition tc_arg :: "abi_arg \<Rightarrow> byte list" where
  "tc_arg x = replicate (case x of AAddr a \<Rightarrow> unat a | AInt n \<Rightarrow> nat n) 0 @ [1]"

definition tc_code :: "string \<Rightarrow> byte" where
  "tc_code m = (if m = ''balanceOf'' then 1 else if m = ''mint'' then 2 else if m = ''burnCoins'' then 3 else 4)"

definition tc_apply :: "tok_chain \<Rightarrow> evm_message \<Rightarrow> bool \<Rightarrow> (tok_chain \<times> evm_resp) result" where
  "tc_apply w m commit =
     (let ok = (\<lambda>bs. \<lparr>rspRet = bs, rspVmError = [], rspLogs = []\<rparr>);
          zeros = length (takeWhile (\<lambda>b. b = 0) (tl (emData m)));
          a = word_of_nat zeros;
          n = length (takeWhile (\<lambda>b. b = 0) (drop (Suc zeros) (tl (emData m))))
      in case emTo m of
           None \<Rightarrow> Inr (w\<lparr>tcNonce := tcNonce w + 1\<rparr>, ok [])
         | Some c \<Rightarrow>
             if hd (emData m) = 1 then Inr (w, ok (replicate (tcTok w c a) 0))
             else if hd (emData m) = 2 \<and> commit then
               Inr (w\<lparr>tcTok := (tcTok w)(c := (tcTok w c)(a := tcTok w c a + n)), tcSupply := (tcSupply w)(c := tcSupply w c + int n)\<rparr>, ok [])
             else if hd (emData m) = 3 \<and> commit \<and> n \<le> tcTok w c a then
               Inr (w\<lparr>tcTok := (tcTok w)(c := (tcTok w c)(a := tcTok w c a - n)), tcSupply := (tcSupply w)(c := tcSupply w c - int n)\<rparr>, ok [])
             else Inl (ErrExternal ''reverted''))"

definition tc_send :: "addr \<Rightarrow> addr \<Rightarrow> coin \<Rightarrow> tok_chain \<Rightarrow> tok_chain result" where
  "tc_send a b c w = (if 0 < snd c \<and> snd c \<le> tcBank w a (fst c) then Inr (w\<lparr>tcBank := move_coin a b c (tcBank w)\<rparr>) else Inl ErrInvalidCoins)"

definition ex_eenv :: "(tok_chain, string) erc20_env" where
  "ex_eenv =
     \<lparr>eCodec = ex_codec, eHash = (\<lambda>s. s), eKec = (\<lambda>bs. word_of_nat (length bs)), eApprovalTopic = ''approval'', eModule = 7, eAuthority = 9,
      eGetAccount = (\<lambda>w a. Some \<lparr>rawNonce = 1, rawBalance = None, rawCodeHash = Some 5\<rparr>),
      eGetSequence = (\<lambda>w a. Inr (tcNonce w)), eEstimateGas = (\<lambda>w a c d g. Inr 21000), eApplyMessage = tc_apply,
      ePack = (\<lambda>m as. if \<forall>x \<in> set as. (case x of AInt n \<Rightarrow> 0 \<le> n | AAddr a \<Rightarrow> True)
                 then Inr (tc_code m # concat (map tc_arg as)) else Inl ErrInvalidRequest),
      eCtorPack = (\<lambda>n s d. Inr [d]), eBin = [0],
      eUnpackInt = (\<lambda>bs. Some (int (length bs))), eUnpackBool = (\<lambda>bs. Inr True), eUnpackString = (\<lambda>m bs. Inr ''token''),
      eUnpackUint8 = (\<lambda>bs. Inr 18),
      eGetBalance = tcBank, eBlockedAddr = (\<lambda>a. a = 7), eIsSendEnabled = (\<lambda>w d. True), eHasSupply = (\<lambda>w d. True),
      eGetDenomMetaData = (\<lambda>w d. None), eSetDenomMetaData = (\<lambda>w md. w), eMetadata_Validate = (\<lambda>md. Inr ()), eValidateDenom = (\<lambda>d. Inr ()),
      eSendCoinsFromAccountToModule = (\<lambda>w a c. tc_send a 7 c w), eSendCoinsFromModuleToAccount = (\<lambda>w a c. tc_send 7 a c w),
      eMintCoins = (\<lambda>w c. Inr w), eBurnCoins = (\<lambda>w c. Inr w)\<rparr>"

lemma tc_decode:
  assumes "tl data = replicate k 0 @ 1 # replicate n 0 @ [1]"
  shows "length (takeWhile (\<lambda>b. b = 0) (tl data)) = k" "length (takeWhile (\<lambda>b :: byte. b = 0) (drop (Suc k) (tl data))) = n"
  using assms by (simp_all add: takeWhile_append)

lemma tc_decode1: "length (takeWhile (\<lambda>b :: byte. b = 0) (replicate k 0 @ [1])) = k"
  by (simp add: takeWhile_append)

lemma ex_balanceOf:
  "CallEVM ex_eenv w m c False ''balanceOf'' [AAddr a] = Inr (w, \<lparr>rspRet = replicate (tcTok w c a) 0, rspVmError = [], rspLogs = []\<rparr>)"
  by (simp add: CallEVM_def ex_eenv_def CallEVMWithData_def tc_apply_def tc_code_def tc_arg_def tc_decode1 rspFailed_def Let_def)

lemma ex_mint_call:
  assumes "0 \<le> n"
  shows "CallEVM ex_eenv w m c True ''mint'' [AAddr a, AInt n]
     = Inr (w\<lparr>tcTok := (tcTok w)(c := (tcTok w c)(a := tcTok w c a + nat n)), tcSupply := (tcSupply w)(c := tcSupply w c + n)\<rparr>,
            \<lparr>rspRet = [], rspVmError = [], rspLogs = []\<rparr>)"
  using assms tc_decode [of "2 # replicate (unat a) 0 @ 1 # replicate (nat n) 0 @ [1]" "unat a" "nat n"]
  by (simp add: CallEVM_def ex_eenv_def CallEVMWithData_def tc_apply_def tc_code_def tc_arg_def rspFailed_def Let_def)

lemma ex_burn_call:
  assumes "0 \<le> n"
  shows "CallEVM ex_eenv w m c True ''burnCoins'' [AAddr a, AInt n]
     = (if nat n \<le> tcTok w c a
        then Inr (w\<lparr>tcTok := (tcTok w)(c := (tcTok w c)(a := tcTok w c a - nat n)), tcSupply := (tcSupply w)(c := tcSupply w c - n)\<rparr>,
                  \<lparr>rspRet = [], rspVmError = [], rspLogs = []\<rparr>)
        else Inl (ErrExternal ''reverted''))"
  using assms tc_decode [of "3 # replicate (unat a) 0 @ 1 # replicate (nat n) 0 @ [1]" "unat a" "nat n"]
  by (simp add: CallEVM_def ex_eenv_def CallEVMWithData_def tc_apply_def tc_code_def tc_arg_def rspFailed_def Let_def)

lemma ex_negative_call: "n < 0 \<Longrightarrow> CallEVM ex_eenv w m c True x [AAddr a, AInt n] = Inl ErrABIPack"
  by (simp add: CallEVM_def ex_eenv_def)

abbreviation "ex_tok \<equiv> (\<lambda>w c a. int (tcTok w c a))"

lemma ex_minter_laws: "minter_laws ex_eenv ex_tok tcSupply c"
proof -
  have env: "eModule ex_eenv = 7" "eGetBalance ex_eenv = tcBank" "eSendCoinsFromAccountToModule ex_eenv = (\<lambda>w a c. tc_send a 7 c w)"
    "eSendCoinsFromModuleToAccount ex_eenv = (\<lambda>w a c. tc_send 7 a c w)" "eUnpackInt ex_eenv = (\<lambda>bs. Some (int (length bs)))"
    by (simp_all add: ex_eenv_def)
  have m: "tcBank w' = tcBank w \<and> ex_tok w' c = (ex_tok w c)(a := ex_tok w c a + n) \<and> tcSupply w' c = tcSupply w c + n"
    if "CallEVM ex_eenv w 7 c True ''mint'' [AAddr a, AInt n] = Inr (w', r)" for w a n w' r
    using that by (cases "0 \<le> n") (auto simp: ex_mint_call ex_negative_call fun_eq_iff)
  have b: "tcBank w' = tcBank w \<and> ex_tok w' c = (ex_tok w c)(a := ex_tok w c a - n) \<and> tcSupply w' c = tcSupply w c - n"
    if "CallEVM ex_eenv w 7 c True ''burnCoins'' [AAddr a, AInt n] = Inr (w', r)" for w a n w' r
    using that by (cases "0 \<le> n") (auto simp: ex_burn_call ex_negative_call fun_eq_iff split: if_splits)
  have s: "0 < n \<and> tcBank w' = move_coin a b' (d, n) (tcBank w) \<and> ex_tok w' = ex_tok w \<and> tcSupply w' = tcSupply w"
    if "tc_send a b' (d, n) w = Inr w'" for a b' d n w w'
    using that by (auto simp: tc_send_def split: if_splits)
  show ?thesis unfolding minter_laws_def env using m b s ex_balanceOf by fastforce
qed

section \<open>Witnesses\<close>

definition ex_pair :: TokenPair where
  "ex_pair = NewTokenPair ex_codec 5 ''coin'' OWNER_MODULE"

definition ex_chain :: tok_chain where
  "ex_chain = \<lparr>tcBank = (\<lambda>a d. 100), tcTok = (\<lambda>c a. 10), tcSupply = (\<lambda>c. 50), tcNonce = 0\<rparr>"

definition ex_ecx0 :: "(tok_chain, string) Erc20Ctx" where
  "ex_ecx0 = \<lparr>erSdk = ex_chain, erEnableErc20 = True, erEnableEVMHook = True, erPairs = [], erByERC20 = [], erByDenom = [], erEvents = []\<rparr>"

definition ex_ecx :: "(tok_chain, string) Erc20Ctx" where
  "ex_ecx = store_pair ex_eenv ex_ecx0 ex_pair"

lemma ex_hex5: "acHex ex_codec 5 = ''x11111''" "acHexToAddress ex_codec ''x11111'' = 5" "acIsHexAddress ex_codec ''x11111''"
proof -
  have "replicate 5 CHR ''1'' = ''11111''" by (simp add: numeral_eq_Suc)
  then show "acHex ex_codec 5 = ''x11111''" by (simp add: ex_codec_def)
qed (simp_all add: ex_codec_def)

lemma ex_pair_sel: "Erc20Address ex_pair = ''x11111''" "tpDenom ex_pair = ''coin''" "GetERC20Contract ex_codec ex_pair = 5"
  "IsNativeCoin ex_pair" "tpEnabled ex_pair"
  by (simp_all add: ex_pair_def NewTokenPair_def GetERC20Contract_def IsNativeCoin_def ex_hex5)

lemma ex_eenv_sel [simp]: "eCodec ex_eenv = ex_codec" "eHash ex_eenv = (\<lambda>s. s)" "eModule ex_eenv = 7" "eGetBalance ex_eenv = tcBank"
  "eBlockedAddr ex_eenv = (\<lambda>a. a = 7)" "eSendCoinsFromAccountToModule ex_eenv = (\<lambda>w a c. tc_send a 7 c w)"
  "eUnpackInt ex_eenv = (\<lambda>bs. Some (int (length bs)))" "eIsSendEnabled ex_eenv w d"
  by (simp_all add: ex_eenv_def)

lemma ex_ecx_inv: "erc20_inv ex_eenv ex_ecx"
proof -
  have "erc20_inv ex_eenv ex_ecx0" by (simp add: erc20_inv_def ex_ecx0_def GetERC20Map_def GetDenomMap_def kv_get_def)
  then show ?thesis
    unfolding ex_ecx_def
    by (rule store_pair_inv [rotated 2])
       (simp_all add: ex_codec_laws ex_pair_sel ex_ecx0_def GetERC20Map_def GetDenomMap_def kv_get_def inj_def, simp add: ex_codec_def)
qed

lemma ex_ecx_pair: "kv_get (erPairs ex_ecx) (GetID (\<lambda>s. s) ex_pair) = Some ex_pair"
  by (simp add: ex_ecx_def store_pair_sel ex_ecx0_def kv_get_def)

lemma ex_not_gone: "\<not> contract_gone ex_eenv w p"
  by (simp add: contract_gone_def ex_eenv_def raw_IsContract_def emptyCodeHash_def)

lemma ex_bech32: "acFromBech32 ex_codec (acToBech32 ex_codec a) = Some a" "acHexToAddress ex_codec (acHex ex_codec a) = a"
  using ex_codec_laws by (simp_all add: codec_lawsD)

lemma ex_minting:
  assumes "token = ''coin'' \<or> token = ''x11111''"
  shows "MintingEnabled ex_eenv ex_ecx 1 2 token = Inr ex_pair"
proof -
  have "\<not> acIsHexAddress ex_codec ''coin''" by (simp add: ex_codec_def)
  then show ?thesis
    using assms ex_hex5 ex_ecx_pair ex_pair_sel
    by (auto simp: MintingEnabled_Inr GetTokenPairID_def GetERC20Map_def GetDenomMap_def ex_ecx_def store_pair_sel ex_ecx0_def kv_get_def
        IsERC20Enabled_def store_pair_def SetTokenPair_def SetDenomMap_def SetERC20Map_def)
qed

lemma ex_convert:
  assumes "d = ''coin'' \<or> d = ''x11111''"
  shows "\<exists>cx'. ConvertCoin ex_eenv ex_ecx (NewMsgConvertCoin ex_codec (d, 3) 2 1) = Inr cx'"
proof -
  have sdk: "erSdk ex_ecx = ex_chain" by (simp add: ex_ecx_def store_pair_sel ex_ecx0_def)
  have "BalanceOf ex_eenv w c a = Some (w, int (tcTok w c a))" for w c a by (simp add: BalanceOf_def ex_balanceOf)
  then have "\<exists>cx'. convertCoinNativeCoin ex_eenv ex_ecx ex_pair (NewMsgConvertCoin ex_codec (d, 3) 2 1) 2 1 = Inr cx'"
    by (simp add: convertCoinNativeCoin_def NewMsgConvertCoin_def ex_pair_sel sdk tc_send_def ex_chain_def ex_mint_call bal_def)
  then show ?thesis
    using ex_minting [OF assms] ex_not_gone ex_pair_sel(4)
    by (simp add: ConvertCoin_def NewMsgConvertCoin_def ex_bech32 must_bech32_def)
qed


theorem native_conversions_backed_witness:
  "\<exists>cx'. ConvertCoin ex_eenv ex_ecx (NewMsgConvertCoin ex_codec (''coin'', 3) 2 1) = Inr cx'
     \<and> tcBank (erSdk cx') = move_coin 1 7 (''coin'', 3) (tcBank ex_chain) \<and> tcTok (erSdk cx') 5 2 = 13
     \<and> backing ex_eenv tcSupply ex_pair (erSdk cx') = 50"
proof -
  let ?m = "NewMsgConvertCoin ex_codec (''coin'', 3) 2 1"
  obtain cx' where cx': "ConvertCoin ex_eenv ex_ecx ?m = Inr cx'" using ex_convert by blast
  have sdk: "erSdk ex_ecx = ex_chain" by (simp add: ex_ecx_def store_pair_sel ex_ecx0_def)
  have m: "fst (ccCoin ?m) = tpDenom ex_pair" "\<not> acIsHexAddress ex_codec (tpDenom ex_pair)" "acFromBech32 ex_codec (ccSender ?m) = Some 1"
    "snd (ccCoin ?m) = 3" "acHexToAddress ex_codec (ccReceiver ?m) = 2"
    by (simp_all add: NewMsgConvertCoin_def ex_pair_sel ex_bech32) (simp add: ex_codec_def)
  have k: "kv_get (erPairs ex_ecx) (GetID (\<lambda>s. s) ex_pair) = Some ex_pair" by (rule ex_ecx_pair)
  note b = native_conversions_backed [OF ex_ecx_inv k ex_pair_sel(4) ex_not_gone ex_minter_laws]
  have "eBlockedAddr ex_eenv (eModule ex_eenv)" by simp
  from b [OF this, THEN conjunct1, rule_format, of ?m cx' 1] cx' m have eff: "tcBank (erSdk cx') = move_coin 1 7 (''coin'', 3) (tcBank ex_chain)"
    "ex_tok (erSdk cx') 5 = (ex_tok ex_chain 5)(2 := ex_tok ex_chain 5 2 + 3)"
    "backing ex_eenv tcSupply ex_pair (erSdk cx') = backing ex_eenv tcSupply ex_pair ex_chain"
    by (simp_all add: sdk Let_def ex_pair_sel)
  have "ex_tok (erSdk cx') 5 2 = 13" using fun_cong [OF eff(2), of 2] by (simp add: ex_chain_def)
  then show ?thesis using cx' eff(1,3) by (simp add: backing_def ex_pair_sel ex_chain_def)
qed

theorem hex_denom_unbacked_witness:
  "\<exists>cx'. ConvertCoin ex_eenv ex_ecx (NewMsgConvertCoin ex_codec (''x11111'', 3) 2 1) = Inr cx'
     \<and> backing ex_eenv tcSupply ex_pair (erSdk cx') = 47"
proof -
  let ?m = "NewMsgConvertCoin ex_codec (''x11111'', 3) 2 1"
  obtain cx' where cx': "ConvertCoin ex_eenv ex_ecx ?m = Inr cx'" using ex_convert by blast
  have sdk: "erSdk ex_ecx = ex_chain" by (simp add: ex_ecx_def store_pair_sel ex_ecx0_def)
  have k: "kv_get (erPairs ex_ecx) (GetID (\<lambda>s. s) ex_pair) = Some ex_pair" by (rule ex_ecx_pair)
  have m: "acIsHexAddress (eCodec ex_eenv) (fst (ccCoin ?m))" "acHexToAddress (eCodec ex_eenv) (fst (ccCoin ?m)) = GetERC20Contract (eCodec ex_eenv) ex_pair"
    "fst (ccCoin ?m) \<noteq> tpDenom ex_pair"
    by (simp_all add: NewMsgConvertCoin_def ex_pair_sel ex_hex5)
  from hex_denom_unbacked [OF ex_ecx_inv k ex_pair_sel(4) ex_not_gone ex_minter_laws cx' m] show ?thesis
    using cx' by (simp add: sdk NewMsgConvertCoin_def backing_def ex_pair_sel ex_chain_def)
qed

definition ex_metadata :: Metadata where
  "ex_metadata = \<lparr>mdDescription = [], mdDenomUnits = [], mdBase = ''coin'', mdDisplay = ''coin'', mdName = ''The coin'', mdSymbol = ''C''\<rparr>"

theorem RegisterCoin_shadows_pair_witness:
  "\<exists>cx' q. RegisterCoin ex_eenv ex_ecx ex_metadata = Inr (cx', q)
     \<and> GetDenomMap cx' ''coin'' = Some (GetID (\<lambda>s. s) q) \<and> GetERC20Map cx' 5 = Some (GetID (\<lambda>s. s) ex_pair)"
proof -
  let ?w' = "ex_chain\<lparr>tcNonce := 1\<rparr>" and ?i = "GetID (\<lambda>s. s) ex_pair"
  have sdk: "erSdk ex_ecx = ex_chain" by (simp add: ex_ecx_def store_pair_sel ex_ecx0_def)
  have h: "inj (eHash ex_eenv)" "codec_laws (eCodec ex_eenv)" by (simp_all add: inj_def ex_codec_laws)
  have g: "GetDenomMap ex_ecx (mdBase ex_metadata) = Some ?i" "kv_get (erPairs ex_ecx) ?i = Some ex_pair"
    "\<not> IsDenomRegistered ex_ecx (mdName ex_metadata)" "\<not> IsERC20Registered ex_ecx 17"
    by (simp_all add: GetDenomMap_def IsDenomRegistered_def IsERC20Registered_def ex_ecx_def store_pair_sel ex_ecx0_def kv_get_def
        ex_metadata_def ex_pair_sel)
  have r: "eHasSupply ex_eenv (erSdk ex_ecx) (mdBase ex_metadata)" "verifyMetadata ex_eenv (erSdk ex_ecx) ex_metadata = Inr ex_chain"
    by (simp_all add: ex_eenv_def verifyMetadata_def sdk)
  have "DeployERC20Contract ex_eenv ex_chain ex_metadata = Inr (?w', acCreateAddress ex_codec 7 0)"
    by (simp add: DeployERC20Contract_def CallEVMWithData_def ex_eenv_def ex_metadata_def tc_apply_def ex_chain_def rspFailed_def Let_def)
  then have d: "DeployERC20Contract ex_eenv ex_chain ex_metadata = Inr (?w', 17)" by (simp add: ex_codec_def)
  from RegisterCoin_shadows_pair [OF h ex_ecx_inv g(1,2,3) r d g(4)] show ?thesis by (auto simp: ex_pair_sel)
qed

section \<open>Names\<close>

lemma removeInvalidPrefixes_suffix: "\<exists>k. removeInvalidPrefixes s = drop k s"
proof (induction s rule: removeInvalidPrefixes.induct)
  case (1 s)
  consider "take 4 s = ''ibc/''" | "take 4 s \<noteq> ''ibc/''" "take 6 s = ''erc20/''" | "take 4 s \<noteq> ''ibc/''" "take 6 s \<noteq> ''erc20/''" by blast
  then show ?case
  proof cases
    case 1
    then obtain k where "removeInvalidPrefixes s = drop k (drop 4 s)" using "1.IH"(1) by (auto simp: removeInvalidPrefixes.simps [of s])
    then show ?thesis by (metis drop_drop)
  next
    case 2
    then obtain k where "removeInvalidPrefixes s = drop k (drop 6 s)" using "1.IH"(2) by (auto simp: removeInvalidPrefixes.simps [of s])
    then show ?thesis by (metis drop_drop)
  next
    case 3
    then have "removeInvalidPrefixes s = drop 0 s" by (simp add: removeInvalidPrefixes.simps [of s])
    then show ?thesis by blast
  qed
qed

lemma removeInvalidPrefixes_done:
  "take 4 (removeInvalidPrefixes s) \<noteq> ''ibc/'' \<and> take 6 (removeInvalidPrefixes s) \<noteq> ''erc20/''"
  by (induction s rule: removeInvalidPrefixes.induct) (subst (1 2) removeInvalidPrefixes.simps, simp)

text \<open>
  A sanitized token name has at most 128 characters, all of them letters, digits, slashes or
  dashes, and starts neither like a voucher (\<^verbatim>\<open>ibc/\<close>) nor like a token denomination
  (\<^verbatim>\<open>erc20/\<close>).
\<close>

theorem SanitizeERC20Name_wellformed:
  "length (SanitizeERC20Name name) \<le> 128
   \<and> list_all (\<lambda>c. is_letter c \<or> is_digit c \<or> c = CHR ''/'' \<or> c = CHR ''-'') (SanitizeERC20Name name)
   \<and> take 4 (SanitizeERC20Name name) \<noteq> ''ibc/'' \<and> take 6 (SanitizeERC20Name name) \<noteq> ''erc20/''"
proof -
  define s where "s = removeSpecialChars (removeLeadingNumbers name)"
  define t where "t = (if length s > 128 then take 128 s else s)"
  have r: "SanitizeERC20Name name = removeInvalidPrefixes t" by (simp add: SanitizeERC20Name_def s_def t_def Let_def)
  obtain k where k: "removeInvalidPrefixes t = drop k t" using removeInvalidPrefixes_suffix by blast
  have "\<forall>c \<in> set s. is_letter c \<or> is_digit c \<or> c = CHR ''/'' \<or> c = CHR ''-''"
    by (auto simp: s_def removeSpecialChars_def split: list.splits if_splits)
  then have "\<forall>c \<in> set t. is_letter c \<or> is_digit c \<or> c = CHR ''/'' \<or> c = CHR ''-''"
    by (auto simp: t_def dest: in_set_takeD)
  then have "list_all (\<lambda>c. is_letter c \<or> is_digit c \<or> c = CHR ''/'' \<or> c = CHR ''-'') (drop k t)"
    by (auto simp: list_all_iff dest: in_set_dropD)
  moreover have "length (drop k t) \<le> 128" by (auto simp: t_def)
  ultimately show ?thesis using removeInvalidPrefixes_done [of t] by (simp add: r k)
qed

text \<open>
  The first character need not be a letter: only one leading special character is removed, and
  a prefix is removed after the digits.
\<close>

lemma sanitized_leading_digit: "SanitizeERC20Name ''-1a'' = ''1a''"
  by (simp add: SanitizeERC20Name_def removeLeadingNumbers_def removeSpecialChars_def is_digit_def is_letter_def
      removeInvalidPrefixes.simps)

end
