(* ===== verification/EvmTx.thy ===== *)
theory EvmTx
  imports EvmParams Addresses Coins
begin

text \<open>
  Ethereum transactions as messages of the chain, \<^verbatim>\<open>x/evm/types\<close>: the three kinds of
  transaction data (\<^verbatim>\<open>legacy_tx.go\<close>, \<^verbatim>\<open>access_list_tx.go\<close>, \<^verbatim>\<open>dynamic_fee_tx.go\<close>) behind the
  interface of \<^verbatim>\<open>tx_data.go\<close>, their conversion to and from go-ethereum's transactions, their
  validation and fees, the message \<^verbatim>\<open>MsgEthereumTx\<close> of \<^verbatim>\<open>msg.go\<close>, and the search of
  \<^verbatim>\<open>utils.go\<close> for a sufficient gas limit. What go-ethereum provides is the record
  \<open>eth_lib\<close>. A pointer to an SDK integer is \<open>None\<close> for nil and otherwise holds an integer.
\<close>

section \<open>Big integers\<close>

fun bitlen :: "nat \<Rightarrow> nat" where
  "bitlen n = (if n = 0 then 0 else Suc (bitlen (n div 2)))"

declare bitlen.simps [simp del]

definition big_BitLen :: "int \<Rightarrow> nat" where
  "big_BitLen x = bitlen (nat \<bar>x\<bar>)"

text \<open>\<^verbatim>\<open>big.Int.Bytes\<close> is the absolute value in big-endian order, \<^verbatim>\<open>SetBytes\<close> reads it.\<close>

fun nat_bytes :: "nat \<Rightarrow> byte list" where
  "nat_bytes n = (if n = 0 then [] else nat_bytes (n div 256) @ [word_of_nat (n mod 256)])"

declare nat_bytes.simps [simp del]

definition big_Bytes :: "int \<Rightarrow> byte list" where
  "big_Bytes x = nat_bytes (nat \<bar>x\<bar>)"

definition big_SetBytes :: "byte list \<Rightarrow> int" where
  "big_SetBytes bs = foldl (\<lambda>v b. v * 256 + uint b) 0 bs"

text \<open>\<^verbatim>\<open>big.Int.Quo\<close> rounds towards zero.\<close>

definition big_Quo :: "int \<Rightarrow> int \<Rightarrow> int result" where
  "big_Quo x y =
     (if y = 0 then Inl (Panic ''division by zero'') else Inr (sgn x * sgn y * (\<bar>x\<bar> div \<bar>y\<bar>)))"

text \<open>Reading through a pointer that may be nil.\<close>

definition deref :: "'a option \<Rightarrow> 'a result" where
  "deref p = (case p of None \<Rightarrow> Inl (Panic ''nil pointer dereference'') | Some x \<Rightarrow> Inr x)"

definition IsValidInt256 :: "int option \<Rightarrow> bool" where
  "IsValidInt256 i \<longleftrightarrow> (case i of None \<Rightarrow> True | Some n \<Rightarrow> big_BitLen n \<le> 256)"

definition SafeNewIntFromBigInt :: "int \<Rightarrow> int result" where
  "SafeNewIntFromBigInt i =
     (if \<not> IsValidInt256 (Some i) then Inl (ErrText ''big int out of bound'') else NewIntFromBigInt i)"

definition SafeInt64 :: "u64 \<Rightarrow> int result" where
  "SafeInt64 v = (if uint v > 2 ^ 63 - 1 then Inl (ErrExternal ''ErrInvalidHeight'') else Inr (uint v))"

section \<open>Errors\<close>

abbreviation ErrCreateDisabled :: error where
  "ErrCreateDisabled \<equiv> ErrModule ''evm'' 5"

abbreviation ErrCallDisabled :: error where
  "ErrCallDisabled \<equiv> ErrModule ''evm'' 6"

abbreviation ErrInvalidAmount :: error where
  "ErrInvalidAmount \<equiv> ErrModule ''evm'' 7"

abbreviation ErrInvalidGasPrice :: error where
  "ErrInvalidGasPrice \<equiv> ErrModule ''evm'' 8"

abbreviation ErrInvalidGasFee :: error where
  "ErrInvalidGasFee \<equiv> ErrModule ''evm'' 9"

abbreviation ErrInvalidRefund :: error where
  "ErrInvalidRefund \<equiv> ErrModule ''evm'' 11"

abbreviation ErrInvalidGasCap :: error where
  "ErrInvalidGasCap \<equiv> ErrModule ''evm'' 12"

abbreviation ErrInvalidBaseFee :: error where
  "ErrInvalidBaseFee \<equiv> ErrModule ''evm'' 13"

abbreviation ErrGasOverflow :: error where
  "ErrGasOverflow \<equiv> ErrModule ''evm'' 14"

abbreviation ErrInvalidGasLimit :: error where
  "ErrInvalidGasLimit \<equiv> ErrModule ''evm'' 16"

abbreviation ErrInactivePrecompile :: error where
  "ErrInactivePrecompile \<equiv> ErrModule ''evm'' 17"

abbreviation ErrInvalidChainID :: error where
  "ErrInvalidChainID \<equiv> ErrExternal ''ErrInvalidChainID''"

section \<open>go-ethereum\<close>

type_synonym EthAccessList = "(addr \<times> hash list) list option"

text \<open>
  go-ethereum's structs \<^verbatim>\<open>LegacyTx\<close>, \<^verbatim>\<open>AccessListTx\<close> and \<^verbatim>\<open>DynamicFeeTx\<close> as one record, told
  apart by their type byte; a field that a struct does not have is nil.
\<close>

record EthTxData =
  edType :: nat
  edChainID :: "int option"
  edNonce :: u64
  edGasPrice :: "int option"
  edGasTipCap :: "int option"
  edGasFeeCap :: "int option"
  edGas :: u64
  edTo :: "addr option"
  edValue :: "int option"
  edData :: "byte list option"
  edAccessList :: EthAccessList
  edV :: "int option"
  edR :: "int option"
  edS :: "int option"

text \<open>What the accessors of an \<^verbatim>\<open>ethtypes.Transaction\<close> return.\<close>

record eth_tx =
  etType :: nat
  etChainId :: "int option"
  etNonce :: u64
  etGasPrice :: "int option"
  etGasTipCap :: "int option"
  etGasFeeCap :: "int option"
  etGas :: u64
  etTo :: "addr option"
  etValue :: "int option"
  etData :: "byte list option"
  etAccessList :: EthAccessList
  etV :: "int option"
  etR :: "int option"
  etS :: "int option"

text \<open>\<^verbatim>\<open>core.Message\<close>.\<close>

record core_msg =
  cmFrom :: addr
  cmTo :: "addr option"
  cmNonce :: u64
  cmGas :: u64
  cmGasPrice :: int
  cmGasFeeCap :: int
  cmGasTipCap :: int
  cmData :: "byte list option"
  cmAccessList :: EthAccessList
  cmValue :: int

text \<open>
  \<open>elNewTx\<close> is \<^verbatim>\<open>ethtypes.NewTx\<close>, \<open>elHash\<close> the transaction hash, \<open>elHashHex\<close> and \<open>elHexToHash\<close>
  the hexadecimal form of hashes, \<open>elSender\<close> and \<open>elAsMessage\<close> use the signer that
  \<^verbatim>\<open>MakeSigner\<close> gives for a configuration and height, \<open>elLatestSender\<close> the one of
  \<^verbatim>\<open>LatestSignerForChainID\<close>.
\<close>

record eth_lib =
  elNewTx :: "EthTxData \<Rightarrow> eth_tx"
  elHash :: "eth_tx \<Rightarrow> hash"
  elHashHex :: "hash \<Rightarrow> string"
  elHexToHash :: "string \<Rightarrow> hash"
  elProtected :: "eth_tx \<Rightarrow> bool"
  elLatestSender :: "int option \<Rightarrow> eth_tx \<Rightarrow> addr result"
  elSender :: "ethConfig \<Rightarrow> int \<Rightarrow> eth_tx \<Rightarrow> addr result"
  elAsMessage :: "ethConfig \<Rightarrow> int \<Rightarrow> eth_tx \<Rightarrow> int option \<Rightarrow> core_msg result"
  elIntrinsicGas :: "byte list option \<Rightarrow> EthAccessList \<Rightarrow> bool \<Rightarrow> bool \<Rightarrow> bool \<Rightarrow> u64 result"
  elUnmarshal :: "byte list \<Rightarrow> eth_tx result"

section \<open>Transaction data\<close>

type_synonym AccessTuples = "(string \<times> string list) list option"

record LegacyTx =
  ltNonce :: u64
  ltGasPrice :: "int option"
  ltGasLimit :: u64
  ltTo :: string
  ltAmount :: "int option"
  ltData :: "byte list option"
  ltV :: "byte list"
  ltR :: "byte list"
  ltS :: "byte list"

record AccessListTx =
  atChainID :: "int option"
  atNonce :: u64
  atGasPrice :: "int option"
  atGasLimit :: u64
  atTo :: string
  atAmount :: "int option"
  atData :: "byte list option"
  atAccesses :: AccessTuples
  atV :: "byte list"
  atR :: "byte list"
  atS :: "byte list"

record DynamicFeeTx =
  dtChainID :: "int option"
  dtNonce :: u64
  dtGasTipCap :: "int option"
  dtGasFeeCap :: "int option"
  dtGasLimit :: u64
  dtTo :: string
  dtAmount :: "int option"
  dtData :: "byte list option"
  dtAccesses :: AccessTuples
  dtV :: "byte list"
  dtR :: "byte list"
  dtS :: "byte list"

datatype TxData = TxLegacy LegacyTx | TxAccessList AccessListTx | TxDynamicFee DynamicFeeTx

definition NewAccessList :: "addr_codec \<Rightarrow> eth_lib \<Rightarrow> EthAccessList \<Rightarrow> AccessTuples" where
  "NewAccessList ac lib al =
     (case al of None \<Rightarrow> None
      | Some ts \<Rightarrow> Some (map (\<lambda>(a, keys). (acHex ac a, map (elHashHex lib) keys)) ts))"

text \<open>The slice that the loop appends to starts out nil.\<close>

definition ToEthAccessList :: "addr_codec \<Rightarrow> eth_lib \<Rightarrow> (string \<times> string list) list \<Rightarrow> EthAccessList" where
  "ToEthAccessList ac lib al =
     (if al = [] then None
      else Some (map (\<lambda>(a, keys). (acHexToAddress ac a, map (elHexToHash lib) keys)) al))"

definition DeriveChainID :: "int option \<Rightarrow> int option" where
  "DeriveChainID v =
     (case v of None \<Rightarrow> None
      | Some v \<Rightarrow>
          if v < 1 then None
          else if big_BitLen v \<le> 64
          then (if v = 27 \<or> v = 28 then Some 0 else if v < 35 then None else Some ((v - 35) div 2))
          else Some ((v - 35) div 2))"

definition sig_value :: "byte list \<Rightarrow> int option" where
  "sig_value bz = (if length bz > 0 then Some (big_SetBytes bz) else None)"

definition rawSignatureValues ::
  "byte list \<Rightarrow> byte list \<Rightarrow> byte list \<Rightarrow> int option \<times> int option \<times> int option" where
  "rawSignatureValues vBz rBz sBz =
     (sig_value vBz, sig_value rBz, sig_value sBz)"

text \<open>A nil price is a nil dereference in \<^verbatim>\<open>big.Int.Mul\<close>.\<close>

definition tx_fee :: "int option \<Rightarrow> u64 \<Rightarrow> int result" where
  "tx_fee gasPrice gas = rbind (deref gasPrice) (\<lambda>p. Inr (p * uint gas))"

definition tx_cost :: "int \<Rightarrow> int option \<Rightarrow> int" where
  "tx_cost f value = (case value of None \<Rightarrow> f | Some v \<Rightarrow> f + v)"

text \<open>\<^verbatim>\<open>EffectiveGasPrice(baseFee, feeCap, tipCap)\<close>.\<close>

definition EffectiveGasPrice :: "int option \<Rightarrow> int \<Rightarrow> int \<Rightarrow> int result" where
  "EffectiveGasPrice baseFee feeCap tipCap =
     rbind (deref baseFee) (\<lambda>b. Inr (min (tipCap + b) feeCap))"

text \<open>
  The methods of the interface that read a transaction, as the record of their results, and
  those that compute fees.
\<close>

record TxGetters =
  TxGetChainID :: "int option"
  TxGetAccessList :: EthAccessList
  TxGetData :: "byte list option"
  TxGetGas :: u64
  TxGetGasPrice :: "int option"
  TxGetGasTipCap :: "int option"
  TxGetGasFeeCap :: "int option"
  TxGetValue :: "int option"
  TxGetNonce :: u64
  TxGetTo :: "addr option"
  TxGetRawSignatureValues :: "int option \<times> int option \<times> int option"

record TxFees =
  TxFee :: "int result"
  TxCost :: "int result"
  TxEffectiveGasPrice :: "int option \<Rightarrow> int option result"
  TxEffectiveFee :: "int option \<Rightarrow> int result"
  TxEffectiveCost :: "int option \<Rightarrow> int result"

definition to_address :: "addr_codec \<Rightarrow> string \<Rightarrow> addr option" where
  "to_address ac s = (if s = '''' then None else Some (acHexToAddress ac s))"

subsection \<open>Legacy transactions\<close>

definition LegacyTx_getters :: "addr_codec \<Rightarrow> LegacyTx \<Rightarrow> TxGetters" where
  "LegacyTx_getters ac tx =
     (let (v, r, s) = rawSignatureValues (ltV tx) (ltR tx) (ltS tx)
      in \<lparr>TxGetChainID = DeriveChainID v, TxGetAccessList = None, TxGetData = ltData tx, TxGetGas = ltGasLimit tx,
          TxGetGasPrice = ltGasPrice tx, TxGetGasTipCap = ltGasPrice tx, TxGetGasFeeCap = ltGasPrice tx,
          TxGetValue = ltAmount tx, TxGetNonce = ltNonce tx, TxGetTo = to_address ac (ltTo tx),
          TxGetRawSignatureValues = (v, r, s)\<rparr>)"

definition LegacyTx_fees :: "LegacyTx \<Rightarrow> TxFees" where
  "LegacyTx_fees tx =
     (let f = tx_fee (ltGasPrice tx) (ltGasLimit tx);
          c = rbind f (\<lambda>f. Inr (tx_cost f (ltAmount tx)))
      in \<lparr>TxFee = f, TxCost = c, TxEffectiveGasPrice = (\<lambda>_. Inr (ltGasPrice tx)), TxEffectiveFee = (\<lambda>_. f), TxEffectiveCost = (\<lambda>_. c)\<rparr>)"

definition sig_bytes :: "int option \<Rightarrow> byte list \<Rightarrow> byte list" where
  "sig_bytes v old = (case v of None \<Rightarrow> old | Some n \<Rightarrow> big_Bytes n)"

definition LegacyTx_SetSignatureValues ::
  "LegacyTx \<Rightarrow> int option \<Rightarrow> int option \<Rightarrow> int option \<Rightarrow> LegacyTx" where
  "LegacyTx_SetSignatureValues tx v r s =
     tx\<lparr>ltV := sig_bytes v (ltV tx), ltR := sig_bytes r (ltR tx), ltS := sig_bytes s (ltS tx)\<rparr>"

text \<open>An optional value of the transaction, checked to have at most 256 bits.\<close>

definition safe_opt :: "int option \<Rightarrow> int option result" where
  "safe_opt v = (case v of None \<Rightarrow> Inr None | Some n \<Rightarrow> rbind (SafeNewIntFromBigInt n) (\<lambda>m. Inr (Some m)))"

definition hex_opt :: "addr_codec \<Rightarrow> addr option \<Rightarrow> string" where
  "hex_opt ac a = (case a of None \<Rightarrow> '''' | Some b \<Rightarrow> acHex ac b)"

definition NewLegacyTx :: "addr_codec \<Rightarrow> eth_tx \<Rightarrow> LegacyTx result" where
  "NewLegacyTx ac tx =
     rbind (safe_opt (etValue tx)) (\<lambda>amount.
     rbind (safe_opt (etGasPrice tx)) (\<lambda>gasPrice.
     Inr (LegacyTx_SetSignatureValues
       \<lparr>ltNonce = etNonce tx, ltGasPrice = gasPrice, ltGasLimit = etGas tx, ltTo = hex_opt ac (etTo tx),
        ltAmount = amount, ltData = etData tx, ltV = [], ltR = [], ltS = []\<rparr> (etV tx) (etR tx) (etS tx))))"

definition LegacyTx_AsEthereumData :: "addr_codec \<Rightarrow> LegacyTx \<Rightarrow> EthTxData" where
  "LegacyTx_AsEthereumData ac tx =
     (let g = LegacyTx_getters ac tx; (v, r, s) = TxGetRawSignatureValues g
      in \<lparr>edType = 0, edChainID = None, edNonce = TxGetNonce g, edGasPrice = TxGetGasPrice g, edGasTipCap = None,
          edGasFeeCap = None, edGas = TxGetGas g, edTo = TxGetTo g, edValue = TxGetValue g, edData = TxGetData g,
          edAccessList = None, edV = v, edR = r, edS = s\<rparr>)"

text \<open>The checks that end all three \<^verbatim>\<open>Validate\<close> methods.\<close>

definition check_amount :: "int option \<Rightarrow> unit result" where
  "check_amount amount =
     (if amount \<noteq> None \<and> the amount < 0 then Inl ErrInvalidAmount
      else if \<not> IsValidInt256 amount then Inl ErrInvalidAmount else Inr ())"

definition check_to :: "addr_codec \<Rightarrow> string \<Rightarrow> unit result" where
  "check_to ac to = (if to \<noteq> '''' \<and> \<not> acIsHexAddress ac to then Inl ErrInvalidAddress else Inr ())"

definition check_chain_id :: "int option \<Rightarrow> unit result" where
  "check_chain_id chainID =
     (case chainID of None \<Rightarrow> Inl ErrInvalidChainID
      | Some n \<Rightarrow> if n = 5438 \<or> n = 5439 then Inr () else Inl ErrInvalidChainID)"

definition LegacyTx_Validate :: "addr_codec \<Rightarrow> LegacyTx \<Rightarrow> unit result" where
  "LegacyTx_Validate ac tx =
     (case ltGasPrice tx of None \<Rightarrow> Inl ErrInvalidGasPrice
      | Some gasPrice \<Rightarrow>
          if gasPrice < 0 then Inl ErrInvalidGasPrice
          else if \<not> IsValidInt256 (Some gasPrice) then Inl ErrInvalidGasPrice
          else rbind (TxFee (LegacyTx_fees tx)) (\<lambda>f.
            if \<not> IsValidInt256 (Some f) then Inl ErrInvalidGasFee
            else rbind (check_amount (ltAmount tx)) (\<lambda>_.
                 rbind (check_to ac (ltTo tx)) (\<lambda>_.
                 check_chain_id (TxGetChainID (LegacyTx_getters ac tx))))))"

subsection \<open>Access-list transactions\<close>

definition AccessListTx_getters :: "addr_codec \<Rightarrow> eth_lib \<Rightarrow> AccessListTx \<Rightarrow> TxGetters" where
  "AccessListTx_getters ac lib tx =
     \<lparr>TxGetChainID = atChainID tx,
      TxGetAccessList = (case atAccesses tx of None \<Rightarrow> None | Some al \<Rightarrow> ToEthAccessList ac lib al),
      TxGetData = atData tx, TxGetGas = atGasLimit tx,
      TxGetGasPrice = atGasPrice tx, TxGetGasTipCap = atGasPrice tx, TxGetGasFeeCap = atGasPrice tx,
      TxGetValue = atAmount tx, TxGetNonce = atNonce tx, TxGetTo = to_address ac (atTo tx),
      TxGetRawSignatureValues = rawSignatureValues (atV tx) (atR tx) (atS tx)\<rparr>"

definition AccessListTx_fees :: "AccessListTx \<Rightarrow> TxFees" where
  "AccessListTx_fees tx =
     (let f = tx_fee (atGasPrice tx) (atGasLimit tx);
          c = rbind f (\<lambda>f. Inr (tx_cost f (atAmount tx)))
      in \<lparr>TxFee = f, TxCost = c, TxEffectiveGasPrice = (\<lambda>_. Inr (atGasPrice tx)),
          TxEffectiveFee = (\<lambda>_. f), TxEffectiveCost = (\<lambda>_. c)\<rparr>)"

text \<open>A chain id is kept if there is one already; one of more than 256 bits panics.\<close>

definition set_chain_id :: "int option \<Rightarrow> int option \<Rightarrow> int option result" where
  "set_chain_id chainID old =
     (case chainID of None \<Rightarrow> Inr old | Some n \<Rightarrow> rbind (NewIntFromBigInt n) (\<lambda>m. Inr (Some m)))"

definition AccessListTx_SetSignatureValues ::
  "AccessListTx \<Rightarrow> int option \<Rightarrow> int option \<Rightarrow> int option \<Rightarrow> int option \<Rightarrow> AccessListTx result" where
  "AccessListTx_SetSignatureValues tx chainID v r s =
     rbind (set_chain_id chainID (atChainID tx)) (\<lambda>cid.
     Inr (tx\<lparr>atV := sig_bytes v (atV tx), atR := sig_bytes r (atR tx), atS := sig_bytes s (atS tx), atChainID := cid\<rparr>))"

definition newAccessListTx :: "addr_codec \<Rightarrow> eth_lib \<Rightarrow> eth_tx \<Rightarrow> AccessListTx result" where
  "newAccessListTx ac lib tx =
     rbind (safe_opt (etValue tx)) (\<lambda>amount.
     rbind (safe_opt (etGasPrice tx)) (\<lambda>gasPrice.
     AccessListTx_SetSignatureValues
       \<lparr>atChainID = None, atNonce = etNonce tx, atGasPrice = gasPrice, atGasLimit = etGas tx, atTo = hex_opt ac (etTo tx),
        atAmount = amount, atData = etData tx, atAccesses = NewAccessList ac lib (etAccessList tx),
        atV = [], atR = [], atS = []\<rparr> (etChainId tx) (etV tx) (etR tx) (etS tx)))"

definition AccessListTx_AsEthereumData :: "addr_codec \<Rightarrow> eth_lib \<Rightarrow> AccessListTx \<Rightarrow> EthTxData" where
  "AccessListTx_AsEthereumData ac lib tx =
     (let g = AccessListTx_getters ac lib tx; (v, r, s) = TxGetRawSignatureValues g
      in \<lparr>edType = 1, edChainID = TxGetChainID g, edNonce = TxGetNonce g, edGasPrice = TxGetGasPrice g,
          edGasTipCap = None, edGasFeeCap = None, edGas = TxGetGas g, edTo = TxGetTo g, edValue = TxGetValue g,
          edData = TxGetData g, edAccessList = TxGetAccessList g, edV = v, edR = r, edS = s\<rparr>)"

definition AccessListTx_Validate :: "addr_codec \<Rightarrow> AccessListTx \<Rightarrow> unit result" where
  "AccessListTx_Validate ac tx =
     (case atGasPrice tx of None \<Rightarrow> Inl ErrInvalidGasPrice
      | Some gasPrice \<Rightarrow>
          if \<not> IsValidInt256 (Some gasPrice) then Inl ErrInvalidGasPrice
          else if gasPrice < 0 then Inl ErrInvalidGasPrice
          else rbind (check_amount (atAmount tx)) (\<lambda>_.
               rbind (TxFee (AccessListTx_fees tx)) (\<lambda>f.
               if \<not> IsValidInt256 (Some f) then Inl ErrInvalidGasFee
               else rbind (check_to ac (atTo tx)) (\<lambda>_. check_chain_id (atChainID tx)))))"

subsection \<open>Dynamic-fee transactions\<close>

definition DynamicFeeTx_getters :: "addr_codec \<Rightarrow> eth_lib \<Rightarrow> DynamicFeeTx \<Rightarrow> TxGetters" where
  "DynamicFeeTx_getters ac lib tx =
     \<lparr>TxGetChainID = dtChainID tx,
      TxGetAccessList = (case dtAccesses tx of None \<Rightarrow> None | Some al \<Rightarrow> ToEthAccessList ac lib al),
      TxGetData = dtData tx, TxGetGas = dtGasLimit tx,
      TxGetGasPrice = dtGasFeeCap tx, TxGetGasTipCap = dtGasTipCap tx, TxGetGasFeeCap = dtGasFeeCap tx,
      TxGetValue = dtAmount tx, TxGetNonce = dtNonce tx, TxGetTo = to_address ac (dtTo tx),
      TxGetRawSignatureValues = rawSignatureValues (dtV tx) (dtR tx) (dtS tx)\<rparr>"

definition DynamicFeeTx_EffectiveGasPrice :: "DynamicFeeTx \<Rightarrow> int option \<Rightarrow> int option result" where
  "DynamicFeeTx_EffectiveGasPrice tx baseFee =
     rbind (deref (dtGasFeeCap tx)) (\<lambda>feeCap.
     rbind (deref (dtGasTipCap tx)) (\<lambda>tipCap.
     rbind (EffectiveGasPrice baseFee feeCap tipCap) (\<lambda>p. Inr (Some p))))"

definition DynamicFeeTx_fees :: "DynamicFeeTx \<Rightarrow> TxFees" where
  "DynamicFeeTx_fees tx =
     (let f = tx_fee (dtGasFeeCap tx) (dtGasLimit tx);
          ef = (\<lambda>baseFee. rbind (DynamicFeeTx_EffectiveGasPrice tx baseFee) (\<lambda>p. tx_fee p (dtGasLimit tx)))
      in \<lparr>TxFee = f, TxCost = rbind f (\<lambda>f. Inr (tx_cost f (dtAmount tx))),
          TxEffectiveGasPrice = DynamicFeeTx_EffectiveGasPrice tx, TxEffectiveFee = ef,
          TxEffectiveCost = (\<lambda>baseFee. rbind (ef baseFee) (\<lambda>f. Inr (tx_cost f (dtAmount tx))))\<rparr>)"

definition DynamicFeeTx_SetSignatureValues ::
  "DynamicFeeTx \<Rightarrow> int option \<Rightarrow> int option \<Rightarrow> int option \<Rightarrow> int option \<Rightarrow> DynamicFeeTx result" where
  "DynamicFeeTx_SetSignatureValues tx chainID v r s =
     rbind (set_chain_id chainID (dtChainID tx)) (\<lambda>cid.
     Inr (tx\<lparr>dtV := sig_bytes v (dtV tx), dtR := sig_bytes r (dtR tx), dtS := sig_bytes s (dtS tx), dtChainID := cid\<rparr>))"

definition NewDynamicFeeTx :: "addr_codec \<Rightarrow> eth_lib \<Rightarrow> eth_tx \<Rightarrow> DynamicFeeTx result" where
  "NewDynamicFeeTx ac lib tx =
     rbind (safe_opt (etValue tx)) (\<lambda>amount.
     rbind (safe_opt (etGasFeeCap tx)) (\<lambda>gasFeeCap.
     rbind (safe_opt (etGasTipCap tx)) (\<lambda>gasTipCap.
     DynamicFeeTx_SetSignatureValues
       \<lparr>dtChainID = None, dtNonce = etNonce tx, dtGasTipCap = gasTipCap, dtGasFeeCap = gasFeeCap, dtGasLimit = etGas tx,
        dtTo = hex_opt ac (etTo tx), dtAmount = amount, dtData = etData tx,
        dtAccesses = NewAccessList ac lib (etAccessList tx),
        dtV = [], dtR = [], dtS = []\<rparr> (etChainId tx) (etV tx) (etR tx) (etS tx))))"

definition DynamicFeeTx_AsEthereumData :: "addr_codec \<Rightarrow> eth_lib \<Rightarrow> DynamicFeeTx \<Rightarrow> EthTxData" where
  "DynamicFeeTx_AsEthereumData ac lib tx =
     (let g = DynamicFeeTx_getters ac lib tx; (v, r, s) = TxGetRawSignatureValues g
      in \<lparr>edType = 2, edChainID = TxGetChainID g, edNonce = TxGetNonce g, edGasPrice = None,
          edGasTipCap = TxGetGasTipCap g, edGasFeeCap = TxGetGasFeeCap g, edGas = TxGetGas g, edTo = TxGetTo g,
          edValue = TxGetValue g, edData = TxGetData g, edAccessList = TxGetAccessList g, edV = v, edR = r, edS = s\<rparr>)"

definition DynamicFeeTx_Validate :: "addr_codec \<Rightarrow> DynamicFeeTx \<Rightarrow> unit result" where
  "DynamicFeeTx_Validate ac tx =
     (case (dtGasTipCap tx, dtGasFeeCap tx) of
        (None, _) \<Rightarrow> Inl ErrInvalidGasCap
      | (_, None) \<Rightarrow> Inl ErrInvalidGasCap
      | (Some tipCap, Some feeCap) \<Rightarrow>
          if tipCap < 0 then Inl ErrInvalidGasCap
          else if feeCap < 0 then Inl ErrInvalidGasCap
          else if \<not> IsValidInt256 (Some tipCap) then Inl ErrInvalidGasCap
          else if \<not> IsValidInt256 (Some feeCap) then Inl ErrInvalidGasCap
          else if feeCap < tipCap then Inl ErrInvalidGasCap
          else rbind (TxFee (DynamicFeeTx_fees tx)) (\<lambda>f.
            if \<not> IsValidInt256 (Some f) then Inl ErrInvalidGasFee
            else rbind (check_amount (dtAmount tx)) (\<lambda>_.
                 rbind (check_to ac (dtTo tx)) (\<lambda>_. check_chain_id (dtChainID tx)))))"

subsection \<open>The interface\<close>

fun TxType :: "TxData \<Rightarrow> nat" where
  "TxType (TxLegacy tx) = 0"
| "TxType (TxAccessList tx) = 1"
| "TxType (TxDynamicFee tx) = 2"

fun txGetters :: "addr_codec \<Rightarrow> eth_lib \<Rightarrow> TxData \<Rightarrow> TxGetters" where
  "txGetters ac lib (TxLegacy tx) = LegacyTx_getters ac tx"
| "txGetters ac lib (TxAccessList tx) = AccessListTx_getters ac lib tx"
| "txGetters ac lib (TxDynamicFee tx) = DynamicFeeTx_getters ac lib tx"

fun txFees :: "TxData \<Rightarrow> TxFees" where
  "txFees (TxLegacy tx) = LegacyTx_fees tx"
| "txFees (TxAccessList tx) = AccessListTx_fees tx"
| "txFees (TxDynamicFee tx) = DynamicFeeTx_fees tx"

fun TxData_Validate :: "addr_codec \<Rightarrow> TxData \<Rightarrow> unit result" where
  "TxData_Validate ac (TxLegacy tx) = LegacyTx_Validate ac tx"
| "TxData_Validate ac (TxAccessList tx) = AccessListTx_Validate ac tx"
| "TxData_Validate ac (TxDynamicFee tx) = DynamicFeeTx_Validate ac tx"

fun AsEthereumData :: "addr_codec \<Rightarrow> eth_lib \<Rightarrow> TxData \<Rightarrow> EthTxData" where
  "AsEthereumData ac lib (TxLegacy tx) = LegacyTx_AsEthereumData ac tx"
| "AsEthereumData ac lib (TxAccessList tx) = AccessListTx_AsEthereumData ac lib tx"
| "AsEthereumData ac lib (TxDynamicFee tx) = DynamicFeeTx_AsEthereumData ac lib tx"

definition NewTxDataFromTx :: "addr_codec \<Rightarrow> eth_lib \<Rightarrow> eth_tx \<Rightarrow> TxData result" where
  "NewTxDataFromTx ac lib tx =
     (if etType tx = 2 then rbind (NewDynamicFeeTx ac lib tx) (\<lambda>t. Inr (TxDynamicFee t))
      else if etType tx = 1 then rbind (newAccessListTx ac lib tx) (\<lambda>t. Inr (TxAccessList t))
      else rbind (NewLegacyTx ac tx) (\<lambda>t. Inr (TxLegacy t)))"

text \<open>\<open>reduction\<close> is \<^verbatim>\<open>DefaultPriorityReduction\<close>, a variable of the SDK.\<close>

definition GetTxPriority :: "int \<Rightarrow> TxData \<Rightarrow> int option \<Rightarrow> int result" where
  "GetTxPriority reduction txData baseFee =
     rbind (TxEffectiveGasPrice (txFees txData) baseFee) (\<lambda>price.
     rbind (deref price) (\<lambda>price.
     let tipPrice = (case baseFee of None \<Rightarrow> price | Some b \<Rightarrow> price - b)
     in rbind (big_Quo tipPrice reduction) (\<lambda>p. Inr (if in_i64 p then p else 2 ^ 63 - 1))))"

section \<open>Messages\<close>

record MsgEthereumTx =
  mtData :: "TxData option"
  mtSize :: int
  mtHash :: string
  mtFrom :: string

text \<open>
  The messages of a Cosmos transaction that the ante handlers tell apart. A message wrapped in
  \<^verbatim>\<open>authz.MsgExec\<close> is \<open>None\<close> when it cannot be unpacked, and so is the type URL of a grant
  whose authorization cannot be read.
\<close>

datatype sdk_msg =
    EthereumMsg MsgEthereumTx
  | ExecMsg "sdk_msg option list"
  | GrantMsg "string option"
  | DelegateMsg "addr list" int
  | OtherSdkMsg string

datatype ext_opt = ExtEthereumTx | ExtDynamicFee int | ExtOther string

record cosmos_tx =
  ctMsgs :: "sdk_msg list"
  ctMemo :: string
  ctTimeoutHeight :: u64
  ctNonCritical :: nat
  ctExtensionOptions :: "ext_opt list"
  ctSignerInfos :: nat
  ctFeeAmount :: "(string \<times> int) list"
  ctGasLimit :: u64
  ctPayer :: string
  ctGranter :: string
  ctSignatures :: nat

definition UnpackTxData :: "TxData option \<Rightarrow> TxData result" where
  "UnpackTxData d = (case d of None \<Rightarrow> Inl (ErrExternal ''ErrUnpackAny'') | Some txData \<Rightarrow> Inr txData)"

definition AsTransaction :: "addr_codec \<Rightarrow> eth_lib \<Rightarrow> MsgEthereumTx \<Rightarrow> eth_tx option" where
  "AsTransaction ac lib msg =
     (case UnpackTxData (mtData msg) of Inl _ \<Rightarrow> None | Inr txData \<Rightarrow> Some (elNewTx lib (AsEthereumData ac lib txData)))"

definition AsMessage :: "addr_codec \<Rightarrow> eth_lib \<Rightarrow> ethConfig \<Rightarrow> int \<Rightarrow> MsgEthereumTx \<Rightarrow> int option \<Rightarrow> core_msg result" where
  "AsMessage ac lib cfg height msg baseFee =
     rbind (deref (AsTransaction ac lib msg)) (\<lambda>tx. elAsMessage lib cfg height tx baseFee)"

definition FromEthereumTx :: "addr_codec \<Rightarrow> eth_lib \<Rightarrow> MsgEthereumTx \<Rightarrow> eth_tx \<Rightarrow> MsgEthereumTx result" where
  "FromEthereumTx ac lib msg tx =
     rbind (NewTxDataFromTx ac lib tx) (\<lambda>txData.
     Inr (msg\<lparr>mtData := Some txData, mtHash := elHashHex lib (elHash lib tx)\<rparr>))"

definition Msg_UnmarshalBinary :: "addr_codec \<Rightarrow> eth_lib \<Rightarrow> MsgEthereumTx \<Rightarrow> byte list \<Rightarrow> MsgEthereumTx result" where
  "Msg_UnmarshalBinary ac lib msg b = rbind (elUnmarshal lib b) (FromEthereumTx ac lib msg)"

definition EthMsg_ValidateBasic :: "addr_codec \<Rightarrow> eth_lib \<Rightarrow> MsgEthereumTx \<Rightarrow> unit result" where
  "EthMsg_ValidateBasic ac lib msg =
     (if mtFrom msg \<noteq> '''' \<and> \<not> acIsHexAddress ac (mtFrom msg) then Inl ErrInvalidAddress
      else if mtSize msg \<noteq> 0 then Inl ErrInvalidRequest
      else rbind (UnpackTxData (mtData msg)) (\<lambda>txData.
        let gas = TxGetGas (txGetters ac lib txData)
        in if gas = 0 then Inl ErrInvalidGasLimit
           else if \<not> in_i64 (uint gas) then Inl ErrGasOverflow
           else rbind (TxData_Validate ac txData) (\<lambda>_.
                rbind (deref (AsTransaction ac lib msg)) (\<lambda>tx.
                if mtHash msg \<noteq> elHashHex lib (elHash lib tx) then Inl ErrInvalidRequest else Inr ()))))"

text \<open>The sender is written into the message.\<close>

definition GetSender :: "addr_codec \<Rightarrow> eth_lib \<Rightarrow> MsgEthereumTx \<Rightarrow> int option \<Rightarrow> (MsgEthereumTx \<times> addr) result" where
  "GetSender ac lib msg chainID =
     rbind (deref (AsTransaction ac lib msg)) (\<lambda>tx.
     rbind (elLatestSender lib chainID tx) (\<lambda>from. Inr (msg\<lparr>mtFrom := acHex ac from\<rparr>, from)))"

definition as_panic :: "'a result \<Rightarrow> 'a result" where
  "as_panic r = (case r of Inl _ \<Rightarrow> Inl (Panic ''error'') | Inr x \<Rightarrow> Inr x)"

definition EthMsg_GetSigners :: "addr_codec \<Rightarrow> eth_lib \<Rightarrow> MsgEthereumTx \<Rightarrow> addr list result" where
  "EthMsg_GetSigners ac lib msg =
     rbind (as_panic (UnpackTxData (mtData msg))) (\<lambda>data.
     rbind (as_panic (GetSender ac lib msg (TxGetChainID (txGetters ac lib data)))) (\<lambda>(_, sender). Inr [sender]))"

definition EthMsg_GetGas :: "addr_codec \<Rightarrow> eth_lib \<Rightarrow> MsgEthereumTx \<Rightarrow> u64" where
  "EthMsg_GetGas ac lib msg =
     (case UnpackTxData (mtData msg) of Inl _ \<Rightarrow> 0 | Inr txData \<Rightarrow> TxGetGas (txGetters ac lib txData))"

definition EthMsg_GetFee :: "MsgEthereumTx \<Rightarrow> int option result" where
  "EthMsg_GetFee msg =
     (case UnpackTxData (mtData msg) of Inl _ \<Rightarrow> Inr None | Inr txData \<Rightarrow> rbind (TxFee (txFees txData)) (\<lambda>f. Inr (Some f)))"

definition EthMsg_GetEffectiveFee :: "MsgEthereumTx \<Rightarrow> int option \<Rightarrow> int option result" where
  "EthMsg_GetEffectiveFee msg baseFee =
     (case UnpackTxData (mtData msg) of Inl _ \<Rightarrow> Inr None
      | Inr txData \<Rightarrow> rbind (TxEffectiveFee (txFees txData) baseFee) (\<lambda>f. Inr (Some f)))"

definition GetFrom :: "addr_codec \<Rightarrow> MsgEthereumTx \<Rightarrow> addr option" where
  "GetFrom ac msg = (if mtFrom msg = '''' then None else Some (acHexToAddress ac (mtFrom msg)))"

definition BuildTx :: "addr_codec \<Rightarrow> eth_lib \<Rightarrow> MsgEthereumTx \<Rightarrow> cosmos_tx \<Rightarrow> string \<Rightarrow> cosmos_tx result" where
  "BuildTx ac lib msg b evmDenom =
     rbind (UnpackTxData (mtData msg)) (\<lambda>txData.
     rbind (TxFee (txFees txData)) (\<lambda>f.
     rbind (NewIntFromBigInt f) (\<lambda>feeAmt.
     let msg = msg\<lparr>mtFrom := ''''\<rparr>
     in Inr (b\<lparr>ctExtensionOptions := [ExtEthereumTx], ctMsgs := [EthereumMsg msg],
               ctFeeAmount := (if feeAmt > 0 then [(evmDenom, feeAmt)] else []),
               ctGasLimit := EthMsg_GetGas ac lib msg\<rparr>))))"

fun UnwrapEthereumMsg :: "addr_codec \<Rightarrow> eth_lib \<Rightarrow> sdk_msg list \<Rightarrow> hash \<Rightarrow> MsgEthereumTx result" where
  "UnwrapEthereumMsg ac lib [] ethHash = Inl (ErrText ''eth tx not found'')"
| "UnwrapEthereumMsg ac lib (m # ms) ethHash =
     (case m of
        EthereumMsg ethMsg \<Rightarrow>
          rbind (deref (AsTransaction ac lib ethMsg)) (\<lambda>tx.
          let txHash = elHash lib tx
          in if txHash = ethHash then Inr (ethMsg\<lparr>mtHash := elHashHex lib txHash\<rparr>)
             else UnwrapEthereumMsg ac lib ms ethHash)
      | _ \<Rightarrow> Inl (ErrText ''invalid tx type''))"

definition UnpackEthMsg :: "addr_codec \<Rightarrow> sdk_msg \<Rightarrow> (MsgEthereumTx \<times> TxData \<times> addr option) result" where
  "UnpackEthMsg ac m =
     (case m of
        EthereumMsg msgEthTx \<Rightarrow>
          rbind (UnpackTxData (mtData msgEthTx)) (\<lambda>txData. Inr (msgEthTx, txData, GetFrom ac msgEthTx))
      | _ \<Rightarrow> Inl ErrUnknownRequest)"

section \<open>The search for a gas limit\<close>

text \<open>
  \<open>executable\<close> runs a message with a gas limit and tells whether it failed. The loop need not
  end: \<open>None\<close> stands for a search that never returns. The midpoint is computed in 64 bits.
\<close>

partial_function (option) BinSearch :: "(u64 \<Rightarrow> bool result) \<Rightarrow> u64 \<Rightarrow> u64 \<Rightarrow> u64 result option" where
  "BinSearch executable lo hi =
     (if lo + 1 < hi
      then let mid = (hi + lo) div 2
           in (case executable mid of
                 Inl err \<Rightarrow> Some (Inl err)
               | Inr failed \<Rightarrow> if failed then BinSearch executable mid hi else BinSearch executable lo mid)
      else Some (Inr hi))"

section \<open>Integers and bytes\<close>

lemma bitlen_le_iff: "bitlen n \<le> k \<longleftrightarrow> n < 2 ^ k"
proof (induction n arbitrary: k rule: bitlen.induct)
  case (1 n)
  show ?case
  proof (cases "n = 0")
    case True
    then show ?thesis by (simp add: bitlen.simps)
  next
    case False
    then have n: "bitlen n = Suc (bitlen (n div 2))" by (subst bitlen.simps) simp
    show ?thesis
    proof (cases k)
      case 0
      then show ?thesis using False n by simp
    next
      case (Suc j)
      have "n < 2 ^ Suc j \<longleftrightarrow> n div 2 < 2 ^ j" by (simp add: less_mult_imp_div_less div_less_iff_less_mult mult.commute)
      then show ?thesis using 1 [OF False, of j] n Suc by simp
    qed
  qed
qed

lemma IsValidInt256_iff [simp]: "IsValidInt256 (Some n) \<longleftrightarrow> \<bar>n\<bar> < 2 ^ 256" "IsValidInt256 None"
proof -
  have "nat \<bar>n\<bar> < 2 ^ 256 \<longleftrightarrow> \<bar>n\<bar> < 2 ^ 256"
    by (simp add: nat_less_iff)
  then show "IsValidInt256 (Some n) \<longleftrightarrow> \<bar>n\<bar> < 2 ^ 256"
    unfolding IsValidInt256_def big_BitLen_def option.case bitlen_le_iff .
qed (simp add: IsValidInt256_def)

lemma SafeNewIntFromBigInt_eq:
  "SafeNewIntFromBigInt n = (if \<bar>n\<bar> < 2 ^ 256 then Inr n else Inl (ErrText ''big int out of bound''))"
  by (simp add: SafeNewIntFromBigInt_def NewIntFromBigInt_def)

lemma safe_opt_eq: "(\<forall>n. v = Some n \<longrightarrow> \<bar>n\<bar> < 2 ^ 256) \<Longrightarrow> safe_opt v = Inr v"
  by (auto simp: safe_opt_def SafeNewIntFromBigInt_eq split: option.split)

lemma nat_bytes_value: "foldl (\<lambda>v b. v * 256 + uint b) 0 (nat_bytes n) = int n"
proof (induction n rule: nat_bytes.induct)
  case (1 n)
  have "uint (word_of_nat (n mod 256) :: byte) = int (n mod 256)"
    by (simp add: uint_nat unat_of_nat)
  then show ?case using 1 by (auto simp: nat_bytes.simps [of n] zmod_int zdiv_int)
qed

lemma big_SetBytes_Bytes [simp]: "big_SetBytes (big_Bytes x) = \<bar>x\<bar>"
  by (simp add: big_SetBytes_def big_Bytes_def nat_bytes_value)

lemma big_Bytes_Nil [simp]: "big_Bytes x = [] \<longleftrightarrow> x = 0" "big_SetBytes [] = 0"
  by (simp_all add: big_Bytes_def nat_bytes.simps [of "nat \<bar>x\<bar>"] big_SetBytes_def)

section \<open>Conversion\<close>

text \<open>
  The laws of go-ethereum's transactions: hashes have a hexadecimal form, and \<^verbatim>\<open>NewTx\<close> gives a
  transaction whose accessors return the fields of the struct, where a nil integer reads as zero and a nil
  access list as an empty one. The chain id of a legacy transaction is some function of \<open>v\<close>.
\<close>

definition big0 :: "int option \<Rightarrow> int option" where
  "big0 v = Some (case v of None \<Rightarrow> 0 | Some n \<Rightarrow> n)"

definition reads_as :: "(int option \<Rightarrow> int option) \<Rightarrow> EthTxData \<Rightarrow> eth_tx \<Rightarrow> bool" where
  "reads_as legacyChain d t \<longleftrightarrow>
     etType t = edType d \<and> etNonce t = edNonce d \<and> etGas t = edGas d \<and> etTo t = edTo d \<and> etData t = edData d
   \<and> etValue t = big0 (edValue d) \<and> etV t = big0 (edV d) \<and> etR t = big0 (edR d) \<and> etS t = big0 (edS d)
   \<and> etAccessList t = (if edType d = 0 then None else Some (case edAccessList d of None \<Rightarrow> [] | Some l \<Rightarrow> l))
   \<and> etChainId t = (if edType d = 0 then legacyChain (big0 (edV d)) else big0 (edChainID d))
   \<and> etGasPrice t = big0 (if edType d = 2 then edGasFeeCap d else edGasPrice d)
   \<and> etGasFeeCap t = etGasPrice t
   \<and> etGasTipCap t = (if edType d = 2 then big0 (edGasTipCap d) else etGasPrice t)"

definition eth_laws :: "eth_lib \<Rightarrow> (int option \<Rightarrow> int option) \<Rightarrow> bool" where
  "eth_laws lib legacyChain \<longleftrightarrow>
     (\<forall>h. elHexToHash lib (elHashHex lib h) = h)
   \<and> (\<forall>d. edType d \<le> 2 \<longrightarrow> reads_as legacyChain d (elNewTx lib d))"

lemma eth_lawsD:
  assumes "eth_laws lib lc"
  shows "elHexToHash lib (elHashHex lib h) = h" "edType d \<le> 2 \<Longrightarrow> reads_as lc d (elNewTx lib d)"
  using assms by (simp_all add: eth_laws_def)

lemma reads_as_unique: "reads_as lc d t \<Longrightarrow> reads_as lc d t' \<Longrightarrow> t = t'"
  unfolding reads_as_def by (rule eth_tx.equality) simp_all

text \<open>The form a transaction has on the wire: integers of at most 256 bits, an unsigned signature.\<close>

definition small :: "int option \<Rightarrow> bool" where
  "small v \<longleftrightarrow> (\<forall>n. v = Some n \<longrightarrow> \<bar>n\<bar> < 2 ^ 256)"

definition wire_tx :: "EthTxData \<Rightarrow> bool" where
  "wire_tx d \<longleftrightarrow> edType d \<le> 2 \<and> small (edValue d) \<and> small (edGasPrice d) \<and> small (edGasTipCap d) \<and> small (edGasFeeCap d)
   \<and> small (edChainID d) \<and> (\<forall>v \<in> {edV d, edR d, edS d}. \<forall>n. v = Some n \<longrightarrow> 0 \<le> n)"

lemma small_big0: "small v \<Longrightarrow> safe_opt (big0 v) = Inr (big0 v)" "small v \<Longrightarrow> set_chain_id (big0 v) w = Inr (big0 v)"
  by (auto simp: small_def big0_def set_chain_id_def NewIntFromBigInt_def intro!: safe_opt_eq split: option.splits)

text \<open>Signature values survive as bytes, up to a zero that reads back as nil.\<close>

lemma sig_roundtrip:
  assumes "\<forall>n. v = Some n \<longrightarrow> 0 \<le> n"
  shows "big0 (sig_value (sig_bytes (big0 v) [])) = big0 v"
  using assms by (auto simp: sig_value_def sig_bytes_def big0_def split: option.splits)

lemma big0_idem [simp]: "big0 (big0 v) = big0 v"
  by (simp add: big0_def)

lemma to_roundtrip:
  assumes "codec_laws ac" "\<not> acIsHexAddress ac ''''"
  shows "to_address ac (hex_opt ac a) = a"
  using codec_lawsD(3,4) [OF assms(1)] assms(2)
  by (auto simp: to_address_def hex_opt_def split: option.split) metis

lemma access_roundtrip:
  assumes "codec_laws ac" "eth_laws lib lc"
  shows "(case NewAccessList ac lib (Some l) of None \<Rightarrow> None | Some al \<Rightarrow> ToEthAccessList ac lib al) = (if l = [] then None else Some l)"
proof -
  have "map (\<lambda>(a, keys). (acHexToAddress ac a, map (elHexToHash lib) keys))
      (map (\<lambda>(a, keys). (acHex ac a, map (elHashHex lib) keys)) l) = l"
    using codec_lawsD(3) [OF assms(1)] eth_lawsD(1) [OF assms(2)]
    by (auto simp: comp_def intro!: map_idI)
  then show ?thesis by (simp add: NewAccessList_def ToEthAccessList_def)
qed

lemma NewTxDataFromTx_reads:
  assumes "codec_laws ac" "\<not> acIsHexAddress ac ''''" "eth_laws lib lc" "wire_tx d" "reads_as lc d t"
  shows "\<exists>td. NewTxDataFromTx ac lib t = Inr td \<and> reads_as lc (AsEthereumData ac lib td) t \<and> edType (AsEthereumData ac lib td) \<le> 2"
proof -
  note ok = assms(4) [unfolded wire_tx_def] and r = assms(5) [unfolded reads_as_def]
  note parts = small_big0 sig_roundtrip to_roundtrip [OF assms(1,2)] access_roundtrip [OF assms(1,3)]
  consider "edType d = 0" | "edType d = 1" | "edType d = 2" using ok by linarith
  then show ?thesis
  proof cases
    case 1
    then show ?thesis using ok r
      by (simp add: NewTxDataFromTx_def NewLegacyTx_def parts LegacyTx_SetSignatureValues_def LegacyTx_AsEthereumData_def
          LegacyTx_getters_def rawSignatureValues_def Let_def reads_as_def)
  next
    case 2
    then show ?thesis using ok r
      by (simp add: NewTxDataFromTx_def newAccessListTx_def parts AccessListTx_SetSignatureValues_def
          AccessListTx_AsEthereumData_def AccessListTx_getters_def rawSignatureValues_def Let_def reads_as_def)
  next
    case 3
    then show ?thesis using ok r
      by (simp add: NewTxDataFromTx_def NewDynamicFeeTx_def parts DynamicFeeTx_SetSignatureValues_def
          DynamicFeeTx_AsEthereumData_def DynamicFeeTx_getters_def rawSignatureValues_def Let_def reads_as_def)
  qed
qed

text \<open>
  C25. A transaction that arrives in Ethereum's format becomes a message of the chain, and the
  transaction that the message stands for is the one that arrived, with its hash: nothing is
  lost that the signature or the hash depends on. This holds for all three kinds, zero
  signature values and empty access lists included.
\<close>

theorem FromEthereumTx_roundtrip:
  assumes "codec_laws ac" "\<not> acIsHexAddress ac ''''" "eth_laws lib lc" "wire_tx d"
  shows "\<exists>m. FromEthereumTx ac lib msg (elNewTx lib d) = Inr m
     \<and> AsTransaction ac lib m = Some (elNewTx lib d) \<and> mtHash m = elHashHex lib (elHash lib (elNewTx lib d))"
proof -
  let ?t = "elNewTx lib d"
  have "reads_as lc d ?t" using assms(4) by (intro eth_lawsD(2) [OF assms(3)]) (simp add: wire_tx_def)
  from NewTxDataFromTx_reads [OF assms this] obtain td where
    td: "NewTxDataFromTx ac lib ?t = Inr td" "reads_as lc (AsEthereumData ac lib td) ?t" "edType (AsEthereumData ac lib td) \<le> 2"
    by blast
  have "elNewTx lib (AsEthereumData ac lib td) = ?t"
    by (rule reads_as_unique [OF eth_lawsD(2) [OF assms(3) td(3)] td(2)])
  then show ?thesis using td(1) by (simp add: FromEthereumTx_def AsTransaction_def UnpackTxData_def)
qed

text \<open>A concrete library: the signature value \<open>r\<close> names the signer.\<close>

definition ex_new_tx :: "EthTxData \<Rightarrow> eth_tx" where
  "ex_new_tx d =
     (let price = big0 (if edType d = 2 then edGasFeeCap d else edGasPrice d)
      in \<lparr>etType = edType d, etChainId = (if edType d = 0 then DeriveChainID (big0 (edV d)) else big0 (edChainID d)),
          etNonce = edNonce d, etGasPrice = price,
          etGasTipCap = (if edType d = 2 then big0 (edGasTipCap d) else price), etGasFeeCap = price,
          etGas = edGas d, etTo = edTo d, etValue = big0 (edValue d), etData = edData d,
          etAccessList = (if edType d = 0 then None else Some (case edAccessList d of None \<Rightarrow> [] | Some l \<Rightarrow> l)),
          etV = big0 (edV d), etR = big0 (edR d), etS = big0 (edS d)\<rparr>)"

definition ex_sender :: "eth_tx \<Rightarrow> addr result" where
  "ex_sender t = Inr (word_of_int (case etR t of None \<Rightarrow> 0 | Some r \<Rightarrow> r))"

definition int_or_zero :: "int option \<Rightarrow> int" where
  "int_or_zero v = (case v of None \<Rightarrow> 0 | Some n \<Rightarrow> n)"

definition ex_eth_lib :: eth_lib where
  "ex_eth_lib =
     \<lparr>elNewTx = ex_new_tx, elHash = (\<lambda>t. ucast (etNonce t)),
      elHashHex = (\<lambda>h. map (\<lambda>b. char_of (unat b)) (big_Bytes (uint h))),
      elHexToHash = (\<lambda>s. word_of_int (big_SetBytes (map (\<lambda>c. word_of_nat (of_char c)) s))),
      elProtected = (\<lambda>t. etType t \<noteq> 0 \<or> int_or_zero (etV t) \<notin> {0, 1, 27, 28}),
      elLatestSender = (\<lambda>_. ex_sender), elSender = (\<lambda>_ _. ex_sender),
      elAsMessage = (\<lambda>_ _ t baseFee. rbind (ex_sender t) (\<lambda>from.
        Inr \<lparr>cmFrom = from, cmTo = etTo t, cmNonce = etNonce t, cmGas = etGas t,
          cmGasPrice = (case baseFee of None \<Rightarrow> int_or_zero (etGasPrice t)
            | Some b \<Rightarrow> min (int_or_zero (etGasTipCap t) + b) (int_or_zero (etGasFeeCap t))),
          cmGasFeeCap = int_or_zero (etGasFeeCap t), cmGasTipCap = int_or_zero (etGasTipCap t), cmData = etData t,
          cmAccessList = etAccessList t, cmValue = int_or_zero (etValue t)\<rparr>)),
      elIntrinsicGas = (\<lambda>_ _ _ _ _. Inr 21000), elUnmarshal = (\<lambda>_. Inl (ErrExternal ''rlp''))\<rparr>"

lemma ex_eth_lib_laws: "eth_laws ex_eth_lib DeriveChainID"
proof -
  have "elHexToHash ex_eth_lib (elHashHex ex_eth_lib h) = h" for h
  proof -
    have m: "unat x mod 256 = unat x" for x :: byte using unsigned_less [of x, where 'a = nat] by simp
    have "map (\<lambda>c. word_of_nat (of_char c)) (map (\<lambda>b. char_of (unat b)) bs) = bs" for bs :: "byte list"
      by (rule trans [OF map_map map_idI]) (simp add: m)
    then have "elHexToHash ex_eth_lib (elHashHex ex_eth_lib h) = word_of_int (big_SetBytes (big_Bytes (uint h)))"
      by (simp add: ex_eth_lib_def)
    then show ?thesis by simp
  qed
  then show ?thesis by (simp add: eth_laws_def reads_as_def ex_eth_lib_def ex_new_tx_def Let_def)
qed

definition ex_data :: EthTxData where
  "ex_data = \<lparr>edType = 2, edChainID = Some 5438, edNonce = 7, edGasPrice = None, edGasTipCap = Some 3, edGasFeeCap = Some 100,
     edGas = 21000, edTo = Some 9, edValue = Some 5, edData = None, edAccessList = Some [(9, [1, 2])],
     edV = Some 0, edR = Some 77, edS = Some 78\<rparr>"

definition blank_msg :: MsgEthereumTx where
  "blank_msg = \<lparr>mtData = None, mtSize = 0, mtHash = '''', mtFrom = ''''\<rparr>"

lemma ex_codec_empty: "\<not> acIsHexAddress ex_codec ''''"
  by (simp add: ex_codec_def)

theorem FromEthereumTx_roundtrip_witness:
  "\<exists>m. FromEthereumTx ex_codec ex_eth_lib blank_msg (elNewTx ex_eth_lib ex_data) = Inr m
     \<and> AsTransaction ex_codec ex_eth_lib m = Some (elNewTx ex_eth_lib ex_data)"
proof -
  have "wire_tx ex_data" by (simp add: wire_tx_def ex_data_def small_def)
  from FromEthereumTx_roundtrip [OF ex_codec_laws ex_codec_empty ex_eth_lib_laws this, of blank_msg]
  show ?thesis by blast
qed

section \<open>Validation\<close>

text \<open>
  What a valid transaction fulfils: the fee cap (the gas price of the older kinds) and, for dynamic fees, the
  tip are not negative, the fee fits 256 bits and the amount is not negative.
\<close>

lemma check_amount_Inr: "check_amount v = Inr u \<longleftrightarrow> (\<forall>n. v = Some n \<longrightarrow> 0 \<le> n \<and> n < 2 ^ 256)"
  by (cases v) (auto simp: check_amount_def)

lemma TxData_Validate_fees:
  assumes "TxData_Validate ac td = Inr ()"
  obtains cap where "TxGetGasFeeCap (txGetters ac lib td) = Some cap" "0 \<le> cap"
    "TxFee (txFees td) = Inr (cap * uint (TxGetGas (txGetters ac lib td)))"
    "cap * uint (TxGetGas (txGetters ac lib td)) < 2 ^ 256"
    "\<forall>n. TxGetValue (txGetters ac lib td) = Some n \<longrightarrow> 0 \<le> n"
    "\<exists>n \<in> {5438, 5439}. TxGetChainID (txGetters ac lib td) = Some n"
    "\<And>b. TxEffectiveGasPrice (txFees td) (Some b) = Inr (Some (if TxType td = 2
       then min (the (TxGetGasTipCap (txGetters ac lib td)) + b) cap else cap))"
    "\<And>b. TxEffectiveFee (txFees td) (Some b) = Inr ((if TxType td = 2
       then min (the (TxGetGasTipCap (txGetters ac lib td)) + b) cap else cap) * uint (TxGetGas (txGetters ac lib td)))"
    "0 \<le> the (TxGetGasTipCap (txGetters ac lib td))"
proof (cases td)
  case (TxLegacy tx)
  then show ?thesis using assms
    by (intro that [of "the (ltGasPrice tx)"])
      (auto simp: LegacyTx_Validate_def LegacyTx_getters_def LegacyTx_fees_def Let_def rawSignatureValues_def tx_fee_def
        deref_def rbind_Inr_iff check_amount_Inr check_chain_id_def split: option.splits if_splits)
next
  case (TxAccessList tx)
  then show ?thesis using assms
    by (intro that [of "the (atGasPrice tx)"])
      (auto simp: AccessListTx_Validate_def AccessListTx_getters_def AccessListTx_fees_def Let_def tx_fee_def
        deref_def rbind_Inr_iff check_amount_Inr check_chain_id_def split: option.splits if_splits)
next
  case (TxDynamicFee tx)
  then show ?thesis using assms
    by (intro that [of "the (dtGasFeeCap tx)"])
      (auto simp: DynamicFeeTx_Validate_def DynamicFeeTx_getters_def DynamicFeeTx_fees_def DynamicFeeTx_EffectiveGasPrice_def
        EffectiveGasPrice_def Let_def tx_fee_def
        deref_def rbind_Inr_iff check_amount_Inr check_chain_id_def split: option.splits if_splits)
qed

text \<open>
  C29. A valid transaction that offers at least the base fee pays a price per gas between the
  base fee and its cap, the fee it pays is that price for all its gas, and it never exceeds the
  fee the sender signed for, which fits 256 bits.
\<close>

theorem effective_fee_bounds:
  assumes "TxData_Validate ac td = Inr ()" "TxGetGasFeeCap (txGetters ac lib td) = Some cap" "0 \<le> b" "b \<le> cap"
  shows "\<exists>price f. TxEffectiveGasPrice (txFees td) (Some b) = Inr (Some price) \<and> b \<le> price \<and> price \<le> cap
     \<and> TxEffectiveFee (txFees td) (Some b) = Inr (price * uint (TxGetGas (txGetters ac lib td)))
     \<and> TxFee (txFees td) = Inr f \<and> price * uint (TxGetGas (txGetters ac lib td)) \<le> f \<and> f < 2 ^ 256"
proof -
  obtain cap' where v: "TxGetGasFeeCap (txGetters ac lib td) = Some cap'" "0 \<le> cap'"
    "TxFee (txFees td) = Inr (cap' * uint (TxGetGas (txGetters ac lib td)))"
    "cap' * uint (TxGetGas (txGetters ac lib td)) < 2 ^ 256"
    "\<And>b. TxEffectiveGasPrice (txFees td) (Some b) = Inr (Some (if TxType td = 2
       then min (the (TxGetGasTipCap (txGetters ac lib td)) + b) cap' else cap'))"
    "\<And>b. TxEffectiveFee (txFees td) (Some b) = Inr ((if TxType td = 2
       then min (the (TxGetGasTipCap (txGetters ac lib td)) + b) cap' else cap') * uint (TxGetGas (txGetters ac lib td)))"
    "0 \<le> the (TxGetGasTipCap (txGetters ac lib td))"
    using TxData_Validate_fees [OF assms(1), where lib = lib] by metis
  have [simp]: "cap' = cap" using v(1) assms(2) by simp
  let ?p = "if TxType td = 2 then min (the (TxGetGasTipCap (txGetters ac lib td)) + b) cap else cap"
  have p: "b \<le> ?p" "?p \<le> cap" using assms(4) v(7) by auto
  have "?p * uint (TxGetGas (txGetters ac lib td)) \<le> cap * uint (TxGetGas (txGetters ac lib td))"
    by (rule mult_right_mono [OF p(2)]) simp
  then show ?thesis using v(3-6) p by auto
qed

definition ex_dynamic :: DynamicFeeTx where
  "ex_dynamic = \<lparr>dtChainID = Some 5438, dtNonce = 7, dtGasTipCap = Some 3, dtGasFeeCap = Some 100, dtGasLimit = 21000,
     dtTo = ''x11'', dtAmount = Some 5, dtData = None, dtAccesses = None, dtV = [], dtR = [77], dtS = [78]\<rparr>"

lemma ex_dynamic_valid: "DynamicFeeTx_Validate ex_codec ex_dynamic = Inr ()"
  by (simp add: DynamicFeeTx_Validate_def ex_dynamic_def DynamicFeeTx_fees_def Let_def tx_fee_def deref_def
      check_amount_def check_to_def ex_codec_def check_chain_id_def)

theorem effective_fee_bounds_witness:
  "TxEffectiveFee (txFees (TxDynamicFee ex_dynamic)) (Some 50) = Inr (53 * 21000)"
  using effective_fee_bounds [of ex_codec "TxDynamicFee ex_dynamic" ex_eth_lib 100 50] ex_dynamic_valid
  by (simp add: DynamicFeeTx_getters_def ex_dynamic_def DynamicFeeTx_fees_def Let_def DynamicFeeTx_EffectiveGasPrice_def
      EffectiveGasPrice_def deref_def tx_fee_def)

text \<open>
  A legacy transaction whose signature carries no chain id (\<open>v\<close> is 27 or 28, or missing)
  never passes validation, because the chain id derived from it is not one of this chain.
  The parameter \<^verbatim>\<open>AllowUnprotectedTxs\<close>, which is only read after validation, cannot admit it.
\<close>

theorem unprotected_rejected:
  assumes "mtData msg = Some (TxLegacy tx)" "big_SetBytes (ltV tx) \<in> {0, 1, 27, 28}"
  shows "EthMsg_ValidateBasic ac lib msg \<noteq> Inr ()"
proof
  have "big_BitLen 1 \<le> 64 \<and> big_BitLen 27 \<le> 64 \<and> big_BitLen 28 \<le> 64"
    by (simp add: big_BitLen_def bitlen_le_iff)
  then have c: "GetChain \<noteq> Some 5438 \<and> GetChain \<noteq> Some 5439" if "GetChain = TxGetChainID (LegacyTx_getters ac tx)" for GetChain
    using assms(2) unfolding that
    by (auto simp: LegacyTx_getters_def rawSignatureValues_def sig_value_def DeriveChainID_def Let_def)
  assume "EthMsg_ValidateBasic ac lib msg = Inr ()"
  then have "TxData_Validate ac (TxLegacy tx) = Inr ()"
    using assms(1) by (auto simp: EthMsg_ValidateBasic_def UnpackTxData_def Let_def rbind_Inr_iff split: if_splits)
  then obtain n where "n \<in> {5438, 5439}" "TxGetChainID (txGetters ac lib (TxLegacy tx)) = Some n"
    by (rule TxData_Validate_fees [where lib = lib]) blast
  then show False using c [OF refl] by auto
qed

definition ex_unprotected :: LegacyTx where
  "ex_unprotected = \<lparr>ltNonce = 0, ltGasPrice = Some 10, ltGasLimit = 21000, ltTo = ''x1'', ltAmount = Some 1, ltData = None,
     ltV = [27], ltR = [1], ltS = [1]\<rparr>"

theorem unprotected_rejected_witness:
  "EthMsg_ValidateBasic ex_codec ex_eth_lib (blank_msg\<lparr>mtData := Some (TxLegacy ex_unprotected)\<rparr>) \<noteq> Inr ()"
  by (rule unprotected_rejected [where tx = ex_unprotected]) (simp_all add: ex_unprotected_def big_SetBytes_def)

section \<open>The search for a gas limit\<close>

lemma mid_nat:
  fixes lo hi :: u64
  assumes "lo + 1 < hi" "unat hi \<le> 2 ^ 63" "lo < hi"
  shows "unat ((hi + lo) div 2) = (unat hi + unat lo) div 2" "unat lo + 1 < unat hi"
proof -
  have l: "unat lo < unat hi" using assms(3) by (simp add: word_less_nat_alt)
  have "unat (hi + lo) = unat hi + unat lo" using l assms(2) by (subst unat_word_ariths) simp
  then show "unat ((hi + lo) div 2) = (unat hi + unat lo) div 2" by (simp add: unat_div_distrib)
  have "unat (lo + 1) = unat lo + 1" using l assms(2) by (subst unat_word_ariths) simp
  then show "unat lo + 1 < unat hi" using assms(1) by (simp add: word_less_nat_alt)
qed

lemma BinSearch_run:
  assumes "\<forall>g. executable g = Inr (failed g)"
  shows "lo < hi \<Longrightarrow> unat hi \<le> 2 ^ 63 \<Longrightarrow> \<exists>r. BinSearch executable lo hi = Some (Inr r) \<and> lo < r \<and> r \<le> hi
     \<and> (r = hi \<or> \<not> failed r) \<and> (\<exists>p. (p = lo \<or> failed p) \<and> (\<forall>g. g < r \<longrightarrow> g \<le> p))"
proof (induction "unat hi - unat lo" arbitrary: lo hi rule: less_induct)
  case less
  show ?case
  proof (cases "lo + 1 < hi")
    case False
    have "unat lo < unat hi" using less.prems(1) by (simp add: word_less_nat_alt)
    then have "unat (lo + 1) = unat lo + 1" using less.prems(2) by (subst unat_word_ariths) simp
    then have "unat hi \<le> unat lo + 1" using False by (simp add: word_less_nat_alt)
    then have "g \<le> lo" if "g < hi" for g using that by (simp add: word_less_nat_alt word_le_nat_alt)
    moreover have "BinSearch executable lo hi = Some (Inr hi)" using False by (simp add: BinSearch.simps)
    ultimately show ?thesis using less.prems(1) by blast
  next
    case True
    let ?m = "(hi + lo) div 2"
    note m = mid_nat [OF True less.prems(2,1)]
    have mid: "lo < ?m" "?m < hi" "unat ?m \<le> 2 ^ 63" using m less.prems(2) by (simp_all add: word_less_nat_alt)
    have step: "BinSearch executable lo hi = (if failed ?m then BinSearch executable ?m hi else BinSearch executable lo ?m)"
      using True assms by (subst BinSearch.simps) (simp add: Let_def)
    show ?thesis
    proof (cases "failed ?m")
      case f: True
      have "unat hi - unat ?m < unat hi - unat lo" using m by simp
      note ih = less.hyps [OF this mid(2) less.prems(2)]
      then obtain r p where "BinSearch executable ?m hi = Some (Inr r)" "?m < r" "r \<le> hi" "r = hi \<or> \<not> failed r"
        "p = ?m \<or> failed p" "\<forall>g. g < r \<longrightarrow> g \<le> p" by (elim exE conjE) rule
      then show ?thesis using step f mid(1) by (intro exI [of _ r] conjI exI [of _ p]) auto
    next
      case f: False
      have "unat ?m - unat lo < unat hi - unat lo" using m by simp
      note ih = less.hyps [OF this mid(1,3)]
      then obtain r p where "BinSearch executable lo ?m = Some (Inr r)" "lo < r" "r \<le> ?m" "r = ?m \<or> \<not> failed r"
        "p = lo \<or> failed p" "\<forall>g. g < r \<longrightarrow> g \<le> p" by (elim exE conjE) rule
      then show ?thesis using step f mid(2) by (intro exI [of _ r] conjI exI [of _ p]) auto
    qed
  qed
qed

text \<open>
  C30. The search for a gas limit ends, and finds the least limit above its lower end that does
  not fail, or the upper end if all below fail, when more gas never makes a message fail and
  the upper end is at most \<open>2 ^ 63\<close>.
\<close>

theorem BinSearch_minimal:
  assumes "lo < hi" "unat hi \<le> 2 ^ 63"
    and "\<forall>g. executable g = Inr (failed g)" "\<forall>g g'. g \<le> g' \<longrightarrow> failed g' \<longrightarrow> failed g"
  shows "\<exists>r. BinSearch executable lo hi = Some (Inr r) \<and> lo < r \<and> r \<le> hi
     \<and> (r = hi \<or> \<not> failed r) \<and> (\<forall>g. lo < g \<longrightarrow> g < r \<longrightarrow> failed g)"
proof -
  obtain r p where r: "BinSearch executable lo hi = Some (Inr r)" "lo < r" "r \<le> hi" "r = hi \<or> \<not> failed r"
    and p: "p = lo \<or> failed p" "\<forall>g. g < r \<longrightarrow> g \<le> p"
    using BinSearch_run [OF assms(3,1,2)] by (elim exE conjE) rule
  have "failed g" if "lo < g" "g < r" for g
  proof -
    have "g \<le> p" using p(2) that(2) by simp
    then have "failed p" using p(1) that(1) by auto
    then show ?thesis using assms(4) \<open>g \<le> p\<close> by simp
  qed
  then show ?thesis using r by (intro exI [of _ r]) simp
qed

theorem BinSearch_minimal_witness: "BinSearch (\<lambda>g. Inr (g < 21055)) 20999 30000000 = Some (Inr 21055)"
proof -
  have mono: "\<forall>g g' :: u64. g \<le> g' \<longrightarrow> g' < 21055 \<longrightarrow> g < 21055" by (auto intro: order_le_less_trans)
  obtain r where r: "BinSearch (\<lambda>g. Inr (g < 21055)) 20999 30000000 = Some (Inr r)" "20999 < r" "r \<le> 30000000"
      "r = 30000000 \<or> \<not> r < 21055" "\<forall>g. 20999 < g \<longrightarrow> g < r \<longrightarrow> g < 21055"
    using BinSearch_minimal [of 20999 30000000 "\<lambda>g. Inr (g < 21055)" "\<lambda>g. g < 21055", OF _ _ _ mono]
    by auto
  have "\<not> 21055 < r" using r(5) [rule_format, of 21055] by auto
  then have "r = 21055" using r(4) by auto
  then show ?thesis using r(1) by simp
qed

text \<open>
  With the largest 64-bit number as upper end, the block gas limit of a chain without one, the
  midpoint wraps around, the lower end never gets beyond the middle of the range, and a search
  in which every limit fails does not end.
\<close>

lemma BinSearch_diverges: "unat lo < 2 ^ 63 \<Longrightarrow> BinSearch (\<lambda>_. Inr True) lo (- 1) = None"
proof (rule ccontr)
  assume lo: "unat lo < 2 ^ 63" and "BinSearch (\<lambda>_. Inr True) lo (- 1) \<noteq> None"
  then obtain y where ret: "BinSearch (\<lambda>_. Inr True) lo (- 1) = Some y" by blast
  have "ex = (\<lambda>_. Inr True) \<longrightarrow> hi = - 1 \<longrightarrow> \<not> unat lo < 2 ^ 63" if "BinSearch ex lo hi = Some y" for ex lo hi y
  proof (rule BinSearch.raw_induct [where P = "\<lambda>ex lo hi _. ex = (\<lambda>_. Inr True) \<longrightarrow> hi = - 1 \<longrightarrow> \<not> unat lo < 2 ^ 63", OF _ that])
    fix f :: "(u64 \<Rightarrow> bool result) \<Rightarrow> u64 \<Rightarrow> u64 \<Rightarrow> u64 result option" and ex lo hi y
    assume IH: "\<And>ex lo hi y. f ex lo hi = Some y \<Longrightarrow> ex = (\<lambda>_. Inr True) \<longrightarrow> hi = - 1 \<longrightarrow> \<not> unat lo < 2 ^ 63"
      and body: "(if lo + 1 < hi then let mid = (hi + lo) div 2 in (case ex mid of Inl err \<Rightarrow> Some (Inl err)
          | Inr failed \<Rightarrow> if failed then f ex mid hi else f ex lo mid) else Some (Inr hi)) = Some y"
    show "ex = (\<lambda>_. Inr True) \<longrightarrow> hi = - 1 \<longrightarrow> \<not> unat lo < 2 ^ 63"
    proof (intro impI notI)
      assume ex: "ex = (\<lambda>_. Inr True)" and hi: "hi = - 1" and lo: "unat lo < 2 ^ 63"
      have "unat (lo + 1) = unat lo + 1" using lo by (subst unat_word_ariths) simp
      moreover have top: "unat (- 1 :: u64) = 2 ^ 64 - 1" by (simp add: unsigned_minus_1_eq_mask mask_eq_exp_minus_1)
      ultimately have go: "lo + 1 < hi" using lo hi by (simp add: word_less_nat_alt)
      have "unat ((hi + lo) div 2) < 2 ^ 63"
        using unsigned_less [of "hi + lo", where 'a = nat] by (simp add: unat_div_distrib)
      moreover have "f ex ((hi + lo) div 2) hi = Some y" using body go ex by (simp add: Let_def)
      ultimately show False using IH ex hi by blast
    qed
  qed
  then show False using lo ret by blast
qed

end
