(* ===== verification/FeeMarket.thy ===== *)
theory FeeMarket
  imports Dec Coins
begin

text \<open>
  The \<^verbatim>\<open>x/feemarket\<close> module: the base fee of EIP-1559 from one block to the next
  (\<^verbatim>\<open>keeper/eip1559.go\<close>), the gas counters it reads (\<^verbatim>\<open>keeper/keeper.go\<close>,
  \<^verbatim>\<open>keeper/abci.go\<close>), its parameters and their checks (\<^verbatim>\<open>types/params.go\<close>).
  A \<^verbatim>\<open>big.Int\<close> is an \<open>int\<close>; \<^verbatim>\<open>Div\<close> by a positive number rounds down, by zero it panics.
\<close>

section \<open>Parameters\<close>

record FeeParams =
  NoBaseFee :: bool
  BaseFeeChangeDenominator :: "32 word"
  ElasticityMultiplier :: "32 word"
  fpBaseFee :: "int option"
  EnableHeight :: int
  MinGasPrice :: "int option"
  MinGasMultiplier :: "int option"

definition fm_NewParams ::
  "bool \<Rightarrow> 32 word \<Rightarrow> 32 word \<Rightarrow> 64 word \<Rightarrow> int \<Rightarrow> int option \<Rightarrow> int option \<Rightarrow> FeeParams" where
  "fm_NewParams noBaseFee baseFeeChangeDenom elasticityMultiplier baseFee enableHeight minGasPrice minGasPriceMultiplier =
     \<lparr>NoBaseFee = noBaseFee, BaseFeeChangeDenominator = baseFeeChangeDenom, ElasticityMultiplier = elasticityMultiplier,
      fpBaseFee = Some (uint baseFee), EnableHeight = enableHeight, MinGasPrice = minGasPrice,
      MinGasMultiplier = minGasPriceMultiplier\<rparr>"

text \<open>The constants are those of go-ethereum's \<^verbatim>\<open>params\<close> package.\<close>

definition fm_DefaultParams :: FeeParams where
  "fm_DefaultParams =
     \<lparr>NoBaseFee = False, BaseFeeChangeDenominator = 8, ElasticityMultiplier = 2, fpBaseFee = Some 1000000000,
      EnableHeight = 0, MinGasPrice = Some 0, MinGasMultiplier = Some (LegacyNewDecWithPrec 50 2)\<rparr>"

definition validateMinGasPrice :: "int option \<Rightarrow> unit result" where
  "validateMinGasPrice v =
     (case v of None \<Rightarrow> Inl (ErrText ''invalid parameter: nil'')
      | Some x \<Rightarrow> if x < 0 then Inl (ErrText ''value cannot be negative'') else Inr ())"

definition validateMinGasMultiplier :: "int option \<Rightarrow> unit result" where
  "validateMinGasMultiplier v =
     (case v of None \<Rightarrow> Inl (ErrText ''invalid parameter: nil'')
      | Some x \<Rightarrow> if x < 0 then Inl (ErrText ''value cannot be negative'')
          else if x > dec_one then Inl (ErrText ''value cannot be greater than 1'') else Inr ())"

text \<open>\<^verbatim>\<open>IsNegative\<close> of a nil base fee dereferences nil.\<close>

definition fm_Validate :: "FeeParams \<Rightarrow> unit result" where
  "fm_Validate p =
     (if BaseFeeChangeDenominator p = 0 then Inl (ErrText ''base fee change denominator cannot be 0'')
      else case fpBaseFee p of None \<Rightarrow> Inl (Panic ''nil base fee'')
      | Some baseFee \<Rightarrow>
          if baseFee < 0 then Inl (ErrText ''initial base fee cannot be negative'')
          else if EnableHeight p < 0 then Inl (ErrText ''enable height cannot be negative'')
          else rbind (validateMinGasMultiplier (MinGasMultiplier p)) (\<lambda>_. validateMinGasPrice (MinGasPrice p)))"

definition IsBaseFeeEnabled :: "FeeParams \<Rightarrow> int \<Rightarrow> bool" where
  "IsBaseFeeEnabled p height \<longleftrightarrow> \<not> NoBaseFee p \<and> height \<ge> EnableHeight p"

section \<open>The keeper\<close>

text \<open>
  The stores and the context: \<open>fmLegacy\<close> is what the legacy parameter subspace reads,
  \<open>fmMaxGas\<close> the block's maximal gas if the consensus parameters have it, and \<open>fmGasMeter\<close>
  what the block gas meter reports as consumed, if there is one.
\<close>

record FeeCtx =
  fmParams :: "FeeParams option"
  fmLegacy :: FeeParams
  fmBlockGasWanted :: "64 word"
  fmTransientGasWanted :: "64 word"
  fmBaseFeeV1 :: "int option"
  fmHeight :: int
  fmMaxGas :: "int option"
  fmGasMeter :: "64 word option"

definition fm_GetParams :: "FeeCtx \<Rightarrow> FeeParams" where
  "fm_GetParams cx =
     (let params = (case fmParams cx of None \<Rightarrow> fmLegacy cx | Some p \<Rightarrow> p);
          params = (if MinGasPrice params = None then params\<lparr>MinGasPrice := Some 0\<rparr> else params)
      in if MinGasMultiplier params = None then params\<lparr>MinGasMultiplier := Some 0\<rparr> else params)"

definition fm_SetParams :: "FeeCtx \<Rightarrow> FeeParams \<Rightarrow> FeeCtx" where
  "fm_SetParams cx params = cx\<lparr>fmParams := Some params\<rparr>"

definition GetBaseFeeEnabled :: "FeeCtx \<Rightarrow> bool" where
  "GetBaseFeeEnabled cx =
     (let params = fm_GetParams cx in \<not> NoBaseFee params \<and> fmHeight cx \<ge> EnableHeight params)"

definition GetBaseFeeV1 :: "FeeCtx \<Rightarrow> int option" where
  "GetBaseFeeV1 cx = fmBaseFeeV1 cx"

definition fm_GetBaseFee :: "FeeCtx \<Rightarrow> int option" where
  "fm_GetBaseFee cx =
     (let params = fm_GetParams cx
      in if NoBaseFee params then None
         else case fpBaseFee params of None \<Rightarrow> GetBaseFeeV1 cx
         | Some baseFee \<Rightarrow> if baseFee = 0 then GetBaseFeeV1 cx else Some baseFee)"

definition SetBaseFee :: "FeeCtx \<Rightarrow> int \<Rightarrow> FeeCtx result" where
  "SetBaseFee cx baseFee =
     rbind (NewIntFromBigInt baseFee) (\<lambda>n. Inr (fm_SetParams cx ((fm_GetParams cx)\<lparr>fpBaseFee := Some n\<rparr>)))"

definition SetBlockGasWanted :: "FeeCtx \<Rightarrow> 64 word \<Rightarrow> FeeCtx" where
  "SetBlockGasWanted cx gas = cx\<lparr>fmBlockGasWanted := gas\<rparr>"

definition GetBlockGasWanted :: "FeeCtx \<Rightarrow> 64 word" where
  "GetBlockGasWanted cx = fmBlockGasWanted cx"

definition GetTransientGasWanted :: "FeeCtx \<Rightarrow> 64 word" where
  "GetTransientGasWanted cx = fmTransientGasWanted cx"

definition SetTransientBlockGasWanted :: "FeeCtx \<Rightarrow> 64 word \<Rightarrow> FeeCtx" where
  "SetTransientBlockGasWanted cx gasWanted = cx\<lparr>fmTransientGasWanted := gasWanted\<rparr>"

definition AddTransientGasWanted :: "FeeCtx \<Rightarrow> 64 word \<Rightarrow> (FeeCtx \<times> 64 word) result" where
  "AddTransientGasWanted cx gasWanted =
     (let r = GetTransientGasWanted cx + gasWanted in Inr (SetTransientBlockGasWanted cx r, r))"

definition fm_UpdateParams :: "string \<Rightarrow> FeeCtx \<Rightarrow> string \<Rightarrow> FeeParams \<Rightarrow> FeeCtx result" where
  "fm_UpdateParams authority cx reqAuthority params =
     (if authority \<noteq> reqAuthority then Inl ErrInvalidSigner else Inr (fm_SetParams cx params))"

section \<open>The base fee\<close>

definition big_Div :: "int \<Rightarrow> int \<Rightarrow> int result" where
  "big_Div x y = (if y = 0 then Inl (Panic ''division by zero'') else Inr (x div y))"

definition CalculateBaseFee :: "dec_ops \<Rightarrow> FeeCtx \<Rightarrow> int option result" where
  "CalculateBaseFee d cx =
     (let params = fm_GetParams cx
      in if \<not> IsBaseFeeEnabled params (fmHeight cx) then Inr None
         else if fmHeight cx = EnableHeight params then Inr (fpBaseFee params)
         else case fpBaseFee params of None \<Rightarrow> Inr None
         | Some parentBaseFee \<Rightarrow>
             let parentGasUsed = uint (GetBlockGasWanted cx);
                 gasLimit = (case fmMaxGas cx of Some g \<Rightarrow> if g > -1 then g else 2 ^ 64 - 1 | None \<Rightarrow> 2 ^ 64 - 1)
             in rbind (big_Div gasLimit (uint (ElasticityMultiplier params))) (\<lambda>parentGasTarget.
                if \<not> (0 \<le> parentGasTarget \<and> parentGasTarget < 2 ^ 64) then Inr None
                else
                  let baseFeeChangeDenominator = uint (BaseFeeChangeDenominator params)
                  in if parentGasUsed = parentGasTarget then Inr (Some parentBaseFee)
                     else if parentGasUsed > parentGasTarget then
                       rbind (big_Div (parentBaseFee * (parentGasUsed - parentGasTarget)) parentGasTarget) (\<lambda>y.
                       rbind (big_Div y baseFeeChangeDenominator) (\<lambda>x.
                       Inr (Some (parentBaseFee + max x 1))))
                     else
                       rbind (big_Div (parentBaseFee * (parentGasTarget - parentGasUsed)) parentGasTarget) (\<lambda>y.
                       rbind (big_Div y baseFeeChangeDenominator) (\<lambda>baseFeeDelta.
                       Inr (Some (max (parentBaseFee - baseFeeDelta)
                                      (decTruncateInt d (case MinGasPrice params of Some p \<Rightarrow> p | None \<Rightarrow> 0))))))))"

section \<open>Begin and end of a block\<close>

definition fm_BeginBlock :: "dec_ops \<Rightarrow> FeeCtx \<Rightarrow> FeeCtx result" where
  "fm_BeginBlock d cx =
     rbind (CalculateBaseFee d cx) (\<lambda>baseFee.
       case baseFee of None \<Rightarrow> Inr cx | Some f \<Rightarrow> SetBaseFee cx f)"

definition dec_Uint64 :: "int \<Rightarrow> 64 word result" where
  "dec_Uint64 n = (if 0 \<le> n \<and> n < 2 ^ 64 then Inr (word_of_int n) else Inl (Panic ''Uint64() out of bound''))"

definition fm_EndBlock :: "dec_ops \<Rightarrow> FeeCtx \<Rightarrow> FeeCtx result" where
  "fm_EndBlock d cx =
     (case fmGasMeter cx of None \<Rightarrow> Inr cx
      | Some consumed \<Rightarrow>
          let gasWanted = uint (GetTransientGasWanted cx);
              gasUsed = uint consumed
          in if \<not> in_i64 gasWanted then Inr cx
             else if \<not> in_i64 gasUsed then Inr cx
             else
               let minGasMultiplier = (case MinGasMultiplier (fm_GetParams cx) of Some x \<Rightarrow> x | None \<Rightarrow> 0)
               in rbind (decMul d (LegacyNewDec gasWanted) minGasMultiplier) (\<lambda>limitedGasWanted.
                  rbind (dec_Uint64 (decTruncateInt d (max limitedGasWanted (LegacyNewDec gasUsed)))) (\<lambda>updatedGasWanted.
                  Inr (SetBlockGasWanted cx updatedGasWanted))))"

section \<open>Genesis and queries\<close>

definition fm_InitGenesis :: "FeeCtx \<Rightarrow> FeeParams \<times> 64 word \<Rightarrow> FeeCtx" where
  "fm_InitGenesis cx data = SetBlockGasWanted (fm_SetParams cx (fst data)) (snd data)"

definition fm_ExportGenesis :: "FeeCtx \<Rightarrow> FeeParams \<times> 64 word" where
  "fm_ExportGenesis cx = (fm_GetParams cx, GetBlockGasWanted cx)"

definition q_BaseFee :: "FeeCtx \<Rightarrow> int option result" where
  "q_BaseFee cx =
     (case fm_GetBaseFee cx of None \<Rightarrow> Inr None | Some f \<Rightarrow> rbind (NewIntFromBigInt f) (\<lambda>n. Inr (Some n)))"

definition q_BlockGas :: "FeeCtx \<Rightarrow> int result" where
  "q_BlockGas cx =
     (let gas = uint (GetBlockGasWanted cx) in if \<not> in_i64 gas then Inl (ErrText ''block gas is higher than MaxInt64'') else Inr gas)"

section \<open>EIP-1559\<close>

definition gas_limit :: "FeeCtx \<Rightarrow> int" where
  "gas_limit cx = (case fmMaxGas cx of Some g \<Rightarrow> if g > -1 then g else 2 ^ 64 - 1 | None \<Rightarrow> 2 ^ 64 - 1)"

definition gas_target :: "FeeCtx \<Rightarrow> int" where
  "gas_target cx = gas_limit cx div uint (ElasticityMultiplier (fm_GetParams cx))"

definition min_base_fee :: "FeeCtx \<Rightarrow> int" where
  "min_base_fee cx = (case MinGasPrice (fm_GetParams cx) of Some p \<Rightarrow> p | None \<Rightarrow> 0) div dec_one"

text \<open>
  The base fee is being computed: enabled, past its first block, with a base fee, a non-zero
  denominator and a positive target.
\<close>

definition fee_running :: "FeeCtx \<Rightarrow> int \<Rightarrow> bool" where
  "fee_running cx f \<longleftrightarrow>
     IsBaseFeeEnabled (fm_GetParams cx) (fmHeight cx) \<and> fmHeight cx \<noteq> EnableHeight (fm_GetParams cx)
   \<and> fpBaseFee (fm_GetParams cx) = Some f \<and> 0 \<le> f
   \<and> BaseFeeChangeDenominator (fm_GetParams cx) \<noteq> 0 \<and> ElasticityMultiplier (fm_GetParams cx) \<noteq> 0
   \<and> 0 < gas_target cx \<and> gas_limit cx < 2 ^ 64
   \<and> (\<exists>p. MinGasPrice (fm_GetParams cx) = Some p \<and> 0 \<le> p)"

lemma uint_pos: "w \<noteq> 0 \<Longrightarrow> 0 < uint w"
  by (simp add: order_less_le uint_0_iff)

lemma CalculateBaseFee_running:
  assumes laws: "dec_laws d" and run: "fee_running cx f"
  defines "used \<equiv> uint (GetBlockGasWanted cx)" and "target \<equiv> gas_target cx"
    and "denom \<equiv> uint (BaseFeeChangeDenominator (fm_GetParams cx))"
  shows "CalculateBaseFee d cx = Inr (Some
    (if used = target then f
     else if used > target then f + max (f * (used - target) div target div denom) 1
     else max (f - f * (target - used) div target div denom) (min_base_fee cx)))"
proof -
  let ?e = "uint (ElasticityMultiplier (fm_GetParams cx))"
  have e: "0 < ?e" and den: "0 < denom" and tgt: "0 < target"
    using run by (simp_all add: fee_running_def denom_def target_def uint_pos)
  have lim: "0 \<le> gas_limit cx" by (simp add: gas_limit_def split: option.split)
  have "target \<le> gas_limit cx"
    unfolding target_def gas_target_def using zdiv_mono2 [of "gas_limit cx" 1 ?e] e lim by simp
  moreover have "gas_limit cx < 2 ^ 64" using run by (simp add: fee_running_def)
  ultimately have t64: "target < 2 ^ 64" by simp
  have trunc: "decTruncateInt d (case MinGasPrice (fm_GetParams cx) of Some p \<Rightarrow> p | None \<Rightarrow> 0) = min_base_fee cx"
    using run dec_lawsD(8) [OF laws] by (auto simp: fee_running_def min_base_fee_def)
  have div1: "big_Div (gas_limit cx) ?e = Inr target"
    using e by (simp add: big_Div_def target_def gas_target_def)
  have div2: "big_Div y target = Inr (y div target)" "big_Div y denom = Inr (y div denom)" for y
    using tgt den by (simp_all add: big_Div_def)
  show ?thesis
    using run tgt t64
    unfolding CalculateBaseFee_def Let_def gas_limit_def [symmetric] denom_def [symmetric] used_def [symmetric]
      trunc div1 rbind_simps
    by (simp add: fee_running_def div2)
qed

lemma step_bound:
  fixes f g target denom :: int
  assumes "0 < target" "0 < denom" "0 \<le> f" "0 \<le> g" "g \<le> target"
  shows "0 \<le> f * g div target div denom" "f * g div target div denom \<le> f div denom"
proof -
  have "f * g div target \<le> f * target div target" using assms by (intro zdiv_mono1) (simp_all add: mult_left_mono)
  then have le: "f * g div target \<le> f" using assms(1) by simp
  have ge: "0 \<le> f * g div target" using assms by (simp add: pos_imp_zdiv_nonneg_iff)
  show "0 \<le> f * g div target div denom" using ge assms(2) by (simp add: pos_imp_zdiv_nonneg_iff)
  show "f * g div target div denom \<le> f div denom" using le assms(2) by (rule zdiv_mono1)
qed


definition ex_fee_cx :: FeeCtx where
  "ex_fee_cx = \<lparr>fmParams = Some fm_DefaultParams, fmLegacy = fm_DefaultParams, fmBlockGasWanted = 750,
     fmTransientGasWanted = 1000, fmBaseFeeV1 = None, fmHeight = 7, fmMaxGas = Some 1000, fmGasMeter = Some 300\<rparr>"

lemma ex_fee_params: "fm_GetParams ex_fee_cx = fm_DefaultParams"
  by (simp add: fm_GetParams_def ex_fee_cx_def fm_DefaultParams_def)

lemma ex_fee_running: "fee_running ex_fee_cx 1000000000" "gas_target ex_fee_cx = 500"
  using ex_fee_params
  by (simp_all add: fee_running_def gas_target_def gas_limit_def IsBaseFeeEnabled_def fm_DefaultParams_def ex_fee_cx_def)


section \<open>Parameters stay valid\<close>

lemma fm_Validate_iff:
  "fm_Validate p = Inr () \<longleftrightarrow>
     BaseFeeChangeDenominator p \<noteq> 0 \<and> (\<exists>f \<ge> 0. fpBaseFee p = Some f) \<and> 0 \<le> EnableHeight p
   \<and> (\<exists>m. MinGasMultiplier p = Some m \<and> 0 \<le> m \<and> m \<le> dec_one) \<and> (\<exists>g \<ge> 0. MinGasPrice p = Some g)"
  by (auto simp: fm_Validate_def validateMinGasMultiplier_def validateMinGasPrice_def rbind_Inr_iff split: option.splits if_splits)

definition fee_valid :: "FeeCtx \<Rightarrow> bool" where
  "fee_valid cx \<longleftrightarrow> (\<exists>p. fmParams cx = Some p \<and> fm_Validate p = Inr ())"

lemma fee_valid_GetParams: "fee_valid cx \<Longrightarrow> fmParams cx = Some (fm_GetParams cx) \<and> fm_Validate (fm_GetParams cx) = Inr ()"
  by (auto simp: fee_valid_def fm_GetParams_def fm_Validate_iff Let_def)

text \<open>The transitions of a block: its begin and end, the gas of its transactions, and governance.\<close>

inductive fee_step :: "dec_ops \<Rightarrow> string \<Rightarrow> FeeCtx \<Rightarrow> FeeCtx \<Rightarrow> bool" for d auth where
  begin_block: "fm_BeginBlock d cx = Inr cx' \<Longrightarrow> fee_step d auth cx cx'"
| end_block: "fm_EndBlock d cx = Inr cx' \<Longrightarrow> fee_step d auth cx cx'"
| tx: "AddTransientGasWanted cx g = Inr (cx', r) \<Longrightarrow> fee_step d auth cx cx'"
| gov: "fm_Validate p = Inr () \<Longrightarrow> fm_UpdateParams auth cx a p = Inr cx' \<Longrightarrow> fee_step d auth cx cx'"
| next_block: "fee_step d auth cx (cx\<lparr>fmHeight := h, fmTransientGasWanted := 0, fmMaxGas := g, fmGasMeter := m\<rparr>)"

lemma CalculateBaseFee_nonneg:
  assumes "dec_laws d" "fee_valid cx" "CalculateBaseFee d cx = Inr (Some f)"
  shows "0 \<le> f"
proof -
  note v = fee_valid_GetParams [OF assms(2), THEN conjunct2, unfolded fm_Validate_iff]
  obtain g m where g: "fpBaseFee (fm_GetParams cx) = Some g" "0 \<le> g" "MinGasPrice (fm_GetParams cx) = Some m" "0 \<le> m"
    using v by blast
  have "0 \<le> decTruncateInt d m" using dec_lawsD(8) [OF assms(1) g(4)] g(4) by (simp add: pos_imp_zdiv_nonneg_iff)
  then show ?thesis
    using assms(3) g by (auto simp: CalculateBaseFee_def Let_def rbind_Inr_iff split: if_splits)
qed

text \<open>
  C32. The parameters stay valid through any sequence of blocks: the base fee that a block
  stores is never negative, and no transition touches the other parameters but a governance
  update, which has passed the stateless checks.
\<close>

theorem fee_params_stay_valid:
  assumes "dec_laws d" "(fee_step d auth)\<^sup>*\<^sup>* cx cx'" "fee_valid cx"
  shows "fee_valid cx'"
  using assms(2,3)
proof (induction rule: rtranclp_induct)
  case (step y z)
  then have y: "fee_valid y" by simp
  note p = fee_valid_GetParams [OF y]
  from step.hyps(2) show ?case
  proof cases
    case begin_block
    then obtain r where r: "CalculateBaseFee d y = Inr r" "(case r of None \<Rightarrow> Inr y | Some f \<Rightarrow> SetBaseFee y f) = Inr z"
      by (auto simp: fm_BeginBlock_def rbind_Inr_iff)
    show ?thesis
    proof (cases r)
      case (Some f)
      have "0 \<le> f" using CalculateBaseFee_nonneg [OF assms(1) y] r(1) Some by simp
      then show ?thesis
        using r(2) Some p
        by (auto simp: SetBaseFee_def rbind_Inr_iff fee_valid_def fm_SetParams_def fm_Validate_iff dest!: NewIntFromBigInt_Inr)
    qed (use r y in simp)
  next
    case end_block
    then have "fmParams z = fmParams y"
      by (auto simp: fm_EndBlock_def rbind_Inr_iff Let_def SetBlockGasWanted_def split: option.splits if_splits)
    then show ?thesis using y by (simp add: fee_valid_def)
  qed (use y in \<open>auto simp: fee_valid_def AddTransientGasWanted_def SetTransientBlockGasWanted_def Let_def
      fm_UpdateParams_def fm_SetParams_def split: if_splits\<close>)
qed simp

theorem fee_params_stay_valid_witness: "fee_valid (ex_fee_cx\<lparr>fmParams := Some (fm_DefaultParams\<lparr>fpBaseFee := Some 1062500000\<rparr>)\<rparr>)"
proof -
  have calc: "CalculateBaseFee dec_impl ex_fee_cx = Inr (Some 1062500000)"
    using CalculateBaseFee_running [OF dec_impl_laws ex_fee_running(1)] ex_fee_running(2) ex_fee_params
    by (simp add: GetBlockGasWanted_def ex_fee_cx_def fm_DefaultParams_def)
  have "fm_BeginBlock dec_impl ex_fee_cx = Inr (ex_fee_cx\<lparr>fmParams := Some (fm_DefaultParams\<lparr>fpBaseFee := Some 1062500000\<rparr>)\<rparr>)"
    by (simp add: fm_BeginBlock_def calc SetBaseFee_def NewIntFromBigInt_def fm_SetParams_def ex_fee_params)
  then have "(fee_step dec_impl ''gov'')\<^sup>*\<^sup>* ex_fee_cx (ex_fee_cx\<lparr>fmParams := Some (fm_DefaultParams\<lparr>fpBaseFee := Some 1062500000\<rparr>)\<rparr>)"
    by (intro r_into_rtranclp fee_step.begin_block)
  moreover have "fee_valid ex_fee_cx"
    by (simp add: fee_valid_def ex_fee_cx_def fm_Validate_iff fm_DefaultParams_def LegacyNewDecWithPrec_def dec_one_def)
  ultimately show ?thesis by (rule fee_params_stay_valid [OF dec_impl_laws])
qed



text \<open>
  At the end of a block the gas that the next base fee reads is at least the gas used and
  at most the larger of the gas wanted and used; with valid parameters and counters within
  63 bits it is the larger of the gas used and the multiplier's share of the gas wanted,
  rounded down, and the block does not panic.
\<close>

theorem EndBlock_gas_bounds:
  assumes "dec_laws d" "fee_valid cx" "fmGasMeter cx = Some used"
    and "uint (GetTransientGasWanted cx) < 2 ^ 63" "uint used < 2 ^ 63"
  shows "\<exists>cx' m. fm_EndBlock d cx = Inr cx' \<and> MinGasMultiplier (fm_GetParams cx) = Some m
     \<and> uint (GetBlockGasWanted cx') = max (uint (GetTransientGasWanted cx) * m div dec_one) (uint used)
     \<and> uint used \<le> uint (GetBlockGasWanted cx')
     \<and> uint (GetBlockGasWanted cx') \<le> max (uint (GetTransientGasWanted cx)) (uint used)"
proof -
  let ?w = "uint (GetTransientGasWanted cx)"
  obtain m where m: "MinGasMultiplier (fm_GetParams cx) = Some m" "0 \<le> m" "m \<le> dec_one"
    using fee_valid_GetParams [OF assms(2)] by (auto simp: fm_Validate_iff)
  have "LegacyNewDec ?w * m \<le> (2 ^ 63 * dec_one) * dec_one"
    unfolding LegacyNewDec_def using m assms(4) by (intro mult_mono) simp_all
  also have "\<dots> < 2 ^ 315" by (simp add: dec_one_def)
  finally have "\<bar>LegacyNewDec ?w * m\<bar> < 2 ^ 315" using m(2) by (simp add: LegacyNewDec_def)
  then obtain r where r: "decMul d (LegacyNewDec ?w) m = Inr r" using dec_lawsD(2) [OF assms(1)] by blast
  have rw: "r = ?w * m" by (rule decMul_exact [OF assms(1) r])
  have le: "?w * m div dec_one \<le> ?w"
    using zdiv_mono1 [of "?w * m" "?w * dec_one" dec_one] m by (simp add: mult_left_mono)
  have ge: "0 \<le> ?w * m div dec_one" using m by (simp add: pos_imp_zdiv_nonneg_iff)
  define n where "n = max (?w * m div dec_one) (uint used)"
  have "max r (LegacyNewDec (uint used)) div dec_one = max (?w * m div dec_one) (LegacyNewDec (uint used) div dec_one)"
    unfolding rw by (rule max_of_mono [symmetric, OF monoI]) (simp add: zdiv_mono1)
  then have "decTruncateInt d (max r (LegacyNewDec (uint used))) = n"
    using dec_lawsD(8) [OF assms(1), of "max r (LegacyNewDec (uint used))"] by (simp add: LegacyNewDec_def n_def le_max_iff_disj)
  moreover have n: "0 \<le> n" "n \<le> max ?w (uint used)" "n < 2 ^ 63" "uint used \<le> n"
    using le ge assms(4,5) by (auto simp: n_def)
  then have "dec_Uint64 n = Inr (word_of_int n)" by (simp add: dec_Uint64_def)
  ultimately have "fm_EndBlock d cx = Inr (SetBlockGasWanted cx (word_of_int n))"
    using assms(3-5) m(1) r uint_ge_0 [of used] uint_ge_0 [of "GetTransientGasWanted cx"]
    by (simp add: fm_EndBlock_def Let_def in_i64_def order_trans [OF _ uint_ge_0])
  moreover have "uint (GetBlockGasWanted (SetBlockGasWanted cx (word_of_int n))) = n"
    using n(1,3) by (simp add: GetBlockGasWanted_def SetBlockGasWanted_def uint_word_of_int take_bit_int_eq_self)
  ultimately show ?thesis using m(1) n by (auto simp: n_def)
qed

theorem EndBlock_gas_bounds_witness: "\<exists>cx'. fm_EndBlock dec_impl ex_fee_cx = Inr cx' \<and> uint (GetBlockGasWanted cx') = 500"
proof -
  have "fee_valid ex_fee_cx" "fmGasMeter ex_fee_cx = Some 300" "uint (GetTransientGasWanted ex_fee_cx) < 2 ^ 63" "uint (300 :: 64 word) < 2 ^ 63"
    by (simp_all add: fee_valid_def ex_fee_cx_def fm_Validate_iff fm_DefaultParams_def LegacyNewDecWithPrec_def dec_one_def
        GetTransientGasWanted_def)
  from EndBlock_gas_bounds [OF dec_impl_laws this]
  obtain cx' m where "fm_EndBlock dec_impl ex_fee_cx = Inr cx'" "MinGasMultiplier fm_DefaultParams = Some m"
    "uint (GetBlockGasWanted cx') = max (uint (GetTransientGasWanted ex_fee_cx) * m div dec_one) (uint (300 :: 64 word))"
    unfolding ex_fee_params by blast
  moreover have "uint (GetTransientGasWanted ex_fee_cx) = 1000" by (simp add: GetTransientGasWanted_def ex_fee_cx_def)
  ultimately show ?thesis by (auto simp: fm_DefaultParams_def LegacyNewDecWithPrec_def dec_one_def)
qed

end
