(* ===== verification/EvmTransition.thy ===== *)
theory EvmTransition
  imports EvmTx EvmKeeper FeeMarket
begin

text \<open>
  Executing Ethereum transactions: \<^verbatim>\<open>x/evm/keeper/state_transition.go\<close>, \<^verbatim>\<open>gas.go\<close>,
  \<^verbatim>\<open>config.go\<close>, \<^verbatim>\<open>precompiles.go\<close>, \<^verbatim>\<open>hooks.go\<close>, \<^verbatim>\<open>abci.go\<close> and \<^verbatim>\<open>msg_server.go\<close>, with the
  gas meter of \<^verbatim>\<open>types/gasmeter.go\<close> and the block gas limit of \<^verbatim>\<open>types/block.go\<close>. The virtual
  machine of go-ethereum is a pair of functions on the state database, for calls and for
  creations. Logs stay in go-ethereum's format, events other than those of the
  message server, tracing and telemetry are left out.
\<close>

section \<open>Gas meters\<close>

record gas_meter =
  gmConsumed :: u64
  gmLimit :: u64

definition NewInfiniteGasMeterWithLimit :: "u64 \<Rightarrow> gas_meter" where
  "NewInfiniteGasMeterWithLimit limit = \<lparr>gmConsumed = 0, gmLimit = limit\<rparr>"

definition addUint64Overflow :: "u64 \<Rightarrow> u64 \<Rightarrow> u64 \<times> bool" where
  "addUint64Overflow a b = (if - 1 - a < b then (0, True) else (a + b, False))"

definition meter_ConsumeGas :: "gas_meter \<Rightarrow> u64 \<Rightarrow> gas_meter result" where
  "meter_ConsumeGas g amount =
     (let (consumed, overflow) = addUint64Overflow (gmConsumed g) amount
      in if overflow then Inl (Panic ''ErrorGasOverflow'') else Inr (g\<lparr>gmConsumed := consumed\<rparr>))"

definition meter_RefundGas :: "gas_meter \<Rightarrow> u64 \<Rightarrow> gas_meter result" where
  "meter_RefundGas g amount =
     (if gmConsumed g < amount then Inl (Panic ''ErrorNegativeGasConsumed'')
      else Inr (g\<lparr>gmConsumed := gmConsumed g - amount\<rparr>))"

text \<open>
  \<open>blockMeter\<close> is the limit of the block gas meter, if there is one, \<open>maxGas\<close> the block's maximal gas in the
  consensus parameters, if they have a block section.
\<close>

definition BlockGasLimit :: "u64 option \<Rightarrow> int option \<Rightarrow> u64" where
  "BlockGasLimit blockMeter maxGas =
     (case blockMeter of
        Some limit \<Rightarrow> if limit \<noteq> 0 then limit else
          (case maxGas of None \<Rightarrow> 0 | Some m \<Rightarrow> if m = -1 then - 1 else if m > 0 then word_of_int m else 0)
      | None \<Rightarrow> (case maxGas of None \<Rightarrow> 0 | Some m \<Rightarrow> if m = -1 then - 1 else if m > 0 then word_of_int m else 0))"

section \<open>The context\<close>

text \<open>
  The SDK context of a transaction: the stores of the EVM and fee market modules, those of all
  other modules (\<open>chOthers\<close>), the gas meter of the transaction and the limit and consumption of
  the block's, and the block header. \<open>chHeader\<close> is the hash of the header that the
  context carries, if it can be converted.
\<close>

record ('w, 'x) ChainCtx =
  chEvm :: "'w EvmCtx"
  chFee :: FeeCtx
  chOthers :: 'x
  chGasMeter :: gas_meter
  chBlockMeter :: "(u64 \<times> u64) option"
  chMaxGas :: "int option"
  chHeaderHash :: "byte list"
  chHeader :: "byte list option"
  chProposer :: "byte list"
  chTime :: int

abbreviation ch_height :: "('w, 'x) ChainCtx \<Rightarrow> int" where
  "ch_height c \<equiv> blockHeight (chEvm c)"

abbreviation ch_params :: "('w, 'x) ChainCtx \<Rightarrow> Params" where
  "ch_params c \<equiv> evm_GetParams (evmParams (chEvm c))"

abbreviation ch_sdk :: "('w, 'x) ChainCtx \<Rightarrow> 'w" where
  "ch_sdk c \<equiv> sdkState (chEvm c)"

record EVMConfigR =
  evParams :: Params
  evChainConfig :: ethConfig
  evCoinBase :: addr
  evBaseFee :: "int option"

record block_ctx =
  bcGetHash :: "u64 \<Rightarrow> hash"
  bcCoinbase :: addr
  bcGasLimit :: u64
  bcBlockNumber :: int
  bcTime :: int
  bcBaseFee :: "int option"

record vm_config =
  vcDebug :: bool
  vcNoBaseFee :: bool
  vcExtraEips :: "int list"

text \<open>A virtual machine; the custom precompiles are set by \<^verbatim>\<open>WithPrecompiles\<close>.\<close>

record evm_inst =
  viBlock :: block_ctx
  viMsg :: core_msg
  viConfig :: ethConfig
  viVm :: vm_config
  viPrecompiles :: "addr list option"

record MsgEthereumTxResponse =
  rsHash :: hash
  rsLogs :: "Log list"
  rsRet :: "byte list"
  rsVmError :: string
  rsGasUsed :: u64

record Receipt =
  rcType :: nat
  rcCumulativeGasUsed :: u64
  rcBloom :: int
  rcLogs :: "Log list"
  rcTxHash :: hash
  rcContractAddress :: addr
  rcGasUsed :: u64
  rcBlockHash :: hash
  rcBlockNumber :: int
  rcTransactionIndex :: u64
  rcStatus :: nat

text \<open>
  What the keeper gets from elsewhere: the codecs and go-ethereum, the SDK's keepers, the fork rules of a
  chain configuration, validators and historical headers of the staking module, the machine itself with its
  precompiles, and the hooks. \<open>eeVmCall\<close> and \<open>eeVmCreate\<close> return the database, the return data, the gas
  left over and the text of the error, if any.
\<close>

record ('w, 'x) evm_env =
  eeLib :: eth_lib
  eeParamLib :: evm_lib
  eeCodec :: addr_codec
  eeKec :: "byte list \<Rightarrow> hash"
  eeAk :: "'w AccountKeeper"
  eeBk :: "'w BankKeeper"
  eeDec :: dec_ops
  eeChainID :: "int option"
  eeAuthority :: string
  eeIsHomestead :: "ethConfig \<Rightarrow> int \<Rightarrow> bool"
  eeIsIstanbul :: "ethConfig \<Rightarrow> int \<Rightarrow> bool"
  eeIsLondon :: "ethConfig \<Rightarrow> int \<Rightarrow> bool"
  eeRulesIsBerlin :: "ethConfig \<Rightarrow> int \<Rightarrow> bool \<Rightarrow> bool"
  eeBytesToAddress :: "byte list \<Rightarrow> addr"
  eeBytesToHash :: "byte list \<Rightarrow> hash"
  eeValidatorOperator :: "'w \<Rightarrow> byte list \<Rightarrow> byte list option"
  eeHistoricalHeader :: "'w \<Rightarrow> int \<Rightarrow> byte list option option"
  eeNoOpTracer :: bool
  eeVmCall :: "evm_inst \<Rightarrow> ('w, 'x) ChainCtx StateDB \<Rightarrow> addr \<Rightarrow> addr \<Rightarrow> byte list option \<Rightarrow> u64 \<Rightarrow> int
     \<Rightarrow> ('w, 'x) ChainCtx StateDB \<times> byte list \<times> u64 \<times> string option"
  eeVmCreate :: "evm_inst \<Rightarrow> ('w, 'x) ChainCtx StateDB \<Rightarrow> addr \<Rightarrow> byte list option \<Rightarrow> u64 \<Rightarrow> int
     \<Rightarrow> ('w, 'x) ChainCtx StateDB \<times> byte list \<times> u64 \<times> string option"
  eeActivePrecompiles :: "evm_inst \<Rightarrow> addr list"
  eePrecompilesBerlin :: "addr list"
  eePrecompiles :: "addr list"
  eeLogsBloom :: "Log list \<Rightarrow> int"
  eeHooks :: "(('w, 'x) ChainCtx \<Rightarrow> core_msg \<Rightarrow> Receipt \<Rightarrow> (('w, 'x) ChainCtx \<times> Receipt) result) list option"

text \<open>The keeper as the state database sees it, in the whole context.\<close>

definition chain_Keeper :: "('w, 'x) evm_env \<Rightarrow> ('w, 'x) ChainCtx Keeper" where
  "chain_Keeper e =
     \<lparr>kGetAccount = (\<lambda>c. ek_GetAccount (eeKec e) (eeAk e) (eeBk e) (chEvm c)),
      kGetState = (\<lambda>c. ek_GetState (chEvm c)), kGetCode = (\<lambda>c. ek_GetCode (chEvm c)),
      kStorage = (\<lambda>c. storage_pairs (chEvm c)),
      kSetAccount = (\<lambda>c a acc. rbind (ek_SetAccount (eeAk e) (eeBk e) (chEvm c) a acc) (\<lambda>v. Inr (c\<lparr>chEvm := v\<rparr>))),
      kSetState = (\<lambda>c a key v. c\<lparr>chEvm := ek_SetState (chEvm c) a key v\<rparr>),
      kSetCode = (\<lambda>c h bs. c\<lparr>chEvm := ek_SetCode (chEvm c) h bs\<rparr>),
      kDeleteAccount = (\<lambda>c a. rbind (ek_DeleteAccount (eeAk e) (eeBk e) (chEvm c) a) (\<lambda>v. Inr (c\<lparr>chEvm := v\<rparr>)))\<rparr>"

section \<open>Configuration\<close>

definition IsLondon :: "('w, 'x) evm_env \<Rightarrow> ethConfig \<Rightarrow> int \<Rightarrow> bool" where
  "IsLondon e cfg height = eeIsLondon e cfg height"

definition GetProposerAddress :: "('w, 'x) ChainCtx \<Rightarrow> byte list \<Rightarrow> byte list" where
  "GetProposerAddress c proposerAddress = (if length proposerAddress = 0 then chProposer c else proposerAddress)"

definition GetCoinbaseAddress :: "('w, 'x) evm_env \<Rightarrow> ('w, 'x) ChainCtx \<Rightarrow> byte list \<Rightarrow> addr result" where
  "GetCoinbaseAddress e c proposerAddress =
     (case eeValidatorOperator e (ch_sdk c) (GetProposerAddress c proposerAddress) of
        None \<Rightarrow> Inl (ErrExternal ''ErrNoValidatorFound'')
      | Some operator \<Rightarrow> Inr (eeBytesToAddress e operator))"

definition ek_GetBaseFee :: "('w, 'x) evm_env \<Rightarrow> ('w, 'x) ChainCtx \<Rightarrow> ethConfig \<Rightarrow> int option" where
  "ek_GetBaseFee e c cfg = evm_getBaseFee (fm_GetBaseFee (chFee c)) (IsLondon e cfg (ch_height c))"

definition EVMConfig :: "('w, 'x) evm_env \<Rightarrow> ('w, 'x) ChainCtx \<Rightarrow> byte list \<Rightarrow> EVMConfigR result" where
  "EVMConfig e c proposerAddress =
     (let params = ch_params c; ethCfg = EthereumConfig (ChainCfg params) (eeChainID e)
      in rbind (GetCoinbaseAddress e c proposerAddress) (\<lambda>coinbase.
         Inr \<lparr>evParams = params, evChainConfig = ethCfg, evCoinBase = coinbase, evBaseFee = ek_GetBaseFee e c ethCfg\<rparr>))"

definition ek_TxConfig :: "('w, 'x) evm_env \<Rightarrow> ('w, 'x) ChainCtx \<Rightarrow> hash \<Rightarrow> TxConfig" where
  "ek_TxConfig e c txHash =
     NewTxConfig (eeBytesToHash e (chHeaderHash c)) txHash (GetTxIndexTransient (chEvm c)) (GetLogSizeTransient (chEvm c))"

definition VMConfig :: "('w, 'x) evm_env \<Rightarrow> ('w, 'x) ChainCtx \<Rightarrow> EVMConfigR \<Rightarrow> bool \<Rightarrow> vm_config" where
  "VMConfig e c cfg noOpTracer =
     (let noBaseFee = (if IsLondon e (evChainConfig cfg) (ch_height c) then NoBaseFee (fm_GetParams (chFee c)) else True)
      in \<lparr>vcDebug = \<not> noOpTracer, vcNoBaseFee = noBaseFee, vcExtraEips = ExtraEIPs (evParams cfg)\<rparr>)"

definition GetHashFn :: "('w, 'x) evm_env \<Rightarrow> ('w, 'x) ChainCtx \<Rightarrow> u64 \<Rightarrow> hash" where
  "GetHashFn e c height =
     (case SafeInt64 height of
        Inl _ \<Rightarrow> 0
      | Inr h \<Rightarrow>
          if ch_height c = h then
            (if length (chHeaderHash c) \<noteq> 0 then eeBytesToHash e (chHeaderHash c)
             else case chHeader c of None \<Rightarrow> 0 | Some headerHash \<Rightarrow> eeBytesToHash e headerHash)
          else if ch_height c > h then
            (case eeHistoricalHeader e (ch_sdk c) h of
               None \<Rightarrow> 0
             | Some None \<Rightarrow> 0
             | Some (Some headerHash) \<Rightarrow> eeBytesToHash e headerHash)
          else 0)"

text \<open>\<open>tracer\<close> tells of a given tracer whether it is the one without effect; without one the keeper's is used.\<close>

definition NewEVM ::
  "('w, 'x) evm_env \<Rightarrow> ('w, 'x) ChainCtx \<Rightarrow> core_msg \<Rightarrow> EVMConfigR \<Rightarrow> bool option \<Rightarrow> evm_inst" where
  "NewEVM e c msg cfg tracer =
     (let blockCtx = \<lparr>bcGetHash = GetHashFn e c, bcCoinbase = evCoinBase cfg,
            bcGasLimit = BlockGasLimit (map_option fst (chBlockMeter c)) (chMaxGas c),
            bcBlockNumber = ch_height c, bcTime = chTime c, bcBaseFee = evBaseFee cfg\<rparr>;
          noOp = (case tracer of None \<Rightarrow> eeNoOpTracer e | Some t \<Rightarrow> t)
      in \<lparr>viBlock = blockCtx, viMsg = msg, viConfig = evChainConfig cfg, viVm = VMConfig e c cfg noOp, viPrecompiles = None\<rparr>)"

section \<open>Precompiles\<close>

definition GetActivePrecompilesAddrs :: "addr_codec \<Rightarrow> Params \<Rightarrow> addr list" where
  "GetActivePrecompilesAddrs ac p = map (acHexToAddress ac) (ActivePrecompiles p)"

fun ek_Precompiles :: "addr list \<Rightarrow> addr list \<Rightarrow> addr list result" where
  "ek_Precompiles available [] = Inr []"
| "ek_Precompiles available (a # as) =
     (if a \<notin> set available then Inl (Panic ''precompiled contract not initialized'')
      else rbind (ek_Precompiles available as) (\<lambda>bs. Inr (a # bs)))"

definition IsAvailablePrecompile :: "addr list \<Rightarrow> addr \<Rightarrow> bool" where
  "IsAvailablePrecompile available a \<longleftrightarrow> a \<in> set available"

definition GetAvailablePrecompileAddrs :: "addr list \<Rightarrow> addr list" where
  "GetAvailablePrecompileAddrs available = sort (remdups available)"

fun add_extensions :: "addr_codec \<Rightarrow> addr list \<Rightarrow> addr list \<Rightarrow> string list \<Rightarrow> (addr list \<times> string list) result" where
  "add_extensions ac available [] names = Inr (available, names)"
| "add_extensions ac available (a # as) names =
     (if a \<in> set available then Inl (ErrText ''precompile already registered'')
      else add_extensions ac (a # available) as (names @ [acHex ac a]))"

text \<open>The new parameters and the new map of available precompiles.\<close>

definition AddEVMExtensions ::
  "evm_lib \<Rightarrow> addr_codec \<Rightarrow> param_store \<Rightarrow> addr list \<Rightarrow> addr list \<Rightarrow> (param_store \<times> addr list) result" where
  "AddEVMExtensions lib ac st available precompiles =
     (let params = evm_GetParams st
      in rbind (add_extensions ac available precompiles []) (\<lambda>(available', names).
         rbind (evm_SetParams lib st (params\<lparr>ActivePrecompiles := ActivePrecompiles params @ names\<rparr>)) (\<lambda>st'.
         Inr (st', available'))))"

section \<open>Gas\<close>

definition GetEthIntrinsicGas :: "('w, 'x) evm_env \<Rightarrow> ('w, 'x) ChainCtx \<Rightarrow> core_msg \<Rightarrow> ethConfig \<Rightarrow> bool \<Rightarrow> u64 result" where
  "GetEthIntrinsicGas e c msg cfg isContractCreation =
     elIntrinsicGas (eeLib e) (cmData msg) (cmAccessList msg) isContractCreation
       (eeIsHomestead e cfg (ch_height c)) (eeIsIstanbul e cfg (ch_height c))"

definition FeeCollectorName :: string where
  "FeeCollectorName = ''fee_collector''"

definition set_ch_sdk :: "('w, 'x) ChainCtx \<Rightarrow> 'w \<Rightarrow> ('w, 'x) ChainCtx" where
  "set_ch_sdk c w = c\<lparr>chEvm := set_sdk (chEvm c) w\<rparr>"

definition RefundGas :: "('w, 'x) evm_env \<Rightarrow> ('w, 'x) ChainCtx \<Rightarrow> core_msg \<Rightarrow> u64 \<Rightarrow> string \<Rightarrow> ('w, 'x) ChainCtx result" where
  "RefundGas e c msg leftoverGas denom =
     (let remaining = uint leftoverGas * cmGasPrice msg
      in if remaining < 0 then Inl ErrInvalidRefund
         else if remaining > 0 then
           rbind (NewIntFromBigInt remaining) (\<lambda>n.
           case bkSendCoinsFromModuleToAccount (eeBk e) (ch_sdk c) FeeCollectorName (cmFrom msg) (NewCoin denom n) of
             Inl err \<Rightarrow> if is_panic (Inl err :: unit result) then Inl err else Inl (ErrExternal ''ErrInsufficientFunds'')
           | Inr w \<Rightarrow> Inr (set_ch_sdk c w))
         else Inr c)"

definition ResetGasMeterAndConsumeGas :: "('w, 'x) ChainCtx \<Rightarrow> u64 \<Rightarrow> ('w, 'x) ChainCtx result" where
  "ResetGasMeterAndConsumeGas c gasUsed =
     rbind (meter_RefundGas (chGasMeter c) (gmConsumed (chGasMeter c))) (\<lambda>g.
     rbind (meter_ConsumeGas g gasUsed) (\<lambda>g. Inr (c\<lparr>chGasMeter := g\<rparr>)))"

definition GasToRefund :: "u64 \<Rightarrow> u64 \<Rightarrow> u64 \<Rightarrow> u64 result" where
  "GasToRefund availableRefund gasConsumed refundQuotient =
     (if refundQuotient = 0 then Inl (Panic ''division by zero'')
      else let refund = gasConsumed div refundQuotient
           in Inr (if refund > availableRefund then availableRefund else refund))"

section \<open>Applying a message\<close>

text \<open>Sets up the custom precompiles, after checking that the message does not call an inactive one.\<close>

definition setup_precompiles :: "('w, 'x) evm_env \<Rightarrow> core_msg \<Rightarrow> Params \<Rightarrow> evm_inst \<Rightarrow> evm_inst result" where
  "setup_precompiles e msg params evm =
     (if HasCustomPrecompiles params then
        let activePrecompiles = eePrecompilesBerlin e @ GetActivePrecompilesAddrs (eeCodec e) params
        in if (case cmTo msg of None \<Rightarrow> False
               | Some to \<Rightarrow> acHex (eeCodec e) to \<in> set AvailableEVMExtensions \<and> to \<notin> set activePrecompiles)
           then Inl ErrInactivePrecompile
           else rbind (ek_Precompiles (eePrecompiles e) activePrecompiles) (\<lambda>_.
                Inr (evm\<lparr>viPrecompiles := Some activePrecompiles\<rparr>))
      else Inr evm)"

text \<open>The call or creation itself, with the nonce of the sender around a creation.\<close>

definition run_vm ::
  "('w, 'x) evm_env \<Rightarrow> evm_inst \<Rightarrow> ('w, 'x) ChainCtx StateDB \<Rightarrow> core_msg \<Rightarrow> u64
   \<Rightarrow> ('w, 'x) ChainCtx StateDB \<times> byte list \<times> u64 \<times> string option" where
  "run_vm e evm db msg leftoverGas =
     (case cmTo msg of
        None \<Rightarrow>
          (let db = SetNonce (eeKec e) db (cmFrom msg) (cmNonce msg);
               (db, ret, leftoverGas, vmErr) = eeVmCreate e evm db (cmFrom msg) (cmData msg) leftoverGas (cmValue msg)
           in (SetNonce (eeKec e) db (cmFrom msg) (cmNonce msg + 1), ret, leftoverGas, vmErr))
      | Some to \<Rightarrow> eeVmCall e evm db (cmFrom msg) to (cmData msg) leftoverGas (cmValue msg))"

text \<open>
  The gas charged: what the machine used less the refund, but at least the minimum share of the gas limit. \<open>int64\<close>
  conversions wrap; \<open>left\<close> is what the machine left over.
\<close>

definition charged_gas :: "dec_ops \<Rightarrow> u64 \<Rightarrow> u64 \<Rightarrow> u64 \<Rightarrow> u64 \<Rightarrow> int \<Rightarrow> u64 result" where
  "charged_gas d gas left counter refundQuotient minGasMultiplier =
     (if gas < left then Inl ErrGasOverflow
      else
        let temporaryGasUsed = gas - left
        in rbind (GasToRefund counter temporaryGasUsed refundQuotient) (\<lambda>refund.
           let left = left + refund; temporaryGasUsed = temporaryGasUsed - refund
           in rbind (decMul d (LegacyNewDec (i64 (uint gas))) minGasMultiplier) (\<lambda>minimumGasUsed.
              if \<not> (0 \<le> decTruncateInt d minimumGasUsed \<and> decTruncateInt d minimumGasUsed < 2 ^ 64) then Inl ErrGasOverflow
              else if gas < left then Inl ErrGasOverflow
              else Inr (word_of_int (decTruncateInt d (max minimumGasUsed (LegacyNewDec (i64 (uint temporaryGasUsed)))))))))"

definition refund_quotient :: "('w, 'x) evm_env \<Rightarrow> EVMConfigR \<Rightarrow> evm_inst \<Rightarrow> u64" where
  "refund_quotient e cfg evm = (if eeIsLondon e (evChainConfig cfg) (bcBlockNumber (viBlock evm)) then 5 else 2)"

text \<open>What follows the execution: the commit and the response.\<close>

definition finish_message ::
  "('w, 'x) evm_env \<Rightarrow> core_msg \<Rightarrow> bool \<Rightarrow> u64 \<Rightarrow> TxConfig
   \<Rightarrow> ('w, 'x) ChainCtx StateDB \<times> byte list \<times> u64 \<times> string option \<Rightarrow> (('w, 'x) ChainCtx \<times> MsgEthereumTxResponse) result" where
  "finish_message e msg commit refundQuotient txCfg =
     (\<lambda>(db, ret, left, vmErr).
        if cmGas msg < left then Inl ErrGasOverflow
        else
          rbind (if commit then Commit db else Inr db) (\<lambda>db'.
          rbind (deref (MinGasMultiplier (fm_GetParams (chFee (ctx db'))))) (\<lambda>minGasMultiplier.
          rbind (charged_gas (eeDec e) (cmGas msg) left (GetRefund db) refundQuotient minGasMultiplier) (\<lambda>gasUsed.
          Inr (ctx db', \<lparr>rsHash = TxHash txCfg, rsLogs = logs db', rsRet = ret,
                 rsVmError = (case vmErr of None \<Rightarrow> '''' | Some m \<Rightarrow> m), rsGasUsed = gasUsed\<rparr>)))))"

definition ApplyMessageWithConfig ::
  "('w, 'x) evm_env \<Rightarrow> ('w, 'x) ChainCtx \<Rightarrow> core_msg \<Rightarrow> bool option \<Rightarrow> bool \<Rightarrow> EVMConfigR \<Rightarrow> TxConfig
   \<Rightarrow> (('w, 'x) ChainCtx \<times> MsgEthereumTxResponse) result" where
  "ApplyMessageWithConfig e c msg tracer commit cfg txCfg =
     (let params = evParams cfg; contractCreation = (cmTo msg = None) in
      if \<not> EnableCreate params \<and> contractCreation then Inl ErrCreateDisabled
      else if \<not> EnableCall params \<and> \<not> contractCreation then Inl ErrCallDisabled
      else
        rbind (setup_precompiles e msg params (NewEVM e c msg cfg tracer)) (\<lambda>evm.
        rbind (GetEthIntrinsicGas e c msg (evChainConfig cfg) contractCreation) (\<lambda>intrinsicGas.
        if cmGas msg < intrinsicGas then Inl (ErrExternal ''ErrIntrinsicGas'')
        else
          let db = NewStateDB c (chain_Keeper e) txCfg
          in rbind (if eeRulesIsBerlin e (evChainConfig cfg) (ch_height c) (cfgMergeNetsplit (evChainConfig cfg) \<noteq> None)
                    then PrepareAccessList db (cmFrom msg) (cmTo msg) (eeActivePrecompiles e evm)
                           (case cmAccessList msg of None \<Rightarrow> [] | Some l \<Rightarrow> l)
                    else Inr db) (\<lambda>db.
             finish_message e msg commit (refund_quotient e cfg evm) txCfg (run_vm e evm db msg (cmGas msg - intrinsicGas))))))"

definition ApplyMessage ::
  "('w, 'x) evm_env \<Rightarrow> ('w, 'x) ChainCtx \<Rightarrow> core_msg \<Rightarrow> bool option \<Rightarrow> bool
   \<Rightarrow> (('w, 'x) ChainCtx \<times> MsgEthereumTxResponse) result" where
  "ApplyMessage e c msg tracer commit =
     rbind (EVMConfig e c (chProposer c)) (\<lambda>cfg.
     ApplyMessageWithConfig e c msg tracer commit cfg (NewEmptyTxConfig (eeBytesToHash e (chHeaderHash c))))"

section \<open>Applying a transaction\<close>

unbundle bit_operations_syntax

fun MultiEvmHooks_PostTxProcessing ::
  "(('w, 'x) ChainCtx \<Rightarrow> core_msg \<Rightarrow> Receipt \<Rightarrow> (('w, 'x) ChainCtx \<times> Receipt) result) list
   \<Rightarrow> ('w, 'x) ChainCtx \<Rightarrow> core_msg \<Rightarrow> Receipt \<Rightarrow> (('w, 'x) ChainCtx \<times> Receipt) result" where
  "MultiEvmHooks_PostTxProcessing [] c msg receipt = Inr (c, receipt)"
| "MultiEvmHooks_PostTxProcessing (h # hs) c msg receipt =
     rbind (h c msg receipt) (\<lambda>(c, receipt). MultiEvmHooks_PostTxProcessing hs c msg receipt)"

definition ek_PostTxProcessing ::
  "('w, 'x) evm_env \<Rightarrow> ('w, 'x) ChainCtx \<Rightarrow> core_msg \<Rightarrow> Receipt \<Rightarrow> (('w, 'x) ChainCtx \<times> Receipt) result" where
  "ek_PostTxProcessing e c msg receipt =
     (case eeHooks e of None \<Rightarrow> Inr (c, receipt) | Some hs \<Rightarrow> MultiEvmHooks_PostTxProcessing hs c msg receipt)"

definition Failed :: "MsgEthereumTxResponse \<Rightarrow> bool" where
  "Failed res \<longleftrightarrow> length (rsVmError res) > 0"

definition Response_Return :: "MsgEthereumTxResponse \<Rightarrow> byte list option" where
  "Response_Return res = (if Failed res then None else Some (rsRet res))"

definition Response_Revert :: "MsgEthereumTxResponse \<Rightarrow> byte list option" where
  "Response_Revert res = (if rsVmError res \<noteq> ''execution reverted'' then None else Some (rsRet res))"

definition ErrPostTxProcessing :: string where
  "ErrPostTxProcessing = ''failed to execute post processing''"

text \<open>The receipt of a transaction, before the hooks see it.\<close>

definition new_receipt ::
  "('w, 'x) evm_env \<Rightarrow> ('w, 'x) ChainCtx \<Rightarrow> nat \<Rightarrow> core_msg \<Rightarrow> TxConfig \<Rightarrow> MsgEthereumTxResponse \<Rightarrow> Receipt" where
  "new_receipt e c type msg txCfg res =
     (let bloomReceipt = (if rsLogs res \<noteq> [] then GetBlockBloomTransient (chEvm c) OR eeLogsBloom e (rsLogs res) else 0);
          cumulativeGasUsed = (case chBlockMeter c of None \<Rightarrow> rsGasUsed res
            | Some (limit, consumed) \<Rightarrow> if rsGasUsed res + consumed > limit then limit else rsGasUsed res + consumed);
          contractAddr = (if cmTo msg = None then acCreateAddress (eeCodec e) (cmFrom msg) (cmNonce msg) else 0)
      in \<lparr>rcType = type, rcCumulativeGasUsed = cumulativeGasUsed, rcBloom = bloomReceipt, rcLogs = rsLogs res,
          rcTxHash = TxHash txCfg, rcContractAddress = contractAddr, rcGasUsed = rsGasUsed res,
          rcBlockHash = BlockHash txCfg, rcBlockNumber = ch_height c, rcTransactionIndex = TxIndex txCfg, rcStatus = 0\<rparr>)"

text \<open>
  The hooks after a successful execution. \<open>c\<close> is the context of the transaction and \<open>tmp\<close> the
  one the message was applied in; they differ when there are hooks, and \<open>tmp\<close> takes the place of \<open>c\<close>
  only when the machine and all hooks succeed. A hook that fails leaves the receipt alone.
\<close>

definition post_process ::
  "('w, 'x) evm_env \<Rightarrow> ('w, 'x) ChainCtx \<Rightarrow> ('w, 'x) ChainCtx \<Rightarrow> core_msg \<Rightarrow> Receipt \<Rightarrow> MsgEthereumTxResponse
   \<Rightarrow> (('w, 'x) ChainCtx \<times> Receipt \<times> MsgEthereumTxResponse) result" where
  "post_process e c tmp msg receipt res =
     (let base = (if eeHooks e = None then tmp else c)
      in if Failed res then Inr (base, receipt, res)
         else
           let receipt = receipt\<lparr>rcStatus := 1\<rparr>
           in case ek_PostTxProcessing e tmp msg receipt of
                Inl err \<Rightarrow>
                  if is_panic (Inl err :: unit result) then Inl err
                  else Inr (base, receipt, res\<lparr>rsVmError := ErrPostTxProcessing, rsLogs := []\<rparr>)
              | Inr (tmp', receipt') \<Rightarrow>
                  if eeHooks e = None then Inr (base, receipt', res)
                  else Inr (tmp', receipt', res\<lparr>rsLogs := rcLogs receipt'\<rparr>))"

definition count_tx :: "('w, 'x) ChainCtx \<Rightarrow> TxConfig \<Rightarrow> Receipt \<Rightarrow> ('w, 'x) ChainCtx" where
  "count_tx c txCfg receipt =
     (let v = chEvm c;
          v = (if rcLogs receipt \<noteq> []
               then SetLogSizeTransient (SetBlockBloomTransient v (rcBloom receipt)) (LogIndex txCfg + word_of_nat (length (rcLogs receipt)))
               else v)
      in c\<lparr>chEvm := SetTxIndexTransient v (TxIndex txCfg + 1)\<rparr>)"

text \<open>Refund, counters and gas meter at the end of a transaction.\<close>

definition settle_tx ::
  "('w, 'x) evm_env \<Rightarrow> ('w, 'x) ChainCtx \<Rightarrow> core_msg \<Rightarrow> EVMConfigR \<Rightarrow> TxConfig \<Rightarrow> Receipt \<Rightarrow> MsgEthereumTxResponse
   \<Rightarrow> (('w, 'x) ChainCtx \<times> MsgEthereumTxResponse) result" where
  "settle_tx e c msg cfg txCfg receipt res =
     rbind (RefundGas e c msg (cmGas msg - rsGasUsed res) (EvmDenom (evParams cfg))) (\<lambda>c.
     let c = count_tx c txCfg receipt
     in rbind (AddTransientGasUsed (chEvm c) (rsGasUsed res)) (\<lambda>(v, totalGasUsed).
        rbind (ResetGasMeterAndConsumeGas (c\<lparr>chEvm := v\<rparr>) totalGasUsed) (\<lambda>c. Inr (c, res))))"

text \<open>
  \<^verbatim>\<open>ApplyTransaction\<close> gives the context and the response or error: an error of the message
  consumes all the gas of the meter.
\<close>

definition ApplyTransaction ::
  "('w, 'x) evm_env \<Rightarrow> ('w, 'x) ChainCtx \<Rightarrow> eth_tx \<Rightarrow> ('w, 'x) ChainCtx \<times> MsgEthereumTxResponse result" where
  "ApplyTransaction e c tx =
     (case EVMConfig e c (chProposer c) of Inl err \<Rightarrow> (c, Inl err) | Inr cfg \<Rightarrow>
      let txCfg = ek_TxConfig e c (elHash (eeLib e) tx) in
      case elAsMessage (eeLib e) (evChainConfig cfg) (ch_height c) tx (evBaseFee cfg) of Inl err \<Rightarrow> (c, Inl err) | Inr msg \<Rightarrow>
      case ApplyMessageWithConfig e c msg None True cfg txCfg of
        Inl err \<Rightarrow>
          if is_panic (Inl err :: unit result) then (c, Inl err)
          else (case ResetGasMeterAndConsumeGas c (gmLimit (chGasMeter c)) of
                  Inl err' \<Rightarrow> (c, Inl err') | Inr c' \<Rightarrow> (c', Inl err))
      | Inr (tmp, res) \<Rightarrow>
          (case rbind (post_process e c tmp msg (new_receipt e c (etType tx) msg txCfg res) res)
                  (\<lambda>(c, receipt, res). settle_tx e c msg cfg txCfg receipt res) of
             Inl err \<Rightarrow> (c, Inl err)
           | Inr (c', res) \<Rightarrow> (c', Inr res)))"

section \<open>The message server\<close>

text \<open>
  The events of a transaction: value, hash, index in the block, gas used, recipient and the
  error of the machine; its logs; sender and type.
\<close>

datatype evm_event =
    EventEthereumTx "int option" hash u64 u64 "addr option" "string option"
  | EventTxLog "Log list"
  | EventMessage string nat
  | EventBlockBloom int

definition EthereumTx ::
  "('w, 'x) evm_env \<Rightarrow> ('w, 'x) ChainCtx \<Rightarrow> MsgEthereumTx
   \<Rightarrow> ('w, 'x) ChainCtx \<times> (evm_event list \<times> MsgEthereumTxResponse) result" where
  "EthereumTx e c msg =
     (case AsTransaction (eeCodec e) (eeLib e) msg of
        None \<Rightarrow> (c, Inl (Panic ''nil pointer dereference''))
      | Some tx \<Rightarrow>
          let txIndex = GetTxIndexTransient (chEvm c)
          in case ApplyTransaction e c tx of
               (c', Inl err) \<Rightarrow> (c', Inl err)
             | (c', Inr response) \<Rightarrow>
                 (c', Inr ([EventEthereumTx (etValue tx) (rsHash response) txIndex (rsGasUsed response) (etTo tx)
                              (if Failed response then Some (rsVmError response) else None),
                            EventTxLog (rsLogs response), EventMessage (mtFrom msg) (etType tx)], response)))"

definition evm_UpdateParams :: "('w, 'x) evm_env \<Rightarrow> ('w, 'x) ChainCtx \<Rightarrow> string \<Rightarrow> Params \<Rightarrow> ('w, 'x) ChainCtx result" where
  "evm_UpdateParams e c authority params =
     (if eeAuthority e \<noteq> authority then Inl ErrInvalidSigner
      else rbind (evm_SetParams (eeParamLib e) (evmParams (chEvm c)) params) (\<lambda>st.
           Inr (c\<lparr>chEvm := (chEvm c)\<lparr>evmParams := st\<rparr>\<rparr>)))"

text \<open>\<open>parsed\<close> is the chain id in the context's chain identifier, if it has one.\<close>

definition WithChainID :: "int option \<Rightarrow> int option \<Rightarrow> int option result" where
  "WithChainID eip155ChainID parsed =
     (case parsed of
        None \<Rightarrow> Inl (Panic ''invalid chain id'')
      | Some chainID \<Rightarrow>
          if eip155ChainID \<noteq> None \<and> eip155ChainID \<noteq> Some chainID then Inl (Panic ''chain id already set'')
          else if \<not> (chainID = 5438 \<or> chainID = 5439) then Inl (Panic ''EVM only supports Egochain identifiers'')
          else Inr (Some chainID))"

definition evm_EndBlock :: "('w, 'x) ChainCtx \<Rightarrow> evm_event list" where
  "evm_EndBlock c = [EventBlockBloom (GetBlockBloomTransient (chEvm c))]"

section \<open>The gas charged\<close>

lemma uint_minus_le: "b \<le> a \<Longrightarrow> uint (a - b) = uint a - uint b" for a b :: u64
proof -
  assume "b \<le> a"
  then have "uint b \<le> uint a" by (simp add: word_le_def)
  moreover have "uint a < 2 ^ 64" using unsigned_less [of a, where 'a = int] by simp
  moreover have "uint (a - b) = (uint a - uint b) mod 2 ^ 64" by (simp add: uint_word_ariths)
  ultimately show "uint (a - b) = uint a - uint b"
    using uint_ge_0 [of b] by (simp add: mod_pos_pos_trivial)
qed

lemma GasToRefund_eq:
  assumes "GasToRefund counter used q = Inr r"
  shows "uint r = min (uint counter) (uint used div uint q)" "r \<le> used"
proof -
  show r: "uint r = min (uint counter) (uint used div uint q)"
    using assms by (auto simp: GasToRefund_def Let_def word_less_def uint_div split: if_splits)
  have "uint used div uint q \<le> uint used" 
    using zdiv_mono2 [of "uint used" 1 "uint q"] uint_ge_0 [of q] by (cases "uint q = 0") auto
  then show "r \<le> used" using r by (simp add: word_le_def)
qed

lemma div_max: "0 < k \<Longrightarrow> max a b div k = max (a div k) (b div k)" for a b k :: int
  by (auto simp: max_def zdiv_mono1 intro: antisym)

lemma charged_gas_eq:
  assumes d: "dec_laws d" and small: "uint gas < 2 ^ 63" and m: "0 \<le> m"
    and run: "charged_gas d gas left counter q m = Inr used"
  shows "left \<le> gas" and "uint used = max (uint gas * m div dec_one)
     (uint gas - uint left - min (uint counter) ((uint gas - uint left) div uint q))"
proof -
  obtain r mn where r: "GasToRefund counter (gas - left) q = Inr r"
    and mn: "decMul d (LegacyNewDec (i64 (uint gas))) m = Inr mn"
    and left: "left \<le> gas" and mn64: "decTruncateInt d mn < 2 ^ 64"
    and used: "used = word_of_int (decTruncateInt d (max mn (LegacyNewDec (i64 (uint (gas - left - r))))))"
    using run by (auto simp: charged_gas_def Let_def rbind_Inr_iff split: if_splits)
  show "left \<le> gas" by (rule left)
  let ?T = "uint gas - uint left" and ?R = "min (uint counter) ((uint gas - uint left) div uint q)"
  have T: "uint (gas - left) = ?T" by (rule uint_minus_le [OF left])
  have R: "uint r = ?R" using GasToRefund_eq(1) [OF r] T by simp
  have TR: "uint (gas - left - r) = ?T - ?R" using uint_minus_le [OF GasToRefund_eq(2) [OF r]] T R by simp
  have bound: "0 \<le> ?T - ?R" "?T - ?R < 2 ^ 63" using TR small R uint_ge_0 [of left] uint_ge_0 [of r] uint_ge_0 [of "gas - left - r"]
    by linarith+
  have i: "i64 (uint gas) = uint gas" "i64 (?T - ?R) = ?T - ?R"
  proof -
    have "in_i64 (uint gas)" using small uint_ge_0 [of gas] unfolding in_i64_def by linarith
    then show "i64 (uint gas) = uint gas" by (rule i64_id)
    have "in_i64 (?T - ?R)" using bound unfolding in_i64_def by linarith
    then show "i64 (?T - ?R) = ?T - ?R" by (rule i64_id)
  qed
  have mn_eq: "mn = uint gas * m" using decMul_exact [OF d mn] i(1) by simp
  then have "0 \<le> mn" using m by simp
  then have tr: "decTruncateInt d mn = mn div dec_one" by (rule dec_lawsD(8) [OF d])
  have "decTruncateInt d (max mn (LegacyNewDec (?T - ?R))) = max mn (LegacyNewDec (?T - ?R)) div dec_one"
    using \<open>0 \<le> mn\<close> by (intro dec_lawsD(8) [OF d]) simp
  also have "\<dots> = max (mn div dec_one) (?T - ?R)" by (simp add: div_max LegacyNewDec_def)
  finally have u: "used = word_of_int (max (mn div dec_one) (?T - ?R))" using used TR i(2) by simp
  have "0 \<le> mn div dec_one" using \<open>0 \<le> mn\<close> by (simp add: pos_imp_zdiv_nonneg_iff)
  then have "0 \<le> max (mn div dec_one) (?T - ?R) \<and> max (mn div dec_one) (?T - ?R) < 2 ^ 64"
    using bound mn64 tr by simp
  then show "uint used = max (uint gas * m div dec_one) (?T - ?R)"
    using u mn_eq by (simp add: uint_word_of_int)
qed

text \<open>What an applied message is charged, in terms of what the machine left over and the refund counter.\<close>

lemma finish_message_parts:
  assumes "finish_message e msg commit q txCfg (db, ret, left, vmErr) = Inr (c', res)"
  shows "\<exists>m. MinGasMultiplier (fm_GetParams (chFee c')) = Some m
     \<and> charged_gas (eeDec e) (cmGas msg) left (GetRefund db) q m = Inr (rsGasUsed res)"
  using assms by (auto simp: finish_message_def rbind_Inr_iff deref_def split: if_splits option.splits)

lemma ApplyMessageWithConfig_parts:
  assumes "ApplyMessageWithConfig e c msg tracer commit cfg txCfg = Inr (c', res)"
  obtains evm db gas q where "q = 5 \<or> q = 2" "finish_message e msg commit q txCfg (run_vm e evm db msg gas) = Inr (c', res)"
    "setup_precompiles e msg (evParams cfg) (NewEVM e c msg cfg tracer) = Inr evm"
proof -
  have "\<exists>evm db gas. finish_message e msg commit (refund_quotient e cfg evm) txCfg (run_vm e evm db msg gas) = Inr (c', res)
      \<and> setup_precompiles e msg (evParams cfg) (NewEVM e c msg cfg tracer) = Inr evm"
    using assms unfolding ApplyMessageWithConfig_def Let_def
    by (auto simp: rbind_Inr_iff split: if_splits)
  then obtain evm db gas where
    f: "finish_message e msg commit (refund_quotient e cfg evm) txCfg (run_vm e evm db msg gas) = Inr (c', res)"
      "setup_precompiles e msg (evParams cfg) (NewEVM e c msg cfg tracer) = Inr evm" by (elim exE conjE)
  have "refund_quotient e cfg evm = 5 \<or> refund_quotient e cfg evm = 2" by (simp add: refund_quotient_def)
  then show ?thesis by (rule that [OF _ f])
qed

lemma ApplyMessageWithConfig_charged:
  assumes "ApplyMessageWithConfig e c msg tracer commit cfg txCfg = Inr (c', res)"
  obtains left counter q m where "MinGasMultiplier (fm_GetParams (chFee c')) = Some m" "q = 5 \<or> q = 2"
    "charged_gas (eeDec e) (cmGas msg) left counter q m = Inr (rsGasUsed res)"
proof -
  from assms obtain evm db gas q where q: "q = 5 \<or> q = 2"
    and f: "finish_message e msg commit q txCfg (run_vm e evm db msg gas) = Inr (c', res)"
    by (rule ApplyMessageWithConfig_parts)
  obtain db' ret left vmErr where r: "run_vm e evm db msg gas = (db', ret, left, vmErr)" by (metis prod_cases4)
  from finish_message_parts [OF f [unfolded r]] show ?thesis using that q by blast
qed

end
