(* ===== verification/EvmExecution.thy ===== *)
theory EvmExecution
  imports EvmTransition
begin

text \<open>
  What \<^verbatim>\<open>ApplyTransaction\<close> leaves behind: the refund and the counters of every transaction, the
  isolation of a failed one, and the precompiles that a message needs before it can run.
\<close>

section \<open>The gas of a message\<close>


text \<open>
  A concrete chain for the examples: every call uses 9000 gas beyond the intrinsic gas and reverts, one precompile
  is registered, there are hooks, though none does anything.
\<close>

definition ex_env :: "(ledger, unit) evm_env" where
  "ex_env =
     \<lparr>eeLib = ex_eth_lib, eeParamLib = permissive_lib, eeCodec = ex_codec, eeKec = zkec, eeAk = ledger_ak zkec, eeBk = ledger_bk,
      eeDec = dec_impl, eeChainID = Some 5438, eeAuthority = ''gov'', eeIsHomestead = (\<lambda>_ _. True),
      eeIsIstanbul = (\<lambda>_ _. True), eeIsLondon = (\<lambda>_ _. True), eeRulesIsBerlin = (\<lambda>_ _ _. False),
      eeBytesToAddress = (\<lambda>_. 9), eeBytesToHash = (\<lambda>_. 0), eeValidatorOperator = (\<lambda>_ _. Some []),
      eeHistoricalHeader = (\<lambda>_ _. None), eeNoOpTracer = True,
      eeVmCall = (\<lambda>_ db _ _ _ gas _. (db, [], gas - 9000, Some ''execution reverted'')),
      eeVmCreate = (\<lambda>_ db _ _ gas _. (db, [], gas - 9000, Some ''execution reverted'')),
      eeActivePrecompiles = (\<lambda>_. []), eePrecompilesBerlin = [], eePrecompiles = [41], eeLogsBloom = (\<lambda>_. 0),
      eeHooks = Some []\<rparr>"

definition ex_evm_chain :: "(ledger, unit) ChainCtx" where
  "ex_evm_chain =
     \<lparr>chEvm = ex_ctx\<lparr>sdkState := (Map.empty, \<lambda>a d. if a = module_address FeeCollectorName then 10 ^ 15 else 0)\<rparr>,
      chFee = ex_fee_cx, chOthers = (), chGasMeter = \<lparr>gmConsumed = 0, gmLimit = 50000\<rparr>, chBlockMeter = None,
      chMaxGas = None, chHeaderHash = [], chHeader = None, chProposer = [], chTime = 0\<rparr>"

definition ex_evm_tx :: eth_tx where
  "ex_evm_tx = elNewTx ex_eth_lib
     \<lparr>edType = 0, edChainID = None, edNonce = 7, edGasPrice = Some 2000000000, edGasTipCap = None, edGasFeeCap = None,
      edGas = 50000, edTo = Some 9, edValue = Some 5, edData = None, edAccessList = None,
      edV = Some 10911, edR = Some 77, edS = Some 78\<rparr>"

definition ex_msg :: core_msg where
  "ex_msg = \<lparr>cmFrom = 77, cmTo = Some 9, cmNonce = 7, cmGas = 50000, cmGasPrice = 2000000000, cmGasFeeCap = 2000000000,
     cmGasTipCap = 2000000000, cmData = None, cmAccessList = None, cmValue = 5\<rparr>"

definition ex_cfg :: EVMConfigR where
  "ex_cfg = \<lparr>evParams = DefaultParams ''aegax'', evChainConfig = EthereumConfig DefaultChainConfig (Some 5438), evCoinBase = 9,
     evBaseFee = Some 1000000000\<rparr>"

definition ex_res :: MsgEthereumTxResponse where
  "ex_res = \<lparr>rsHash = 7, rsLogs = [], rsRet = [], rsVmError = ''execution reverted'', rsGasUsed = 30000\<rparr>"

text \<open>What the example needs of a context: the default parameters of both modules.\<close>

definition ex_like :: "(ledger, unit) ChainCtx \<Rightarrow> bool" where
  "ex_like c \<longleftrightarrow> ch_params c = DefaultParams ''aegax'' \<and> fm_GetParams (chFee c) = fm_DefaultParams
     \<and> fm_GetBaseFee (chFee c) = Some 1000000000"

lemma ex_evm_chain_like: "ex_like ex_evm_chain"
  by (simp add: ex_like_def ex_evm_chain_def ex_ctx_def ex_store_def evm_GetParams_def ex_fee_params fm_GetBaseFee_def)
    (simp add: fm_DefaultParams_def)

lemma ex_config: "ex_like c \<Longrightarrow> EVMConfig ex_env c proposer = Inr ex_cfg"
  by (simp add: EVMConfig_def GetCoinbaseAddress_def ex_env_def ex_like_def ex_cfg_def ek_GetBaseFee_def evm_getBaseFee_def IsLondon_def)
    (simp add: DefaultParams_def)

lemma ex_message: "elAsMessage ex_eth_lib cfg h ex_evm_tx (Some 1000000000) = Inr ex_msg"
  by (simp add: ex_eth_lib_def ex_evm_tx_def ex_msg_def ex_new_tx_def ex_sender_def int_or_zero_def big0_def Let_def)

lemma ex_charged: "charged_gas dec_impl 50000 20000 0 5 (LegacyNewDecWithPrec 50 2) = Inr 30000"
proof -
  have "i64 50000 = 50000" "i64 30000 = 30000" by (simp_all add: i64_def)
  then show ?thesis
    by (simp add: charged_gas_def GasToRefund_def LegacyNewDec_def LegacyNewDecWithPrec_def dec_impl_def Let_def dec_one_def)
qed

lemma Commit_fresh: "Commit (NewStateDB c k t) = Inr (NewStateDB c k t)"
  by (simp add: Commit_def NewStateDB_def newJournal_def sortedDirties_def SortedKeys_def)

lemma ex_precompiles: "GetActivePrecompilesAddrs ex_codec (DefaultParams d) = replicate 9 41"
  by (simp add: GetActivePrecompilesAddrs_def DefaultParams_def AvailableEVMExtensions_def ex_codec_def eval_nat_numeral)

lemma ex_setup:
  "setup_precompiles ex_env ex_msg (DefaultParams d) evm = Inr (evm\<lparr>viPrecompiles := Some (replicate 9 41)\<rparr>)"
proof -
  have "ek_Precompiles [41] (replicate n 41) = Inr (replicate n 41)" for n by (induction n) simp_all
  moreover have "acHex ex_codec a \<notin> set AvailableEVMExtensions" for a
    by (simp add: ex_codec_def AvailableEVMExtensions_def)
  moreover have "HasCustomPrecompiles (DefaultParams d)"
    by (simp add: HasCustomPrecompiles_def DefaultParams_def AvailableEVMExtensions_def)
  ultimately show ?thesis
    by (simp add: setup_precompiles_def Let_def ex_env_def ex_precompiles ex_msg_def)
qed

lemma ex_fee_multiplier: "ex_like c \<Longrightarrow> MinGasMultiplier (fm_GetParams (chFee c)) = Some (LegacyNewDecWithPrec 50 2)"
  by (simp add: ex_like_def fm_DefaultParams_def)

lemma ex_finish:
  "ex_like c \<Longrightarrow> finish_message ex_env ex_msg True 5 txCfg (run_vm ex_env evm (NewStateDB c k txCfg) ex_msg 29000)
     = Inr (c, ex_res\<lparr>rsHash := TxHash txCfg\<rparr>)"
proof -
  assume c: "ex_like c"
  have "run_vm ex_env evm (NewStateDB c k txCfg) ex_msg 29000 = (NewStateDB c k txCfg, [], 20000, Some ''execution reverted'')"
    by (simp add: run_vm_def ex_env_def ex_msg_def)
  moreover have "ctx (NewStateDB c k txCfg) = c" "GetRefund (NewStateDB c k txCfg) = 0"
    "logs (NewStateDB c k txCfg) = []"
    by (simp_all add: NewStateDB_def GetRefund_def)
  moreover have "cmGas ex_msg = 50000" "eeDec ex_env = dec_impl" by (simp_all add: ex_msg_def ex_env_def)
  ultimately show ?thesis
    by (simp add: finish_message_def Commit_fresh ex_fee_multiplier [OF c] ex_charged ex_res_def deref_def)
qed

lemma ex_applied:
  "ex_like c \<Longrightarrow> ApplyMessageWithConfig ex_env c ex_msg None True ex_cfg (ek_TxConfig ex_env c 7) = Inr (c, ex_res)"
proof -
  assume c: "ex_like c"
  have cfg: "evParams ex_cfg = DefaultParams ''aegax''" "EnableCreate (DefaultParams ''aegax'')" "EnableCall (DefaultParams ''aegax'')"
    by (simp_all add: ex_cfg_def DefaultParams_def)
  have g: "GetEthIntrinsicGas ex_env c ex_msg cfg b = Inr 21000" for cfg b
    by (simp add: GetEthIntrinsicGas_def ex_env_def ex_eth_lib_def)
  have q: "refund_quotient ex_env ex_cfg evm = 5" for evm by (simp add: refund_quotient_def ex_env_def)
  have b: "eeRulesIsBerlin ex_env x y z = False" for x y z by (simp add: ex_env_def)
  have m: "cmGas ex_msg = 50000" "cmTo ex_msg \<noteq> None" by (simp_all add: ex_msg_def)
  have t: "ex_res\<lparr>rsHash := TxHash (ek_TxConfig ex_env c 7)\<rparr> = ex_res"
    by (simp add: ek_TxConfig_def NewTxConfig_def ex_res_def)
  show ?thesis
    unfolding ApplyMessageWithConfig_def Let_def cfg ex_setup g using ex_finish [OF c] t by (simp add: cfg m q b)
qed


section \<open>Settling a transaction\<close>

lemma ResetGasMeterAndConsumeGas_eq [simp]:
  "ResetGasMeterAndConsumeGas c gas = Inr (c\<lparr>chGasMeter := (chGasMeter c)\<lparr>gmConsumed := gas\<rparr>\<rparr>)"
proof -
  have "\<not> (- 1 :: u64) < gas" using word_n1_ge [of gas] by (simp add: not_less)
  then show ?thesis
    by (simp add: ResetGasMeterAndConsumeGas_def meter_RefundGas_def meter_ConsumeGas_def addUint64Overflow_def)
qed

lemma credit_empty [simp]: "credit a {#} bal = bal" "debit a {#} bal = bal"
  by (simp_all add: credit_def debit_def AmountOf_def fun_eq_iff)

lemma NewCoin_0 [simp]: "NewCoin d 0 = {#}"
  by (simp add: NewCoin_def)

abbreviation fee_collector :: "('w, 'x) evm_env \<Rightarrow> addr" where
  "fee_collector e \<equiv> akGetModuleAddress (eeAk e) FeeCollectorName"

lemma RefundGas_effect:
  assumes "bank_laws (eeAk e) (eeBk e)" "RefundGas e c msg left denom = Inr c'"
  obtains w where "c' = set_ch_sdk c w" "0 \<le> uint left * cmGasPrice msg"
    "bkGetBalance (eeBk e) w = credit (cmFrom msg) (NewCoin denom (uint left * cmGasPrice msg))
       (debit (fee_collector e) (NewCoin denom (uint left * cmGasPrice msg)) (bkGetBalance (eeBk e) (ch_sdk c)))"
    "keeps_accounts (eeAk e) {fee_collector e, cmFrom msg} (ch_sdk c) w"
proof -
  let ?n = "uint left * cmGasPrice msg"
  consider "?n = 0" | "0 < ?n" using assms(2) by (auto simp: RefundGas_def Let_def split: if_splits)
  then show ?thesis
  proof cases
    case 1
    then have "c' = c" using assms(2) by (auto simp: RefundGas_def Let_def)
    then have "c' = set_ch_sdk c (ch_sdk c)" by (simp add: set_ch_sdk_def set_sdk_def)
    then show ?thesis by (intro that [of "ch_sdk c"]) (simp_all add: 1 keeps_accounts_refl del: mult_eq_0_iff)
  next
    case 2
    then obtain w where w: "bkSendCoinsFromModuleToAccount (eeBk e) (ch_sdk c) FeeCollectorName (cmFrom msg) (NewCoin denom ?n) = Inr w"
      "c' = set_ch_sdk c w"
      using assms(2) by (auto simp: RefundGas_def Let_def NewIntFromBigInt_def split: sum.split_asm if_split_asm)
    show ?thesis using that [OF w(2)] 2 bank_lawsD(3) [OF assms(1) w(1)] by simp
  qed
qed

text \<open>
  What the end of a transaction does to the context \<open>c\<close> that it finds: nothing but the refund, the counters
  and the gas meter.
\<close>

definition settled ::
  "('w, 'x) evm_env \<Rightarrow> ('w, 'x) ChainCtx \<Rightarrow> core_msg \<Rightarrow> string \<Rightarrow> u64 \<Rightarrow> ('w, 'x) ChainCtx \<Rightarrow> bool" where
  "settled e c msg denom gasUsed c' \<longleftrightarrow>
     (let refund = NewCoin denom (uint (cmGas msg - gasUsed) * cmGasPrice msg) in
      0 \<le> uint (cmGas msg - gasUsed) * cmGasPrice msg
    \<and> bkGetBalance (eeBk e) (ch_sdk c') = credit (cmFrom msg) refund (debit (fee_collector e) refund (bkGetBalance (eeBk e) (ch_sdk c)))
    \<and> keeps_accounts (eeAk e) {fee_collector e, cmFrom msg} (ch_sdk c) (ch_sdk c')
    \<and> evmStorage (chEvm c') = evmStorage (chEvm c) \<and> evmCode (chEvm c') = evmCode (chEvm c)
    \<and> evmParams (chEvm c') = evmParams (chEvm c) \<and> chFee c' = chFee c \<and> chOthers c' = chOthers c
    \<and> uint (GetTransientGasUsed (chEvm c')) = uint (GetTransientGasUsed (chEvm c)) + uint gasUsed
    \<and> gmConsumed (chGasMeter c') = GetTransientGasUsed (chEvm c'))"

lemma set_ch_sdk_sel [simp]:
  "ch_sdk (set_ch_sdk c w) = w" "chFee (set_ch_sdk c w) = chFee c" "chOthers (set_ch_sdk c w) = chOthers c"
  "evmStorage (chEvm (set_ch_sdk c w)) = evmStorage (chEvm c)" "evmCode (chEvm (set_ch_sdk c w)) = evmCode (chEvm c)"
  "evmParams (chEvm (set_ch_sdk c w)) = evmParams (chEvm c)" "tGasUsed (chEvm (set_ch_sdk c w)) = tGasUsed (chEvm c)"
  by (simp_all add: set_ch_sdk_def set_sdk_def)

lemma count_tx_sel [simp]:
  "ch_sdk (count_tx c t r) = ch_sdk c" "chFee (count_tx c t r) = chFee c" "chOthers (count_tx c t r) = chOthers c"
  "evmStorage (chEvm (count_tx c t r)) = evmStorage (chEvm c)" "evmCode (chEvm (count_tx c t r)) = evmCode (chEvm c)"
  "evmParams (chEvm (count_tx c t r)) = evmParams (chEvm c)" "tGasUsed (chEvm (count_tx c t r)) = tGasUsed (chEvm c)"
  "tTxIndex (chEvm (count_tx c t r)) = Some (TxIndex t + 1)"
  by (simp_all add: count_tx_def Let_def SetTxIndexTransient_def SetLogSizeTransient_def SetBlockBloomTransient_def)

lemma AddTransientGasUsed_Inr:
  assumes "AddTransientGasUsed v gas = Inr (v', tot)"
  shows "v' = v\<lparr>tGasUsed := Some tot\<rparr>" "uint tot = uint (GetTransientGasUsed v) + uint gas"
proof -
  have t: "tot = GetTransientGasUsed v + gas" "\<not> tot < gas" "v' = v\<lparr>tGasUsed := Some tot\<rparr>"
    using assms by (auto simp: AddTransientGasUsed_def Let_def SetTransientGasUsed_def split: if_splits)
  then show "v' = v\<lparr>tGasUsed := Some tot\<rparr>" by simp
  show "uint tot = uint (GetTransientGasUsed v) + uint gas"
  proof (rule ccontr)
    assume "\<not> ?thesis"
    then have "\<not> uint (GetTransientGasUsed v) + uint gas < 2 ^ 64" unfolding t(1) uint_plus_if_size by (auto simp: word_size split: if_splits)
    then have "uint tot = uint (GetTransientGasUsed v) + uint gas - 2 ^ 64"
      unfolding t(1) uint_plus_if_size by (simp add: word_size)
    then have "uint tot < uint gas" using unsigned_less [of "GetTransientGasUsed v", where 'a = int] by simp
    then show False using t(2) by (simp add: word_less_def)
  qed
qed

lemma settle_tx_settled:
  assumes "bank_laws (eeAk e) (eeBk e)" "settle_tx e c msg cfg txCfg receipt res = Inr (c', res')"
  shows "res' = res \<and> settled e c msg (EvmDenom (evParams cfg)) (rsGasUsed res) c' \<and> tTxIndex (chEvm c') = Some (TxIndex txCfg + 1)"
proof -
  from assms(2) obtain c1 v tot where
    r: "RefundGas e c msg (cmGas msg - rsGasUsed res) (EvmDenom (evParams cfg)) = Inr c1"
    and a: "AddTransientGasUsed (chEvm (count_tx c1 txCfg receipt)) (rsGasUsed res) = Inr (v, tot)"
    and c': "c' = (count_tx c1 txCfg receipt)\<lparr>chEvm := v, chGasMeter := (chGasMeter (count_tx c1 txCfg receipt))\<lparr>gmConsumed := tot\<rparr>\<rparr>"
    and "res' = res"
    by (auto simp: settle_tx_def Let_def rbind_Inr_iff)
  from assms(1) r obtain w where w: "c1 = set_ch_sdk c w" "0 \<le> uint (cmGas msg - rsGasUsed res) * cmGasPrice msg"
    "bkGetBalance (eeBk e) w = credit (cmFrom msg) (NewCoin (EvmDenom (evParams cfg)) (uint (cmGas msg - rsGasUsed res) * cmGasPrice msg))
       (debit (fee_collector e) (NewCoin (EvmDenom (evParams cfg)) (uint (cmGas msg - rsGasUsed res) * cmGasPrice msg)) (bkGetBalance (eeBk e) (ch_sdk c)))"
    "keeps_accounts (eeAk e) {fee_collector e, cmFrom msg} (ch_sdk c) w"
    by (rule RefundGas_effect)
  note add = AddTransientGasUsed_Inr [OF a]
  have g: "GetTransientGasUsed (chEvm (count_tx c1 txCfg receipt)) = GetTransientGasUsed (chEvm c)"
    by (simp add: GetTransientGasUsed_def w(1))
  show ?thesis
    using w(2-4) add(2) g \<open>res' = res\<close> by (simp add: settled_def Let_def c' add(1) w(1) GetTransientGasUsed_def)
qed

section \<open>A failed transaction\<close>

lemma ApplyTransaction_parts:
  assumes "ApplyTransaction e c tx = (c', Inr res)"
  obtains cfg msg tmp res0 c1 receipt res1 where "EVMConfig e c (chProposer c) = Inr cfg"
    "elAsMessage (eeLib e) (evChainConfig cfg) (ch_height c) tx (evBaseFee cfg) = Inr msg"
    "ApplyMessageWithConfig e c msg None True cfg (ek_TxConfig e c (elHash (eeLib e) tx)) = Inr (tmp, res0)"
    "post_process e c tmp msg (new_receipt e c (etType tx) msg (ek_TxConfig e c (elHash (eeLib e) tx)) res0) res0
       = Inr (c1, receipt, res1)"
    "settle_tx e c1 msg cfg (ek_TxConfig e c (elHash (eeLib e) tx)) receipt res1 = Inr (c', res)"
  using assms unfolding ApplyTransaction_def Let_def
  by (auto simp: rbind_Inr_iff split: sum.splits if_splits)

lemma post_process_parts:
  assumes "post_process e c tmp msg receipt res = Inr (c', receipt', res')" "eeHooks e = Some hs"
  shows "if Failed res' then c' = c
     else MultiEvmHooks_PostTxProcessing hs tmp msg (receipt\<lparr>rcStatus := 1\<rparr>) = Inr (c', receipt') \<and> rsGasUsed res' = rsGasUsed res"
  using assms unfolding post_process_def Let_def ek_PostTxProcessing_def
  by (auto simp: Failed_def ErrPostTxProcessing_def split: sum.splits if_splits prod.splits)

lemma failed_tx_settled:
  assumes "bank_laws (eeAk e) (eeBk e)" "eeHooks e = Some hs" "ApplyTransaction e c tx = (c', Inr res)" "Failed res"
  obtains cfg msg where "EVMConfig e c (chProposer c) = Inr cfg"
    "elAsMessage (eeLib e) (evChainConfig cfg) (ch_height c) tx (evBaseFee cfg) = Inr msg"
    "settled e c msg (EvmDenom (evParams cfg)) (rsGasUsed res) c'"
proof -
  from assms(3) obtain cfg msg tmp res0 c1 receipt res1 where p: "EVMConfig e c (chProposer c) = Inr cfg"
    "elAsMessage (eeLib e) (evChainConfig cfg) (ch_height c) tx (evBaseFee cfg) = Inr msg"
    "post_process e c tmp msg (new_receipt e c (etType tx) msg (ek_TxConfig e c (elHash (eeLib e) tx)) res0) res0
       = Inr (c1, receipt, res1)"
    "settle_tx e c1 msg cfg (ek_TxConfig e c (elHash (eeLib e) tx)) receipt res1 = Inr (c', res)"
    by (rule ApplyTransaction_parts)
  note s = settle_tx_settled [OF assms(1) p(4)]
  have "c1 = c" using post_process_parts [OF p(3) assms(2)] assms(4) s by simp
  then show ?thesis using that [OF p(1,2)] s by simp
qed


lemma ex_transaction:
  assumes c: "ex_like c" "tGasUsed (chEvm c) = None" "40000000000000 \<le> snd (ch_sdk c) (module_address FeeCollectorName) ''aegax''"
  shows "\<exists>c'. ApplyTransaction ex_env c ex_evm_tx = (c', Inr ex_res)"
proof -
  let ?t = "ek_TxConfig ex_env c 7"
  have h: "elHash (eeLib ex_env) ex_evm_tx = 7" "eeLib ex_env = ex_eth_lib" "eeHooks ex_env = Some []"
    by (simp_all add: ex_env_def ex_eth_lib_def ex_evm_tx_def ex_new_tx_def Let_def)
  have b: "evBaseFee ex_cfg = Some 1000000000" "Failed ex_res" by (simp_all add: ex_cfg_def ex_res_def Failed_def)
  have "\<exists>c'. settle_tx ex_env c ex_msg ex_cfg ?t receipt ex_res = Inr (c', ex_res)" for receipt
    using c(2,3) by (auto simp: settle_tx_def RefundGas_def count_tx_def AddTransientGasUsed_def GetTransientGasUsed_def ex_env_def
        ex_msg_def ex_cfg_def ex_res_def ledger_bk_def pay_def receive_def NewIntFromBigInt_def NewCoin_def AmountOf_def DefaultParams_def Let_def
        SetTxIndexTransient_def SetLogSizeTransient_def SetBlockBloomTransient_def set_ch_sdk_def set_sdk_def)
  then obtain c' where "settle_tx ex_env c ex_msg ex_cfg ?t (new_receipt ex_env c (etType ex_evm_tx) ex_msg ?t ex_res) ex_res
      = Inr (c', ex_res)" by blast
  then show ?thesis using h b ex_config [OF c(1)] ex_message ex_applied [OF c(1)]
    by (simp add: ApplyTransaction_def Let_def post_process_def)
qed

lemma ex_evm_chain_runs: "\<exists>c'. ApplyTransaction ex_env ex_evm_chain ex_evm_tx = (c', Inr ex_res)"
  by (rule ex_transaction [OF ex_evm_chain_like]) (simp_all add: ex_evm_chain_def ex_ctx_def GetTransientGasUsed_def)


section \<open>Precompiles\<close>

lemma ek_Precompiles_Inr: "ek_Precompiles available as = Inr bs \<Longrightarrow> set as \<subseteq> set available"
  by (induction as arbitrary: bs) (auto simp: rbind_Inr_iff split: if_splits)

lemma setup_precompiles_Inr:
  "setup_precompiles e msg params evm = Inr evm' \<Longrightarrow> HasCustomPrecompiles params
   \<Longrightarrow> set (eePrecompilesBerlin e @ GetActivePrecompilesAddrs (eeCodec e) params) \<subseteq> set (eePrecompiles e)"
  by (auto simp: setup_precompiles_def Let_def rbind_Inr_iff dest!: ek_Precompiles_Inr split: if_splits)


definition ex_halting :: Params where
  "ex_halting = (DefaultParams ''aegax'')\<lparr>ActivePrecompiles := [''0x05438'']\<rparr>"

lemma ex_halting_valid: "Params_Validate permissive_lib ex_halting = Inr ()"
  by code_simp


end
