(* ===== verification/AnteEvm.thy ===== *)
theory AnteEvm
  imports EvmExecution VestingAccount
begin

text \<open>
  The ante handler of Ethereum transactions, \<^verbatim>\<open>app/ante/evm\<close>: the single decorator of \<^verbatim>\<open>mono.go\<close> with the
  twelve steps of the files \<^verbatim>\<open>01_setup_ctx.go\<close> to \<^verbatim>\<open>12_emit_event.go\<close>, the fees of
  \<^verbatim>\<open>x/evm/keeper/fees.go\<close> and the claiming of staking rewards of \<^verbatim>\<open>app/ante/utils\<close>. A rejected transaction leaves no
  trace, so that errors carry no state. The gas that the SDK charges for access to its stores is
  switched off by the handler and not modelled.
\<close>

section \<open>The environment\<close>

type_synonym CoinList = "(string \<times> int) list"

text \<open>
  How a transaction is run: by \<^verbatim>\<open>CheckTx\<close>, by \<^verbatim>\<open>ReCheckTx\<close>, as a simulation, and with the node's minimal gas prices.
\<close>

record ante_mode =
  amCheckTx :: bool
  amReCheckTx :: bool
  amSimulate :: bool
  amMinGasPrices :: "(string \<times> int) list"

text \<open>
  What the decorator uses beside the EVM keeper: \<^verbatim>\<open>tx.ValidateBasic\<close>, with the error for missing signatures told apart; the
  transfer check of go-ethereum's block context; \<^verbatim>\<open>LockedCoinsFromVesting\<close> of the SDK's vesting accounts; the
  staking and distribution keepers; \<^verbatim>\<open>GetSignerAcc\<close> and \<^verbatim>\<open>DeductFees\<close> of the SDK's ante package; and the limit on
  the gas wanted from the node's configuration.
\<close>

record ('w, 'x) ante_env =
  anEvm :: "('w, 'x) evm_env"
  anValidateBasic :: "cosmos_tx \<Rightarrow> unit result"
  anErrNoSignatures :: error
  anCanTransfer :: "('w, 'x) ChainCtx StateDB \<Rightarrow> addr \<Rightarrow> int \<Rightarrow> bool"
  anLockedFromVesting :: "ClawbackVestingAccount \<Rightarrow> Coins \<Rightarrow> Coins"
  anBondDenom :: "('w, 'x) ChainCtx \<Rightarrow> string"
  anDelegations :: "('w, 'x) ChainCtx \<Rightarrow> addr \<Rightarrow> addr list"
  anWithdrawRewards :: "('w, 'x) ChainCtx \<Rightarrow> addr \<Rightarrow> addr \<Rightarrow> (('w, 'x) ChainCtx \<times> Coins) result"
  anGetSignerAcc :: "'w \<Rightarrow> addr \<Rightarrow> AccountI result"
  anDeductFees :: "'w \<Rightarrow> AccountI \<Rightarrow> CoinList \<Rightarrow> 'w result"
  anMaxGasWanted :: u64
  anPriorityReduction :: int

abbreviation an_codec :: "('w, 'x) ante_env \<Rightarrow> addr_codec" where
  "an_codec an \<equiv> eeCodec (anEvm an)"

abbreviation an_lib :: "('w, 'x) ante_env \<Rightarrow> eth_lib" where
  "an_lib an \<equiv> eeLib (anEvm an)"

abbreviation ch_gas_limit :: "('w, 'x) ChainCtx \<Rightarrow> u64" where
  "ch_gas_limit c \<equiv> BlockGasLimit (map_option fst (chBlockMeter c)) (chMaxGas c)"

record DecoratorUtils =
  duEvmParams :: Params
  duEthConfig :: ethConfig
  duBaseFee :: "int option"
  duEvmDenom :: string
  duMempoolMinGasPrice :: int
  duGlobalMinGasPrice :: "int option"
  duIsLondon :: bool
  duIsHomestead :: bool
  duIsIstanbul :: bool
  duBlockTxIndex :: u64
  duTxGasLimit :: u64
  duGasWanted :: u64
  duMinPriority :: int
  duTxFee :: CoinList

text \<open>The amount of a denomination in a list of coins.\<close>

definition AmountIn :: "(string \<times> int) list \<Rightarrow> string \<Rightarrow> int" where
  "AmountIn cs d = (case map_of cs d of None \<Rightarrow> 0 | Some n \<Rightarrow> n)"

definition NewUtils :: "('w, 'x) ante_env \<Rightarrow> ante_mode \<Rightarrow> ('w, 'x) ChainCtx \<Rightarrow> DecoratorUtils result" where
  "NewUtils an mode c =
     (let e = anEvm an; evmParams = ch_params c;
          ethCfg = EthereumConfig (ChainCfg evmParams) (eeChainID e);
          baseFee = ek_GetBaseFee e c ethCfg; h = ch_height c
      in if eeIsLondon e ethCfg h \<and> baseFee = None then Inl ErrInvalidBaseFee
         else Inr \<lparr>duEvmParams = evmParams, duEthConfig = ethCfg, duBaseFee = baseFee, duEvmDenom = EvmDenom evmParams,
            duMempoolMinGasPrice = AmountIn (amMinGasPrices mode) (EvmDenom evmParams),
            duGlobalMinGasPrice = MinGasPrice (fm_GetParams (chFee c)),
            duIsLondon = eeIsLondon e ethCfg h, duIsHomestead = eeIsHomestead e ethCfg h, duIsIstanbul = eeIsIstanbul e ethCfg h,
            duBlockTxIndex = GetTxIndexTransient (chEvm c), duTxGasLimit = 0, duGasWanted = 0, duMinPriority = 2 ^ 63 - 1,
            duTxFee = []\<rparr>)"

section \<open>The steps\<close>

text \<open>1. The SDK's infinite gas meter reports the largest limit.\<close>

definition SetupContext :: "('w, 'x) ChainCtx \<Rightarrow> ('w, 'x) ChainCtx" where
  "SetupContext c = c\<lparr>chGasMeter := \<lparr>gmConsumed = 0, gmLimit = - 1\<rparr>, chEvm := ResetTransientGasUsed (chEvm c)\<rparr>"

text \<open>2. and 3. Minimal fees.\<close>

definition CheckMempoolFee :: "dec_ops \<Rightarrow> int \<Rightarrow> int \<Rightarrow> int \<Rightarrow> bool \<Rightarrow> unit result" where
  "CheckMempoolFee d fee mempoolMinGasPrice gasLimit isLondon =
     (if isLondon then Inr ()
      else rbind (decMul d mempoolMinGasPrice gasLimit) (\<lambda>requiredFee.
           if fee < requiredFee then Inl (ErrExternal ''ErrInsufficientFee'') else Inr ()))"

definition CheckGlobalFee :: "dec_ops \<Rightarrow> int \<Rightarrow> int option \<Rightarrow> int \<Rightarrow> unit result" where
  "CheckGlobalFee d fee globalMinGasPrice gasLimit =
     rbind (deref globalMinGasPrice) (\<lambda>p.
     if p = 0 then Inr ()
     else rbind (decMul d p gasLimit) (\<lambda>requiredFee.
          if fee < requiredFee then Inl (ErrExternal ''ErrInsufficientFee'') else Inr ()))"

text \<open>4. Validation of the message and of the transaction around it.\<close>

definition checkDisabledCreateCall :: "TxGetters \<Rightarrow> bool \<Rightarrow> bool \<Rightarrow> unit result" where
  "checkDisabledCreateCall txData enableCreate enableCall =
     (if TxGetData txData = None then Inr ()
      else if \<not> enableCreate \<and> TxGetTo txData = None then Inl ErrCreateDisabled
      else if \<not> enableCall \<and> TxGetTo txData \<noteq> None then Inl ErrCallDisabled
      else Inr ())"

definition checkValidFrom :: "addr option \<Rightarrow> unit result" where
  "checkValidFrom from = (if from \<noteq> None then Inl ErrInvalidRequest else Inr ())"

definition ValidateMsg :: "Params \<Rightarrow> TxGetters \<Rightarrow> addr option \<Rightarrow> unit result" where
  "ValidateMsg params txData from =
     rbind (checkValidFrom from) (\<lambda>_. checkDisabledCreateCall txData (EnableCreate params) (EnableCall params))"

text \<open>The fee that the transaction declares: its coins and gas limit.\<close>

definition ValidateTx :: "('w, 'x) ante_env \<Rightarrow> cosmos_tx \<Rightarrow> (CoinList \<times> u64) result" where
  "ValidateTx an tx =
     rbind (case anValidateBasic an tx of Inl err \<Rightarrow> if err = anErrNoSignatures an then Inr () else Inl err | Inr _ \<Rightarrow> Inr ()) (\<lambda>_.
     if ctMemo tx \<noteq> '''' \<or> ctTimeoutHeight tx \<noteq> 0 \<or> ctNonCritical tx > 0 then Inl ErrInvalidRequest
     else if length (ctExtensionOptions tx) \<noteq> 1 then Inl ErrInvalidRequest
     else if ctSignerInfos tx > 0 then Inl ErrInvalidRequest
     else if ctPayer tx \<noteq> '''' \<or> ctGranter tx \<noteq> '''' then Inl ErrInvalidRequest
     else if ctSignatures tx > 0 then Inl ErrInvalidRequest
     else Inr (ctFeeAmount tx, ctGasLimit tx))"

text \<open>\<^verbatim>\<open>Coins.IsEqual\<close> compares the sorted lists.\<close>

definition coins_IsEqual :: "CoinList \<Rightarrow> CoinList \<Rightarrow> bool" where
  "coins_IsEqual as bs \<longleftrightarrow> sort_key fst as = sort_key fst bs"

definition CheckTxFee :: "(CoinList \<times> u64) option \<Rightarrow> CoinList \<Rightarrow> u64 \<Rightarrow> unit result" where
  "CheckTxFee txFeeInfo txFee txGasLimit =
     (case txFeeInfo of
        None \<Rightarrow> Inr ()
      | Some (amount, gasLimit) \<Rightarrow>
          if \<not> coins_IsEqual amount txFee then Inl ErrInvalidRequest
          else if gasLimit \<noteq> txGasLimit then Inl ErrInvalidRequest
          else Inr ())"

text \<open>5. The sender is recovered from the signature and written into the message.\<close>

definition SignatureVerification ::
  "addr_codec \<Rightarrow> eth_lib \<Rightarrow> ethConfig \<Rightarrow> int \<Rightarrow> bool \<Rightarrow> MsgEthereumTx \<Rightarrow> MsgEthereumTx result" where
  "SignatureVerification ac lib cfg height allowUnprotectedTxs msg =
     rbind (deref (AsTransaction ac lib msg)) (\<lambda>ethTx.
     if \<not> allowUnprotectedTxs \<and> \<not> elProtected lib ethTx then Inl (ErrExternal ''ErrNotSupported'')
     else case elSender lib cfg height ethTx of
            Inl err \<Rightarrow> if is_panic (Inl err :: unit result) then Inl err else Inl (ErrExternal ''ErrorInvalidSigner'')
          | Inr sender \<Rightarrow> Inr (msg\<lparr>mtFrom := acHex ac sender\<rparr>))"

text \<open>6. The account of the sender, which is created if it does not exist.\<close>

definition CheckSenderBalance :: "int \<Rightarrow> TxData \<Rightarrow> unit result" where
  "CheckSenderBalance balance txData =
     rbind (TxCost (txFees txData)) (\<lambda>cost.
     if cost < 0 then Inl (ErrExternal ''ErrInvalidCoins'')
     else if balance < 0 \<or> balance < cost then Inl (ErrExternal ''ErrInsufficientFunds'')
     else Inr ())"

definition VerifyAccountBalance ::
  "('w, 'x) evm_env \<Rightarrow> ('w, 'x) ChainCtx \<Rightarrow> nilableAccount option \<Rightarrow> addr \<Rightarrow> TxData \<Rightarrow> ('w, 'x) ChainCtx result" where
  "VerifyAccountBalance e c acct from txData =
     (if (case acct of None \<Rightarrow> False | Some a \<Rightarrow> raw_IsContract (eeKec e) a) then Inl (ErrExternal ''ErrInvalidType'')
      else
        let (c, balance) =
              (case acct of
                 None \<Rightarrow> let (w, acc) = akNewAccountWithAddress (eeAk e) (ch_sdk c) from
                         in (set_ch_sdk c (akSetAccount (eeAk e) w acc), Some (Balance (NewEmptyAccount (eeKec e))))
               | Some a \<Rightarrow> (c, rawBalance a))
        in rbind (deref balance) (\<lambda>b.
           rbind (NewIntFromBigInt b) (\<lambda>b.
           rbind (CheckSenderBalance b txData) (\<lambda>_. Inr c))))"

text \<open>7. The value can be transferred.\<close>

definition CanTransfer :: "('w, 'x) ante_env \<Rightarrow> ('w, 'x) ChainCtx \<Rightarrow> core_msg \<Rightarrow> int option \<Rightarrow> bool \<Rightarrow> unit result" where
  "CanTransfer an c msg baseFee isLondon =
     rbind (if isLondon then rbind (deref baseFee) (\<lambda>b. Inr (cmGasFeeCap msg < b)) else Inr False) (\<lambda>low.
     if low then Inl (ErrExternal ''ErrInsufficientFee'')
     else
       let stateDB = NewStateDB c (chain_Keeper (anEvm an)) (NewEmptyTxConfig (eeBytesToHash (anEvm an) (chHeaderHash c)))
       in if cmValue msg > 0 \<and> \<not> anCanTransfer an stateDB (cmFrom msg) (cmValue msg)
          then Inl (ErrExternal ''ErrInsufficientFunds'')
          else Inr ())"

text \<open>
  8. Expenses of a vesting account over all messages of a transaction, as a map from its address to the total and
  the spendable value. \<^verbatim>\<open>SafeSub\<close> fails when the result would be negative.
\<close>

type_synonym expenses = "addr \<rightharpoonup> int option \<times> int"

definition UpdateAccountExpenses ::
  "('w, 'x) ante_env \<Rightarrow> ('w, 'x) ChainCtx \<Rightarrow> expenses \<Rightarrow> ClawbackVestingAccount \<Rightarrow> int option \<Rightarrow> string
   \<Rightarrow> (expenses \<times> int option \<times> int) result" where
  "UpdateAccountExpenses an c accountExpenses va addedExpense denom =
     (let a = accAddress (cvBase va) in
      case accountExpenses a of
        Some (t, s) \<Rightarrow>
          rbind (deref t) (\<lambda>t. rbind (deref addedExpense) (\<lambda>v.
          Inr (accountExpenses(a \<mapsto> (Some (t + v), s)), Some (t + v), s)))
      | None \<Rightarrow>
          let balance = bkGetBalance (eeBk (anEvm an)) (ch_sdk c) a denom
          in if balance = 0 then Inl (ErrExternal ''ErrInsufficientFunds'')
             else rbind (LockedCoins (anLockedFromVesting an) va (chTime c)) (\<lambda>lockedBalances.
                  let diff = balance - AmountOf lockedBalances denom; s = (if diff < 0 then 0 else diff)
                  in Inr (accountExpenses(a \<mapsto> (addedExpense, s)), addedExpense, s)))"

definition CheckVesting ::
  "('w, 'x) ante_env \<Rightarrow> ('w, 'x) ChainCtx \<Rightarrow> AccountI \<Rightarrow> expenses \<Rightarrow> int option \<Rightarrow> string \<Rightarrow> expenses result" where
  "CheckVesting an c acct accountExpenses addedExpense denom =
     (case acct of
        ClawbackAccount va \<Rightarrow>
          rbind (UpdateAccountExpenses an c accountExpenses va addedExpense denom) (\<lambda>(accountExpenses, t, spendable).
          rbind (deref t) (\<lambda>t.
          if t > spendable then Inl (ErrModule ''vesting'' 4) else Inr accountExpenses))
      | _ \<Rightarrow> Inr accountExpenses)"

text \<open>9. Fees and gas.\<close>

definition VerifyFee ::
  "eth_lib \<Rightarrow> TxGetters \<Rightarrow> TxFees \<Rightarrow> string \<Rightarrow> int option \<Rightarrow> bool \<Rightarrow> bool \<Rightarrow> bool \<Rightarrow> CoinList result" where
  "VerifyFee lib g f denom baseFee homestead istanbul isCheckTx =
     rbind (elIntrinsicGas lib (TxGetData g) (TxGetAccessList g) (TxGetTo g = None) homestead istanbul) (\<lambda>intrinsicGas.
     if isCheckTx \<and> TxGetGas g < intrinsicGas then Inl (ErrExternal ''ErrOutOfGas'')
     else rbind (case baseFee of None \<Rightarrow> Inr False | Some b \<Rightarrow> rbind (deref (TxGetGasFeeCap g)) (\<lambda>cap. Inr (cap < b))) (\<lambda>low.
       if low then Inl (ErrExternal ''ErrInsufficientFee'')
       else rbind (TxEffectiveFee f baseFee) (\<lambda>feeAmt.
         if feeAmt = 0 then Inr []
         else rbind (NewIntFromBigInt feeAmt) (\<lambda>feeAmt. Inr [(denom, feeAmt)]))))"

text \<open>
  The loop over the delegations stops at an error or as soon as the rewards suffice. The state that
  was reached is returned, and thrown away when they do not.
\<close>

fun withdraw_loop ::
  "('w, 'x) ante_env \<Rightarrow> addr \<Rightarrow> string \<Rightarrow> int \<Rightarrow> addr list \<Rightarrow> ('w, 'x) ChainCtx \<Rightarrow> Coins \<Rightarrow> (('w, 'x) ChainCtx \<times> Coins) result" where
  "withdraw_loop an a denom amount [] c rewards = Inr (c, rewards)"
| "withdraw_loop an a denom amount (v # vs) c rewards =
     rbind (anWithdrawRewards an c a v) (\<lambda>(c, reward).
     let rewards = rewards + reward
     in if AmountOf rewards denom \<ge> amount then Inr (c, rewards)
        else withdraw_loop an a denom amount vs c rewards)"

definition ClaimSufficientStakingRewards ::
  "('w, 'x) ante_env \<Rightarrow> ('w, 'x) ChainCtx \<Rightarrow> addr \<Rightarrow> string \<Rightarrow> int \<Rightarrow> ('w, 'x) ChainCtx result" where
  "ClaimSufficientStakingRewards an c a denom amount =
     rbind (withdraw_loop an a denom amount (anDelegations an c a) c {#}) (\<lambda>(cacheCtx, rewards).
     if AmountOf rewards denom < amount then Inl (ErrExternal ''ErrInsufficientFee'') else Inr cacheCtx)"

definition ClaimStakingRewardsIfNecessary ::
  "('w, 'x) ante_env \<Rightarrow> ('w, 'x) ChainCtx \<Rightarrow> addr \<Rightarrow> CoinList \<Rightarrow> ('w, 'x) ChainCtx result" where
  "ClaimStakingRewardsIfNecessary an c a amount =
     (let stakingDenom = anBondDenom an c in
      case map_of amount stakingDenom of
        None \<Rightarrow> Inl (ErrExternal ''ErrInsufficientFee'')
      | Some amountInStakingDenom \<Rightarrow>
          let balance = bkGetBalance (eeBk (anEvm an)) (ch_sdk c) a stakingDenom
          in if balance < 0 then Inl (ErrExternal ''ErrInsufficientFunds'')
             else if balance \<ge> amountInStakingDenom then Inr c
             else ClaimSufficientStakingRewards an c a stakingDenom (amountInStakingDenom - balance))"

definition DeductTxCostsFromUserBalance ::
  "('w, 'x) ante_env \<Rightarrow> ('w, 'x) ChainCtx \<Rightarrow> CoinList \<Rightarrow> addr \<Rightarrow> ('w, 'x) ChainCtx result" where
  "DeductTxCostsFromUserBalance an c feeCoins from =
     rbind (anGetSignerAcc an (ch_sdk c) from) (\<lambda>signerAcc.
     rbind (anDeductFees an (ch_sdk c) signerAcc feeCoins) (\<lambda>w. Inr (set_ch_sdk c w)))"

definition deductFees :: "('w, 'x) ante_env \<Rightarrow> ('w, 'x) ChainCtx \<Rightarrow> CoinList \<Rightarrow> addr \<Rightarrow> ('w, 'x) ChainCtx result" where
  "deductFees an c feeCoins feePayer =
     (if \<forall>(d, n) \<in> set feeCoins. n = 0 then Inr c
      else rbind (ClaimStakingRewardsIfNecessary an c feePayer feeCoins) (\<lambda>c.
           DeductTxCostsFromUserBalance an c feeCoins feePayer))"

datatype ante_event = EventTxFee CoinList | EventTxHash string u64

definition ConsumeFeesAndEmitEvent ::
  "('w, 'x) ante_env \<Rightarrow> ('w, 'x) ChainCtx \<Rightarrow> CoinList \<Rightarrow> addr \<Rightarrow> (('w, 'x) ChainCtx \<times> ante_event) result" where
  "ConsumeFeesAndEmitEvent an c feeCoins from = rbind (deductFees an c feeCoins from) (\<lambda>c. Inr (c, EventTxFee feeCoins))"

definition UpdateComulativeGasWanted :: "bool \<Rightarrow> u64 \<Rightarrow> u64 \<Rightarrow> u64 \<Rightarrow> u64" where
  "UpdateComulativeGasWanted isCheckTx msgGasWanted maxTxGasWanted cumulativeGasWanted =
     (if isCheckTx \<and> maxTxGasWanted \<noteq> 0
      then (if msgGasWanted > maxTxGasWanted then cumulativeGasWanted + maxTxGasWanted else cumulativeGasWanted + msgGasWanted)
      else cumulativeGasWanted + msgGasWanted)"

definition GetMsgPriority :: "int \<Rightarrow> TxData \<Rightarrow> int \<Rightarrow> int option \<Rightarrow> int result" where
  "GetMsgPriority reduction txData minPriority baseFee =
     rbind (GetTxPriority reduction txData baseFee) (\<lambda>priority. Inr (if priority < minPriority then priority else minPriority))"

text \<open>The context with its new gas meter, and the priority of the transaction.\<close>

definition CheckBlockGasLimit :: "('w, 'x) ChainCtx \<Rightarrow> u64 \<Rightarrow> int \<Rightarrow> (('w, 'x) ChainCtx \<times> int) result" where
  "CheckBlockGasLimit c gasWanted minPriority =
     (if gasWanted > ch_gas_limit c then Inl (ErrExternal ''ErrOutOfGas'')
      else Inr (c\<lparr>chGasMeter := NewInfiniteGasMeterWithLimit gasWanted\<rparr>, minPriority))"

text \<open>\<^verbatim>\<open>Coins.Add\<close> with one coin: sorted by denomination, without zero amounts.\<close>

fun add_coin :: "CoinList \<Rightarrow> string \<Rightarrow> int \<Rightarrow> CoinList" where
  "add_coin [] d n = (if n = 0 then [] else [(d, n)])"
| "add_coin ((d', m) # cs) d n =
     (if d = d' then (if m + n = 0 then cs else (d, m + n) # cs)
      else if d < d' then (if n = 0 then (d', m) # cs else (d, n) # (d', m) # cs)
      else (d', m) # add_coin cs d n)"

definition UpdateCumulativeTxFee :: "CoinList \<Rightarrow> int \<Rightarrow> string \<Rightarrow> CoinList result" where
  "UpdateCumulativeTxFee cumulativeTxFee msgFee denom =
     rbind (NewIntFromBigInt msgFee) (\<lambda>n.
     rbind (NewIntFromBigInt (AmountIn cumulativeTxFee denom + n)) (\<lambda>_. Inr (add_coin cumulativeTxFee denom n)))"

text \<open>10. The nonce is checked and incremented on the account that was read before the fees were taken.\<close>

definition IncrementNonce :: "('w, 'x) evm_env \<Rightarrow> ('w, 'x) ChainCtx \<Rightarrow> AccountI \<Rightarrow> u64 \<Rightarrow> ('w, 'x) ChainCtx result" where
  "IncrementNonce e c acct txNonce =
     (let nonce = GetSequence acct
      in if txNonce \<noteq> nonce then Inl (ErrExternal ''ErrInvalidSequence'')
         else Inr (set_ch_sdk c (akSetAccount (eeAk e) (ch_sdk c) (SetSequence acct (nonce + 1)))))"

text \<open>11. The gas wanted by the transaction is added to that of the block.\<close>

definition CheckGasWanted :: "('w, 'x) ChainCtx \<Rightarrow> cosmos_tx \<Rightarrow> bool \<Rightarrow> ('w, 'x) ChainCtx result" where
  "CheckGasWanted c tx isLondon =
     (if \<not> isLondon then Inr c
      else if ctGasLimit tx > ch_gas_limit c then Inl (ErrExternal ''ErrOutOfGas'')
      else if \<not> GetBaseFeeEnabled (chFee c) then Inr c
      else rbind (AddTransientGasWanted (chFee c) (ctGasLimit tx)) (\<lambda>(fm, _). Inr (c\<lparr>chFee := fm\<rparr>)))"

text \<open>12. Events.\<close>

definition EmitTxHashEvent :: "MsgEthereumTx \<Rightarrow> u64 \<Rightarrow> u64 \<Rightarrow> ante_event" where
  "EmitTxHashEvent msg blockTxIndex msgIndex = EventTxHash (mtHash msg) (blockTxIndex + msgIndex)"

section \<open>The decorator\<close>

record ('w, 'x) mono_state =
  msCtx :: "('w, 'x) ChainCtx"
  msUtils :: DecoratorUtils
  msExpenses :: expenses
  msEvents :: "ante_event list"
  msMsgs :: "sdk_msg list"

text \<open>Steps 2 and 3 for one message.\<close>

definition check_min_fees :: "dec_ops \<Rightarrow> ante_mode \<Rightarrow> DecoratorUtils \<Rightarrow> TxData \<Rightarrow> u64 \<Rightarrow> unit result" where
  "check_min_fees d mode du txData gas =
     rbind (TxFee (txFees txData)) (\<lambda>feeAmt.
     let fee = LegacyNewDec feeAmt; gasLimit = LegacyNewDec (uint gas)
     in rbind (if amCheckTx mode \<and> \<not> amSimulate mode
               then CheckMempoolFee d fee (duMempoolMinGasPrice du) gasLimit (duIsLondon du) else Inr ()) (\<lambda>_.
        rbind (if TxType txData = 2 \<and> duBaseFee du \<noteq> None
               then rbind (TxEffectiveFee (txFees txData) (duBaseFee du)) (\<lambda>feeAmt. Inr (LegacyNewDec feeAmt)) else Inr fee) (\<lambda>fee.
        CheckGlobalFee d fee (duGlobalMinGasPrice du) gasLimit)))"

text \<open>The values that are accumulated over the messages in step 9.\<close>

definition update_utils :: "('w, 'x) ante_env \<Rightarrow> ante_mode \<Rightarrow> DecoratorUtils \<Rightarrow> TxData \<Rightarrow> u64 \<Rightarrow> DecoratorUtils result" where
  "update_utils an mode du txData gas =
     rbind (GetMsgPriority (anPriorityReduction an) txData (duMinPriority du) (duBaseFee du)) (\<lambda>minPriority.
     rbind (TxFee (txFees txData)) (\<lambda>feeAmt.
     rbind (UpdateCumulativeTxFee (duTxFee du) feeAmt (duEvmDenom du)) (\<lambda>txFee.
     Inr (du\<lparr>duGasWanted := UpdateComulativeGasWanted (amCheckTx mode) gas (anMaxGasWanted an) (duGasWanted du),
             duMinPriority := minPriority, duTxFee := txFee, duTxGasLimit := duTxGasLimit du + gas\<rparr>))))"

text \<open>Steps 8 to 12 for one message, once its sender and fees are known.\<close>

definition mono_charge ::
  "('w, 'x) ante_env \<Rightarrow> ante_mode \<Rightarrow> cosmos_tx \<Rightarrow> u64 \<Rightarrow> ('w, 'x) mono_state \<Rightarrow> ('w, 'x) ChainCtx \<Rightarrow> MsgEthereumTx \<Rightarrow> TxData \<Rightarrow> addr
   \<Rightarrow> ('w, 'x) mono_state result" where
  "mono_charge an mode tx i s c ethMsg txData from =
     (let e = anEvm an; du = msUtils s; g = txGetters (an_codec an) (an_lib an) txData in
      case akGetAccount (eeAk e) (ch_sdk c) from of
        None \<Rightarrow> Inl (ErrExternal ''ErrUnknownAddress'')
      | Some acc \<Rightarrow>
          rbind (CheckVesting an c acc (msExpenses s) (TxGetValue g) (duEvmDenom du)) (\<lambda>exps.
          rbind (VerifyFee (an_lib an) g (txFees txData) (duEvmDenom du) (duBaseFee du)
                   (duIsHomestead du) (duIsIstanbul du) (amCheckTx mode)) (\<lambda>msgFees.
          rbind (ConsumeFeesAndEmitEvent an c msgFees from) (\<lambda>(c, ev).
          rbind (update_utils an mode du txData (TxGetGas g)) (\<lambda>du'.
          rbind (IncrementNonce e c acc (TxGetNonce g)) (\<lambda>c.
          rbind (CheckGasWanted c tx (duIsLondon du)) (\<lambda>c.
          Inr \<lparr>msCtx = c, msUtils = du', msExpenses = exps,
               msEvents = msEvents s @ [ev, EmitTxHashEvent ethMsg (duBlockTxIndex du) i],
               msMsgs = msMsgs s @ [EthereumMsg ethMsg]\<rparr>)))))))"

definition mono_message ::
  "('w, 'x) ante_env \<Rightarrow> ante_mode \<Rightarrow> cosmos_tx \<Rightarrow> u64 \<Rightarrow> sdk_msg \<Rightarrow> ('w, 'x) mono_state \<Rightarrow> ('w, 'x) mono_state result" where
  "mono_message an mode tx i m s =
     (let e = anEvm an; ac = an_codec an; lib = an_lib an; c = msCtx s; du = msUtils s in
      rbind (UnpackEthMsg ac m) (\<lambda>(ethMsg, txData, from).
      let g = txGetters ac lib txData in
      rbind (check_min_fees (eeDec e) mode du txData (TxGetGas g)) (\<lambda>_.
      rbind (ValidateMsg (duEvmParams du) g from) (\<lambda>_.
      rbind (SignatureVerification ac lib (duEthConfig du) (ch_height c) (AllowUnprotectedTxs (duEvmParams du)) ethMsg) (\<lambda>ethMsg.
      let fromAddr = acHexToAddress ac (mtFrom ethMsg) in
      rbind (VerifyAccountBalance e c (ek_GetAccount (eeKec e) (eeAk e) (eeBk e) (chEvm c) fromAddr) fromAddr txData) (\<lambda>c.
      rbind (AsMessage ac lib (duEthConfig du) (ch_height c) ethMsg (duBaseFee du)) (\<lambda>coreMsg.
      rbind (CanTransfer an c coreMsg (duBaseFee du) (duIsLondon du)) (\<lambda>_.
      rbind (deref (GetFrom ac ethMsg)) (\<lambda>from.
      mono_charge an mode tx i s c ethMsg txData from)))))))))"

fun mono_loop ::
  "('w, 'x) ante_env \<Rightarrow> ante_mode \<Rightarrow> cosmos_tx \<Rightarrow> u64 \<Rightarrow> sdk_msg list \<Rightarrow> ('w, 'x) mono_state \<Rightarrow> ('w, 'x) mono_state result" where
  "mono_loop an mode tx i [] s = Inr s"
| "mono_loop an mode tx i (m # ms) s = rbind (mono_message an mode tx i m s) (mono_loop an mode tx (i + 1) ms)"

text \<open>The context, the priority, the events and the messages with their senders filled in.\<close>

definition MonoAnteHandle ::
  "('w, 'x) ante_env \<Rightarrow> ante_mode \<Rightarrow> ('w, 'x) ChainCtx \<Rightarrow> cosmos_tx
   \<Rightarrow> (('w, 'x) ChainCtx \<times> int \<times> ante_event list \<times> sdk_msg list) result" where
  "MonoAnteHandle an mode c tx =
     rbind (if amReCheckTx mode then Inr None else rbind (ValidateTx an tx) (\<lambda>f. Inr (Some f))) (\<lambda>txFeeInfo.
     let c = SetupContext c in
     rbind (NewUtils an mode c) (\<lambda>decUtils.
     rbind (mono_loop an mode tx 0 (ctMsgs tx)
              \<lparr>msCtx = c, msUtils = decUtils, msExpenses = Map.empty, msEvents = [], msMsgs = []\<rparr>) (\<lambda>s.
     rbind (CheckTxFee txFeeInfo (duTxFee (msUtils s)) (duTxGasLimit (msUtils s))) (\<lambda>_.
     rbind (CheckBlockGasLimit (msCtx s) (duGasWanted (msUtils s)) (duMinPriority (msUtils s))) (\<lambda>(c, priority).
     Inr (c, priority, msEvents s, msMsgs s))))))"

section \<open>Single decorators\<close>

text \<open>The same steps as decorators of their own; each runs over all messages.\<close>

fun EthSigVerificationDecorator_AnteHandle ::
  "addr_codec \<Rightarrow> eth_lib \<Rightarrow> ethConfig \<Rightarrow> int \<Rightarrow> bool \<Rightarrow> sdk_msg list \<Rightarrow> sdk_msg list result" where
  "EthSigVerificationDecorator_AnteHandle ac lib cfg h unprotected [] = Inr []"
| "EthSigVerificationDecorator_AnteHandle ac lib cfg h unprotected (m # ms) =
     (case m of
        EthereumMsg msg \<Rightarrow>
          rbind (SignatureVerification ac lib cfg h unprotected msg) (\<lambda>msg.
          rbind (EthSigVerificationDecorator_AnteHandle ac lib cfg h unprotected ms) (\<lambda>ms. Inr (EthereumMsg msg # ms)))
      | _ \<Rightarrow> Inl ErrUnknownRequest)"

text \<open>A nil sender has no account.\<close>

fun vesting_decorator_loop ::
  "('w, 'x) ante_env \<Rightarrow> ('w, 'x) ChainCtx \<Rightarrow> string \<Rightarrow> sdk_msg list \<Rightarrow> expenses \<Rightarrow> expenses result" where
  "vesting_decorator_loop an c denom [] exps = Inr exps"
| "vesting_decorator_loop an c denom (m # ms) exps =
     rbind (UnpackEthMsg (an_codec an) m) (\<lambda>(_, txData, from).
     case (case from of None \<Rightarrow> None | Some a \<Rightarrow> akGetAccount (eeAk (anEvm an)) (ch_sdk c) a) of
       None \<Rightarrow> Inl (ErrExternal ''ErrUnknownAddress'')
     | Some acc \<Rightarrow>
         rbind (CheckVesting an c acc exps (TxGetValue (txGetters (an_codec an) (an_lib an) txData)) denom) (\<lambda>exps.
         vesting_decorator_loop an c denom ms exps))"

definition EthVestingTransactionDecorator_AnteHandle :: "('w, 'x) ante_env \<Rightarrow> ('w, 'x) ChainCtx \<Rightarrow> cosmos_tx \<Rightarrow> unit result" where
  "EthVestingTransactionDecorator_AnteHandle an c tx =
     rbind (vesting_decorator_loop an c (EvmDenom (ch_params c)) (ctMsgs tx) Map.empty) (\<lambda>_. Inr ())"

definition GasWantedDecorator_AnteHandle :: "('w, 'x) ante_env \<Rightarrow> ('w, 'x) ChainCtx \<Rightarrow> cosmos_tx \<Rightarrow> ('w, 'x) ChainCtx result" where
  "GasWantedDecorator_AnteHandle an c tx =
     (let ethCfg = EthereumConfig (ChainCfg (ch_params c)) (eeChainID (anEvm an))
      in CheckGasWanted c tx (eeIsLondon (anEvm an) ethCfg (ch_height c)))"

fun EthEmitEventDecorator_AnteHandle :: "u64 \<Rightarrow> u64 \<Rightarrow> sdk_msg list \<Rightarrow> ante_event list result" where
  "EthEmitEventDecorator_AnteHandle blockTxIndex i [] = Inr []"
| "EthEmitEventDecorator_AnteHandle blockTxIndex i (m # ms) =
     (case m of
        EthereumMsg msg \<Rightarrow>
          rbind (EthEmitEventDecorator_AnteHandle blockTxIndex (i + 1) ms) (\<lambda>evs.
          Inr (EmitTxHashEvent msg blockTxIndex i # evs))
      | _ \<Rightarrow> Inl ErrUnknownRequest)"

end
