(* ===== verification/AnteCosmos.thy ===== *)
theory AnteCosmos
  imports AnteEvm
begin

text \<open>
  The ante handlers of Cosmos transactions, \<^verbatim>\<open>app/ante/cosmos\<close>: rejection of Ethereum messages, the limits on authorised
  messages, minimal gas prices, the deduction of fees and the delegation of vesting coins; the fee checker of
  \<^verbatim>\<open>app/ante/evm/fee_checker.go\<close>, the gas of signatures of \<^verbatim>\<open>app/ante/sigverify.go\<close> and the choice of the handler in
  \<^verbatim>\<open>app/ante/ante.go\<close>. The decorators that the SDK and IBC provide are parameters.
\<close>

section \<open>Messages\<close>

text \<open>\<^verbatim>\<open>sdk.MsgTypeURL\<close>.\<close>

fun MsgTypeURL :: "sdk_msg \<Rightarrow> string" where
  "MsgTypeURL (EthereumMsg m) = ''/ethermint.evm.v1.MsgEthereumTx''"
| "MsgTypeURL (ExecMsg ms) = ''/cosmos.authz.v1beta1.MsgExec''"
| "MsgTypeURL (GrantMsg u) = ''/cosmos.authz.v1beta1.MsgGrant''"
| "MsgTypeURL (DelegateMsg signers amount) = ''/cosmos.staking.v1beta1.MsgDelegate''"
| "MsgTypeURL (OtherSdkMsg url) = url"

definition RejectMessagesDecorator_AnteHandle :: "cosmos_tx \<Rightarrow> unit result" where
  "RejectMessagesDecorator_AnteHandle tx =
     (if \<exists>m \<in> set (ctMsgs tx). case m of EthereumMsg _ \<Rightarrow> True | _ \<Rightarrow> False then Inl (ErrExternal ''ErrInvalidType'') else Inr ())"

section \<open>Authorised messages\<close>

definition maxNestedMsgs :: nat where
  "maxNestedMsgs = 7"

definition isDisabledMsg :: "string list \<Rightarrow> string \<Rightarrow> bool" where
  "isDisabledMsg disabledMsgTypes msgTypeURL \<longleftrightarrow> msgTypeURL \<in> set disabledMsgTypes"

text \<open>\<^verbatim>\<open>MsgExec.GetMessages\<close> fails when one of the messages cannot be unpacked.\<close>

fun unpack_all :: "'a option list \<Rightarrow> 'a list option" where
  "unpack_all [] = Some []"
| "unpack_all (None # xs) = None"
| "unpack_all (Some x # xs) = map_option (\<lambda>ys. x # ys) (unpack_all xs)"

lemma unpack_all_Some: "unpack_all xs = Some ys \<longleftrightarrow> xs = map Some ys"
  by (induction xs arbitrary: ys rule: unpack_all.induct) auto

lemma size_map_Some: "size_list size ys < Suc (size_list (size_option size) (map Some ys))"
  by (induction ys) auto

text \<open>The level is raised at every \<^verbatim>\<open>MsgExec\<close> and stays raised for the messages after it.\<close>

function (sequential) check_msgs :: "string list \<Rightarrow> sdk_msg list \<Rightarrow> bool \<Rightarrow> nat \<Rightarrow> unit result" where
  "check_msgs disabled [] isAuthzInnerMsg nestedLvl = Inr ()"
| "check_msgs disabled (ExecMsg ms # msgs) isAuthzInnerMsg nestedLvl =
     (case unpack_all ms of
        None \<Rightarrow> Inl (ErrExternal ''ErrUnpackAny'')
      | Some innerMsgs \<Rightarrow>
          rbind (if nestedLvl + 1 \<ge> maxNestedMsgs then Inl (ErrText ''found more nested msgs than permited'')
                 else check_msgs disabled innerMsgs True (nestedLvl + 1)) (\<lambda>_.
          check_msgs disabled msgs isAuthzInnerMsg (nestedLvl + 1)))"
| "check_msgs disabled (GrantMsg u # msgs) isAuthzInnerMsg nestedLvl =
     (case u of
        None \<Rightarrow> Inl (ErrExternal ''ErrUnpackAny'')
      | Some url \<Rightarrow> if isDisabledMsg disabled url then Inl (ErrText ''found disabled msg type'')
                    else check_msgs disabled msgs isAuthzInnerMsg nestedLvl)"
| "check_msgs disabled (m # msgs) isAuthzInnerMsg nestedLvl =
     (if isAuthzInnerMsg \<and> isDisabledMsg disabled (MsgTypeURL m) then Inl (ErrText ''found disabled msg type'')
      else check_msgs disabled msgs isAuthzInnerMsg nestedLvl)"
  by pat_completeness auto
termination
  by (relation "measure (\<lambda>(_, ms, _, _). size_list size ms)") (auto simp: unpack_all_Some intro: less_le_trans [OF size_map_Some])

definition checkDisabledMsgs :: "string list \<Rightarrow> sdk_msg list \<Rightarrow> bool \<Rightarrow> nat \<Rightarrow> unit result" where
  "checkDisabledMsgs disabled msgs isAuthzInnerMsg nestedLvl =
     (if nestedLvl \<ge> maxNestedMsgs then Inl (ErrText ''found more nested msgs than permited'')
      else check_msgs disabled msgs isAuthzInnerMsg nestedLvl)"

definition AuthzLimiterDecorator_AnteHandle :: "string list \<Rightarrow> cosmos_tx \<Rightarrow> unit result" where
  "AuthzLimiterDecorator_AnteHandle disabled tx =
     (case checkDisabledMsgs disabled (ctMsgs tx) False 1 of Inl _ \<Rightarrow> Inl ErrUnauthorized | Inr _ \<Rightarrow> Inr ())"

section \<open>Minimal gas prices\<close>

text \<open>\<^verbatim>\<open>LegacyDec.Ceil().RoundInt()\<close>, and \<^verbatim>\<open>Coins.IsAnyGTE\<close>.\<close>

definition dec_ceil :: "int \<Rightarrow> int" where
  "dec_ceil x = - ((- x) div dec_one)"

definition coins_IsAnyGTE :: "CoinList \<Rightarrow> CoinList \<Rightarrow> bool" where
  "coins_IsAnyGTE as bs \<longleftrightarrow> (\<exists>(d, n) \<in> set as. AmountIn bs d \<noteq> 0 \<and> n \<ge> AmountIn bs d)"

definition MinGasPriceDecorator_AnteHandle :: "dec_ops \<Rightarrow> ('w, 'x) ChainCtx \<Rightarrow> cosmos_tx \<Rightarrow> bool \<Rightarrow> string \<Rightarrow> unit result" where
  "MinGasPriceDecorator_AnteHandle d c tx simulate defaultBondDenom =
     (let feeCoins = ctFeeAmount tx; evmDenom = EvmDenom (ch_params c);
          validFees = (length feeCoins = 0 \<or> length feeCoins = 1 \<and> fst (hd feeCoins) \<in> {evmDenom, defaultBondDenom})
      in if \<not> validFees \<and> \<not> simulate then Inl (ErrText ''expected only use native token'')
         else rbind (deref (MinGasPrice (fm_GetParams (chFee c)))) (\<lambda>minGasPrice.
           if minGasPrice = 0 \<or> simulate then Inr ()
           else rbind (decMul d minGasPrice (LegacyNewDec (uint (ctGasLimit tx)))) (\<lambda>x.
             let fee = dec_ceil x; requiredFees = (if fee > 0 then [(evmDenom, fee)] else [])
             in if feeCoins = [] then Inl (ErrExternal ''ErrInsufficientFee'')
                else if \<not> coins_IsAnyGTE feeCoins requiredFees then Inl (ErrExternal ''ErrInsufficientFee'')
                else Inr ())))"

section \<open>The fee checker\<close>

text \<open>
  A node's minimal gas prices are decimal coins. \<^verbatim>\<open>sdk.NewCoin\<close> panics on negative amounts and \<^verbatim>\<open>QuoRaw\<close> on zero.
\<close>

fun required_fees :: "dec_ops \<Rightarrow> (string \<times> int) list \<Rightarrow> int \<Rightarrow> CoinList result" where
  "required_fees d [] glDec = Inr []"
| "required_fees d ((denom, p) # gps) glDec =
     rbind (decMul d p glDec) (\<lambda>fee.
     if dec_ceil fee < 0 then Inl (Panic ''negative coin amount'')
     else rbind (required_fees d gps glDec) (\<lambda>rs. Inr ((denom, dec_ceil fee) # rs)))"

definition checkFeeCoinsAgainstMinGasPrices :: "dec_ops \<Rightarrow> ante_mode \<Rightarrow> CoinList \<Rightarrow> u64 \<Rightarrow> unit result" where
  "checkFeeCoinsAgainstMinGasPrices d mode feeCoins gas =
     (let minGasPrices = amMinGasPrices mode
      in if \<forall>(_, p) \<in> set minGasPrices. p = 0 then Inr ()
         else rbind (required_fees d minGasPrices (LegacyNewDec (i64 (uint gas)))) (\<lambda>requiredFees.
              if \<not> coins_IsAnyGTE feeCoins requiredFees then Inl (ErrExternal ''ErrInsufficientFee'') else Inr ()))"

text \<open>The priority: the lowest gas price among the coins, divided by \<open>reduction\<close>.\<close>

fun tx_priority :: "int \<Rightarrow> CoinList \<Rightarrow> int \<Rightarrow> int \<Rightarrow> int result" where
  "tx_priority reduction [] gas priority = Inr priority"
| "tx_priority reduction ((_, n) # cs) gas priority =
     rbind (big_Quo n gas) (\<lambda>gasPrice.
     rbind (big_Quo gasPrice reduction) (\<lambda>amt.
     let p = (if in_i64 amt then amt else 2 ^ 63 - 1)
     in tx_priority reduction cs gas (if priority = 0 \<or> p < priority then p else priority)))"

definition getTxPriority :: "int \<Rightarrow> CoinList \<Rightarrow> int \<Rightarrow> int result" where
  "getTxPriority reduction feeCoins gas = tx_priority reduction feeCoins gas 0"

definition checkTxFeeWithValidatorMinGasPrices ::
  "dec_ops \<Rightarrow> int \<Rightarrow> ante_mode \<Rightarrow> cosmos_tx \<Rightarrow> (CoinList \<times> int) result" where
  "checkTxFeeWithValidatorMinGasPrices d reduction mode tx =
     rbind (if amCheckTx mode then checkFeeCoinsAgainstMinGasPrices d mode (ctFeeAmount tx) (ctGasLimit tx) else Inr ()) (\<lambda>_.
     rbind (getTxPriority reduction (ctFeeAmount tx) (i64 (uint (ctGasLimit tx)))) (\<lambda>priority.
     Inr (ctFeeAmount tx, priority)))"

fun max_priority_price :: "ext_opt list \<Rightarrow> int" where
  "max_priority_price [] = 2 ^ 63 - 1"
| "max_priority_price (ExtDynamicFee p # os) = p"
| "max_priority_price (_ # os) = max_priority_price os"

definition FeeChecker ::
  "('w, 'x) ante_env \<Rightarrow> ante_mode \<Rightarrow> ('w, 'x) ChainCtx \<Rightarrow> string \<Rightarrow> ethConfig \<Rightarrow> cosmos_tx \<Rightarrow> (CoinList \<times> int) result" where
  "FeeChecker an mode c denom ethConfig tx =
     (case ek_GetBaseFee (anEvm an) c ethConfig of
        None \<Rightarrow> checkTxFeeWithValidatorMinGasPrices (eeDec (anEvm an)) (anPriorityReduction an) mode tx
      | Some baseFee \<Rightarrow>
          let maxPriorityPrice = max_priority_price (ctExtensionOptions tx); gas = uint (ctGasLimit tx)
          in if maxPriorityPrice < 0 then Inl (ErrExternal ''ErrInsufficientFee'')
             else rbind (big_Quo (AmountIn (ctFeeAmount tx) denom) gas) (\<lambda>feeCap.
               if feeCap < baseFee then Inl (ErrExternal ''ErrInsufficientFee'')
               else rbind (EffectiveGasPrice (Some baseFee) feeCap maxPriorityPrice) (\<lambda>effectivePrice.
                 rbind (NewIntFromBigInt (effectivePrice * gas)) (\<lambda>effectiveFee.
                 rbind (big_Quo (effectivePrice - baseFee) (anPriorityReduction an)) (\<lambda>bigPriority.
                 Inr ([(denom, effectiveFee)], if in_i64 bigPriority then bigPriority else 2 ^ 63 - 1))))))"

definition NewDynamicFeeChecker ::
  "('w, 'x) ante_env \<Rightarrow> ante_mode \<Rightarrow> ('w, 'x) ChainCtx \<Rightarrow> cosmos_tx \<Rightarrow> (CoinList \<times> int) result" where
  "NewDynamicFeeChecker an mode c tx =
     (if ch_height c = 0 then checkTxFeeWithValidatorMinGasPrices (eeDec (anEvm an)) (anPriorityReduction an) mode tx
      else let params = ch_params c
           in FeeChecker an mode c (EvmDenom params) (EthereumConfig (ChainCfg params) (eeChainID (anEvm an))) tx)"

section \<open>Deducting fees\<close>

text \<open>
  The payer and the granter of the fees of a transaction, as the SDK determines them, the fee grant keeper, if there is
  one, and the fee checker.
\<close>

record ('w, 'x) fee_env =
  feAnte :: "('w, 'x) ante_env"
  feFeePayer :: "cosmos_tx \<Rightarrow> addr"
  feFeeGranter :: "cosmos_tx \<Rightarrow> addr option"
  feUseGrantedFees :: "(('w, 'x) ChainCtx \<Rightarrow> addr \<Rightarrow> addr \<Rightarrow> CoinList \<Rightarrow> sdk_msg list \<Rightarrow> ('w, 'x) ChainCtx result) option"
  feTxFeeChecker :: "('w, 'x) ChainCtx \<Rightarrow> cosmos_tx \<Rightarrow> (CoinList \<times> int) result"

definition deductFeesFromBalanceOrUnclaimedStakingRewards ::
  "('w, 'x) ante_env \<Rightarrow> ('w, 'x) ChainCtx \<Rightarrow> AccountI \<Rightarrow> CoinList \<Rightarrow> ('w, 'x) ChainCtx result" where
  "deductFeesFromBalanceOrUnclaimedStakingRewards an c acct feeCoins =
     rbind (ClaimStakingRewardsIfNecessary an c (accAddress (baseAcc acct)) feeCoins) (\<lambda>c.
     rbind (anDeductFees an (ch_sdk c) acct feeCoins) (\<lambda>w. Inr (set_ch_sdk c w)))"

text \<open>The address of the fee collector is a constant of the account keeper and always set.\<close>

definition deductFee ::
  "('w, 'x) fee_env \<Rightarrow> ('w, 'x) ChainCtx \<Rightarrow> cosmos_tx \<Rightarrow> CoinList \<Rightarrow> addr \<Rightarrow> addr option \<Rightarrow> ('w, 'x) ChainCtx result" where
  "deductFee e c tx feeCoins feePayer feeGranter =
     (if \<forall>(_, n) \<in> set feeCoins. n = 0 then Inr c
      else
        rbind (case feeGranter of
                 None \<Rightarrow> Inr (c, feePayer)
               | Some granter \<Rightarrow>
                   (case feUseGrantedFees e of
                      None \<Rightarrow> Inl ErrInvalidRequest
                    | Some useGrantedFees \<Rightarrow>
                        if granter = feePayer then Inr (c, granter)
                        else rbind (useGrantedFees c granter feePayer feeCoins (ctMsgs tx)) (\<lambda>c. Inr (c, granter)))) (\<lambda>(c, from).
        case akGetAccount (eeAk (anEvm (feAnte e))) (ch_sdk c) from of
          None \<Rightarrow> Inl (ErrExternal ''ErrUnknownAddress'')
        | Some acct \<Rightarrow> deductFeesFromBalanceOrUnclaimedStakingRewards (feAnte e) c acct feeCoins))"

definition DeductFeeDecorator_AnteHandle ::
  "('w, 'x) fee_env \<Rightarrow> ('w, 'x) ChainCtx \<Rightarrow> cosmos_tx \<Rightarrow> bool \<Rightarrow> (('w, 'x) ChainCtx \<times> int) result" where
  "DeductFeeDecorator_AnteHandle e c tx simulate =
     (if \<not> simulate \<and> ch_height c > 0 \<and> ctGasLimit tx \<le> 0 then Inl (ErrExternal ''ErrInvalidGasLimit'')
      else rbind (if simulate then Inr (ctFeeAmount tx, 0) else feTxFeeChecker e c tx) (\<lambda>(fee, priority).
           rbind (deductFee e c tx fee (feFeePayer e tx) (feFeeGranter e tx)) (\<lambda>c. Inr (c, priority))))"

section \<open>Delegating vesting coins\<close>

text \<open>
  \<^verbatim>\<open>SafeSub\<close> fails when a coin would be negative. \<open>balance\<close> alone stands for the coins of the account, so that this also
  happens when unvested coins of another denomination are left.
\<close>

fun validate_signers :: "('w, 'x) ante_env \<Rightarrow> ('w, 'x) ChainCtx \<Rightarrow> int \<Rightarrow> addr list \<Rightarrow> unit result" where
  "validate_signers an c amount [] = Inr ()"
| "validate_signers an c amount (a # as) =
     (case akGetAccount (eeAk (anEvm an)) (ch_sdk c) a of
        None \<Rightarrow> Inl (ErrExternal ''ErrUnknownAddress'')
      | Some (ClawbackAccount va) \<Rightarrow>
          let bondDenom = anBondDenom an c
          in if GetVestedOnly va (chTime c) = {#} then Inl (ErrModule ''vesting'' 2)
             else rbind (GetUnvestedOnly va (chTime c)) (\<lambda>unvestedOnly.
               let balance = bkGetBalance (eeBk (anEvm an)) (ch_sdk c) a bondDenom;
                   hasNeg = (balance < AmountOf unvestedOnly bondDenom \<or> (\<exists>d \<in># unvestedOnly. d \<noteq> bondDenom));
                   vested = (if hasNeg then 0 else balance - AmountOf unvestedOnly bondDenom)
               in if vested < amount then Inl (ErrModule ''vesting'' 2) else validate_signers an c amount as)
      | Some _ \<Rightarrow> Inr ())"

fun validateMsg :: "('w, 'x) ante_env \<Rightarrow> ('w, 'x) ChainCtx \<Rightarrow> sdk_msg \<Rightarrow> unit result" where
  "validateMsg an c (DelegateMsg signers amount) = validate_signers an c amount signers"
| "validateMsg an c _ = Inr ()"

fun validateAuthz :: "('w, 'x) ante_env \<Rightarrow> ('w, 'x) ChainCtx \<Rightarrow> sdk_msg option list \<Rightarrow> unit result" where
  "validateAuthz an c [] = Inr ()"
| "validateAuthz an c (v # vs) =
     (case v of
        None \<Rightarrow> Inl (ErrExternal ''ErrUnpackAny'')
      | Some innerMsg \<Rightarrow> rbind (validateMsg an c innerMsg) (\<lambda>_. validateAuthz an c vs))"

fun vesting_msgs :: "('w, 'x) ante_env \<Rightarrow> ('w, 'x) ChainCtx \<Rightarrow> sdk_msg list \<Rightarrow> unit result" where
  "vesting_msgs an c [] = Inr ()"
| "vesting_msgs an c (m # ms) =
     rbind (case m of ExecMsg inner \<Rightarrow> validateAuthz an c inner | _ \<Rightarrow> validateMsg an c m) (\<lambda>_. vesting_msgs an c ms)"

definition VestingDelegationDecorator_AnteHandle :: "('w, 'x) ante_env \<Rightarrow> ('w, 'x) ChainCtx \<Rightarrow> cosmos_tx \<Rightarrow> unit result" where
  "VestingDelegationDecorator_AnteHandle an c tx = vesting_msgs an c (ctMsgs tx)"

section \<open>The gas of signatures\<close>

datatype pubkey = EthSecp256k1Key | Ed25519Key | MultisigKey "pubkey list" | UnknownKey

datatype sig_data = SingleSignatureData | MultiSignatureData "bool list" "sig_data list"

definition Secp256k1VerifyCost :: u64 where
  "Secp256k1VerifyCost = 21000"

text \<open>
  The bits of a multisignature tell which keys signed; its signatures are in the order of the set bits. Reading past the
  keys or the signatures panics. The meter is the one the SDK runs the transaction with, so that consuming gas is the
  parameter \<open>consume\<close>.
\<close>

function (sequential) SigVerificationGasConsumer :: "('m \<Rightarrow> u64 \<Rightarrow> 'm result) \<Rightarrow> u64 \<Rightarrow> 'm \<Rightarrow> pubkey \<Rightarrow> sig_data \<Rightarrow> 'm result"
  and ConsumeMultisignatureVerificationGas :: "('m \<Rightarrow> u64 \<Rightarrow> 'm result) \<Rightarrow> u64 \<Rightarrow> 'm \<Rightarrow> bool list \<Rightarrow> pubkey list \<Rightarrow> sig_data list \<Rightarrow> 'm result" where
  "SigVerificationGasConsumer consume ed25519Cost meter EthSecp256k1Key sig = consume meter Secp256k1VerifyCost"
| "SigVerificationGasConsumer consume ed25519Cost meter Ed25519Key sig =
     rbind (consume meter ed25519Cost) (\<lambda>_. Inl (ErrExternal ''ErrInvalidPubKey''))"
| "SigVerificationGasConsumer consume ed25519Cost meter (MultisigKey keys) (MultiSignatureData bits sigs) =
     ConsumeMultisignatureVerificationGas consume ed25519Cost meter bits keys sigs"
| "SigVerificationGasConsumer consume ed25519Cost meter (MultisigKey keys) SingleSignatureData = Inl (ErrText ''expected multisignature'')"
| "SigVerificationGasConsumer consume ed25519Cost meter UnknownKey sig = Inl (ErrExternal ''ErrInvalidPubKey'')"
| "ConsumeMultisignatureVerificationGas consume ed25519Cost meter [] keys sigs = Inr meter"
| "ConsumeMultisignatureVerificationGas consume ed25519Cost meter (False # bits) keys sigs =
     ConsumeMultisignatureVerificationGas consume ed25519Cost meter bits (tl keys) sigs"
| "ConsumeMultisignatureVerificationGas consume ed25519Cost meter (True # bits) (k # keys) (s # sigs) =
     rbind (SigVerificationGasConsumer consume ed25519Cost meter k s) (\<lambda>meter.
     ConsumeMultisignatureVerificationGas consume ed25519Cost meter bits keys sigs)"
| "ConsumeMultisignatureVerificationGas consume ed25519Cost meter (True # bits) keys sigs = Inl (Panic ''index out of range'')"
  by pat_completeness auto
termination
proof (relation "measures [\<lambda>x. case x of Inl (_, _, _, k, _) \<Rightarrow> size k | Inr (_, _, _, _, ks, _) \<Rightarrow> size_list size ks,
    \<lambda>x. case x of Inl _ \<Rightarrow> 0 | Inr (_, _, _, bs, _, _) \<Rightarrow> length bs]", goal_cases)
  case (3 f c m bs ks ss)
  then show ?case by (cases ks) auto
qed auto

section \<open>The choice of the handler\<close>

definition NewAnteHandler :: "(cosmos_tx \<Rightarrow> 'r result) \<Rightarrow> (cosmos_tx \<Rightarrow> 'r result) \<Rightarrow> cosmos_tx \<Rightarrow> 'r result" where
  "NewAnteHandler evmHandler cosmosHandler tx =
     (case ctExtensionOptions tx of
        [] \<Rightarrow> cosmosHandler tx
      | ExtEthereumTx # _ \<Rightarrow> evmHandler tx
      | ExtDynamicFee _ # _ \<Rightarrow> cosmosHandler tx
      | ExtOther _ # _ \<Rightarrow> Inl (ErrExternal ''ErrUnknownExtensionOptions''))"

section \<open>What the limits on authorised messages achieve\<close>

text \<open>A message is inside another when the latter is a \<^verbatim>\<open>MsgExec\<close> of it.\<close>

inductive inside :: "sdk_msg \<Rightarrow> sdk_msg \<Rightarrow> bool" where
  wrap: "Some m \<in> set ms \<Longrightarrow> inside (ExecMsg ms) m"

inductive_simps inside_simps [simp]: "inside (ExecMsg ms) m" "inside (EthereumMsg e) m" "inside (GrantMsg u) m"
  "inside (DelegateMsg s a) m" "inside (OtherSdkMsg u) m"

lemma tranclp_first: "r\<^sup>+\<^sup>+ a b \<longleftrightarrow> (\<exists>x. r a x \<and> (x = b \<or> r\<^sup>+\<^sup>+ x b))"
  by (meson rtranclpD tranclp.r_into_trancl tranclpD tranclp_into_tranclp2)

lemma nested_inside:
  "inside\<^sup>+\<^sup>+ (ExecMsg ms) m \<longleftrightarrow> (\<exists>x. Some x \<in> set ms \<and> (x = m \<or> inside\<^sup>+\<^sup>+ x m))"
  "\<not> inside\<^sup>+\<^sup>+ (EthereumMsg e) m" "\<not> inside\<^sup>+\<^sup>+ (GrantMsg u) m" "\<not> inside\<^sup>+\<^sup>+ (DelegateMsg s a) m" "\<not> inside\<^sup>+\<^sup>+ (OtherSdkMsg url) m"
  by (subst tranclp_first, simp)+

definition permitted :: "string list \<Rightarrow> bool \<Rightarrow> sdk_msg \<Rightarrow> bool" where
  "permitted disabled inner m = (case m of
       ExecMsg ms \<Rightarrow> True
     | GrantMsg u \<Rightarrow> (\<exists>url. u = Some url \<and> url \<notin> set disabled)
     | _ \<Rightarrow> inner \<longrightarrow> MsgTypeURL m \<notin> set disabled)"

lemma check_msgs_sound:
  "check_msgs disabled msgs b l = Inr () \<Longrightarrow> m \<in> set msgs \<Longrightarrow>
     permitted disabled b m \<and> (\<forall>m'. inside\<^sup>+\<^sup>+ m m' \<longrightarrow> permitted disabled True m')"
proof (induction disabled msgs b l arbitrary: m rule: check_msgs.induct)
  case (2 disabled ms msgs b l)
  from 2(3) obtain xs where xs: "ms = map Some xs" "\<not> maxNestedMsgs \<le> l + 1" "check_msgs disabled xs True (l + 1) = Inr ()"
    "check_msgs disabled msgs b (l + 1) = Inr ()"
    by (auto simp: unpack_all_Some rbind_Inr_iff split: option.splits if_splits)
  have u: "unpack_all ms = Some xs" using xs(1) by (simp add: unpack_all_Some)
  show ?case
  proof (cases "m = ExecMsg ms")
    case True
    have "permitted disabled True m'" if "inside\<^sup>+\<^sup>+ m m'" for m'
      using that 2(1) [OF u xs(2,3)] xs(1) by (auto simp: True nested_inside)
    then show ?thesis using True by (simp add: permitted_def)
  next
    case False
    then show ?thesis using 2(2) [OF u xs(4)] 2(4) by simp
  qed
qed (auto simp: permitted_def isDisabledMsg_def nested_inside split: option.splits if_splits)

end
