(* ===== verification/AnteEvmFacts.thy ===== *)
theory AnteEvmFacts
  imports AnteEvm
begin

text \<open>
  What the ante handler guarantees of an accepted Ethereum transaction: its signers and their nonces, the exact
  fees, protection against replay, and the gas it reports to the fee market.
\<close>

section \<open>Laws of the environment\<close>

text \<open>
  The SDK's ante package: \<^verbatim>\<open>GetSignerAcc\<close> reads the account, \<^verbatim>\<open>DeductFees\<close> refuses coins that are not positive and
  otherwise moves them to the fee collector, whose account may be created.
\<close>

definition keeps_nonces :: "'w AccountKeeper \<Rightarrow> 'w \<Rightarrow> 'w \<Rightarrow> bool" where
  "keeps_nonces ak w w' \<longleftrightarrow>
     (\<forall>a acc. akGetAccount ak w a = Some acc \<longrightarrow> akGetAccount ak w' a = Some acc)
   \<and> (\<forall>a acc. akGetAccount ak w a = None \<longrightarrow> akGetAccount ak w' a = Some acc \<longrightarrow> GetSequence acc = 0)"

definition ante_laws :: "('w, 'x) ante_env \<Rightarrow> bool" where
  "ante_laws an \<longleftrightarrow>
     account_laws (eeKec (anEvm an)) (eeAk (anEvm an)) (eeBk (anEvm an))
   \<and> codec_laws (an_codec an) \<and> \<not> acIsHexAddress (an_codec an) ''''
   \<and> (\<forall>w a acc. anGetSignerAcc an w a = Inr acc \<longrightarrow> akGetAccount (eeAk (anEvm an)) w a = Some acc)
   \<and> (\<forall>w acc d n w'. anDeductFees an w acc [(d, n)] = Inr w' \<longrightarrow> 0 < n
        \<and> bkGetBalance (eeBk (anEvm an)) w' = credit (fee_collector (anEvm an)) (NewCoin d n)
            (debit (accAddress (baseAcc acc)) (NewCoin d n) (bkGetBalance (eeBk (anEvm an)) w))
        \<and> keeps_nonces (eeAk (anEvm an)) w w')"

lemma ante_lawsD:
  assumes "ante_laws an"
  shows "account_laws (eeKec (anEvm an)) (eeAk (anEvm an)) (eeBk (anEvm an))"
    "codec_laws (an_codec an)" "\<not> acIsHexAddress (an_codec an) ''''"
    "anGetSignerAcc an w a = Inr acc \<Longrightarrow> akGetAccount (eeAk (anEvm an)) w a = Some acc"
    "anDeductFees an w acc [(d, n)] = Inr w' \<Longrightarrow> 0 < n
        \<and> bkGetBalance (eeBk (anEvm an)) w' = credit (fee_collector (anEvm an)) (NewCoin d n)
            (debit (accAddress (baseAcc acc)) (NewCoin d n) (bkGetBalance (eeBk (anEvm an)) w))
        \<and> keeps_nonces (eeAk (anEvm an)) w w'"
  using assms unfolding ante_laws_def by simp_all

lemma GetFrom_Hex: "ante_laws an \<Longrightarrow> GetFrom (an_codec an) (m\<lparr>mtFrom := acHex (an_codec an) a\<rparr>) = Some a"
  using codec_lawsD(3,4) [OF ante_lawsD(2), of an a] ante_lawsD(3) [of an] by (auto simp: GetFrom_def)

abbreviation an_nonce :: "('w, 'x) ante_env \<Rightarrow> ('w, 'x) ChainCtx \<Rightarrow> addr \<Rightarrow> u64" where
  "an_nonce an c \<equiv> ek_GetNonce (eeAk (anEvm an)) (chEvm c)"

abbreviation an_balance :: "('w, 'x) ante_env \<Rightarrow> ('w, 'x) ChainCtx \<Rightarrow> addr \<Rightarrow> string \<Rightarrow> int" where
  "an_balance an c \<equiv> bkGetBalance (eeBk (anEvm an)) (ch_sdk c)"

section \<open>One message\<close>

text \<open>The context may change in the state of accounts and bank and in the gas wanted.\<close>

definition ante_frame :: "('w, 'x) ChainCtx \<Rightarrow> ('w, 'x) ChainCtx \<Rightarrow> bool" where
  "ante_frame c c' \<longleftrightarrow> (\<exists>w g. c' = (set_ch_sdk c w)\<lparr>chFee := (chFee c)\<lparr>fmTransientGasWanted := g\<rparr>\<rparr>)"

lemma set_ch_sdk_idem [simp]: "set_ch_sdk (set_ch_sdk c w) w' = set_ch_sdk c w'" "set_ch_sdk c (ch_sdk c) = c"
  by (simp_all add: set_ch_sdk_def set_sdk_def)

lemma ante_frame_sdk: "ante_frame c (set_ch_sdk c w)"
  unfolding ante_frame_def by (rule exI [of _ w], rule exI [of _ "fmTransientGasWanted (chFee c)"]) (simp add: set_ch_sdk_def)

lemma ante_frame_refl: "ante_frame c c"
  using ante_frame_sdk [of c "ch_sdk c"] by simp

lemma ante_frame_trans: "ante_frame c c1 \<Longrightarrow> ante_frame c1 c2 \<Longrightarrow> ante_frame c c2"
proof -
  assume "ante_frame c c1" "ante_frame c1 c2"
  then obtain w g w' g' where "c1 = (set_ch_sdk c w)\<lparr>chFee := (chFee c)\<lparr>fmTransientGasWanted := g\<rparr>\<rparr>"
    "c2 = (set_ch_sdk c1 w')\<lparr>chFee := (chFee c1)\<lparr>fmTransientGasWanted := g'\<rparr>\<rparr>" unfolding ante_frame_def by blast
  then have "c2 = (set_ch_sdk c w')\<lparr>chFee := (chFee c)\<lparr>fmTransientGasWanted := g'\<rparr>\<rparr>"
    by (simp add: set_ch_sdk_def set_sdk_def)
  then show "ante_frame c c2" unfolding ante_frame_def by blast
qed

lemma fm_gas_wanted_irrelevant [simp]:
  "fm_GetParams (f\<lparr>fmTransientGasWanted := g\<rparr>) = fm_GetParams f"
  "fm_GetBaseFee (f\<lparr>fmTransientGasWanted := g\<rparr>) = fm_GetBaseFee f"
  "GetBaseFeeEnabled (f\<lparr>fmTransientGasWanted := g\<rparr>) = GetBaseFeeEnabled f"
proof -
  show p: "fm_GetParams (f\<lparr>fmTransientGasWanted := g\<rparr>) = fm_GetParams f"
    by (simp add: fm_GetParams_def cong: option.case_cong)
  show "GetBaseFeeEnabled (f\<lparr>fmTransientGasWanted := g\<rparr>) = GetBaseFeeEnabled f" by (simp add: GetBaseFeeEnabled_def p)
  have v1: "GetBaseFeeV1 (f\<lparr>fmTransientGasWanted := g\<rparr>) = GetBaseFeeV1 f" by (simp add: GetBaseFeeV1_def)
  show "fm_GetBaseFee (f\<lparr>fmTransientGasWanted := g\<rparr>) = fm_GetBaseFee f" unfolding fm_GetBaseFee_def p v1 ..
qed

lemma ante_frameD:
  assumes "ante_frame c c'"
  shows "ch_height c' = ch_height c" "ch_params c' = ch_params c" "fm_GetParams (chFee c') = fm_GetParams (chFee c)"
    "fm_GetBaseFee (chFee c') = fm_GetBaseFee (chFee c)" "GetBaseFeeEnabled (chFee c') = GetBaseFeeEnabled (chFee c)"
    "ch_gas_limit c' = ch_gas_limit c" "chProposer c' = chProposer c"
proof -
  obtain w g where c': "c' = (set_ch_sdk c w)\<lparr>chFee := (chFee c)\<lparr>fmTransientGasWanted := g\<rparr>\<rparr>"
    using assms unfolding ante_frame_def by blast
  then show "ch_height c' = ch_height c" "ch_params c' = ch_params c" "ch_gas_limit c' = ch_gas_limit c" "chProposer c' = chProposer c"
    by (simp_all add: set_ch_sdk_def set_sdk_def)
  show "fm_GetParams (chFee c') = fm_GetParams (chFee c)" "fm_GetBaseFee (chFee c') = fm_GetBaseFee (chFee c)"
    "GetBaseFeeEnabled (chFee c') = GetBaseFeeEnabled (chFee c)" unfolding c' by simp_all
qed

lemma CheckGasWanted_frame:
  assumes "CheckGasWanted c tx london = Inr c'"
  shows "ante_frame c c'" "chEvm c' = chEvm c"
    "fmTransientGasWanted (chFee c') = fmTransientGasWanted (chFee c)
       + (if london \<and> GetBaseFeeEnabled (chFee c) then ctGasLimit tx else 0)"
proof -
  let ?g = "fmTransientGasWanted (chFee c) + (if london \<and> GetBaseFeeEnabled (chFee c) then ctGasLimit tx else 0)"
  have c': "c' = c\<lparr>chFee := (chFee c)\<lparr>fmTransientGasWanted := ?g\<rparr>\<rparr>"
    using assms by (auto simp: CheckGasWanted_def AddTransientGasWanted_def SetTransientBlockGasWanted_def
        GetTransientGasWanted_def Let_def split: if_splits)
  then show "chEvm c' = chEvm c" "fmTransientGasWanted (chFee c') = ?g" by simp_all
  show "ante_frame c c'" unfolding ante_frame_def c'
    by (rule exI [of _ "ch_sdk c"], rule exI [of _ ?g]) (simp only: set_ch_sdk_idem)
qed

text \<open>After the check of step 6 the account exists, is no contract and can pay the cost of the message.\<close>

lemma VerifyAccountBalance_effect:
  assumes laws: "ante_laws an" and e: "e = anEvm an"
    and run: "VerifyAccountBalance e c (ek_GetAccount (eeKec e) (eeAk e) (eeBk e) (chEvm c) a) a td = Inr c'"
  obtains w acc cost where "c' = set_ch_sdk c w" "TxCost (txFees td) = Inr cost" "0 \<le> cost"
    "cost = 0 \<or> cost \<le> bkGetBalance (eeBk e) w a (EvmDenom (ch_params c))"
    "bkGetBalance (eeBk e) w = bkGetBalance (eeBk e) (ch_sdk c)"
    "akGetAccount (eeAk e) w = (akGetAccount (eeAk e) (ch_sdk c))(a \<mapsto> acc)"
    "accAddress (baseAcc acc) = a" "GetSequence acc = an_nonce an c a"
    "GetCodeHashI acc \<in> {None, Some (emptyCodeHash (eeKec e))}"
    "akGetAccount (eeAk e) (ch_sdk c) a \<in> {None, Some acc}"
proof -
  note al = account_lawsD [OF ante_lawsD(1) [OF laws], folded e]
  show ?thesis
  proof (cases "akGetAccount (eeAk e) (ch_sdk c) a")
    case None
    obtain w acc where na: "akNewAccountWithAddress (eeAk e) (ch_sdk c) a = (w, acc)" by fastforce
    obtain n where n: "acc = EthAccount \<lparr>accAddress = a, accNumber = n, accSequence = 0\<rparr> (eeKec e [])"
      using al(4) [of "ch_sdk c" a] na by auto
    let ?w = "akSetAccount (eeAk e) w acc"
    have r: "c' = set_ch_sdk c ?w" "CheckSenderBalance 0 td = Inr ()"
      using run None na by (simp_all add: VerifyAccountBalance_def ek_GetAccount_def ek_GetAccountWithoutBalance_def
          NewEmptyAccount_def deref_def NewIntFromBigInt_def rbind_Inr_iff)
    have "bkGetBalance (eeBk e) ?w = bkGetBalance (eeBk e) (ch_sdk c)" using al(6) [of "ch_sdk c" a] al(7) [of w acc] na by simp
    moreover have "akGetAccount (eeAk e) ?w = (akGetAccount (eeAk e) (ch_sdk c))(a \<mapsto> acc)"
      using al(2) [of w acc] al(5) [of "ch_sdk c" a] na n by (auto simp: fun_eq_iff)
    ultimately show ?thesis using r None n
      by (intro that [of ?w 0 acc]) (auto simp: CheckSenderBalance_def rbind_Inr_iff ek_GetNonce_def GetSequence_def emptyCodeHash_def e split: if_splits)
  next
    case (Some acc)
    let ?b = "ek_GetBalance (eeBk e) (chEvm c) a"
    have r: "c' = c" "CheckSenderBalance ?b td = Inr ()" "GetCodeHashI acc \<in> {None, Some (emptyCodeHash (eeKec e))}"
      using run Some by (auto simp: VerifyAccountBalance_def ek_GetAccount_def ek_GetAccountWithoutBalance_def Let_def
          raw_IsContract_def deref_def rbind_Inr_iff dest!: NewIntFromBigInt_Inr split: if_splits option.splits)
    from r(2) obtain cost where c: "TxCost (txFees td) = Inr cost" "0 \<le> cost" "0 \<le> ?b" "cost \<le> ?b"
      by (auto simp: CheckSenderBalance_def rbind_Inr_iff split: if_splits)
    have "?b = bkGetBalance (eeBk e) (ch_sdk c) a (EvmDenom (ch_params c))"
      using c(3) by (auto simp: ek_GetBalance_def Let_def split: if_splits)
    then show ?thesis using Some r c al(1) [OF Some]
      by (intro that [of "ch_sdk c" cost acc]) (auto simp: ek_GetNonce_def e)
  qed
qed

lemma effective_fee_le_cost:
  assumes "TxData_Validate ac td = Inr ()" "TxEffectiveFee (txFees td) b = Inr f" "TxCost (txFees td) = Inr cost"
  shows "f \<le> cost"
proof (cases td)
  case (TxLegacy tx)
  then show ?thesis using assms
    by (auto simp: LegacyTx_Validate_def LegacyTx_fees_def Let_def rbind_Inr_iff check_amount_Inr tx_cost_def split: option.splits if_splits)
next
  case (TxAccessList tx)
  then show ?thesis using assms
    by (auto simp: AccessListTx_Validate_def AccessListTx_fees_def Let_def rbind_Inr_iff check_amount_Inr tx_cost_def split: option.splits if_splits)
next
  case (TxDynamicFee tx)
  have le: "min x cap * uint (dtGasLimit tx) \<le> cap * uint (dtGasLimit tx)" for x cap by (intro mult_right_mono) simp_all
  have v: "\<And>n. dtAmount tx = Some n \<Longrightarrow> 0 \<le> n" using assms(1) TxDynamicFee
    by (auto simp: DynamicFeeTx_Validate_def rbind_Inr_iff check_amount_Inr Let_def split: if_splits option.splits)
  obtain cap x where "f = min x cap * uint (dtGasLimit tx)" "cost = tx_cost (cap * uint (dtGasLimit tx)) (dtAmount tx)"
    using assms(2,3) TxDynamicFee by (auto simp: DynamicFeeTx_fees_def Let_def rbind_Inr_iff tx_fee_def deref_def
        DynamicFeeTx_EffectiveGasPrice_def EffectiveGasPrice_def split: option.splits)
  then show ?thesis using le [of x cap] v by (auto simp: tx_cost_def split: option.split)
qed

lemma VerifyFee_Inr:
  assumes "VerifyFee lib g fs denom b hs ist chk = Inr coins"
  obtains f where "TxEffectiveFee fs b = Inr f" "coins = (if f = 0 then [] else [(denom, f)])"
  using assms unfolding VerifyFee_def
  by (auto simp: rbind_Inr_iff dest!: NewIntFromBigInt_Inr split: if_splits)

text \<open>Staking rewards are never claimed: the balance has been checked to cover the cost before.\<close>

lemma deductFees_effect:
  assumes laws: "ante_laws an" and run: "deductFees an c (if f = 0 then [] else [(d, f)]) a = Inr c'"
    and le: "f \<le> cost" "cost = 0 \<or> cost \<le> an_balance an c a d"
  obtains w where "c' = set_ch_sdk c w" "0 \<le> f" "keeps_nonces (eeAk (anEvm an)) (ch_sdk c) w"
    "bkGetBalance (eeBk (anEvm an)) w = credit (fee_collector (anEvm an)) (NewCoin d f) (debit a (NewCoin d f) (an_balance an c))"
proof (cases "f = 0")
  case True
  then show ?thesis using run by (intro that [of "ch_sdk c"]) (simp_all add: deductFees_def keeps_nonces_def)
next
  case False
  then obtain c1 where c1: "ClaimStakingRewardsIfNecessary an c a [(d, f)] = Inr c1"
    and ded: "DeductTxCostsFromUserBalance an c1 [(d, f)] a = Inr c'"
    using run by (auto simp: deductFees_def rbind_Inr_iff)
  have "c1 = c" using c1 le by (auto simp: ClaimStakingRewardsIfNecessary_def Let_def split: if_splits)
  then obtain acc w where w: "anGetSignerAcc an (ch_sdk c) a = Inr acc" "anDeductFees an (ch_sdk c) acc [(d, f)] = Inr w"
    "c' = set_ch_sdk c w" using ded by (auto simp: DeductTxCostsFromUserBalance_def rbind_Inr_iff)
  have "accAddress (baseAcc acc) = a"
    using account_lawsD(1) [OF ante_lawsD(1) [OF laws]] ante_lawsD(4) [OF laws w(1)] by blast
  then show ?thesis using ante_lawsD(5) [OF laws w(2)] w(3) by (intro that [of w]) simp_all
qed

text \<open>The call that a message asks for: its signer, nonce and fee.\<close>

definition signed_call ::
  "('w, 'x) ante_env \<Rightarrow> DecoratorUtils \<Rightarrow> int \<Rightarrow> sdk_msg \<Rightarrow> addr \<times> u64 \<times> int \<Rightarrow> bool" where
  "signed_call an du h m = (\<lambda>(a, n, f). \<exists>em td. m = EthereumMsg em \<and> mtData em = Some td
     \<and> elSender (an_lib an) (duEthConfig du) h (elNewTx (an_lib an) (AsEthereumData (an_codec an) (an_lib an) td)) = Inr a
     \<and> n = TxGetNonce (txGetters (an_codec an) (an_lib an) td) \<and> TxEffectiveFee (txFees td) (duBaseFee du) = Inr f)"

text \<open>The effect of one accepted call on the context.\<close>

definition code_kept :: "'w AccountKeeper \<Rightarrow> 'w \<Rightarrow> 'w \<Rightarrow> bool" where
  "code_kept ak w w' \<longleftrightarrow> (\<forall>b acc. akGetAccount ak w b = Some acc \<longrightarrow>
     (\<exists>acc'. akGetAccount ak w' b = Some acc' \<and> GetCodeHashI acc' = GetCodeHashI acc))"

definition externally_owned :: "('w, 'x) ante_env \<Rightarrow> ('w, 'x) ChainCtx \<Rightarrow> addr \<Rightarrow> bool" where
  "externally_owned an c a \<longleftrightarrow> (\<forall>acc. akGetAccount (eeAk (anEvm an)) (ch_sdk c) a = Some acc \<longrightarrow>
     GetCodeHashI acc \<in> {None, Some (emptyCodeHash (eeKec (anEvm an)))})"

definition call_step ::
  "('w, 'x) ante_env \<Rightarrow> bool \<Rightarrow> cosmos_tx \<Rightarrow> addr \<times> u64 \<times> int \<Rightarrow> ('w, 'x) ChainCtx \<Rightarrow> ('w, 'x) ChainCtx \<Rightarrow> bool" where
  "call_step an london tx = (\<lambda>(a, n, f) c c'. let coin = NewCoin (EvmDenom (ch_params c)) f in
     n = an_nonce an c a \<and> an_nonce an c' = (an_nonce an c)(a := n + 1) \<and> 0 \<le> f
   \<and> akGetAccount (eeAk (anEvm an)) (ch_sdk c') a \<noteq> None
   \<and> an_balance an c' = credit (fee_collector (anEvm an)) coin (debit a coin (an_balance an c))
   \<and> externally_owned an c a \<and> code_kept (eeAk (anEvm an)) (ch_sdk c) (ch_sdk c') \<and> ante_frame c c'
   \<and> fmTransientGasWanted (chFee c') = fmTransientGasWanted (chFee c)
       + (if london \<and> GetBaseFeeEnabled (chFee c) then ctGasLimit tx else 0))"

lemma IncrementNonce_effect:
  assumes laws: "ante_laws an" and run: "IncrementNonce (anEvm an) c acc n = Inr c'"
    and acc: "akGetAccount (eeAk (anEvm an)) (ch_sdk c) (accAddress (baseAcc acc)) = Some acc"
  obtains w where "c' = set_ch_sdk c w" "n = GetSequence acc" "bkGetBalance (eeBk (anEvm an)) w = an_balance an c"
    "akGetAccount (eeAk (anEvm an)) w = (akGetAccount (eeAk (anEvm an)) (ch_sdk c))(accAddress (baseAcc acc) \<mapsto> SetSequence acc (n + 1))"
proof -
  note al = account_lawsD [OF ante_lawsD(1) [OF laws]]
  let ?w = "akSetAccount (eeAk (anEvm an)) (ch_sdk c) (SetSequence acc (n + 1))"
  have "n = GetSequence acc" "c' = set_ch_sdk c ?w" using run by (auto simp: IncrementNonce_def Let_def split: if_splits)
  moreover have "akGetAccount (eeAk (anEvm an)) ?w
      = (akGetAccount (eeAk (anEvm an)) (ch_sdk c))(accAddress (baseAcc acc) \<mapsto> SetSequence acc (n + 1))"
    by (simp add: al(2) fun_eq_iff)
  ultimately show ?thesis using al(7) by (intro that [of ?w]) simp_all
qed

text \<open>The values of the decorator that no message changes.\<close>

definition same_utils :: "DecoratorUtils \<Rightarrow> DecoratorUtils \<Rightarrow> bool" where
  "same_utils du du' \<longleftrightarrow> duEthConfig du' = duEthConfig du \<and> duBaseFee du' = duBaseFee du \<and> duEvmDenom du' = duEvmDenom du
   \<and> duIsLondon du' = duIsLondon du \<and> duEvmParams du' = duEvmParams du"

lemma update_utils_same: "update_utils an mode du td gas = Inr du' \<Longrightarrow> same_utils du du'"
  by (auto simp: update_utils_def same_utils_def rbind_Inr_iff)

lemma mono_charge_effect:
  assumes laws: "ante_laws an" and val: "TxData_Validate (an_codec an) td = Inr ()"
    and run: "mono_charge an mode tx i s c em td a = Inr s'"
    and acc: "akGetAccount (eeAk (anEvm an)) (ch_sdk c) a = Some acc" "accAddress (baseAcc acc) = a"
    and cost: "TxCost (txFees td) = Inr cost" "cost = 0 \<or> cost \<le> an_balance an c a (duEvmDenom (msUtils s))"
    and d: "duEvmDenom (msUtils s) = EvmDenom (ch_params c)"
    and eo: "externally_owned an c a"
  obtains f where "TxEffectiveFee (txFees td) (duBaseFee (msUtils s)) = Inr f"
    "call_step an (duIsLondon (msUtils s)) tx (a, TxGetNonce (txGetters (an_codec an) (an_lib an) td), f) c (msCtx s')"
    "same_utils (msUtils s) (msUtils s')"
proof -
  let ?g = "txGetters (an_codec an) (an_lib an) td" and ?du = "msUtils s" and ?ak = "eeAk (anEvm an)"
  from run acc(1) obtain coins c1 du' c2 where
    f: "VerifyFee (an_lib an) ?g (txFees td) (duEvmDenom ?du) (duBaseFee ?du) (duIsHomestead ?du) (duIsIstanbul ?du) (amCheckTx mode) = Inr coins"
    and c1: "deductFees an c coins a = Inr c1" and du': "update_utils an mode ?du td (TxGetGas ?g) = Inr du'"
    and c2: "IncrementNonce (anEvm an) c1 acc (TxGetNonce ?g) = Inr c2"
    and c3: "CheckGasWanted c2 tx (duIsLondon ?du) = Inr (msCtx s')" and s': "msUtils s' = du'"
    by (auto simp: mono_charge_def Let_def ConsumeFeesAndEmitEvent_def rbind_Inr_iff)
  from f obtain f where f: "TxEffectiveFee (txFees td) (duBaseFee ?du) = Inr f" "coins = (if f = 0 then [] else [(duEvmDenom ?du, f)])"
    by (rule VerifyFee_Inr)
  have "f \<le> cost" by (rule effective_fee_le_cost [OF val f(1) cost(1)])
  with laws c1 [unfolded f(2)] obtain w where w: "c1 = set_ch_sdk c w" "0 \<le> f" "keeps_nonces ?ak (ch_sdk c) w"
    "bkGetBalance (eeBk (anEvm an)) w = credit (fee_collector (anEvm an)) (NewCoin (duEvmDenom ?du) f)
       (debit a (NewCoin (duEvmDenom ?du) f) (an_balance an c))"
    using cost(2) by (rule deductFees_effect)
  have "akGetAccount ?ak (ch_sdk c1) (accAddress (baseAcc acc)) = Some acc" using w(1,3) acc by (simp add: keeps_nonces_def)
  with laws c2 obtain w2 where w2: "c2 = set_ch_sdk c1 w2" "TxGetNonce ?g = GetSequence acc"
    "bkGetBalance (eeBk (anEvm an)) w2 = an_balance an c1"
    "akGetAccount ?ak w2 = (akGetAccount ?ak (ch_sdk c1))(accAddress (baseAcc acc) \<mapsto> SetSequence acc (TxGetNonce ?g + 1))"
    by (rule IncrementNonce_effect)
  note g = CheckGasWanted_frame [OF c3]
  have c2': "c2 = set_ch_sdk c w2" "ch_sdk (msCtx s') = w2" using w2(1) w(1) g(2) by simp_all
  have "an_nonce an (msCtx s') = (an_nonce an c)(a := TxGetNonce ?g + 1)"
    using w2(2,4) c2' w(1,3) acc by (auto simp: ek_GetNonce_def keeps_nonces_def GetSequence_def fun_eq_iff split: option.split)
  moreover have "TxGetNonce ?g = an_nonce an c a" using w2(2) acc(1) by (simp add: ek_GetNonce_def)
  moreover have "code_kept ?ak (ch_sdk c) (ch_sdk (msCtx s'))" "akGetAccount ?ak (ch_sdk (msCtx s')) a \<noteq> None"
    using w2(4) c2' w(1,3) acc by (auto simp: code_kept_def keeps_nonces_def)
  moreover have "ante_frame c (msCtx s')" using ante_frame_trans [OF ante_frame_sdk g(1) [unfolded c2'(1)]] .
  ultimately have "call_step an (duIsLondon ?du) tx (a, TxGetNonce ?g, f) c (msCtx s')"
    using w(1,2,4) w2(3) c2' g(3) eo d by (simp add: call_step_def Let_def)
  then show ?thesis using that f(1) update_utils_same [OF du'] s' by blast
qed

lemma call_step_from:
  assumes "call_step an london tx (a, n, f) (set_ch_sdk c w) c'" "externally_owned an c a"
    and "akGetAccount (eeAk (anEvm an)) w = (akGetAccount (eeAk (anEvm an)) (ch_sdk c))(a \<mapsto> acc)"
    and "GetSequence acc = an_nonce an c a" "akGetAccount (eeAk (anEvm an)) (ch_sdk c) a \<in> {None, Some acc}"
    and "bkGetBalance (eeBk (anEvm an)) w = an_balance an c"
  shows "call_step an london tx (a, n, f) c c'"
proof -
  have "an_nonce an (set_ch_sdk c w) = an_nonce an c"
    using assms(3-5) by (auto simp: ek_GetNonce_def fun_eq_iff split: option.splits)
  moreover have "code_kept (eeAk (anEvm an)) (ch_sdk c) w" using assms(3,5) by (auto simp: code_kept_def)
  moreover have "ante_frame c (set_ch_sdk c w)" by (rule ante_frame_sdk)
  ultimately show ?thesis
    using assms(1,2,6) ante_frame_trans [of c "set_ch_sdk c w" c'] by (force simp: call_step_def Let_def code_kept_def)
qed

lemma mono_message_effect:
  assumes laws: "ante_laws an" and run: "mono_message an mode tx i m s = Inr s'"
    and val: "\<And>em. m = EthereumMsg em \<Longrightarrow> EthMsg_ValidateBasic (an_codec an) (an_lib an) em = Inr ()"
    and d: "duEvmDenom (msUtils s) = EvmDenom (ch_params (msCtx s))"
  obtains call where "signed_call an (msUtils s) (ch_height (msCtx s)) m call"
    "call_step an (duIsLondon (msUtils s)) tx call (msCtx s) (msCtx s')" "same_utils (msUtils s) (msUtils s')"
proof -
  let ?e = "anEvm an" and ?c = "msCtx s" and ?du = "msUtils s" and ?ac = "an_codec an" and ?lib = "an_lib an"
  from run obtain em td em' c1 a where m: "m = EthereumMsg em" "mtData em = Some td"
    and sg: "SignatureVerification ?ac ?lib (duEthConfig ?du) (ch_height ?c) (AllowUnprotectedTxs (duEvmParams ?du)) em = Inr em'"
    and c1: "VerifyAccountBalance ?e ?c (ek_GetAccount (eeKec ?e) (eeAk ?e) (eeBk ?e) (chEvm ?c) (acHexToAddress ?ac (mtFrom em')))
      (acHexToAddress ?ac (mtFrom em')) td = Inr c1"
    and a: "GetFrom ?ac em' = Some a" and ch: "mono_charge an mode tx i s c1 em' td a = Inr s'"
    by (auto simp: mono_message_def Let_def rbind_Inr_iff UnpackEthMsg_def UnpackTxData_def deref_def split: sdk_msg.splits option.splits)
  obtain sender where snd: "elSender ?lib (duEthConfig ?du) (ch_height ?c) (elNewTx ?lib (AsEthereumData ?ac ?lib td)) = Inr sender"
    "em' = em\<lparr>mtFrom := acHex ?ac sender\<rparr>"
    using sg m(2) by (auto simp: SignatureVerification_def AsTransaction_def UnpackTxData_def deref_def split: sum.splits if_splits)
  have hex: "acHexToAddress ?ac (mtFrom em') = sender" using codec_lawsD(3) [OF ante_lawsD(2) [OF laws]] snd(2) by simp
  have "a = sender" using a GetFrom_Hex [OF laws, of sender em] snd(2) by simp
  from laws refl c1 [unfolded hex] obtain w acc cost where
    v: "c1 = set_ch_sdk ?c w" "TxCost (txFees td) = Inr cost" "0 \<le> cost"
      "cost = 0 \<or> cost \<le> bkGetBalance (eeBk ?e) w sender (EvmDenom (ch_params ?c))"
      "bkGetBalance (eeBk ?e) w = bkGetBalance (eeBk ?e) (ch_sdk ?c)"
      "akGetAccount (eeAk ?e) w = (akGetAccount (eeAk ?e) (ch_sdk ?c))(sender \<mapsto> acc)"
      "accAddress (baseAcc acc) = sender" "GetSequence acc = an_nonce an ?c sender"
      "GetCodeHashI acc \<in> {None, Some (emptyCodeHash (eeKec ?e))}" "akGetAccount (eeAk ?e) (ch_sdk ?c) sender \<in> {None, Some acc}"
    by (rule VerifyAccountBalance_effect)
  have val': "TxData_Validate ?ac td = Inr ()"
    using val [OF m(1)] m(2) by (auto simp: EthMsg_ValidateBasic_def UnpackTxData_def Let_def rbind_Inr_iff split: if_splits)
  have acc: "akGetAccount (eeAk ?e) (ch_sdk c1) sender = Some acc" "cost = 0 \<or> cost \<le> an_balance an c1 sender (duEvmDenom ?du)"
    "duEvmDenom ?du = EvmDenom (ch_params c1)" "externally_owned an c1 sender" "externally_owned an ?c sender"
    using v d by (auto simp: externally_owned_def)
  from laws val' ch [unfolded \<open>a = sender\<close>] acc(1) v(7,2) acc(2-4) obtain f where
    f: "TxEffectiveFee (txFees td) (duBaseFee ?du) = Inr f"
      "call_step an (duIsLondon ?du) tx (sender, TxGetNonce (txGetters ?ac ?lib td), f) c1 (msCtx s')" "same_utils ?du (msUtils s')"
    by (rule mono_charge_effect)
  have "signed_call an ?du (ch_height ?c) m (sender, TxGetNonce (txGetters ?ac ?lib td), f)"
    using m snd(1) f(1) by (simp add: signed_call_def)
  then show ?thesis
    using call_step_from [OF f(2) [unfolded v(1)] acc(5) v(6,8,10,5)] f(3) by (rule that)
qed

section \<open>All messages\<close>

inductive calls_run :: "('w, 'x) ante_env \<Rightarrow> bool \<Rightarrow> cosmos_tx \<Rightarrow> (addr \<times> u64 \<times> int) list \<Rightarrow> ('w, 'x) ChainCtx \<Rightarrow> ('w, 'x) ChainCtx \<Rightarrow> bool"
  for an london tx where
  none: "calls_run an london tx [] c c"
| call: "call_step an london tx x c c1 \<Longrightarrow> calls_run an london tx xs c1 c2 \<Longrightarrow> calls_run an london tx (x # xs) c c2"

inductive_cases calls_run_ConsE: "calls_run an london tx (x # xs) c c'"

lemma calls_run_head: "calls_run an london tx ((a, n, f) # xs) c c' \<Longrightarrow> n = an_nonce an c a"
  by (erule calls_run_ConsE) (simp add: call_step_def Let_def)

lemma mono_loop_effect:
  assumes laws: "ante_laws an" and run: "mono_loop an mode tx i ms s = Inr s'"
    and val: "\<And>em. EthereumMsg em \<in> set ms \<Longrightarrow> EthMsg_ValidateBasic (an_codec an) (an_lib an) em = Inr ()"
    and d: "duEvmDenom (msUtils s) = EvmDenom (ch_params (msCtx s))"
  shows "\<exists>calls. list_all2 (signed_call an (msUtils s) (ch_height (msCtx s))) ms calls
     \<and> calls_run an (duIsLondon (msUtils s)) tx calls (msCtx s) (msCtx s')"
  using run val d
proof (induction ms arbitrary: i s)
  case Nil
  then show ?case using calls_run.none by auto
next
  case (Cons m ms)
  then obtain s1 where s1: "mono_message an mode tx i m s = Inr s1" "mono_loop an mode tx (i + 1) ms s1 = Inr s'"
    by (auto simp: rbind_Inr_iff)
  have "EthMsg_ValidateBasic (an_codec an) (an_lib an) em = Inr ()" if "m = EthereumMsg em" for em
    using Cons.prems(2) that by simp
  with laws s1(1) obtain x where x: "signed_call an (msUtils s) (ch_height (msCtx s)) m x"
    "call_step an (duIsLondon (msUtils s)) tx x (msCtx s) (msCtx s1)" "same_utils (msUtils s) (msUtils s1)"
    using Cons.prems(3) by (rule mono_message_effect)
  have fr: "ante_frame (msCtx s) (msCtx s1)" using x(2) by (cases x) (simp add: call_step_def Let_def)
  have u: "duEvmDenom (msUtils s1) = EvmDenom (ch_params (msCtx s1))" "duIsLondon (msUtils s1) = duIsLondon (msUtils s)"
    "signed_call an (msUtils s1) (ch_height (msCtx s1)) = signed_call an (msUtils s) (ch_height (msCtx s))"
    using x(3) Cons.prems(3) ante_frameD(1,2) [OF fr] by (simp_all add: same_utils_def signed_call_def fun_eq_iff)
  from Cons.IH [OF s1(2) _ u(1)] Cons.prems(2) obtain xs where
    "list_all2 (signed_call an (msUtils s1) (ch_height (msCtx s1))) ms xs"
    "calls_run an (duIsLondon (msUtils s1)) tx xs (msCtx s1) (msCtx s')" by auto
  then show ?case using x(1) u by (intro exI [of _ "x # xs"]) (auto simp: u intro: calls_run.call [OF x(2)])
qed

lemma SetupContext_sel [simp]:
  "ch_sdk (SetupContext c) = ch_sdk c" "chFee (SetupContext c) = chFee c" "chOthers (SetupContext c) = chOthers c"
  "evmParams (chEvm (SetupContext c)) = evmParams (chEvm c)" "ch_height (SetupContext c) = ch_height c"
  "an_nonce an (SetupContext c) = an_nonce an c" "externally_owned an (SetupContext c) a = externally_owned an c a"
  "chProposer (SetupContext c) = chProposer c"
  by (simp_all add: SetupContext_def ResetTransientGasUsed_def ek_GetNonce_def externally_owned_def fun_eq_iff)

lemma NewUtils_SetupContext: "NewUtils an mode (SetupContext c) = NewUtils an mode c"
  by (simp add: NewUtils_def Let_def ek_GetBaseFee_def) (simp add: SetupContext_def ResetTransientGasUsed_def GetTxIndexTransient_def)

definition messages_valid :: "('w, 'x) ante_env \<Rightarrow> cosmos_tx \<Rightarrow> bool" where
  "messages_valid an tx \<longleftrightarrow> (\<forall>em. EthereumMsg em \<in> set (ctMsgs tx) \<longrightarrow> EthMsg_ValidateBasic (an_codec an) (an_lib an) em = Inr ())"

lemma MonoAnteHandle_effect:
  assumes "ante_laws an" "messages_valid an tx" "MonoAnteHandle an mode c tx = Inr (c', r)"
  obtains du calls c1 gas where "NewUtils an mode c = Inr du" "list_all2 (signed_call an du (ch_height c)) (ctMsgs tx) calls"
    "calls_run an (duIsLondon du) tx calls (SetupContext c) c1" "c' = c1\<lparr>chGasMeter := NewInfiniteGasMeterWithLimit gas\<rparr>"
proof -
  from assms(3) obtain du s where du: "NewUtils an mode (SetupContext c) = Inr du"
    and s: "mono_loop an mode tx 0 (ctMsgs tx) \<lparr>msCtx = SetupContext c, msUtils = du, msExpenses = Map.empty, msEvents = [], msMsgs = []\<rparr> = Inr s"
    and c': "c' = (msCtx s)\<lparr>chGasMeter := NewInfiniteGasMeterWithLimit (duGasWanted (msUtils s))\<rparr>"
    by (auto simp: MonoAnteHandle_def Let_def rbind_Inr_iff CheckBlockGasLimit_def split: if_splits)
  have "duEvmDenom du = EvmDenom (ch_params c)" using du by (auto simp: NewUtils_def Let_def split: if_splits)
  with mono_loop_effect [OF assms(1) s] assms(2) obtain calls where
    "list_all2 (signed_call an du (ch_height c)) (ctMsgs tx) calls" "calls_run an (duIsLondon du) tx calls (SetupContext c) (msCtx s)"
    by (auto simp: messages_valid_def)
  then show ?thesis using that du c' by (simp add: NewUtils_SetupContext)
qed

lemma gas_meter_irrelevant [simp]:
  "an_nonce an (c\<lparr>chGasMeter := g\<rparr>) = an_nonce an c" "ch_sdk (c\<lparr>chGasMeter := g\<rparr>) = ch_sdk c"
  by simp_all

abbreviation by_sender :: "addr \<Rightarrow> (addr \<times> u64 \<times> int) list \<Rightarrow> (addr \<times> u64 \<times> int) list" where
  "by_sender a calls \<equiv> filter (\<lambda>x. fst x = a) calls"

lemma externally_owned_back:
  "code_kept (eeAk (anEvm an)) (ch_sdk c) (ch_sdk c') \<Longrightarrow> externally_owned an c' a \<Longrightarrow> externally_owned an c a"
  unfolding code_kept_def externally_owned_def by (metis)

lemma code_kept_trans: "code_kept ak w w1 \<Longrightarrow> code_kept ak w1 w2 \<Longrightarrow> code_kept ak w w2"
  unfolding code_kept_def by metis

lemma nonces_shift:
  "map (\<lambda>k. (if b then n + 1 else n) + of_nat k) [0..<m] = (if b then map (\<lambda>k. n + of_nat k) [1..<Suc m] else map (\<lambda>k. n + of_nat k) [0..<m])"
  for n :: u64
proof (cases b)
  case True
  have "map (\<lambda>k. n + 1 + of_nat k) [0..<m] = map ((\<lambda>k. n + of_nat k) \<circ> Suc) [0..<m]" by (simp add: ac_simps)
  then show ?thesis using True by (simp only: map_map [symmetric] map_Suc_upt if_True One_nat_def)
qed simp

lemma calls_run_nonces:
  assumes "calls_run an london tx calls c c'"
  shows "map (fst \<circ> snd) (by_sender a calls) = map (\<lambda>k. an_nonce an c a + of_nat k) [0..<length (by_sender a calls)]"
    "an_nonce an c' a = an_nonce an c a + of_nat (length (by_sender a calls))"
    "\<forall>x \<in> set calls. externally_owned an c (fst x)"
  using assms
proof (induction rule: calls_run.induct)
  case (call x c c1 xs c2)
  obtain b n f where x: "x = (b, n, f)" by (cases x)
  have st: "n = an_nonce an c b" "an_nonce an c1 a = (if a = b then an_nonce an c a + 1 else an_nonce an c a)"
    "externally_owned an c b" "code_kept (eeAk (anEvm an)) (ch_sdk c) (ch_sdk c1)"
    using call.hyps(1) by (auto simp: x call_step_def Let_def)
  { case 1
    show ?case using call.IH(1) st(1,2) nonces_shift [of "a = b" "an_nonce an c a"]
      by (auto simp: x upt_conv_Cons simp del: upt_Suc)
  next
    case 2
    show ?case using call.IH(2) st(2) by (simp add: x)
  next
    case 3
    show ?case using call.IH(3) st(3) externally_owned_back [OF st(4)] by (auto simp: x)
  }
qed simp_all

text \<open>
  C6. Every message of an accepted transaction is signed by an account that is no contract, and for each
  signer the nonces of its messages, in their order, are exactly the next ones of its account, whose
  nonce afterwards has grown by their number.
\<close>

theorem accepted_nonces_consecutive:
  assumes "ante_laws an" "messages_valid an tx" "MonoAnteHandle an mode c tx = Inr (c', r)"
  shows "\<exists>du calls. NewUtils an mode c = Inr du \<and> list_all2 (signed_call an du (ch_height c)) (ctMsgs tx) calls
     \<and> (\<forall>x \<in> set calls. externally_owned an c (fst x))
     \<and> (\<forall>a. map (fst \<circ> snd) (by_sender a calls) = map (\<lambda>k. an_nonce an c a + of_nat k) [0..<length (by_sender a calls)]
          \<and> an_nonce an c' a = an_nonce an c a + of_nat (length (by_sender a calls)))"
proof -
  from assms obtain du calls c1 g where m: "NewUtils an mode c = Inr du" "list_all2 (signed_call an du (ch_height c)) (ctMsgs tx) calls"
    "calls_run an (duIsLondon du) tx calls (SetupContext c) c1" "c' = c1\<lparr>chGasMeter := NewInfiniteGasMeterWithLimit g\<rparr>"
    by (rule MonoAnteHandle_effect)
  show ?thesis
    using m(1,2,4) calls_run_nonces [OF m(3)] by (intro exI [of _ du] exI [of _ calls] conjI) simp_all
qed

lemma calls_run_balances:
  assumes "calls_run an london tx calls c c'"
  shows "an_balance an c' b d = an_balance an c b d
     + (if d = EvmDenom (ch_params c) then (if b = fee_collector (anEvm an) then \<Sum>x\<leftarrow>calls. snd (snd x) else 0)
          - (\<Sum>x\<leftarrow>by_sender b calls. snd (snd x)) else 0)"
    "\<forall>x \<in> set calls. 0 \<le> snd (snd x)" "ante_frame c c'"
  using assms
proof (induction rule: calls_run.induct)
  case (none c)
  show "an_balance an c b d = an_balance an c b d
     + (if d = EvmDenom (ch_params c) then (if b = fee_collector (anEvm an) then \<Sum>x\<leftarrow>[]. snd (snd x) else 0)
          - (\<Sum>x\<leftarrow>by_sender b []. snd (snd x)) else 0)"
    "\<forall>x \<in> set []. 0 \<le> snd (snd x)" "ante_frame c c" by (simp_all add: ante_frame_refl)
next
  case (call x c c1 xs c2)
  obtain a n f where x: "x = (a, n, f)" by (cases x)
  have st: "an_balance an c1 = credit (fee_collector (anEvm an)) (NewCoin (EvmDenom (ch_params c)) f)
      (debit a (NewCoin (EvmDenom (ch_params c)) f) (an_balance an c))" "0 \<le> f" "ante_frame c c1"
    using call.hyps(1) by (auto simp: x call_step_def Let_def)
  have p: "ch_params c1 = ch_params c" by (rule ante_frameD(2) [OF st(3)])
  { case 1
    show ?case using call.IH(1) st(1,2) p by (simp add: x credit_def debit_def)
  next
    case 2
    show ?case using call.IH(2) st(2) by (simp add: x)
  next
    case 3
    show ?case by (rule ante_frame_trans [OF st(3) call.IH(3)])
  }
qed

text \<open>
  C7. An accepted transaction is charged exactly: each signer pays the effective fees of its messages, none of them
  negative, the fee collector receives them, and no other balance changes. Nothing else of the state changes either:
  the staking rewards that the decorator offers to claim for the fees are never claimed, because a balance that does
  not cover the fees is rejected before.
\<close>

theorem accepted_fees_exact:
  assumes "ante_laws an" "messages_valid an tx" "MonoAnteHandle an mode c tx = Inr (c', r)"
  shows "\<exists>du calls. NewUtils an mode c = Inr du \<and> list_all2 (signed_call an du (ch_height c)) (ctMsgs tx) calls
     \<and> (\<forall>x \<in> set calls. 0 \<le> snd (snd x)) \<and> chOthers c' = chOthers c
     \<and> (\<forall>b d. an_balance an c' b d = an_balance an c b d
          + (if d = EvmDenom (ch_params c) then (if b = fee_collector (anEvm an) then \<Sum>x\<leftarrow>calls. snd (snd x) else 0)
               - (\<Sum>x\<leftarrow>by_sender b calls. snd (snd x)) else 0))"
proof -
  from assms obtain du calls c1 g where m: "NewUtils an mode c = Inr du" "list_all2 (signed_call an du (ch_height c)) (ctMsgs tx) calls"
    "calls_run an (duIsLondon du) tx calls (SetupContext c) c1" "c' = c1\<lparr>chGasMeter := NewInfiniteGasMeterWithLimit g\<rparr>"
    by (rule MonoAnteHandle_effect)
  note b = calls_run_balances [OF m(3)]
  have "chOthers c1 = chOthers c" using b(3) by (auto simp: ante_frame_def set_ch_sdk_def)
  then show ?thesis using m(1,2,4) b(1,2) by (intro exI [of _ du] exI [of _ calls] conjI) simp_all
qed

text \<open>
  C19. An accepted transaction is never accepted again: not while every account's nonce is at least what the
  transaction left behind, whatever else has happened to the chain. This needs that all signers of go-ethereum
  recover the same address from a signature they accept, and that the nonces do not overflow.
\<close>

theorem accepted_not_replayed:
  assumes "ante_laws an" "messages_valid an tx" "ctMsgs tx \<noteq> []" "MonoAnteHandle an mode c tx = Inr (c', r)"
    and "\<forall>cfg h cfg' h' t a a'. elSender (an_lib an) cfg h t = Inr a \<longrightarrow> elSender (an_lib an) cfg' h' t = Inr a' \<longrightarrow> a = a'"
    and "\<forall>a. an_nonce an c' a \<le> an_nonce an c2 a" "\<forall>a. unat (an_nonce an c a) + length (ctMsgs tx) < 2 ^ 64"
  shows "\<exists>err. MonoAnteHandle an mode2 c2 tx = Inl err"
proof (rule ccontr)
  assume "\<not> ?thesis"
  then obtain c3 r3 where again: "MonoAnteHandle an mode2 c2 tx = Inr (c3, r3)"
    by (cases "MonoAnteHandle an mode2 c2 tx") auto
  from assms(1,2,4) obtain du calls c1 g where m: "NewUtils an mode c = Inr du"
    "list_all2 (signed_call an du (ch_height c)) (ctMsgs tx) calls"
    "calls_run an (duIsLondon du) tx calls (SetupContext c) c1" "c' = c1\<lparr>chGasMeter := NewInfiniteGasMeterWithLimit g\<rparr>"
    by (rule MonoAnteHandle_effect)
  from assms(1,2) again obtain du2 calls2 c4 g2 where m2: "NewUtils an mode2 c2 = Inr du2"
    "list_all2 (signed_call an du2 (ch_height c2)) (ctMsgs tx) calls2"
    "calls_run an (duIsLondon du2) tx calls2 (SetupContext c2) c4" "c3 = c4\<lparr>chGasMeter := NewInfiniteGasMeterWithLimit g2\<rparr>"
    by (rule MonoAnteHandle_effect)
  obtain y ys where t: "ctMsgs tx = y # ys" using assms(3) by (cases "ctMsgs tx") auto
  obtain a n f xs where x: "calls = (a, n, f) # xs" "signed_call an du (ch_height c) y (a, n, f)"
    using m(2) t by (auto simp: list_all2_Cons1)
  obtain a2 n2 f2 xs2 where x2: "calls2 = (a2, n2, f2) # xs2" "signed_call an du2 (ch_height c2) y (a2, n2, f2)"
    using m2(2) t by (auto simp: list_all2_Cons1)
  have eq: "a2 = a" "n2 = n" using x(2) x2(2) assms(5) by (auto simp: signed_call_def)
  have n: "n = an_nonce an c a" "n = an_nonce an c2 a"
    using calls_run_head [OF m(3) [unfolded x(1)]] calls_run_head [OF m2(3) [unfolded x2(1) eq]] by simp_all
  let ?k = "length (by_sender a calls)"
  have k: "0 < ?k" "?k \<le> length (ctMsgs tx)" using x(1) list_all2_lengthD [OF m(2)] by (auto intro: le_trans [OF length_filter_le])
  have "an_nonce an c' a = n + of_nat ?k" using calls_run_nonces(2) [OF m(3), of a] m(4) n(1) by simp
  moreover have "unat n + ?k < 2 ^ 64" using assms(7) k(2) n(1) by (meson add_left_mono le_less_trans)
  then have "unat (n + of_nat ?k) = unat n + ?k" by (simp add: unat_word_ariths unat_of_nat)
  ultimately have "n < an_nonce an c' a" using k(1) by (simp add: word_less_nat_alt)
  then show False using assms(6) n(2) by (metis not_less)
qed

lemma calls_run_gas_wanted:
  assumes "calls_run an london tx calls c c'"
  shows "fmTransientGasWanted (chFee c') = fmTransientGasWanted (chFee c)
     + (if london \<and> GetBaseFeeEnabled (chFee c) then of_nat (length calls) * ctGasLimit tx else 0)"
  using assms
proof (induction rule: calls_run.induct)
  case (call x c c1 xs c2)
  have "fmTransientGasWanted (chFee c1) = fmTransientGasWanted (chFee c) + (if london \<and> GetBaseFeeEnabled (chFee c) then ctGasLimit tx else 0)"
    "ante_frame c c1" using call.hyps(1) by (cases x; simp add: call_step_def Let_def)+
  then show ?case using call.IH ante_frameD(5) [of c c1] by (simp add: algebra_simps)
qed simp

text \<open>
  The gas limit of an accepted transaction, which is that of all its messages together, is added to the gas
  wanted by the block once for each message: a transaction of \<open>n\<close> messages counts \<open>n\<close> times.
\<close>

theorem gas_wanted_per_message:
  assumes "ante_laws an" "messages_valid an tx" "MonoAnteHandle an mode c tx = Inr (c', r)"
  shows "\<exists>du. NewUtils an mode c = Inr du \<and> fmTransientGasWanted (chFee c') = fmTransientGasWanted (chFee c)
     + (if duIsLondon du \<and> GetBaseFeeEnabled (chFee c) then of_nat (length (ctMsgs tx)) * ctGasLimit tx else 0)"
proof -
  from assms obtain du calls c1 g where m: "NewUtils an mode c = Inr du" "list_all2 (signed_call an du (ch_height c)) (ctMsgs tx) calls"
    "calls_run an (duIsLondon du) tx calls (SetupContext c) c1" "c' = c1\<lparr>chGasMeter := NewInfiniteGasMeterWithLimit g\<rparr>"
    by (rule MonoAnteHandle_effect)
  show ?thesis using m(1,4) calls_run_gas_wanted [OF m(3)] list_all2_lengthD [OF m(2)] by (intro exI [of _ du]) simp
qed

section \<open>From the ante handler to the end of the transaction\<close>

text \<open>
  What \<^verbatim>\<open>Transaction.AsMessage\<close> documents: the sender of the signer, the gas limit, and the price that the transaction
  pays under a base fee.
\<close>

definition message_laws :: "eth_lib \<Rightarrow> bool" where
  "message_laws lib \<longleftrightarrow> (\<forall>cfg h t b m. elAsMessage lib cfg h t b = Inr m \<longrightarrow>
     elSender lib cfg h t = Inr (cmFrom m) \<and> cmGas m = etGas t
   \<and> cmGasPrice m = (case b of None \<Rightarrow> int_or_zero (etGasPrice t)
        | Some b \<Rightarrow> min (int_or_zero (etGasTipCap t) + b) (int_or_zero (etGasFeeCap t))))"

lemma AsEthereumData_sel:
  "edGas (AsEthereumData ac lib td) = TxGetGas (txGetters ac lib td)" "edType (AsEthereumData ac lib td) = TxType td"
  "(if TxType td = 2 then edGasFeeCap (AsEthereumData ac lib td) else edGasPrice (AsEthereumData ac lib td))
     = TxGetGasFeeCap (txGetters ac lib td)"
  "TxType td = 2 \<Longrightarrow> edGasTipCap (AsEthereumData ac lib td) = TxGetGasTipCap (txGetters ac lib td)"
  by (cases td; simp add: LegacyTx_AsEthereumData_def AccessListTx_AsEthereumData_def DynamicFeeTx_AsEthereumData_def
      LegacyTx_getters_def AccessListTx_getters_def DynamicFeeTx_getters_def Let_def split: prod.split)+

lemma dynamic_tip: "TxData_Validate ac td = Inr () \<Longrightarrow> TxType td = 2 \<Longrightarrow> \<exists>tip. TxGetGasTipCap (txGetters ac lib td) = Some tip"
  by (cases td) (auto simp: DynamicFeeTx_Validate_def DynamicFeeTx_getters_def split: option.splits)

text \<open>The price of the message is the one that the fee was computed with.\<close>

lemma message_price:
  assumes val: "TxData_Validate ac td = Inr ()" and laws: "eth_laws lib lc" "message_laws lib"
    and msg: "elAsMessage lib cfg h (elNewTx lib (AsEthereumData ac lib td)) b = Inr m" and b: "\<And>x. b = Some x \<Longrightarrow> 0 \<le> x"
    and f: "TxEffectiveFee (txFees td) b = Inr f"
  shows "cmGas m = TxGetGas (txGetters ac lib td)" "f = uint (cmGas m) * cmGasPrice m"
    "elSender lib cfg h (elNewTx lib (AsEthereumData ac lib td)) = Inr (cmFrom m)"
    "cmGas m = etGas (elNewTx lib (AsEthereumData ac lib td))"
proof -
  let ?g = "txGetters ac lib td" and ?t = "elNewTx lib (AsEthereumData ac lib td)"
  have ty: "TxType td \<le> 2" by (cases td) simp_all
  from val obtain cap where v: "TxGetGasFeeCap ?g = Some cap" "TxFee (txFees td) = Inr (cap * uint (TxGetGas ?g))"
    "\<And>b. TxEffectiveFee (txFees td) (Some b) = Inr ((if TxType td = 2 then min (the (TxGetGasTipCap ?g) + b) cap else cap) * uint (TxGetGas ?g))"
    by (rule TxData_Validate_fees [where lib = lib]) blast
  have "reads_as lc (AsEthereumData ac lib td) ?t" using eth_lawsD(2) [OF laws(1)] AsEthereumData_sel(2) ty by metis
  then have t: "etGas ?t = TxGetGas ?g" "etGasFeeCap ?t = Some cap" "etGasPrice ?t = Some cap"
    "etGasTipCap ?t = (if TxType td = 2 then big0 (TxGetGasTipCap ?g) else Some cap)"
    using v(1) AsEthereumData_sel [where ac = ac and lib = lib and td = td] by (auto simp: reads_as_def big0_def split: if_splits)
  have m: "elSender lib cfg h ?t = Inr (cmFrom m)" "cmGas m = etGas ?t" "cmGasPrice m = (case b of None \<Rightarrow> int_or_zero (etGasPrice ?t)
        | Some b \<Rightarrow> min (int_or_zero (etGasTipCap ?t) + b) (int_or_zero (etGasFeeCap ?t)))"
    using laws(2) msg unfolding message_laws_def by blast+
  then show "cmGas m = TxGetGas ?g" "elSender lib cfg h ?t = Inr (cmFrom m)" "cmGas m = etGas ?t" using t(1) by simp_all
  show "f = uint (cmGas m) * cmGasPrice m"
  proof (cases b)
    case None
    have "TxEffectiveFee (txFees td) None = (if TxType td = 2 then Inl (Panic ''nil pointer dereference'') else TxFee (txFees td))"
      using v(1) dynamic_tip [OF val, of lib] by (cases td) (auto simp: LegacyTx_fees_def AccessListTx_fees_def DynamicFeeTx_fees_def Let_def
          DynamicFeeTx_EffectiveGasPrice_def EffectiveGasPrice_def deref_def DynamicFeeTx_getters_def)
    then show ?thesis using f v(2) m t None by (simp add: int_or_zero_def split: if_splits)
  next
    case (Some x)
    then show ?thesis using f v(3) [of x] m t b [OF Some] dynamic_tip [OF val, of lib]
      by (auto simp: int_or_zero_def big0_def min_def)
  qed
qed

lemma keeps_accounts_nonce:
  "keeps_accounts ak as w w' \<Longrightarrow> akGetAccount ak w a = Some acc \<Longrightarrow> akGetAccount ak w' a = Some acc"
  by (simp add: keeps_accounts_def)

lemma credit_debit_net:
  assumes "0 \<le> r" "0 \<le> u"
  shows "credit a (NewCoin d r) (debit fc (NewCoin d r) (credit fc (NewCoin d (u + r)) (debit a (NewCoin d (u + r)) bal)))
    = credit fc (NewCoin d u) (debit a (NewCoin d u) bal)"
  using assms by (auto simp: credit_def debit_def fun_eq_iff)

text \<open>
  C5. From acceptance to the end, a transaction of one message that fails in the machine or in a hook costs its
  signer exactly the gas used at the effective price, all of it for the fee collector, and one nonce; storage and
  code are as before.
\<close>

theorem failed_tx_costs_gas_used:
  assumes laws: "ante_laws an" "bank_laws (eeAk (anEvm an)) (eeBk (anEvm an))" "eth_laws (an_lib an) lc" "message_laws (an_lib an)"
    and hooks: "eeHooks (anEvm an) = Some hs"
    and tx: "messages_valid an tx" "ctMsgs tx = [EthereumMsg em]" "AsTransaction (an_codec an) (an_lib an) em = Some t"
    and fee: "\<And>x. fm_GetBaseFee (chFee c) = Some x \<Longrightarrow> 0 \<le> x"
    and ante: "MonoAnteHandle an mode c tx = Inr (c1, r)"
    and run: "ApplyTransaction (anEvm an) c1 t = (c2, Inr res)" "Failed res" "rsGasUsed res \<le> etGas t"
  shows "\<exists>du a p. NewUtils an mode c = Inr du \<and> elSender (an_lib an) (duEthConfig du) (ch_height c) t = Inr a
     \<and> (\<exists>td. mtData em = Some td \<and> TxEffectiveFee (txFees td) (duBaseFee du) = Inr (uint (etGas t) * p)) \<and> 0 \<le> uint (rsGasUsed res) * p
     \<and> an_balance an c2 = credit (fee_collector (anEvm an)) (NewCoin (EvmDenom (ch_params c)) (uint (rsGasUsed res) * p))
         (debit a (NewCoin (EvmDenom (ch_params c)) (uint (rsGasUsed res) * p)) (an_balance an c))
     \<and> an_nonce an c2 a = an_nonce an c a + 1
     \<and> evmStorage (chEvm c2) = evmStorage (chEvm c) \<and> evmCode (chEvm c2) = evmCode (chEvm c)"
proof -
  let ?e = "anEvm an" and ?d = "EvmDenom (ch_params c)"
  from laws(1) tx(1) ante obtain du calls c3 g where m: "NewUtils an mode c = Inr du"
    "list_all2 (signed_call an du (ch_height c)) (ctMsgs tx) calls"
    "calls_run an (duIsLondon du) tx calls (SetupContext c) c3" "c1 = c3\<lparr>chGasMeter := NewInfiniteGasMeterWithLimit g\<rparr>"
    by (rule MonoAnteHandle_effect)
  obtain a n f td where cl: "calls = [(a, n, f)]" "mtData em = Some td" "TxEffectiveFee (txFees td) (duBaseFee du) = Inr f"
    "elSender (an_lib an) (duEthConfig du) (ch_height c) (elNewTx (an_lib an) (AsEthereumData (an_codec an) (an_lib an) td)) = Inr a"
    using m(2) tx(2) by (auto simp: list_all2_Cons1 signed_call_def)
  have t: "t = elNewTx (an_lib an) (AsEthereumData (an_codec an) (an_lib an) td)"
    using tx(3) cl(2) by (simp add: AsTransaction_def UnpackTxData_def)
  have val: "TxData_Validate (an_codec an) td = Inr ()"
    using tx(1,2) cl(2) by (auto simp: messages_valid_def EthMsg_ValidateBasic_def UnpackTxData_def Let_def rbind_Inr_iff split: if_splits)
  have st: "an_nonce an c3 = (an_nonce an c)(a := an_nonce an c a + 1)"
    "an_balance an c3 = credit (fee_collector ?e) (NewCoin ?d f) (debit a (NewCoin ?d f) (an_balance an c))" "0 \<le> f"
    "ante_frame (SetupContext c) c3" "akGetAccount (eeAk ?e) (ch_sdk c3) a \<noteq> None"
    using m(3) unfolding cl(1) by (auto simp: call_step_def Let_def elim!: calls_run_ConsE elim: calls_run.cases)
  note fr = ante_frameD [OF st(4)]
  from laws(2) hooks run(1,2) obtain cfg msg where r: "EVMConfig ?e c1 (chProposer c1) = Inr cfg"
    "elAsMessage (an_lib an) (evChainConfig cfg) (ch_height c1) t (evBaseFee cfg) = Inr msg"
    "settled ?e c1 msg (EvmDenom (evParams cfg)) (rsGasUsed res) c2" by (rule failed_tx_settled)
  have cfg: "evParams cfg = ch_params c" "evChainConfig cfg = duEthConfig du" "evBaseFee cfg = duBaseFee du" "ch_height c1 = ch_height c"
    using r(1) m(1,4) fr(1,2,4) by (auto simp: EVMConfig_def NewUtils_def ek_GetBaseFee_def Let_def rbind_Inr_iff split: if_splits)
  have b: "0 \<le> x" if "duBaseFee du = Some x" for x
    using that m(1) fee by (auto simp: NewUtils_def ek_GetBaseFee_def evm_getBaseFee_def Let_def split: if_splits option.splits)
  note mp = message_price [OF val laws(3,4) r(2) [unfolded t cfg] b cl(3), folded t]
  let ?p = "cmGasPrice msg" and ?u = "uint (rsGasUsed res)"
  have "cmFrom msg = a" using mp(3) cl(4) t by simp
  have le: "uint (cmGas msg - rsGasUsed res) = uint (cmGas msg) - ?u" using run(3) mp(4) by (intro uint_minus_le) simp
  have f: "f = ?u * ?p + uint (cmGas msg - rsGasUsed res) * ?p" using mp(2) unfolding le by (simp add: algebra_simps)
  have "?u \<le> uint (cmGas msg)" using run(3) mp(4) by (simp add: word_le_def)
  then have u0: "0 \<le> ?u * ?p" using st(3) mp(2) uint_ge_0 [of "rsGasUsed res"] by (auto simp: zero_le_mult_iff)
  have s: "0 \<le> uint (cmGas msg - rsGasUsed res) * ?p" "evmStorage (chEvm c2) = evmStorage (chEvm c1)" "evmCode (chEvm c2) = evmCode (chEvm c1)"
    "keeps_accounts (eeAk ?e) {fee_collector ?e, a} (ch_sdk c1) (ch_sdk c2)"
    "an_balance an c2 = credit a (NewCoin ?d (uint (cmGas msg - rsGasUsed res) * ?p))
      (debit (fee_collector ?e) (NewCoin ?d (uint (cmGas msg - rsGasUsed res) * ?p)) (an_balance an c1))"
    using r(3) \<open>cmFrom msg = a\<close> cfg(1) by (auto simp: settled_def Let_def)
  have "an_balance an c2 = credit (fee_collector ?e) (NewCoin ?d (?u * ?p)) (debit a (NewCoin ?d (?u * ?p)) (an_balance an c))"
    using s(5) m(4) st(2) credit_debit_net [OF s(1) u0] by (simp add: f)
  moreover have "an_nonce an c2 a = an_nonce an c a + 1"
  proof -
    obtain acc where acc: "akGetAccount (eeAk ?e) (ch_sdk c1) a = Some acc" using st(5) m(4) by auto
    have "an_nonce an c2 a = an_nonce an c3 a" using keeps_accounts_nonce [OF s(4) acc] acc m(4) by (simp add: ek_GetNonce_def)
    then show ?thesis using st(1) by simp
  qed
  moreover have "evmStorage (chEvm c3) = evmStorage (chEvm c)" "evmCode (chEvm c3) = evmCode (chEvm c)"
    using st(4) by (auto simp: ante_frame_def SetupContext_def ResetTransientGasUsed_def)
  ultimately show ?thesis
    using m(1,4) cl(2-4) t u0 s(2,3) mp(2,4) by (intro exI [of _ du] exI [of _ a] exI [of _ ?p] conjI) auto
qed

section \<open>A concrete chain\<close>

definition ex_an :: "(ledger, unit) ante_env" where
  "ex_an =
     \<lparr>anEvm = ex_env, anValidateBasic = (\<lambda>_. Inr ()), anErrNoSignatures = ErrExternal ''ErrNoSignatures'',
      anCanTransfer = (\<lambda>_ _ _. True), anLockedFromVesting = (\<lambda>_ cs. cs), anBondDenom = (\<lambda>_. ''aegax''),
      anDelegations = (\<lambda>_ _. []), anWithdrawRewards = (\<lambda>_ _ _. Inl (ErrExternal ''no rewards'')),
      anGetSignerAcc = (\<lambda>w a. case akGetAccount (ledger_ak zkec) w a of None \<Rightarrow> Inl (ErrExternal ''unknown'') | Some acc \<Rightarrow> Inr acc),
      anDeductFees = (\<lambda>w acc cs. case cs of [(d, n)] \<Rightarrow> if n \<le> 0 then Inl (ErrExternal ''invalid fee'')
          else bkSendCoinsFromAccountToModule ledger_bk w (accAddress (baseAcc acc)) FeeCollectorName (NewCoin d n)
        | _ \<Rightarrow> Inl (ErrExternal ''invalid fee'')),
      anMaxGasWanted = 0, anPriorityReduction = 1\<rparr>"

lemma ex_an_evm [simp]: "anEvm ex_an = ex_env" "eeAk ex_env = ledger_ak zkec" "eeBk ex_env = ledger_bk" "eeCodec ex_env = ex_codec"
  "eeLib ex_env = ex_eth_lib" "eeKec ex_env = zkec" "eeDec ex_env = dec_impl"
  by (simp_all add: ex_an_def ex_env_def)

lemma ex_an_laws: "ante_laws ex_an"
proof -
  have m: "akGetModuleAddress (ledger_ak zkec) = module_address" by (simp add: ledger_ak_def)
  have "keeps_nonces (ledger_ak zkec) w w'" if "fst w' = fst w" for w w' :: ledger
    using that by (auto simp: keeps_nonces_def ledger_ak_def)
  then show ?thesis
    unfolding ante_laws_def ex_an_evm m
    by (intro conjI ledger_account_laws ex_codec_laws ex_codec_empty)
      (auto simp: ex_an_def ledger_bk_def rbind_Inr_iff dest!: ledger_transfers split: option.splits if_splits)
qed

definition ex_legacy :: LegacyTx where
  "ex_legacy = \<lparr>ltNonce = 7, ltGasPrice = Some 2000000000, ltGasLimit = 50000, ltTo = ''x111111111'', ltAmount = Some 5,
     ltData = None, ltV = big_Bytes 10911, ltR = big_Bytes 77, ltS = big_Bytes 78\<rparr>"

definition ex_em :: MsgEthereumTx where
  "ex_em = \<lparr>mtData = Some (TxLegacy ex_legacy), mtSize = 0, mtHash = elHashHex ex_eth_lib 7, mtFrom = ''''\<rparr>"

definition ex_cosmos :: cosmos_tx where
  "ex_cosmos = \<lparr>ctMsgs = [EthereumMsg ex_em], ctMemo = '''', ctTimeoutHeight = 0, ctNonCritical = 0, ctExtensionOptions = [ExtEthereumTx],
     ctSignerInfos = 0, ctFeeAmount = [(''aegax'', 100000000000000)], ctGasLimit = 50000, ctPayer = '''', ctGranter = '''', ctSignatures = 0\<rparr>"

definition ex_payer :: "(ledger, unit) ChainCtx" where
  "ex_payer = ex_evm_chain\<lparr>chEvm := (chEvm ex_evm_chain)\<lparr>sdkState :=
     ([77 \<mapsto> EthAccount \<lparr>accAddress = 77, accNumber = 0, accSequence = 7\<rparr> 0], \<lambda>a d. if a = 77 then 10 ^ 15 else 0)\<rparr>, chMaxGas := Some (-1)\<rparr>"

definition ex_mode :: ante_mode where
  "ex_mode = \<lparr>amCheckTx = False, amReCheckTx = False, amSimulate = False, amMinGasPrices = []\<rparr>"

lemma ex_em_tx: "AsTransaction ex_codec ex_eth_lib ex_em = Some ex_evm_tx"
  by (simp add: AsTransaction_def UnpackTxData_def ex_em_def ex_evm_tx_def LegacyTx_AsEthereumData_def LegacyTx_getters_def
      rawSignatureValues_def ex_legacy_def sig_value_def to_address_def ex_codec_def Let_def)

lemma ex_em_valid: "EthMsg_ValidateBasic ex_codec ex_eth_lib ex_em = Inr ()"
proof -
  have "elHash ex_eth_lib ex_evm_tx = 7" by (simp add: ex_evm_tx_def ex_eth_lib_def ex_new_tx_def Let_def)
  moreover have "LegacyTx_Validate ex_codec ex_legacy = Inr ()"
    by (simp add: LegacyTx_Validate_def ex_legacy_def LegacyTx_fees_def Let_def tx_fee_def deref_def check_amount_def check_to_def
        ex_codec_def check_chain_id_def LegacyTx_getters_def rawSignatureValues_def sig_value_def DeriveChainID_def)
  moreover have "mtData ex_em = Some (TxLegacy ex_legacy)" "mtSize ex_em = 0" "mtFrom ex_em = ''''" "mtHash ex_em = elHashHex ex_eth_lib 7"
    by (simp_all add: ex_em_def)
  moreover have "TxGetGas (LegacyTx_getters ex_codec ex_legacy) = 50000"
    by (simp add: LegacyTx_getters_def ex_legacy_def rawSignatureValues_def)
  ultimately show ?thesis
    by (simp add: EthMsg_ValidateBasic_def ex_em_tx UnpackTxData_def in_i64_def deref_def)
qed

lemma ex_messages_valid: "messages_valid ex_an ex_cosmos"
  by (simp add: messages_valid_def ex_cosmos_def ex_em_valid)

definition ex_du :: DecoratorUtils where
  "ex_du = \<lparr>duEvmParams = DefaultParams ''aegax'', duEthConfig = EthereumConfig DefaultChainConfig (Some 5438), duBaseFee = Some 1000000000,
     duEvmDenom = ''aegax'', duMempoolMinGasPrice = 0, duGlobalMinGasPrice = Some 0, duIsLondon = True, duIsHomestead = True,
     duIsIstanbul = True, duBlockTxIndex = 0, duTxGasLimit = 0, duGasWanted = 0, duMinPriority = 2 ^ 63 - 1, duTxFee = []\<rparr>"

lemma ex_payer_like: "ex_like ex_payer"
  using ex_evm_chain_like by (simp add: ex_like_def ex_payer_def)

lemma ex_utils: "NewUtils ex_an ex_mode ex_payer = Inr ex_du"
proof -
  have "GetTxIndexTransient (chEvm ex_payer) = 0" by (simp add: ex_payer_def ex_evm_chain_def ex_ctx_def GetTxIndexTransient_def)
  then show ?thesis using ex_payer_like
    by (simp add: NewUtils_def ex_like_def ek_GetBaseFee_def evm_getBaseFee_def IsLondon_def ex_env_def ex_mode_def AmountIn_def ex_du_def Let_def)
      (simp add: DefaultParams_def fm_DefaultParams_def)
qed

lemma ex_legacy_getters:
  "LegacyTx_getters ex_codec ex_legacy = \<lparr>TxGetChainID = Some 5438, TxGetAccessList = None, TxGetData = None, TxGetGas = 50000,
     TxGetGasPrice = Some 2000000000, TxGetGasTipCap = Some 2000000000, TxGetGasFeeCap = Some 2000000000, TxGetValue = Some 5,
     TxGetNonce = 7, TxGetTo = Some 9, TxGetRawSignatureValues = (Some 10911, Some 77, Some 78)\<rparr>"
  "LegacyTx_fees ex_legacy = \<lparr>TxFee = Inr 100000000000000, TxCost = Inr 100000000000005, TxEffectiveGasPrice = (\<lambda>_. Inr (Some 2000000000)),
     TxEffectiveFee = (\<lambda>_. Inr 100000000000000), TxEffectiveCost = (\<lambda>_. Inr 100000000000005)\<rparr>"
  by (simp_all add: LegacyTx_getters_def LegacyTx_fees_def ex_legacy_def rawSignatureValues_def sig_value_def DeriveChainID_def
      to_address_def ex_codec_def tx_fee_def tx_cost_def deref_def Let_def)

definition ex_signed :: MsgEthereumTx where
  "ex_signed = ex_em\<lparr>mtFrom := acHex ex_codec 77\<rparr>"

lemma ex_signed_sel: "AsTransaction ex_codec ex_eth_lib ex_signed = Some ex_evm_tx" "GetFrom ex_codec ex_signed = Some 77"
  "acHexToAddress ex_codec (mtFrom ex_signed) = 77"
  using ex_em_tx codec_lawsD(3) [OF ex_codec_laws] GetFrom_Hex [OF ex_an_laws, of 77 ex_em]
  by (simp_all add: ex_signed_def AsTransaction_def)

lemma ex_evm_tx_signer: "elProtected ex_eth_lib ex_evm_tx" "elSender ex_eth_lib cfg h ex_evm_tx = Inr 77"
  by (simp_all add: ex_eth_lib_def ex_evm_tx_def ex_new_tx_def int_or_zero_def big0_def ex_sender_def Let_def)

lemma ex_signature: "SignatureVerification ex_codec ex_eth_lib cfg h b ex_em = Inr ex_signed"
  by (simp add: SignatureVerification_def ex_em_tx deref_def ex_signed_def ex_evm_tx_signer)

lemma ex_account: "VerifyAccountBalance ex_env (SetupContext ex_payer)
     (ek_GetAccount zkec (ledger_ak zkec) ledger_bk (chEvm (SetupContext ex_payer)) 77) 77 (TxLegacy ex_legacy) = Inr (SetupContext ex_payer)"
proof -
  have "ch_sdk ex_payer = ([77 \<mapsto> EthAccount \<lparr>accAddress = 77, accNumber = 0, accSequence = 7\<rparr> 0], \<lambda>a d. if a = 77 then 10 ^ 15 else 0)"
    by (simp add: ex_payer_def)
  moreover have "EvmDenom (ch_params ex_payer) = ''aegax''" using ex_payer_like by (simp add: ex_like_def DefaultParams_def)
  ultimately show ?thesis
    by (simp add: VerifyAccountBalance_def ek_GetAccount_def ek_GetAccountWithoutBalance_def ek_GetBalance_def CheckSenderBalance_def
        ex_legacy_getters raw_IsContract_def emptyCodeHash_def deref_def NewIntFromBigInt_def Let_def ledger_ak_def ledger_bk_def)
qed

lemma ex_charge:
  "\<exists>s'. mono_charge ex_an ex_mode ex_cosmos 0 \<lparr>msCtx = SetupContext ex_payer, msUtils = ex_du, msExpenses = Map.empty, msEvents = [], msMsgs = []\<rparr>
     (SetupContext ex_payer) ex_signed (TxLegacy ex_legacy) 77 = Inr s'
   \<and> duTxFee (msUtils s') = [(''aegax'', 100000000000000)] \<and> duTxGasLimit (msUtils s') = 50000 \<and> duGasWanted (msUtils s') = 50000
   \<and> ch_gas_limit (msCtx s') = - 1"
proof -
  let ?acc = "EthAccount \<lparr>accAddress = 77, accNumber = 0, accSequence = 7\<rparr> 0"
  have w: "ch_sdk ex_payer = ([77 \<mapsto> ?acc], \<lambda>a d. if a = 77 then 10 ^ 15 else 0)" by (simp add: ex_payer_def)
  have g: "akGetAccount (ledger_ak zkec) (ch_sdk ex_payer) 77 = Some ?acc" by (simp add: w ledger_ak_def)
  have f: "VerifyFee ex_eth_lib (LegacyTx_getters ex_codec ex_legacy) (LegacyTx_fees ex_legacy) ''aegax'' (Some 1000000000) True True False
      = Inr [(''aegax'', 100000000000000)]"
    by (simp add: VerifyFee_def ex_legacy_getters ex_eth_lib_def deref_def NewIntFromBigInt_def)
  have "\<exists>w'. ConsumeFeesAndEmitEvent ex_an (SetupContext ex_payer) [(''aegax'', 100000000000000)] 77
      = Inr (set_ch_sdk (SetupContext ex_payer) w', EventTxFee [(''aegax'', 100000000000000)])"
    using g by (simp add: ConsumeFeesAndEmitEvent_def deductFees_def ClaimStakingRewardsIfNecessary_def DeductTxCostsFromUserBalance_def
        ex_an_def ledger_bk_def pay_def receive_def NewCoin_def AmountOf_def w Let_def) blast
  then obtain w' where c: "ConsumeFeesAndEmitEvent ex_an (SetupContext ex_payer) [(''aegax'', 100000000000000)] 77
      = Inr (set_ch_sdk (SetupContext ex_payer) w', EventTxFee [(''aegax'', 100000000000000)])" ..
  have u: "update_utils ex_an ex_mode ex_du (TxLegacy ex_legacy) 50000 = Inr (ex_du\<lparr>duGasWanted := 50000, duMinPriority := 1000000000,
      duTxFee := [(''aegax'', 100000000000000)], duTxGasLimit := 50000\<rparr>)"
    by (simp add: update_utils_def GetMsgPriority_def GetTxPriority_def ex_legacy_getters ex_an_def ex_mode_def ex_du_def deref_def big_Quo_def
        in_i64_def UpdateCumulativeTxFee_def NewIntFromBigInt_def AmountIn_def UpdateComulativeGasWanted_def)
  have lim: "ch_gas_limit ex_payer = - 1" by (simp add: ex_payer_def ex_evm_chain_def BlockGasLimit_def)
  have gw: "\<exists>c'. CheckGasWanted (set_ch_sdk (SetupContext ex_payer) w2) ex_cosmos True = Inr c' \<and> ch_gas_limit c' = - 1" for w2
    using lim by (simp add: CheckGasWanted_def set_ch_sdk_def SetupContext_def AddTransientGasWanted_def Let_def)
  then obtain c' where c': "CheckGasWanted (set_ch_sdk (SetupContext ex_payer) (akSetAccount (ledger_ak zkec) w' (SetSequence ?acc 8))) ex_cosmos True = Inr c'"
    "ch_gas_limit c' = - 1" by blast
  have i: "IncrementNonce ex_env (set_ch_sdk (SetupContext ex_payer) w') ?acc 7
      = Inr (set_ch_sdk (SetupContext ex_payer) (akSetAccount (ledger_ak zkec) w' (SetSequence ?acc 8)))"
    by (simp add: IncrementNonce_def GetSequence_def)
  show ?thesis
    using g f c u i c' by (simp add: mono_charge_def ex_du_def ex_mode_def CheckVesting_def ex_legacy_getters Let_def)
qed

lemma ex_accepted: "\<exists>c' r. MonoAnteHandle ex_an ex_mode ex_payer ex_cosmos = Inr (c', r)"
proof -
  let ?s = "\<lparr>msCtx = SetupContext ex_payer, msUtils = ex_du, msExpenses = Map.empty, msEvents = [], msMsgs = []\<rparr>"
  obtain s' where s': "mono_charge ex_an ex_mode ex_cosmos 0 ?s (SetupContext ex_payer) ex_signed (TxLegacy ex_legacy) 77 = Inr s'"
    "duTxFee (msUtils s') = [(''aegax'', 100000000000000)]" "duTxGasLimit (msUtils s') = 50000" "duGasWanted (msUtils s') = 50000"
    "ch_gas_limit (msCtx s') = - 1" using ex_charge by blast
  have "UnpackEthMsg ex_codec (EthereumMsg ex_em) = Inr (ex_em, TxLegacy ex_legacy, None)"
    by (simp add: UnpackEthMsg_def UnpackTxData_def GetFrom_def ex_em_def)
  moreover have "check_min_fees dec_impl ex_mode ex_du (TxLegacy ex_legacy) 50000 = Inr ()"
    by (simp add: check_min_fees_def ex_legacy_getters ex_mode_def ex_du_def CheckGlobalFee_def deref_def)
  moreover have "ValidateMsg (duEvmParams ex_du) (LegacyTx_getters ex_codec ex_legacy) None = Inr ()"
    by (simp add: ValidateMsg_def checkValidFrom_def checkDisabledCreateCall_def ex_legacy_getters)
  moreover have "AsMessage ex_codec ex_eth_lib cfg h ex_signed (duBaseFee ex_du) = Inr ex_msg" for cfg h
    using ex_message by (simp add: AsMessage_def ex_signed_sel deref_def ex_du_def)
  moreover have "CanTransfer ex_an (SetupContext ex_payer) ex_msg (duBaseFee ex_du) (duIsLondon ex_du) = Inr ()"
    by (simp add: CanTransfer_def ex_du_def deref_def ex_msg_def ex_an_def)
  moreover have "TxGetGas (LegacyTx_getters ex_codec ex_legacy) = 50000" by (simp add: ex_legacy_getters)
  ultimately have "mono_message ex_an ex_mode ex_cosmos 0 (EthereumMsg ex_em) ?s = Inr s'"
    using s'(1) by (simp add: mono_message_def Let_def ex_signature ex_signed_sel ex_account deref_def)
  then have "mono_loop ex_an ex_mode ex_cosmos 0 (ctMsgs ex_cosmos) ?s = Inr s'" by (simp add: ex_cosmos_def)
  moreover have "ValidateTx ex_an ex_cosmos = Inr ([(''aegax'', 100000000000000)], 50000)"
    by (simp add: ValidateTx_def ex_an_def ex_cosmos_def)
  moreover have "CheckTxFee (Some ([(''aegax'', 100000000000000)], 50000)) (duTxFee (msUtils s')) (duTxGasLimit (msUtils s')) = Inr ()"
    by (simp add: CheckTxFee_def coins_IsEqual_def s')
  moreover have "CheckBlockGasLimit (msCtx s') (duGasWanted (msUtils s')) x = Inr ((msCtx s')\<lparr>chGasMeter := NewInfiniteGasMeterWithLimit 50000\<rparr>, x)" for x
    using s'(4,5) word_n1_ge [of "50000 :: u64"] by (simp add: CheckBlockGasLimit_def not_less)
  moreover have "amReCheckTx ex_mode = False" by (simp add: ex_mode_def)
  ultimately show ?thesis by (simp add: MonoAnteHandle_def Let_def NewUtils_SetupContext ex_utils)
qed

theorem accepted_nonces_consecutive_witness:
  "\<exists>c' r calls. MonoAnteHandle ex_an ex_mode ex_payer ex_cosmos = Inr (c', r)
     \<and> list_all2 (signed_call ex_an ex_du (ch_height ex_payer)) (ctMsgs ex_cosmos) calls
     \<and> an_nonce ex_an c' 77 = 7 + of_nat (length (by_sender 77 calls))"
proof -
  obtain c' r where c': "MonoAnteHandle ex_an ex_mode ex_payer ex_cosmos = Inr (c', r)" using ex_accepted by blast
  have "an_nonce ex_an ex_payer 77 = 7" by (simp add: ek_GetNonce_def ex_payer_def ledger_ak_def GetSequence_def)
  then show ?thesis using accepted_nonces_consecutive [OF ex_an_laws ex_messages_valid c'] c' ex_utils by (fastforce simp del: ex_an_evm)
qed

theorem accepted_fees_exact_witness:
  "\<exists>c' r calls. MonoAnteHandle ex_an ex_mode ex_payer ex_cosmos = Inr (c', r)
     \<and> list_all2 (signed_call ex_an ex_du (ch_height ex_payer)) (ctMsgs ex_cosmos) calls
     \<and> an_balance ex_an c' 5 ''aegax'' = an_balance ex_an ex_payer 5 ''aegax'' - (\<Sum>x\<leftarrow>by_sender 5 calls. snd (snd x))"
proof -
  obtain c' r where c': "MonoAnteHandle ex_an ex_mode ex_payer ex_cosmos = Inr (c', r)" using ex_accepted by blast
  have d: "EvmDenom (ch_params ex_payer) = ''aegax''" "5 \<noteq> fee_collector (anEvm ex_an)"
    using ex_payer_like by (simp_all add: ex_like_def DefaultParams_def ledger_ak_def module_address_def FeeCollectorName_def)
  obtain calls where r: "list_all2 (signed_call ex_an ex_du (ch_height ex_payer)) (ctMsgs ex_cosmos) calls"
    "an_balance ex_an c' 5 ''aegax'' = an_balance ex_an ex_payer 5 ''aegax''
       + (if ''aegax'' = EvmDenom (ch_params ex_payer) then (if 5 = fee_collector (anEvm ex_an) then \<Sum>x\<leftarrow>calls. snd (snd x) else 0)
            - (\<Sum>x\<leftarrow>by_sender 5 calls. snd (snd x)) else 0)"
    using accepted_fees_exact [OF ex_an_laws ex_messages_valid c'] ex_utils by (elim exE conjE) (simp del: ex_an_evm)
  show ?thesis using c' r d by (intro exI [of _ c'] exI [of _ r] exI [of _ calls] conjI) simp_all
qed

theorem accepted_not_replayed_witness:
  "\<exists>c' r err. MonoAnteHandle ex_an ex_mode ex_payer ex_cosmos = Inr (c', r) \<and> MonoAnteHandle ex_an ex_mode c' ex_cosmos = Inl err"
proof -
  obtain c' r where c': "MonoAnteHandle ex_an ex_mode ex_payer ex_cosmos = Inr (c', r)" using ex_accepted by blast
  have "\<forall>cfg h cfg' h' t a a'. elSender (an_lib ex_an) cfg h t = Inr a \<longrightarrow> elSender (an_lib ex_an) cfg' h' t = Inr a' \<longrightarrow> a = a'"
    by (simp add: ex_eth_lib_def)
  moreover have "unat (an_nonce ex_an ex_payer a) + length (ctMsgs ex_cosmos) < 2 ^ 64" for a
    by (simp add: ek_GetNonce_def ex_payer_def ledger_ak_def GetSequence_def ex_cosmos_def)
  moreover have "ctMsgs ex_cosmos \<noteq> []" by (simp add: ex_cosmos_def)
  ultimately show ?thesis
    using c' accepted_not_replayed [OF ex_an_laws ex_messages_valid _ c', of c' ex_mode] by blast
qed

theorem gas_wanted_per_message_witness:
  "\<exists>c' r. MonoAnteHandle ex_an ex_mode ex_payer ex_cosmos = Inr (c', r) \<and> fmTransientGasWanted (chFee c') = 51000"
proof -
  obtain c' r where c': "MonoAnteHandle ex_an ex_mode ex_payer ex_cosmos = Inr (c', r)" using ex_accepted by blast
  have "GetBaseFeeEnabled (chFee ex_payer)" "fmTransientGasWanted (chFee ex_payer) = 1000"
    using ex_payer_like
    by (simp_all add: ex_like_def GetBaseFeeEnabled_def fm_DefaultParams_def ex_payer_def ex_evm_chain_def ex_fee_cx_def Let_def)
  moreover have "duIsLondon ex_du" "length (ctMsgs ex_cosmos) = 1" "ctGasLimit ex_cosmos = 50000" by (simp_all add: ex_du_def ex_cosmos_def)
  ultimately show ?thesis using c' gas_wanted_per_message [OF ex_an_laws ex_messages_valid c'] ex_utils
    by (intro exI [of _ c'] exI [of _ r]) auto
qed

lemma ex_message_laws: "message_laws ex_eth_lib"
  by (auto simp: message_laws_def ex_eth_lib_def ex_sender_def rbind_Inr_iff)

theorem failed_tx_costs_gas_used_witness:
  "\<exists>c1 r c2 a. MonoAnteHandle ex_an ex_mode ex_payer ex_cosmos = Inr (c1, r) \<and> ApplyTransaction ex_env c1 ex_evm_tx = (c2, Inr ex_res)
     \<and> an_nonce ex_an c2 a = an_nonce ex_an ex_payer a + 1"
proof -
  obtain c1 r where c1: "MonoAnteHandle ex_an ex_mode ex_payer ex_cosmos = Inr (c1, r)" using ex_accepted by blast
  from ex_an_laws ex_messages_valid c1 obtain du calls c3 g where m: "NewUtils ex_an ex_mode ex_payer = Inr du"
    "list_all2 (signed_call ex_an du (ch_height ex_payer)) (ctMsgs ex_cosmos) calls"
    "calls_run ex_an (duIsLondon du) ex_cosmos calls (SetupContext ex_payer) c3" "c1 = c3\<lparr>chGasMeter := NewInfiniteGasMeterWithLimit g\<rparr>"
    by (rule MonoAnteHandle_effect)
  have "elNewTx ex_eth_lib (LegacyTx_AsEthereumData ex_codec ex_legacy) = ex_evm_tx"
    using ex_em_tx by (simp add: AsTransaction_def UnpackTxData_def ex_em_def)
  then obtain n where cl: "calls = [(77, n, 100000000000000)]"
    using m(2) ex_evm_tx_signer(2) by (auto simp: ex_cosmos_def list_all2_Cons1 signed_call_def ex_em_def ex_legacy_getters)
  note b = calls_run_balances [OF m(3)]
  have "ex_like c1" using ex_payer_like m(4) ante_frameD(2-4) [OF b(3)] by (simp add: ex_like_def)
  moreover have "tGasUsed (chEvm c1) = None"
    using b(3) m(4) by (auto simp: ante_frame_def SetupContext_def ResetTransientGasUsed_def set_ch_sdk_def set_sdk_def)
  moreover have "40000000000000 \<le> snd (ch_sdk c1) (module_address FeeCollectorName) ''aegax''"
  proof -
    have "EvmDenom (ch_params ex_payer) = ''aegax''" using ex_payer_like by (simp add: ex_like_def DefaultParams_def)
    moreover have "fee_collector (anEvm ex_an) = module_address FeeCollectorName" "77 \<noteq> module_address FeeCollectorName"
      by (simp_all add: ledger_ak_def module_address_def FeeCollectorName_def)
    ultimately have "an_balance ex_an c3 (module_address FeeCollectorName) ''aegax''
        = an_balance ex_an ex_payer (module_address FeeCollectorName) ''aegax'' + 100000000000000"
      using b(1) [of "module_address FeeCollectorName" "''aegax''"] cl by simp
    then show ?thesis using m(4) \<open>77 \<noteq> _\<close> by (simp add: ledger_bk_def ex_payer_def)
  qed
  ultimately obtain c2 where c2: "ApplyTransaction ex_env c1 ex_evm_tx = (c2, Inr ex_res)" using ex_transaction by blast
  have "bank_laws (eeAk (anEvm ex_an)) (eeBk (anEvm ex_an))" "eth_laws (an_lib ex_an) DeriveChainID" "message_laws (an_lib ex_an)"
    "eeHooks (anEvm ex_an) = Some []" "ctMsgs ex_cosmos = [EthereumMsg ex_em]" "AsTransaction (an_codec ex_an) (an_lib ex_an) ex_em = Some ex_evm_tx"
    "Failed ex_res" "rsGasUsed ex_res \<le> etGas ex_evm_tx" "ApplyTransaction (anEvm ex_an) c1 ex_evm_tx = (c2, Inr ex_res)"
    "\<And>x. fm_GetBaseFee (chFee ex_payer) = Some x \<Longrightarrow> 0 \<le> x"
    using c2 ex_payer_like ex_em_tx
    by (simp_all add: ledger_bank_laws ex_eth_lib_laws ex_message_laws ex_cosmos_def Failed_def ex_res_def ex_like_def)
      (simp_all add: ex_env_def ex_evm_tx_def ex_eth_lib_def ex_new_tx_def Let_def)
  from failed_tx_costs_gas_used [OF ex_an_laws this(1-4) ex_messages_valid this(5,6,10) c1 this(9,7,8)]
  show ?thesis using c1 c2 by blast
qed

end
