(* ===== verification/AnteCosmosFacts.thy ===== *)
theory AnteCosmosFacts
  imports AnteCosmos AnteEvmFacts
begin

text \<open>
  What the decorators of Cosmos transactions let through, what they charge, and where they can be evaded.
\<close>

section \<open>Messages that are kept out\<close>

text \<open>The types of messages that the chain does not allow in an authorisation.\<close>

definition DisabledAuthzMsgs :: "string list" where
  "DisabledAuthzMsgs = [''/ethermint.evm.v1.MsgEthereumTx'', ''/cosmos.vesting.v1beta1.MsgCreateVestingAccount'']"

text \<open>
  C21. A Cosmos transaction that passes the first two decorators holds no Ethereum message anywhere, neither by itself
  nor wrapped in authorisations to any depth, no wrapped message of a disabled type, and no grant for one.
\<close>

theorem cosmos_path_excludes_disabled:
  assumes "RejectMessagesDecorator_AnteHandle tx = Inr ()" "AuthzLimiterDecorator_AnteHandle DisabledAuthzMsgs tx = Inr ()"
    and "x \<in> set (ctMsgs tx)" "m = x \<or> inside\<^sup>+\<^sup>+ x m"
  shows "m \<noteq> EthereumMsg em \<and> (m = GrantMsg u \<longrightarrow> (\<exists>url. u = Some url \<and> url \<notin> set DisabledAuthzMsgs))
     \<and> (m \<noteq> x \<longrightarrow> MsgTypeURL m \<notin> set DisabledAuthzMsgs)"
proof (intro conjI impI)
  have "check_msgs DisabledAuthzMsgs (ctMsgs tx) False 1 = Inr ()"
    using assms(2) by (auto simp: AuthzLimiterDecorator_AnteHandle_def checkDisabledMsgs_def split: sum.splits if_splits)
  note p = check_msgs_sound [OF this assms(3)]
  have x: "x \<noteq> EthereumMsg em" using assms(1,3) by (auto simp: RejectMessagesDecorator_AnteHandle_def split: if_splits sdk_msg.splits)
  show "m \<noteq> EthereumMsg em" using p x assms(4) by (auto simp: permitted_def DisabledAuthzMsgs_def)
  show "\<exists>url. u = Some url \<and> url \<notin> set DisabledAuthzMsgs" if "m = GrantMsg u"
    using p assms(4) that by (auto simp: permitted_def)
  show "MsgTypeURL m \<notin> set DisabledAuthzMsgs" if "m \<noteq> x"
    using p assms(4) that by (cases m) (auto simp: permitted_def DisabledAuthzMsgs_def)
qed

definition ex_authz_tx :: cosmos_tx where
  "ex_authz_tx = \<lparr>ctMsgs = [ExecMsg [Some (ExecMsg [Some (DelegateMsg [1] 5)]), Some (GrantMsg (Some ''/a''))]], ctMemo = '''', ctTimeoutHeight = 0,
     ctNonCritical = 0, ctExtensionOptions = [], ctSignerInfos = 1, ctFeeAmount = [(''aegax'', 700)], ctGasLimit = 100, ctPayer = '''',
     ctGranter = '''', ctSignatures = 1\<rparr>"

theorem cosmos_path_excludes_disabled_witness:
  "RejectMessagesDecorator_AnteHandle ex_authz_tx = Inr () \<and> AuthzLimiterDecorator_AnteHandle DisabledAuthzMsgs ex_authz_tx = Inr ()
   \<and> MsgTypeURL (DelegateMsg [1] 5) \<notin> set DisabledAuthzMsgs"
proof -
  have a: "RejectMessagesDecorator_AnteHandle ex_authz_tx = Inr ()" "AuthzLimiterDecorator_AnteHandle DisabledAuthzMsgs ex_authz_tx = Inr ()"
    by (simp_all add: RejectMessagesDecorator_AnteHandle_def AuthzLimiterDecorator_AnteHandle_def checkDisabledMsgs_def ex_authz_tx_def
        maxNestedMsgs_def isDisabledMsg_def DisabledAuthzMsgs_def)
  have "hd (ctMsgs ex_authz_tx) \<in> set (ctMsgs ex_authz_tx)" "inside\<^sup>+\<^sup>+ (hd (ctMsgs ex_authz_tx)) (DelegateMsg [1] 5)"
    "DelegateMsg [1] 5 \<noteq> hd (ctMsgs ex_authz_tx)"
    by (simp_all add: ex_authz_tx_def nested_inside exI [of _ "ExecMsg [Some (DelegateMsg [1] 5)]"])
  then show ?thesis using a cosmos_path_excludes_disabled [OF a] by blast
qed

lemma check_msgs_execs:
  "check_msgs disabled msgs b l = Inr () \<Longrightarrow> (let n = length (filter (\<lambda>m. \<exists>ms. m = ExecMsg ms) msgs) in n = 0 \<or> l + n < maxNestedMsgs)"
proof (induction disabled msgs b l rule: check_msgs.induct)
  case (2 disabled ms msgs b l)
  from 2(3) obtain xs where xs: "unpack_all ms = Some xs" "\<not> maxNestedMsgs \<le> l + 1" "check_msgs disabled msgs b (l + 1) = Inr ()"
    by (auto simp: rbind_Inr_iff split: option.splits if_splits)
  show ?case using 2(2) [OF xs(1,3)] xs(2) by (auto simp: Let_def)
qed (auto simp: Let_def split: option.splits if_splits)

text \<open>
  The limit on the nesting of authorisations also limits their number: a transaction with six of them side by side
  is rejected, however shallow they are.
\<close>

theorem six_execs_rejected:
  assumes "6 \<le> length (filter (\<lambda>m. \<exists>ms. m = ExecMsg ms) (ctMsgs tx))"
  shows "AuthzLimiterDecorator_AnteHandle disabled tx = Inl ErrUnauthorized"
  using check_msgs_execs [of disabled "ctMsgs tx" False 1] assms
  by (cases "check_msgs disabled (ctMsgs tx) False 1")
    (auto simp: AuthzLimiterDecorator_AnteHandle_def checkDisabledMsgs_def maxNestedMsgs_def Let_def)

theorem six_execs_rejected_witness:
  "AuthzLimiterDecorator_AnteHandle [] (ex_authz_tx\<lparr>ctMsgs := replicate 6 (ExecMsg [])\<rparr>) = Inl ErrUnauthorized"
  by (rule six_execs_rejected) simp

text \<open>
  C40. The check on delegations of vesting accounts reaches a delegation by itself and one in an authorisation, but not one
  that is wrapped twice: that passes, whatever it delegates, and the limits on authorisations do not stop it either.
\<close>

theorem nested_delegation_unchecked:
  "VestingDelegationDecorator_AnteHandle an c (tx\<lparr>ctMsgs := [DelegateMsg s a]\<rparr>) = validate_signers an c a s
   \<and> VestingDelegationDecorator_AnteHandle an c (tx\<lparr>ctMsgs := [ExecMsg [Some (DelegateMsg s a)]]\<rparr>) = validate_signers an c a s
   \<and> VestingDelegationDecorator_AnteHandle an c (tx\<lparr>ctMsgs := [ExecMsg [Some (ExecMsg [Some (DelegateMsg s a)])]]\<rparr>) = Inr ()
   \<and> AuthzLimiterDecorator_AnteHandle DisabledAuthzMsgs (tx\<lparr>ctMsgs := [ExecMsg [Some (ExecMsg [Some (DelegateMsg s a)])]]\<rparr>) = Inr ()"
proof -
  have "rbind r (\<lambda>_. Inr ()) = r" "rbind r Inr = r" for r :: "unit result" by (cases r; simp)+
  then show ?thesis
    by (simp add: VestingDelegationDecorator_AnteHandle_def AuthzLimiterDecorator_AnteHandle_def checkDisabledMsgs_def
        maxNestedMsgs_def isDisabledMsg_def DisabledAuthzMsgs_def)
qed


section \<open>Fees\<close>

lemma big_Quo_pos: "0 \<le> x \<Longrightarrow> 0 < y \<Longrightarrow> big_Quo x y = Inr (x div y)"
  by (auto simp: big_Quo_def sgn_if)

text \<open>
  C28. Where there is a base fee, the fee that the checker lets a Cosmos transaction pay is in the chain's coin, at
  least the base fee for all its gas, at most the fee it offers, and at most the base fee and its tip per gas.
\<close>

theorem FeeChecker_bounds:
  assumes "FeeChecker an mode c denom cfg tx = Inr (coins, priority)" "ek_GetBaseFee (anEvm an) c cfg = Some b" "0 \<le> b"
    and "0 < ctGasLimit tx" "0 \<le> AmountIn (ctFeeAmount tx) denom"
  shows "\<exists>f. coins = [(denom, f)] \<and> b * uint (ctGasLimit tx) \<le> f \<and> f \<le> AmountIn (ctFeeAmount tx) denom
     \<and> f \<le> (b + max_priority_price (ctExtensionOptions tx)) * uint (ctGasLimit tx)"
proof -
  let ?g = "uint (ctGasLimit tx)" and ?a = "AmountIn (ctFeeAmount tx) denom" and ?t = "max_priority_price (ctExtensionOptions tx)"
  have g: "0 < ?g" using assms(4) by (simp add: word_less_def)
  from assms(1,2) have t: "0 \<le> ?t" "b \<le> ?a div ?g" "coins = [(denom, min (?t + b) (?a div ?g) * ?g)]"
    using big_Quo_pos [OF assms(5) g]
    by (auto simp: FeeChecker_def Let_def rbind_Inr_iff EffectiveGasPrice_def deref_def dest!: NewIntFromBigInt_Inr split: if_splits)
  have "min (?t + b) (?a div ?g) * ?g \<le> ?a div ?g * ?g" "min (?t + b) (?a div ?g) * ?g \<le> (?t + b) * ?g" "b * ?g \<le> min (?t + b) (?a div ?g) * ?g"
    using g t by (intro mult_right_mono; simp)+
  moreover have "?a div ?g * ?g \<le> ?a" using g by (metis div_mult_mod_eq le_add_same_cancel1 pos_mod_sign)
  ultimately show ?thesis using t(3) by (intro exI conjI) (auto simp: add.commute)
qed

definition ex_fee_tx :: cosmos_tx where
  "ex_fee_tx = ex_authz_tx\<lparr>ctFeeAmount := [(''aegax'', 150000000000)], ctExtensionOptions := [ExtDynamicFee 3]\<rparr>"

theorem FeeChecker_bounds_witness:
  "\<exists>coins p f. FeeChecker ex_an ex_mode ex_payer ''aegax'' (duEthConfig ex_du) ex_fee_tx = Inr (coins, p) \<and> coins = [(''aegax'', f)]
     \<and> 100000000000 \<le> f \<and> f \<le> 100000000300"
proof -
  have b: "ek_GetBaseFee (anEvm ex_an) ex_payer (duEthConfig ex_du) = Some 1000000000"
    using ex_payer_like by (simp add: ex_like_def ek_GetBaseFee_def evm_getBaseFee_def IsLondon_def ex_env_def)
  have t: "ctGasLimit ex_fee_tx = 100" "AmountIn (ctFeeAmount ex_fee_tx) ''aegax'' = 150000000000"
    "max_priority_price (ctExtensionOptions ex_fee_tx) = 3" "anPriorityReduction ex_an = 1"
    by (simp_all add: ex_fee_tx_def ex_authz_tx_def AmountIn_def ex_an_def)
  then obtain coins p where c: "FeeChecker ex_an ex_mode ex_payer ''aegax'' (duEthConfig ex_du) ex_fee_tx = Inr (coins, p)"
    using b by (simp add: FeeChecker_def big_Quo_def EffectiveGasPrice_def deref_def NewIntFromBigInt_def Let_def)
  show ?thesis using FeeChecker_bounds [OF c b] c t by auto
qed

section \<open>Staking rewards for fees\<close>

text \<open>
  The rewards of a delegator who has not set another withdrawal address are added to the delegator's balance.
\<close>

definition withdraw_laws :: "('w, 'x) ante_env \<Rightarrow> bool" where
  "withdraw_laws an \<longleftrightarrow> (\<forall>c a v c' r. anWithdrawRewards an c a v = Inr (c', r) \<longrightarrow>
     (\<forall>d. an_balance an c' a d = an_balance an c a d + AmountOf r d))"

lemma withdraw_loop_balance:
  assumes "withdraw_laws an" "withdraw_loop an a denom amount vs c rewards = Inr (c', rewards')"
  shows "an_balance an c' a d = an_balance an c a d + AmountOf rewards' d - AmountOf rewards d"
  using assms(2)
proof (induction vs arbitrary: c rewards)
  case (Cons v vs)
  from Cons.prems obtain c1 r where w: "anWithdrawRewards an c a v = Inr (c1, r)"
    and l: "if amount \<le> AmountOf (rewards + r) denom then c' = c1 \<and> rewards' = rewards + r
      else withdraw_loop an a denom amount vs c1 (rewards + r) = Inr (c', rewards')"
    by (auto simp: rbind_Inr_iff Let_def split: if_splits)
  have "an_balance an c1 a d = an_balance an c a d + AmountOf r d" using assms(1) w unfolding withdraw_laws_def by blast
  then show ?case using l Cons.IH [of c1 "rewards + r"] by (cases "amount \<le> AmountOf (rewards + r) denom") auto
qed simp


definition ex_staker :: "(ledger, unit) ante_env" where
  "ex_staker = ex_an\<lparr>anDelegations := \<lambda>_ _. [1, 2],
     anWithdrawRewards := \<lambda>c a v. Inr (set_ch_sdk c (fst (ch_sdk c), credit a (NewCoin ''aegax'' 6) (snd (ch_sdk c))), NewCoin ''aegax'' 6)\<rparr>"


end
