(* ===== verification/Spec2Isabelle.thy ===== *)
theory Spec2Isabelle
  imports StateDB_Spec VestingModule Inflation Revenue Erc20 AnteCosmosFacts
begin

text \<open>
  A verification library for the chain's Go sources: a Cosmos SDK application with an Ethereum virtual machine.

  \<^bold>\<open>The program.\<close> A transaction first passes an ante handler, which checks signatures, nonces and balances and takes the
  fees. An Ethereum transaction is then applied by the EVM module: its keeper runs the interpreter of go-ethereum on a
  journalled state database, commits what the database holds to the SDK's stores, runs the hooks (that of the
  revenue module pays developers from the fees) and refunds unused gas. The fee market sets the base fee from the gas of the
  previous block. The erc20 module converts between coins and tokens of contracts. The epochs module counts days and weeks and calls the
  inflation module, which mints. The vesting module holds accounts whose coins vest and unlock by schedules and can be
  clawed back.

  \<^bold>\<open>Conventions.\<close> Theory \<open>Prelude\<close>. A Go function that may fail returns \<open>error + 'a\<close>; a panic is the error \<open>Panic\<close>,
  \<open>rbind\<close> is the early return. Contexts and stores are records that a function takes and returns. \<^verbatim>\<open>uint64\<close>, addresses and
  hashes are words of 64, 160 and 256 bits; \<^verbatim>\<open>int64\<close> is an integer with \<open>i64\<close> wrapping it where the code computes;
  \<^verbatim>\<open>big.Int\<close> and \<^verbatim>\<open>sdk.Int\<close> are integers, with the panics of \<^verbatim>\<open>sdk.Int\<close> beyond 256 bits. A nil pointer is \<open>None\<close>. Code that
  is not in the repository is a parameter: account and bank keepers, address codecs, hashing, decimals, go-ethereum's
  transactions and its interpreter are records of functions. What the theorems need of them are the predicates
  \<open>account_laws\<close>, \<open>bank_laws\<close> (\<open>Sdk\<close>), \<open>codec_laws\<close> (\<open>Addresses\<close>), \<open>dec_laws\<close> (\<open>Dec\<close>), \<open>eth_laws\<close> (\<open>EvmTx\<close>), \<open>message_laws\<close> and \<open>ante_laws\<close>
  (\<open>AnteEvmFacts\<close>) and \<open>withdraw_laws\<close> (\<open>AnteCosmosFacts\<close>); each is proved of a concrete instance, which the witnesses use.

  \<^bold>\<open>State database\<close>, \<^verbatim>\<open>x/evm/statedb\<close>. \<open>AccessList\<close> and \<open>StateDB\<close> hold the data and all operations (\<^verbatim>\<open>statedb.go\<close>,
  \<^verbatim>\<open>state_object.go\<close>, \<^verbatim>\<open>journal.go\<close>, \<^verbatim>\<open>access_list.go\<close>). \<open>StateDB_View\<close> defines what a caller can observe, \<open>StateDB_Undo\<close> and
  \<open>StateDB_Ops\<close> show that every operation journals enough to undo it. \<open>Undo_Log\<close> is the contract of such a store as a locale,
  interpreted in \<open>StateDB_Machine\<close>: reverting to a snapshot restores everything observable. \<open>StateDB_Spec\<close> is an abstract
  specification that all operations implement. \<open>StateDB_Commit\<close> states the contract of the keeper behind the database as a
  locale and shows that a commit persists exactly what was observable; it is interpreted on the EVM keeper in \<open>EvmKeeper\<close>.

  \<^bold>\<open>EVM module\<close>, \<^verbatim>\<open>x/evm/keeper\<close> and \<^verbatim>\<open>x/evm/types\<close>. \<open>EvmParams\<close>: parameters, active precompiles and the chain configuration.
  \<open>EvmKeeper\<close>: the keeper of \<^verbatim>\<open>statedb.go\<close> and \<^verbatim>\<open>keeper.go\<close> over the SDK's account and bank keepers. \<open>EvmTx\<close>: the three transaction
  types (\<^verbatim>\<open>legacy_tx.go\<close>, \<^verbatim>\<open>access_list_tx.go\<close>, \<^verbatim>\<open>dynamic_fee_tx.go\<close>), the message that carries them (\<^verbatim>\<open>msg.go\<close>) and the search
  for a gas limit (\<^verbatim>\<open>utils.go\<close>), with the round trip from and to go-ethereum and the bounds on the effective fee.
  \<open>EvmTransition\<close>: \<^verbatim>\<open>ApplyMessageWithConfig\<close> and \<^verbatim>\<open>ApplyTransaction\<close> (\<^verbatim>\<open>state_transition.go\<close>), gas and refunds (\<^verbatim>\<open>gas.go\<close>),
  precompiles, hooks, the message server and the end of a block. \<open>EvmExecution\<close>: the gas charged, that a transaction keeps all
  of its effects or none, and that an unknown active precompile stops the machine.

  \<^bold>\<open>Ante handlers\<close>, \<^verbatim>\<open>app/ante\<close>. \<open>AnteEvm\<close>: the twelve steps of \<^verbatim>\<open>app/ante/evm/mono.go\<close> in their order, and the decorators that are
  also there as single ones. \<open>AnteEvmFacts\<close>: accepted transactions are signed by accounts that are no contracts, with
  consecutive nonces, are charged exactly their effective fees and cannot be replayed; together with the state transition, a
  failed transaction costs exactly the gas it used. \<open>AnteCosmos\<close> and \<open>AnteCosmosFacts\<close>: the decorators of \<^verbatim>\<open>app/ante/cosmos\<close>, the fee
  checker of \<^verbatim>\<open>app/ante/evm/fee_checker.go\<close> and the choice of the handler; no Ethereum message gets through the Cosmos path, fees
  are bounded, claimed rewards cover the fee, and a delegation that is wrapped twice evades the vesting check.

  \<^bold>\<open>Vesting\<close>, \<^verbatim>\<open>x/vesting\<close>. \<open>Coins\<close> and \<open>Schedule\<close>: coins as multisets of units, reading and merging schedules as functions of
  time. \<open>VestingAccount\<close>: the methods of the clawback vesting account. \<open>VestingKeeper\<close>: messages, handlers, the opt-out store,
  proposals and governance hooks. \<open>VestingModule\<close>: the invariant of all reachable states and what grants and clawbacks do.

  \<^bold>\<open>Fee market, epochs, inflation.\<close> \<open>FeeMarket\<close> (\<^verbatim>\<open>x/feemarket\<close>): parameters, the base fee and the gas counters, with the rule of
  EIP-1559. \<open>Epochs\<close> (\<^verbatim>\<open>x/epochs\<close>): the begin blocker refines one tick of every epoch; numbering and catching up over runs of
  blocks. \<open>Inflation\<close> (\<^verbatim>\<open>x/inflation/v1\<close>): the provision, its distribution and the inflation period when the epochs module drives it.
  \<open>Dec\<close> has the decimals and \<open>KVStore\<close> the ordered stores, as a locale interpreted on sorted association lists.

  \<^bold>\<open>Revenue and token pairs.\<close> \<open>Revenue\<close> (\<^verbatim>\<open>x/revenue/v1\<close>): registrations change only by their deployers, the indexes are exact, and
  the hook pays the exact share. \<open>Erc20Keeper\<close> and \<open>Erc20\<close> (\<^verbatim>\<open>x/erc20\<close>): registration, the two indexes of token pairs and the
  conversions, which keep tokens backed by escrowed coins; and the two ways in which this can be evaded.

  \<^bold>\<open>Termination and bounds.\<close> No fuel is used. Loops over lists are structural recursions or functions with a termination proof; in
  the merges of schedules the measure is the number of periods left, in the check of authorised messages the size of the
  messages. The search for a gas limit is a partial function, because its midpoint can wrap around: it is proved to end for
  upper ends of at most \<open>2 ^ 63\<close>, and not to end for one beyond. The theorem on the gas charged needs a gas limit below
  \<open>2 ^ 63\<close>, since the code converts it to \<^verbatim>\<open>int64\<close>; the one on replays needs nonces that do not overflow 64 bits.

  \<^bold>\<open>Not modelled.\<close> The precompiled contracts under \<^verbatim>\<open>precompiles\<close>, which translate ABI calls into SDK messages: only the set of
  their addresses occurs. The callbacks of the transfer middleware and the wrappers of \<^verbatim>\<open>ibc\<close> and \<^verbatim>\<open>x/ibc\<close>, which forward to
  ibc-go. The chain of SDK decorators around those of \<^verbatim>\<open>app/ante/cosmos\<close>, and EIP-712 typed data, which
  is JSON reflection and hashing; its decorator is in no handler. Store
  migrations and upgrade handlers, which read the encodings of earlier releases. The queries of the EVM module, tracers,
  telemetry and logging. Protobuf encoding, module wiring, command line, JSON-RPC, key stores and test support, which do not
  compute consensus state. SDK gas metering of store accesses is left out; a context holds the gas meter only where the code
  of the repository consumes from it.
\<close>

end
